(* ===== verification/MR_Prelude.thy ===== *)
theory MR_Prelude
  imports Main "HOL-Library.Word" "HOL-Library.Monad_Syntax"
begin

section \<open>Prelude: machine words, aborting computations, shared automation\<close>

text \<open>
  The names of \<open>types.h\<close> for the machine integers, the convention for
  computations that may stop the simulator, and the lemmas on 32-bit words that the
  component theories share.

  A computation that can reach \<open>FATAL\<close> (\<open>log.h\<close>: print, then
  \<open>sim_quit\<close>) or a failing \<open>ASSERT\<close> (\<open>utility.h\<close>) has the type
  \<open>'a option\<close>: \<open>None\<close> is "the simulator process ends here",
  \<open>Some\<close> a normal return. They are sequenced by the \<open>do\<close> notation of
  \<^theory_text>\<open>Monad_Syntax\<close>, so that nothing runs after an abort.
  Logging and event counters have no effect on the simulated machine and are left out.
\<close>

unbundle bit_operations_syntax

type_synonym u8 = "8 word"
type_synonym u16 = "16 word"
type_synonym u32 = "32 word"
type_synonym u64 = "64 word"

named_theorems sim_defs \<open>small accessor definitions, unfolded by every component proof\<close>
named_theorems mask_simps \<open>rules that reduce masks and shifts to single bits\<close>

text \<open>\<open>ASSERT(x)\<close> of \<open>utility.h\<close>.\<close>

definition ASSERT :: "bool \<Rightarrow> unit option" where
  "ASSERT b = (if b then Some () else None)"

lemma ASSERT_simps [simp]:
  "ASSERT True = Some ()"
  "ASSERT False = None"
  by (simp_all add: ASSERT_def)

lemma ASSERT_eq_Some [simp]: "ASSERT b = Some u \<longleftrightarrow> b"
  by (simp add: ASSERT_def)

text \<open>\<open>B(x)\<close> of \<open>utility.h\<close>: the word with bit \<open>x\<close> set.\<close>

definition B :: "nat \<Rightarrow> 'a::len word" where
  "B x = push_bit x 1"

lemma bit_B [simp]: "bit (B x :: 'a::len word) n \<longleftrightarrow> n = x \<and> n < LENGTH('a)"
  by (auto simp: B_def bit_simps bit_1_iff)

subsection \<open>Binding of aborting computations\<close>

lemma bind_SomeI: "m = Some a \<Longrightarrow> f a = Some b \<Longrightarrow> Option.bind m f = Some b"
  by simp

lemma bind_SomeE:
  assumes "Option.bind m f = Some b"
  obtains a where "m = Some a" and "f a = Some b"
  using assms by (cases m) auto

lemma fun_upd_other: "i \<noteq> j \<Longrightarrow> (f(i := x)) j = f j"
  by simp

subsection \<open>Words of 32 and 8 bits, bit by bit\<close>

lemma all_less_8:
  "(\<forall>n<(8::nat). P n) \<longleftrightarrow> P 0 \<and> P 1 \<and> P 2 \<and> P 3 \<and> P 4 \<and> P 5 \<and> P 6 \<and> P 7"
  by (simp add: numeral_eq_Suc All_less_Suc) blast

lemma all_less_32:
  "(\<forall>n<(32::nat). P n) \<longleftrightarrow>
     P 0 \<and> P 1 \<and> P 2 \<and> P 3 \<and> P 4 \<and> P 5 \<and> P 6 \<and> P 7 \<and>
     P 8 \<and> P 9 \<and> P 10 \<and> P 11 \<and> P 12 \<and> P 13 \<and> P 14 \<and> P 15 \<and>
     P 16 \<and> P 17 \<and> P 18 \<and> P 19 \<and> P 20 \<and> P 21 \<and> P 22 \<and> P 23 \<and>
     P 24 \<and> P 25 \<and> P 26 \<and> P 27 \<and> P 28 \<and> P 29 \<and> P 30 \<and> P 31"
  by (simp add: numeral_eq_Suc All_less_Suc) blast

lemma word_eq_bits: "x = y \<longleftrightarrow> (\<forall>n<LENGTH('a). bit x n = bit y n)" for x y :: "'a::len word"
  by (auto intro: bit_word_eqI)

lemma word32_eq_bits: "x = y \<longleftrightarrow> (\<forall>n<32. bit x n = bit y n)" for x y :: u32
  by (simp add: word_eq_bits)

lemma word8_eq_bits: "x = y \<longleftrightarrow> (\<forall>n<8. bit x n = bit y n)" for x y :: u8
  by (simp add: word_eq_bits)

text \<open>\<open>simp add: blast32\<close> turns an equation of 32-bit words built from masks,
  shifts by a constant and casts into the conjunction of its 32 bits.\<close>

lemma bits_above [simp]:
  "8 \<le> n \<Longrightarrow> \<not> bit (x :: u8) n"
  "16 \<le> n \<Longrightarrow> \<not> bit (y :: u16) n"
  "32 \<le> n \<Longrightarrow> \<not> bit (z :: u32) n"
  "64 \<le> n \<Longrightarrow> \<not> bit (w :: u64) n"
  by (auto dest: bit_imp_le_length)

lemmas blast32 = word32_eq_bits bit_simps all_less_32
lemmas blast8 = word8_eq_bits bit_simps all_less_8

lemma and_nonzero_bit: "x AND push_bit n 1 \<noteq> 0 \<longleftrightarrow> bit x n \<and> n < LENGTH('a)"
  for x :: "'a::len word"
  by (auto simp: word_eq_bits bit_simps bit_1_iff)

lemma and_exp_nonzero: "x AND 2 ^ n \<noteq> 0 \<longleftrightarrow> bit x n" for x :: "'a::len word"
proof (cases "n < LENGTH('a)")
  case True
  then show ?thesis using and_nonzero_bit [of x n] by simp
next
  case False
  then have z: "(2 :: 'a word) ^ n = 0" by simp
  have "x AND 2 ^ n = 0" unfolding z by simp
  with False show ?thesis by (auto dest: bit_imp_le_length)
qed

lemma msb32: "x AND 0x80000000 \<noteq> 0 \<longleftrightarrow> bit x 31" for x :: u32
  by (simp add: blast32)

lemma bit31_sint: "bit x 31 \<longleftrightarrow> sint x < 0" for x :: u32
  using bit_last_iff [of x] by simp

lemma bit_top_int:
  fixes k :: int
  assumes "0 \<le> k" and "k < 2 * 2 ^ n"
  shows "bit k n \<longleftrightarrow> 2 ^ n \<le> k"
proof (cases "2 ^ n \<le> k")
  case True
  then have "k div 2 ^ n = 1"
    using assms int_div_pos_eq [of k "2 ^ n" 1 "k - 2 ^ n"] by simp
  with True show ?thesis by (simp add: bit_iff_odd)
next
  case False
  with assms show ?thesis by (simp add: bit_iff_odd)
qed

lemma and_mask32_int: "k AND 4294967295 = k mod 4294967296" for k :: int
  using take_bit_eq_mask [of 32 k] by (simp add: mask_eq_exp_minus_1 take_bit_eq_mod)

lemma bit31_ge: "bit x 31 \<longleftrightarrow> 0x80000000 \<le> x" for x :: u32
  using bit_top_int [of "uint x" 31] uint_lt2p [of x]
  by (simp add: bit_uint_iff word_le_def)

lemma drop_bit_eq_iff: "drop_bit k a = drop_bit k b \<longleftrightarrow> (\<forall>n\<ge>k. bit a n = bit b n)" for a b :: u32
proof
  assume "drop_bit k a = drop_bit k b"
  then have "bit (drop_bit k a) (n - k) = bit (drop_bit k b) (n - k)" for n by simp
  then show "\<forall>n\<ge>k. bit a n = bit b n" unfolding bit_drop_bit_eq comp_def
    by (metis le_add_diff_inverse)
next
  assume "\<forall>n\<ge>k. bit a n = bit b n"
  then show "drop_bit k a = drop_bit k b" by (intro bit_word_eqI) (simp add: bit_drop_bit_eq)
qed

end
