(* ===== verification/Inst_Utility.thy ===== *)
theory Inst_Utility
  imports MR_Prelude
begin

section \<open>Instruction helpers: \<open>inst_utility.h\<close> and the static helpers of the interpreter\<close>

text \<open>
  The macros the instruction bodies are written in: addition with carry and
  overflow, comparison into a condition-register nibble, single-bit and four-bit
  access to the condition register in IBM bit order, sign extension, byte swapping,
  rotation, the rotate mask of \<open>rlwinm\<close> and its kin, and the trap condition of
  \<open>tw\<close>.  Each macro that assigns several of its arguments is a function that
  returns the assigned values.  The lemmas relate each of them to arithmetic on
  \<open>uint\<close> / \<open>sint\<close> or to single bits.
\<close>

subsection \<open>Definitions\<close>

text \<open>\<open>ADD_OV_CO_CI(val, ov, co, a, b, ci)\<close>: the assigned \<open>(val, ov, co)\<close>.\<close>

definition ADD_OV_CO_CI :: "u32 \<Rightarrow> u32 \<Rightarrow> u32 \<Rightarrow> u32 \<times> bool \<times> bool" where
  "ADD_OV_CO_CI a b ci =
     (let r = (ucast a + ucast b + ucast ci :: u64);
          co = (r AND 0x100000000 \<noteq> 0);
          val = ucast (r AND 0xffffffff);
          ra = (ucast r :: u32);
          ov = (a AND 0x80000000 = 0 \<and> b AND 0x80000000 = 0 \<and> ra AND 0x80000000 \<noteq> 0 \<or>
                a AND 0x80000000 \<noteq> 0 \<and> b AND 0x80000000 \<noteq> 0 \<and> ra AND 0x80000000 = 0)
      in (val, ov, co))"

text \<open>\<open>CMP\<close> and \<open>CMPu\<close>; the last argument is \<open>cpus->getXER_SO()\<close>.\<close>

definition CMP :: "u32 \<Rightarrow> u32 \<Rightarrow> u32 \<Rightarrow> u32" where
  "CMP x y so = (if x <s y then 8 else if y <s x then 4 else 2) OR so"

definition CMPu :: "u32 \<Rightarrow> u32 \<Rightarrow> u32 \<Rightarrow> u32" where
  "CMPu x y so = (if x < y then 8 else if y < x then 4 else 2) OR so"

definition RBIT :: "u32 \<Rightarrow> nat \<Rightarrow> u32" where
  "RBIT x y = drop_bit (31 - y) x AND 1"

definition WBIT :: "u32 \<Rightarrow> nat \<Rightarrow> u32 \<Rightarrow> u32" where
  "WBIT x y z = (x AND NOT (push_bit (31 - y) 1)) OR push_bit (31 - y) (z AND 1)"

definition WRITE_CR_FIELD :: "u32 \<Rightarrow> nat \<Rightarrow> u32 \<Rightarrow> u32" where
  "WRITE_CR_FIELD x y z =
     (x AND NOT (push_bit ((7 - y) * 4) 0xf)) OR push_bit ((7 - y) * 4) z"

definition READ_CR_FIELD :: "u32 \<Rightarrow> nat \<Rightarrow> u32" where
  "READ_CR_FIELD x y = drop_bit ((7 - y) * 4) x AND 0xf"

definition SXT8 :: "u32 \<Rightarrow> u32" where
  "SXT8 x = scast (ucast x :: u8)"

definition SXT16 :: "u32 \<Rightarrow> u32" where
  "SXT16 x = scast (ucast x :: u16)"

definition BSWAP16 :: "u32 \<Rightarrow> u32" where
  "BSWAP16 x = (drop_bit 8 x AND 0xff) OR push_bit 8 (x AND 0xff)"

definition BSWAP32 :: "u32 \<Rightarrow> u32" where
  "BSWAP32 x = (drop_bit 24 x AND 0xff) OR (drop_bit 8 x AND 0xff00) OR
               (push_bit 8 x AND 0xff0000) OR (push_bit 24 x AND 0xff000000)"

text \<open>
  \<open>ROTL32(x, s)\<close>. For \<open>s = 0\<close> the C expression shifts a 32-bit value right
  by 32, which the language leaves undefined; here that term is 0 (on a host that
  masks the shift count it is \<open>x\<close>), and either reading gives the result \<open>x\<close>.
\<close>

definition ROTL32 :: "u32 \<Rightarrow> nat \<Rightarrow> u32" where
  "ROTL32 x s = (push_bit s x AND 0xffffffff) OR (drop_bit (32 - s) x AND 0xffffffff)"

definition SIGN :: "u32 \<Rightarrow> u32" where
  "SIGN x = drop_bit 31 x"

text \<open>The compiler builtin \<open>__builtin_clz\<close>: the number of leading zero bits.\<close>

definition builtin_clz :: "u32 \<Rightarrow> nat" where
  "builtin_clz x = length (takeWhile (\<lambda>n. \<not> bit x n) (rev [0..<32]))"

text \<open>\<open>m_fls\<close> of \<open>PPCMMU.cc\<close>.\<close>

definition m_fls :: "u32 \<Rightarrow> nat" where
  "m_fls x = (if x \<noteq> 0 then 32 - builtin_clz x else 0)"

text \<open>\<open>mkmask\<close> of \<open>PPCInterpreter_Logical.cc\<close>.\<close>

definition mkmask :: "nat \<Rightarrow> nat \<Rightarrow> u32" where
  "mkmask MB ME =
     (if MB \<le> ME
      then drop_bit MB 0xffffffff AND NOT (drop_bit ME 0x7fffffff)
      else push_bit (31 - ME) 0xffffffff OR NOT (push_bit (31 - MB) 0xfffffffe))"

text \<open>\<open>does_trap\<close> of \<open>PPCInterpreter_Trap.cc\<close>.\<close>

definition does_trap :: "u32 \<Rightarrow> u32 \<Rightarrow> u32 \<Rightarrow> bool" where
  "does_trap TO a b =
     (TO AND 0x10 \<noteq> 0 \<and> a <s b \<or>
      TO AND 0x08 \<noteq> 0 \<and> b <s a \<or>
      TO AND 0x04 \<noteq> 0 \<and> a = b \<or>
      TO AND 0x02 \<noteq> 0 \<and> a < b \<or>
      TO AND 0x01 \<noteq> 0 \<and> b < a)"

subsection \<open>Addition\<close>

lemma ADD_uint:
  assumes "uint ci \<le> 1"
  shows "uint (fst (ADD_OV_CO_CI a b ci)) = (uint a + uint b + uint ci) mod 2 ^ 32"
    and "snd (snd (ADD_OV_CO_CI a b ci)) \<longleftrightarrow> 2 ^ 32 \<le> uint a + uint b + uint ci"
proof -
  let ?r = "ucast a + ucast b + ucast ci :: u64"
  have bounds: "0 \<le> uint a" "uint a < 2 ^ 32" "0 \<le> uint b" "uint b < 2 ^ 32" "0 \<le> uint ci"
    using uint_lt2p [of a] uint_lt2p [of b] by simp_all
  have r: "uint ?r = uint a + uint b + uint ci"
    using bounds assms by (simp add: uint_word_ariths unsigned_ucast_eq take_bit_eq_mod)
  have "uint (ucast (?r AND 0xffffffff) :: u32) = uint ?r mod 2 ^ 32"
    by (simp add: unsigned_ucast_eq unsigned_and_eq take_bit_eq_mod and_mask32_int)
  with r show "uint (fst (ADD_OV_CO_CI a b ci)) = (uint a + uint b + uint ci) mod 2 ^ 32"
    by (simp add: ADD_OV_CO_CI_def Let_def)
  have "?r AND 0x100000000 \<noteq> 0 \<longleftrightarrow> bit (uint ?r) 32"
    using and_nonzero_bit [of ?r 32] by (simp add: bit_uint_iff)
  also have "\<dots> \<longleftrightarrow> 2 ^ 32 \<le> uint a + uint b + uint ci"
    unfolding r using bounds assms by (subst bit_top_int) simp_all
  finally show "snd (snd (ADD_OV_CO_CI a b ci)) \<longleftrightarrow> 2 ^ 32 \<le> uint a + uint b + uint ci"
    by (simp add: ADD_OV_CO_CI_def Let_def)
qed

text \<open>The signed reading: without overflow the result is the exact sum, and the
  overflow flag is raised exactly when the sum does not fit.\<close>

lemma ADD_ov_bits:
  "fst (snd (ADD_OV_CO_CI a b ci)) \<longleftrightarrow>
     (let ra = fst (ADD_OV_CO_CI a b ci)
      in \<not> bit a 31 \<and> \<not> bit b 31 \<and> bit ra 31 \<or> bit a 31 \<and> bit b 31 \<and> \<not> bit ra 31)"
proof -
  have low: "(ucast (r AND 0xffffffff) :: u32) = ucast r" for r :: u64
    by (simp add: blast32)
  show ?thesis
    by (simp add: ADD_OV_CO_CI_def Let_def low msb32 [symmetric])
qed

lemma sint_uint32: "sint x = (if bit x 31 then uint x - 2 ^ 32 else uint x)" for x :: u32
  using uint_lt2p [of x]
  by (simp add: sint_uint signed_take_bit_eq_take_bit_minus bit_uint_iff take_bit_int_eq_self)

lemma mod_wrap_once:
  fixes k :: int
  assumes "0 \<le> k" and "k < 2 * m"
  shows "k mod m = (if k < m then k else k - m)"
proof (cases "k < m")
  case True
  with assms show ?thesis by simp
next
  case False
  have "k mod m = (k - m) mod m" by simp
  also have "\<dots> = k - m" using assms False by (intro mod_pos_pos_trivial) auto
  finally show ?thesis using False by simp
qed

lemma ADD_sint_int:
  fixes a b c v :: int
  assumes "0 \<le> a" "a < 2 ^ 32" "0 \<le> b" "b < 2 ^ 32" "0 \<le> c" "c \<le> 1"
    and "v = (if a + b + c < 2 ^ 32 then a + b + c else a + b + c - 2 ^ 32)"
  defines "s \<equiv> (if 2 ^ 31 \<le> a then a - 2 ^ 32 else a) + (if 2 ^ 31 \<le> b then b - 2 ^ 32 else b) + c"
  defines "ov \<equiv> \<not> 2 ^ 31 \<le> a \<and> \<not> 2 ^ 31 \<le> b \<and> 2 ^ 31 \<le> v \<or>
                  2 ^ 31 \<le> a \<and> 2 ^ 31 \<le> b \<and> \<not> 2 ^ 31 \<le> v"
  shows "ov \<longleftrightarrow> s < - (2 ^ 31) \<or> 2 ^ 31 \<le> s"
    and "\<not> ov \<Longrightarrow> (if 2 ^ 31 \<le> v then v - 2 ^ 32 else v) = s"
proof -
  have cases: "a < 2 ^ 31 \<or> 2 ^ 31 \<le> a" "b < 2 ^ 31 \<or> 2 ^ 31 \<le> b" by linarith+
  show "ov \<longleftrightarrow> s < - (2 ^ 31) \<or> 2 ^ 31 \<le> s"
    using assms(1-7) cases unfolding ov_def s_def by (simp split: if_splits) linarith+
  show "\<not> ov \<Longrightarrow> (if 2 ^ 31 \<le> v then v - 2 ^ 32 else v) = s"
    using assms(1-7) cases unfolding ov_def s_def by (simp split: if_splits) linarith+
qed

lemma ADD_sint:
  fixes a b ci :: u32
  assumes "uint ci \<le> 1"
  defines "s \<equiv> sint a + sint b + uint ci"
  shows "fst (snd (ADD_OV_CO_CI a b ci)) \<longleftrightarrow> s < - (2 ^ 31) \<or> 2 ^ 31 \<le> s"
    and "\<not> fst (snd (ADD_OV_CO_CI a b ci)) \<Longrightarrow> sint (fst (ADD_OV_CO_CI a b ci)) = s"
proof -
  let ?v = "fst (ADD_OV_CO_CI a b ci)" and ?t = "uint a + uint b + uint ci"
  have bounds: "0 \<le> uint a" "uint a < 2 ^ 32" "0 \<le> uint b" "uint b < 2 ^ 32" "0 \<le> uint ci"
    using uint_lt2p [of a] uint_lt2p [of b] by simp_all
  then have v: "uint ?v = (if ?t < 2 ^ 32 then ?t else ?t - 2 ^ 32)"
    using assms(1) by (subst ADD_uint [OF assms(1)], subst mod_wrap_once) auto
  have hi: "bit x 31 \<longleftrightarrow> 2 ^ 31 \<le> uint x" for x :: u32
    using bit31_ge [of x] by (simp add: word_le_def)
  note int_facts = ADD_sint_int [OF bounds(1-4) bounds(5) assms(1) v]
  show "fst (snd (ADD_OV_CO_CI a b ci)) \<longleftrightarrow> s < - (2 ^ 31) \<or> 2 ^ 31 \<le> s"
    unfolding ADD_ov_bits Let_def s_def sint_uint32 hi by (rule int_facts(1))
  show "\<not> fst (snd (ADD_OV_CO_CI a b ci)) \<Longrightarrow> sint ?v = s"
    unfolding ADD_ov_bits Let_def s_def sint_uint32 hi by (rule int_facts(2))
qed

subsection \<open>Condition register fields and bits\<close>

lemma and_1_bit: "x AND 1 = of_bool (bit x 0)" for x :: u32
  by (simp add: and_one_eq mod2_eq_if bit_0)

lemma RBIT_bit: "RBIT x y = of_bool (bit x (31 - y))"
  by (simp add: RBIT_def and_1_bit bit_simps)

lemma bit_WBIT:
  assumes "y < 32" and "n < 32"
  shows "bit (WBIT x y z) n \<longleftrightarrow> (if n = 31 - y then bit z 0 else bit x n)"
  using assms by (auto simp: WBIT_def bit_simps and_1_bit bit_1_iff)

lemma bit_15 [simp]: "bit (15 :: int) n \<longleftrightarrow> n < 4" "bit (15 :: nat) n \<longleftrightarrow> n < 4"
  using bit_mask_iff [where 'a = int, of 4 n] bit_mask_iff [where 'a = nat, of 4 n]
  by (simp_all add: mask_eq_exp_minus_1)

lemma bit_0xf [simp]: "bit (0xf :: u32) n \<longleftrightarrow> n < 4"
  using bit_mask_iff [where 'a = "32 word", of 4 n] by (auto simp: mask_eq_exp_minus_1)

lemma bit_nibble: "z AND 0xf = z \<Longrightarrow> bit z n \<Longrightarrow> n < 4" for z :: u32
  by (metis bit_0xf bit_and_iff)

lemma bit_WRITE_CR_FIELD:
  assumes "y < 8" and "z AND 0xf = z" and "n < 32"
  shows "bit (WRITE_CR_FIELD x y z) n \<longleftrightarrow>
           (if (7 - y) * 4 \<le> n \<and> n < (7 - y) * 4 + 4 then bit z (n - (7 - y) * 4) else bit x n)"
  using assms bit_nibble [OF assms(2), of "n - (7 - y) * 4"]
  by (auto simp: WRITE_CR_FIELD_def bit_simps bit_0xf)

lemma bit_READ_CR_FIELD:
  "bit (READ_CR_FIELD x y) n \<longleftrightarrow> n < 4 \<and> bit x ((7 - y) * 4 + n)"
  by (auto simp: READ_CR_FIELD_def bit_simps bit_0xf)

lemma READ_CR_FIELD_nibble [simp]: "READ_CR_FIELD x y AND 0xf = READ_CR_FIELD x y"
  by (simp add: READ_CR_FIELD_def and.assoc)

lemma cr_fields_disjoint:
  "y < 8 \<Longrightarrow> w < 8 \<Longrightarrow> n < 4 \<Longrightarrow>
   ((7 - y) * 4 \<le> (7 - w) * 4 + n \<and> (7 - w) * 4 + n < (7 - y) * 4 + 4) = (w = y)" for y w n :: nat
  by arith

lemma READ_WRITE_CR_FIELD:
  assumes "y < 8" and "z AND 0xf = z" and "w < 8"
  shows "READ_CR_FIELD (WRITE_CR_FIELD x y z) w = (if w = y then z else READ_CR_FIELD x w)"
proof (rule bit_word_eqI)
  fix n assume "n < LENGTH(32)"
  have w: "n < 4 \<Longrightarrow> (7 - w) * 4 + n < 32" using assms(3) by simp
  show "bit (READ_CR_FIELD (WRITE_CR_FIELD x y z) w) n \<longleftrightarrow>
        bit (if w = y then z else READ_CR_FIELD x w) n"
    using bit_nibble [OF assms(2), of n] w cr_fields_disjoint [OF assms(1,3), of n]
    by (auto simp: bit_READ_CR_FIELD bit_WRITE_CR_FIELD [OF assms(1,2)])
qed

text \<open>A comparison result: exactly one of the three order bits, and the summary-overflow
  bit; hence always a four-bit field.\<close>

lemma CMP_cases:
  assumes "so \<le> 1"
  shows "CMP x y so = (if sint x < sint y then 8 else if sint y < sint x then 4 else 2) + so"
proof -
  have "so = 0 \<or> so = 1" using assms by unat_arith
  then show ?thesis by (auto simp: CMP_def word_sless_alt)
qed

subsection \<open>Sign extension, byte swap, rotation\<close>

lemma SXT8_sint: "sint (SXT8 x) = sint (ucast x :: u8)"
proof -
  have "- 128 \<le> sint (ucast x :: u8)" "sint (ucast x :: u8) < 128"
    using sint_ge [of "ucast x :: u8"] sint_lt [of "ucast x :: u8"] by simp_all
  then show ?thesis
    by (simp add: SXT8_def signed_scast_eq signed_take_bit_int_eq_self_iff)
qed

lemma SXT16_sint: "sint (SXT16 x) = sint (ucast x :: u16)"
proof -
  have "- 32768 \<le> sint (ucast x :: u16)" "sint (ucast x :: u16) < 32768"
    using sint_ge [of "ucast x :: u16"] sint_lt [of "ucast x :: u16"] by simp_all
  then show ?thesis
    by (simp add: SXT16_def signed_scast_eq signed_take_bit_int_eq_self_iff)
qed

lemma BSWAP32_bit:
  assumes "n < 32"
  shows "bit (BSWAP32 x) n \<longleftrightarrow> bit x ((3 - n div 8) * 8 + n mod 8)"
proof -
  have "\<forall>n<32. bit (BSWAP32 x) n \<longleftrightarrow> bit x ((3 - n div 8) * 8 + n mod 8)"
    unfolding all_less_32 by (simp add: BSWAP32_def bit_simps numeral_2_eq_2 [symmetric])
  with assms show ?thesis by blast
qed

lemma BSWAP32_BSWAP32 [simp]: "BSWAP32 (BSWAP32 x) = x"
  by (simp add: BSWAP32_def blast32)

lemma and_ones [simp]: "x AND 0xffffffff = x" for x :: u32
  by (simp add: blast32)

lemma ROTL32_rotl:
  assumes "s < 32"
  shows "ROTL32 x s = word_rotl s x"
proof (rule bit_word_eqI)
  fix n assume n: "n < LENGTH(32)"
  have "\<not> bit x (32 - s + n)" if "s \<le> n"
    using that assms by (auto dest: bit_imp_le_length)
  moreover have "(n + (32 - s)) mod 32 = (if s \<le> n then n - s else 32 - s + n)"
    using n assms by (auto simp: mod_if)
  ultimately show "bit (ROTL32 x s) n = bit (word_rotl s x) n"
    using n assms by (auto simp: ROTL32_def bit_simps)
qed

subsection \<open>The rotate mask\<close>

lemma bit_mask_consts [simp]:
  "bit (4294967295 :: int) n \<longleftrightarrow> n < 32"
  "bit (4294967295 :: u32) n \<longleftrightarrow> n < 32"
  "bit (2147483647 :: int) n \<longleftrightarrow> n < 31"
  "bit (2147483647 :: u32) n \<longleftrightarrow> n < 31"
  using bit_mask_iff [where 'a = int, of 32 n] bit_mask_iff [where 'a = int, of 31 n]
    bit_mask_iff [where 'a = "32 word", of 32 n] bit_mask_iff [where 'a = "32 word", of 31 n]
  by (auto simp: mask_eq_exp_minus_1)

lemma bit_0xfffffffe [simp]:
  "bit (4294967294 :: int) n \<longleftrightarrow> 0 < n \<and> n < 32"
  "bit (4294967294 :: u32) n \<longleftrightarrow> 0 < n \<and> n < 32"
proof -
  have "(4294967294 :: int) = push_bit 1 (mask 31)" by (simp add: mask_eq_exp_minus_1)
  then show i: "bit (4294967294 :: int) n \<longleftrightarrow> 0 < n \<and> n < 32"
    by (simp only: bit_push_bit_iff bit_mask_iff) auto
  show "bit (4294967294 :: u32) n \<longleftrightarrow> 0 < n \<and> n < 32"
  proof (cases "n < 32")
    case True
    have "\<forall>n<32. bit (4294967294 :: u32) n \<longleftrightarrow> 0 < n" unfolding all_less_32 by simp
    with True show ?thesis by blast
  qed (auto dest: bit_imp_le_length)
qed

text \<open>In IBM numbering bit \<open>n\<close> is bit \<open>31 - n\<close>: the mask has ones from \<open>MB\<close>
  to \<open>ME\<close>, wrapping past bit 31 to bit 0 when \<open>ME < MB\<close>.\<close>

lemma bit_mkmask:
  assumes "MB < 32" and "ME < 32" and "n < 32"
  shows "bit (mkmask MB ME) (31 - n) \<longleftrightarrow>
           (if MB \<le> ME then MB \<le> n \<and> n \<le> ME else n \<le> ME \<or> MB \<le> n)"
proof (cases "MB \<le> ME")
  case True
  then show ?thesis using assms by (auto simp: mkmask_def bit_simps)
next
  case False
  then show ?thesis using assms
    by (auto simp: mkmask_def bit_simps)
qed

subsection \<open>Leading zeros\<close>

lemma builtin_clz_eq:
  assumes "bit x k" and "\<And>n. k < n \<Longrightarrow> \<not> bit x n"
  shows "builtin_clz x = 31 - k"
proof -
  have k: "k < 32" using assms(1) by (auto dest: bit_imp_le_length)
  then have "[0..<32] = [0..<Suc k] @ [Suc k..<32]"
    by (metis Suc_leI le0 upt_add_eq_append le_add_diff_inverse)
  then have "rev [0..<32] = rev [Suc k..<32] @ k # rev [0..<k]" by simp
  moreover have "takeWhile (\<lambda>n. \<not> bit x n) (rev [Suc k..<32] @ k # rev [0..<k]) = rev [Suc k..<32]"
    using assms by (subst takeWhile_append2) auto
  ultimately show ?thesis by (simp add: builtin_clz_def)
qed

lemma len32: "LENGTH(32) = 32"
  by simp

lemma top_bit_exists:
  assumes "x \<noteq> (0 :: u32)"
  obtains k where "k < 32" and "bit x k" and "\<forall>n>k. \<not> bit x n"
proof -
  let ?k = "GREATEST n. bit x n"
  obtain j where "bit x j" using assms by (auto simp: word_eq_bits)
  moreover have le: "bit x n \<Longrightarrow> n \<le> 32" for n by (auto dest: bit_imp_le_length)
  ultimately have k: "bit x ?k" by (blast intro: GreatestI_nat)
  have top: "\<not> bit x n" if "?k < n" for n
  proof
    assume "bit x n"
    then have "n \<le> ?k" using le by (blast intro: Greatest_le_nat)
    with that show False by simp
  qed
  show thesis
  proof (rule that)
    show "?k < 32" using bit_imp_le_length [OF k] by (simp only: len32)
    show "bit x ?k" by (rule k)
    show "\<forall>n>?k. \<not> bit x n" using top by blast
  qed
qed

lemma m_fls_top: "bit x k \<Longrightarrow> (\<And>n. k < n \<Longrightarrow> \<not> bit x n) \<Longrightarrow> m_fls x = Suc k"
  using builtin_clz_eq [of x k] by (auto simp: m_fls_def dest: bit_imp_le_length)

lemma m_fls_mask: "k \<le> 32 \<Longrightarrow> m_fls (mask k) = k"
proof (cases k)
  case 0
  then show ?thesis by (simp add: m_fls_def)
next
  case (Suc j)
  moreover assume "k \<le> 32"
  ultimately show ?thesis using m_fls_top [of "mask k" j] by (simp add: bit_mask_iff)
qed

lemma m_fls_bound: "x AND mask k = x \<Longrightarrow> m_fls x \<le> k"
proof (cases "x = 0")
  case False
  assume m: "x AND mask k = x"
  obtain j where "j < 32" and j: "bit x j" "\<forall>n>j. \<not> bit x n"
    using False by (rule top_bit_exists)
  then have "j < k" using m by (metis bit_and_iff bit_mask_iff)
  then show ?thesis using m_fls_top [of x j] j by simp
qed (simp add: m_fls_def)

end
