(* ===== verification/MMU_State.thy ===== *)
theory MMU_State
  imports Inst_Utility
begin

section \<open>MMU state: BATs, segment registers, micro-TLBs\<close>

text \<open>
  The data of class \<open>PPCMMU\<close> (\<open>PPCMMU.h\<close>), the register accessors of
  \<open>PPCMMU.cc\<close>, and the direct-mapped micro-TLB of \<open>PPCMMU_utlb_dm.h\<close>.  The
  \<open>bus\<close> pointer is the \<open>io\<close> state that the translation functions of theory
  MMU\_Translate take.  The four uTLBs are functions on the index; every index is
  reduced modulo the 128 entries by \<open>utlb_idx\<close>.

  \<open>mmuperms_t\<close> is a union of three one-bit fields and a word: \<open>perms_field\<close> and
  \<open>perms_of_field\<close> are the two views (the compilers of the supported hosts allocate
  bit fields from the least significant bit).  The translation of a page sets the three
  bits and leaves the other bits of the word as they were; nothing reads them, and here
  they are zero.
\<close>

definition PPCMMU_NR_BATS :: nat where [simp]: "PPCMMU_NR_BATS = 4"
definition PPCMMU_NR_SEGS :: nat where [simp]: "PPCMMU_NR_SEGS = 16"
definition PPC_PTE_V :: u32 where "PPC_PTE_V = 0x80000000"
definition PPC_PTE_H :: u32 where "PPC_PTE_H = 0x00000040"
definition PPCMMU_HVA_IO_BIT :: u64 where "PPCMMU_HVA_IO_BIT = B 63"
definition PPCMMU_UTLB_TR :: u32 where "PPCMMU_UTLB_TR = 1"
definition PPCMMU_UTLB_VALID :: u32 where "PPCMMU_UTLB_VALID = 2"
definition PPCMMU_UTLB_ENTRIES :: nat where "PPCMMU_UTLB_ENTRIES = 128"

datatype fault_t =
    FAULT_NONE
  | FAULT_NO_PAGE
  | FAULT_NO_SEGMENT
  | FAULT_PERMS
  | FAULT_PERMS_NX
  | FAULT_ALIGN

record bat_t =
  bat_bepi :: u32
  bat_bl_shift :: nat
  bat_vs :: bool
  bat_vp :: bool
  bat_brpn :: u32
  bat_wimg :: u32
  bat_pp :: u32

record seg_t =
  seg_vsid :: u32
  seg_ks :: bool
  seg_kp :: bool
  seg_n :: bool

record mmuperms_t =
  perm_r :: bool
  perm_w :: bool
  perm_clean :: bool

record utlb_t =
  utlb_ea :: u32
  utlb_pa :: u64

record mmu =
  m_enabled_i :: bool
  m_enabled_d :: bool
  m_htab_phys :: u32
  m_htab_mask :: u32
  m_pi_utlb :: "nat \<Rightarrow> utlb_t"
  m_pd_utlb :: "nat \<Rightarrow> utlb_t"
  m_ui_utlb :: "nat \<Rightarrow> utlb_t"
  m_ud_utlb :: "nat \<Rightarrow> utlb_t"
  m_ibat :: "nat \<Rightarrow> bat_t"
  m_dbat :: "nat \<Rightarrow> bat_t"
  m_segreg :: "nat \<Rightarrow> seg_t"
  m_generation_count :: u32

subsection \<open>Permissions\<close>

definition perms_field :: "mmuperms_t \<Rightarrow> u8" where
  "perms_field p = of_bool (perm_r p) OR push_bit 1 (of_bool (perm_w p)) OR
                   push_bit 2 (of_bool (perm_clean p))"

definition perms_of_field :: "u8 \<Rightarrow> mmuperms_t" where
  "perms_of_field f = \<lparr>perm_r = bit f 0, perm_w = bit f 1, perm_clean = bit f 2\<rparr>"

definition PPCMMU_PERMS_ANY :: mmuperms_t where
  "PPCMMU_PERMS_ANY = \<lparr>perm_r = True, perm_w = True, perm_clean = False\<rparr>"

definition no_perms :: mmuperms_t where
  "no_perms = \<lparr>perm_r = False, perm_w = False, perm_clean = False\<rparr>"

text \<open>\<open>checkPerms\<close> and \<open>checkFaultWasCleanliness\<close>, built with \<open>UPDATE_RC\<close>.\<close>

definition checkPerms :: "mmuperms_t \<Rightarrow> bool \<Rightarrow> bool \<Rightarrow> bool" where
  "checkPerms perms RnW InD =
     (if InD \<or> RnW then perm_r perms else perm_w perms \<and> \<not> perm_clean perms)"

definition checkFaultWasCleanliness :: "mmuperms_t \<Rightarrow> bool \<Rightarrow> bool \<Rightarrow> bool" where
  "checkFaultWasCleanliness perms RnW InD =
     ((\<not> RnW \<and> \<not> InD) \<and> perm_w perms \<and> perm_clean perms)"

lemma perms_of_field_field [simp]: "perms_of_field (perms_field p) = p"
  by (cases p) (auto simp: perms_of_field_def perms_field_def bit_simps bit_1_iff)

subsection \<open>The micro-TLB (direct-mapped)\<close>

definition utlb_isValid :: "utlb_t \<Rightarrow> bool" where
  "utlb_isValid t = (utlb_ea t AND PPCMMU_UTLB_VALID \<noteq> 0)"

definition utlb_getPerms :: "utlb_t \<Rightarrow> u8" where
  "utlb_getPerms t = ucast (utlb_pa t AND 0x0ff)"

definition utlb_getPA :: "utlb_t \<Rightarrow> u64" where
  "utlb_getPA t = utlb_pa t AND NOT 0xfff"

definition utlb_getEA :: "utlb_t \<Rightarrow> u32" where
  "utlb_getEA t = utlb_ea t"

definition utlb_set :: "u32 \<Rightarrow> u32 \<Rightarrow> u64 \<Rightarrow> u8 \<Rightarrow> utlb_t" where
  "utlb_set ea r pa perms =
     \<lparr>utlb_ea = (ea AND NOT 0xfff) OR r OR PPCMMU_UTLB_VALID,
      utlb_pa = (pa AND NOT 0xfff) OR ucast perms\<rparr>"

definition utlb_idx :: "u32 \<Rightarrow> nat" where
  "utlb_idx x = unat (drop_bit 12 x AND (of_nat PPCMMU_UTLB_ENTRIES - 1))"

definition select_utlb :: "bool \<Rightarrow> bool \<Rightarrow> mmu \<Rightarrow> nat \<Rightarrow> utlb_t" where
  "select_utlb InD priv m =
     (if priv \<and> InD then m_pi_utlb m
      else if priv \<and> \<not> InD then m_pd_utlb m
      else if \<not> priv \<and> InD then m_ui_utlb m
      else m_ud_utlb m)"

text \<open>Writing an entry of the selected uTLB.\<close>

definition write_utlb :: "bool \<Rightarrow> bool \<Rightarrow> nat \<Rightarrow> utlb_t \<Rightarrow> mmu \<Rightarrow> mmu" where
  "write_utlb InD priv i t m =
     (if priv \<and> InD then m\<lparr>m_pi_utlb := (m_pi_utlb m)(i := t)\<rparr>
      else if priv \<and> \<not> InD then m\<lparr>m_pd_utlb := (m_pd_utlb m)(i := t)\<rparr>
      else if \<not> priv \<and> InD then m\<lparr>m_ui_utlb := (m_ui_utlb m)(i := t)\<rparr>
      else m\<lparr>m_ud_utlb := (m_ud_utlb m)(i := t)\<rparr>)"

definition iutlbInv :: "mmu \<Rightarrow> mmu" where
  "iutlbInv m = m\<lparr>m_pi_utlb := (\<lambda>_. \<lparr>utlb_ea = 0, utlb_pa = 0\<rparr>),
                  m_ui_utlb := (\<lambda>_. \<lparr>utlb_ea = 0, utlb_pa = 0\<rparr>)\<rparr>"

definition dutlbInv :: "mmu \<Rightarrow> mmu" where
  "dutlbInv m = m\<lparr>m_pd_utlb := (\<lambda>_. \<lparr>utlb_ea = 0, utlb_pa = 0\<rparr>),
                  m_ud_utlb := (\<lambda>_. \<lparr>utlb_ea = 0, utlb_pa = 0\<rparr>)\<rparr>"

text \<open>The tag of a lookup: page, valid bit, and whether translation is on for this side.\<close>

definition utlb_tag :: "bool \<Rightarrow> u32 \<Rightarrow> mmu \<Rightarrow> u32" where
  "utlb_tag InD addr m =
     (addr AND NOT 0xfff) OR PPCMMU_UTLB_VALID OR
     (if (if InD then m_enabled_i m else m_enabled_d m) then PPCMMU_UTLB_TR else 0)"

definition utlbLookup :: "bool \<Rightarrow> bool \<Rightarrow> u32 \<Rightarrow> mmu \<Rightarrow> (u64 \<times> mmuperms_t) option" where
  "utlbLookup InD priv addr m =
     (let t = select_utlb InD priv m (utlb_idx addr);
          find_ea = utlb_tag InD addr m
      in if utlb_getEA t = find_ea
         then Some (utlb_getPA t OR (ucast addr AND 0xfff), perms_of_field (utlb_getPerms t))
         else None)"

subsection \<open>Construction and registers\<close>

definition PPCMMU_init :: "mmu \<Rightarrow> mmu" where
  "PPCMMU_init m0 =
     (let m = m0\<lparr>m_enabled_i := False, m_enabled_d := False,
        m_ibat := (\<lambda>i. if i < PPCMMU_NR_BATS then (m_ibat m0 i)\<lparr>bat_vs := False, bat_vp := False\<rparr> else m_ibat m0 i),
        m_dbat := (\<lambda>i. if i < PPCMMU_NR_BATS then (m_dbat m0 i)\<lparr>bat_vs := False, bat_vp := False\<rparr> else m_dbat m0 i)\<rparr>
      in (dutlbInv (iutlbInv m))\<lparr>m_generation_count := 0\<rparr>)"

definition mmu_setSDR1 :: "u32 \<Rightarrow> mmu \<Rightarrow> mmu" where
  "mmu_setSDR1 val m =
     (let m = dutlbInv (iutlbInv (m\<lparr>m_htab_phys := val AND 0xffff0000, m_htab_mask := val AND 0x1ff\<rparr>))
      in m\<lparr>m_generation_count := m_generation_count m + 1\<rparr>)"

definition bat_set_upper :: "u32 \<Rightarrow> bat_t \<Rightarrow> bat_t" where
  "bat_set_upper val b =
     b\<lparr>bat_bepi := val AND 0xfffe0000,
       bat_bl_shift := m_fls (drop_bit 2 val AND 0x7ff),
       bat_vs := (val AND 2 \<noteq> 0), bat_vp := (val AND 1 \<noteq> 0)\<rparr>"

definition bat_set_lower :: "u32 \<Rightarrow> bat_t \<Rightarrow> bat_t" where
  "bat_set_lower val b =
     b\<lparr>bat_brpn := val AND 0xfffe0000, bat_wimg := val AND 0x78, bat_pp := val AND 3\<rparr>"

definition bat_get_upper :: "bat_t \<Rightarrow> u32" where
  "bat_get_upper b =
     bat_bepi b OR push_bit 2 (push_bit (bat_bl_shift b) 1 - 1) OR
     (if bat_vs b then 2 else 0) OR (if bat_vp b then 1 else 0)"

definition bat_get_lower :: "bat_t \<Rightarrow> u32" where
  "bat_get_lower b = bat_brpn b OR bat_wimg b OR bat_pp b"

definition setIBATupper :: "nat \<Rightarrow> u32 \<Rightarrow> mmu \<Rightarrow> mmu option" where
  "setIBATupper bat val m = do {
     ASSERT (bat < PPCMMU_NR_BATS);
     let m = iutlbInv (m\<lparr>m_ibat := (m_ibat m)(bat := bat_set_upper val (m_ibat m bat))\<rparr>);
     Some (m\<lparr>m_generation_count := m_generation_count m + 1\<rparr>) }"

definition setIBATlower :: "nat \<Rightarrow> u32 \<Rightarrow> mmu \<Rightarrow> mmu option" where
  "setIBATlower bat val m = do {
     ASSERT (bat < PPCMMU_NR_BATS);
     let m = iutlbInv (m\<lparr>m_ibat := (m_ibat m)(bat := bat_set_lower val (m_ibat m bat))\<rparr>);
     Some (m\<lparr>m_generation_count := m_generation_count m + 1\<rparr>) }"

definition setDBATupper :: "nat \<Rightarrow> u32 \<Rightarrow> mmu \<Rightarrow> mmu option" where
  "setDBATupper bat val m = do {
     ASSERT (bat < PPCMMU_NR_BATS);
     let m = dutlbInv (m\<lparr>m_dbat := (m_dbat m)(bat := bat_set_upper val (m_dbat m bat))\<rparr>);
     Some (m\<lparr>m_generation_count := m_generation_count m + 1\<rparr>) }"

definition setDBATlower :: "nat \<Rightarrow> u32 \<Rightarrow> mmu \<Rightarrow> mmu option" where
  "setDBATlower bat val m = do {
     ASSERT (bat < PPCMMU_NR_BATS);
     let m = dutlbInv (m\<lparr>m_dbat := (m_dbat m)(bat := bat_set_lower val (m_dbat m bat))\<rparr>);
     Some (m\<lparr>m_generation_count := m_generation_count m + 1\<rparr>) }"

definition getIBATupper :: "nat \<Rightarrow> mmu \<Rightarrow> u32 option" where
  "getIBATupper bat m = do { ASSERT (bat < PPCMMU_NR_BATS); Some (bat_get_upper (m_ibat m bat)) }"

definition getIBATlower :: "nat \<Rightarrow> mmu \<Rightarrow> u32 option" where
  "getIBATlower bat m = do { ASSERT (bat < PPCMMU_NR_BATS); Some (bat_get_lower (m_ibat m bat)) }"

definition getDBATupper :: "nat \<Rightarrow> mmu \<Rightarrow> u32 option" where
  "getDBATupper bat m = do { ASSERT (bat < PPCMMU_NR_BATS); Some (bat_get_upper (m_dbat m bat)) }"

definition getDBATlower :: "nat \<Rightarrow> mmu \<Rightarrow> u32 option" where
  "getDBATlower bat m = do { ASSERT (bat < PPCMMU_NR_BATS); Some (bat_get_lower (m_dbat m bat)) }"

definition setSegmentReg :: "nat \<Rightarrow> u32 \<Rightarrow> mmu \<Rightarrow> mmu option" where
  "setSegmentReg sr val m = do {
     ASSERT (sr < PPCMMU_NR_SEGS);
     let seg = \<lparr>seg_vsid = val AND 0x00ffffff, seg_ks = (val AND B 30 \<noteq> 0),
                seg_kp = (val AND B 29 \<noteq> 0), seg_n = (val AND B 28 \<noteq> 0)\<rparr>;
     let m = iutlbInv (dutlbInv (m\<lparr>m_segreg := (m_segreg m)(sr := seg)\<rparr>));
     Some (m\<lparr>m_generation_count := m_generation_count m + 1\<rparr>) }"

definition getSegmentReg :: "nat \<Rightarrow> mmu \<Rightarrow> u32 option" where
  "getSegmentReg sr m = do {
     ASSERT (sr < PPCMMU_NR_SEGS);
     let s = m_segreg m sr;
     Some (seg_vsid s OR (if seg_ks s then B 30 else 0) OR
           (if seg_kp s then B 29 else 0) OR (if seg_n s then B 28 else 0)) }"

definition tlbia :: "mmu \<Rightarrow> mmu" where
  "tlbia m = (let m = iutlbInv (dutlbInv m) in m\<lparr>m_generation_count := m_generation_count m + 1\<rparr>)"

definition tlbie :: "mmu \<Rightarrow> mmu" where
  "tlbie m = (let m = iutlbInv (dutlbInv m) in m\<lparr>m_generation_count := m_generation_count m + 1\<rparr>)"

definition setIRDR :: "bool \<Rightarrow> bool \<Rightarrow> mmu \<Rightarrow> mmu" where
  "setIRDR ir dr m = m\<lparr>m_enabled_d := dr, m_enabled_i := ir\<rparr>"

end
