(* ===== verification/MMU_Regs.thy ===== *)
theory MMU_Regs
  imports MMU_State
begin

section \<open>The MMU's register banks\<close>

text \<open>
  Six banks of registers (instruction and data BATs, each with an upper and a lower half,
  and the segment registers) are read and written through an accessor pair with an
  asserted bound.  None stores the written word: a register keeps some bits, and an upper
  BAT register keeps its length field as the position of the topmost one.  The locale
  states what such a bank promises, \<open>norm\<close> being the word that is read back, and is
  interpreted on the five pairs.
\<close>

locale masked_reg =
  fixes get :: "nat \<Rightarrow> 's \<Rightarrow> u32 option"
    and set :: "nat \<Rightarrow> u32 \<Rightarrow> 's \<Rightarrow> 's option"
    and norm :: "u32 \<Rightarrow> u32"
    and n :: nat
  assumes set_total: "i < n \<Longrightarrow> set i v s \<noteq> None"
    and set_abort: "n \<le> i \<Longrightarrow> set i v s = None"
    and get_set: "set i v s = Some s' \<Longrightarrow> get j s' = (if j = i then Some (norm v) else get j s)"
    and norm_idem: "norm (norm v) = norm v"
begin

text \<open>Restoring a saved register: writing back what was read changes no register.\<close>

lemma restore:
  assumes "set i v s = Some s1" and "get i s1 = Some w" and "set i w s1 = Some s2"
  shows "get j s2 = get j s1"
  using get_set [OF assms(1), of i] get_set [OF assms(3), of j] assms(2) by (auto simp: norm_idem)

lemma last_write_wins:
  assumes "set i v s = Some s1" and "set i w s1 = Some s2"
  shows "get j s2 = (if j = i then Some (norm w) else get j s)"
  using get_set [OF assms(1), of j] get_set [OF assms(2), of j] by simp

text \<open>Writing a list of registers in turn, from index \<open>i\<close>.\<close>

fun write_from :: "nat \<Rightarrow> u32 list \<Rightarrow> 's \<Rightarrow> 's option" where
  "write_from i [] s = Some s"
| "write_from i (v # vs) s = do { s \<leftarrow> set i v s; write_from (Suc i) vs s }"

lemma write_from_below: "write_from i vs s = Some s' \<Longrightarrow> j < i \<Longrightarrow> get j s' = get j s"
proof (induction vs arbitrary: i s)
  case (Cons v vs)
  then show ?case using get_set [of i v s _ j] by (auto elim!: bind_SomeE)
qed simp

lemma write_from_get:
  "write_from i vs s = Some s' \<Longrightarrow> k < length vs \<Longrightarrow> get (i + k) s' = Some (norm (vs ! k))"
proof (induction vs arbitrary: i s k)
  case (Cons v vs)
  obtain s1 where s1: "set i v s = Some s1" "write_from (Suc i) vs s1 = Some s'"
    using Cons.prems(1) by (auto elim!: bind_SomeE)
  show ?case
  proof (cases k)
    case 0
    with s1 show ?thesis using get_set [OF s1(1), of i] write_from_below [OF s1(2), of i] by simp
  next
    case (Suc m)
    with s1(2) Cons.prems(2) show ?thesis using Cons.IH [of "Suc i" s1 m] by simp
  qed
qed simp

lemma write_from_defined: "i + length vs \<le> n \<Longrightarrow> \<exists>s'. write_from i vs s = Some s'"
proof (induction vs arbitrary: i s)
  case (Cons v vs)
  then have "set i v s \<noteq> None" by (intro set_total) simp
  then obtain s1 where "set i v s = Some s1" by auto
  with Cons.IH [of "Suc i" s1] Cons.prems show ?case by simp
qed simp

lemma bank_roundtrip:
  assumes "length vs = n"
  obtains s' where "write_from 0 vs s = Some s'" and "\<forall>k<n. get k s' = Some (norm (vs ! k))"
  using write_from_defined [of 0 vs s] write_from_get [of 0 vs s] assms by fastforce

end

subsection \<open>What the registers keep\<close>

definition batu_norm :: "u32 \<Rightarrow> u32" where
  "batu_norm v = bat_get_upper (bat_set_upper v undefined)"

definition batl_norm :: "u32 \<Rightarrow> u32" where
  "batl_norm v = v AND 0xfffe007b"

definition seg_norm :: "u32 \<Rightarrow> u32" where
  "seg_norm v = v AND 0x70ffffff"

lemma bl_mask_range: "drop_bit 2 v AND 0x7ff = (drop_bit 2 v AND 0x7ff) AND mask 11" for v :: u32
  by (simp add: and.assoc mask_eq_exp_minus_1)

lemma m_fls_bl_bound: "m_fls (drop_bit 2 v AND 0x7ff) \<le> 11"
  by (rule m_fls_bound) (metis bl_mask_range)

lemma push_bit_minus_1: "push_bit k 1 - 1 = (mask k :: u32)"
  by (simp add: mask_eq_exp_minus_1)

lemma bat_get_set_upper:
  "bat_get_upper (bat_set_upper v b) =
     (v AND 0xfffe0000) OR push_bit 2 (mask (m_fls (drop_bit 2 v AND 0x7ff))) OR (v AND 3)"
  unfolding bat_get_upper_def bat_set_upper_def push_bit_minus_1
  by (simp add: blast32)

lemma batu_norm_eq:
  "batu_norm v = (v AND 0xfffe0000) OR push_bit 2 (mask (m_fls (drop_bit 2 v AND 0x7ff))) OR (v AND 3)"
  by (simp add: batu_norm_def bat_get_set_upper)

lemma bat_get_set_upper': "bat_get_upper (bat_set_upper v b) = batu_norm v"
  by (simp only: batu_norm_eq bat_get_set_upper)

lemma mask_0x7ff: "k \<le> 11 \<Longrightarrow> mask k AND 0x7ff = (mask k :: u32)"
proof -
  assume k: "k \<le> 11"
  have "mask k AND mask 11 = (mask k :: u32)"
    by (rule bit_word_eqI) (use k in \<open>auto simp: bit_simps\<close>)
  then show ?thesis by (simp add: mask_eq_exp_minus_1)
qed

lemma batu_norm_bl:
  assumes "k \<le> 11"
  shows "drop_bit 2 ((v AND 0xfffe0000) OR push_bit 2 (mask k) OR (v AND 3)) AND 0x7ff = (mask k :: u32)"
proof -
  have "drop_bit 2 ((v AND 0xfffe0000) OR push_bit 2 (mask k) OR (v AND 3)) AND 0x7ff =
        (mask k AND 0x7ff :: u32)"
    by (simp add: blast32)
  with assms show ?thesis by (simp add: mask_0x7ff)
qed

lemma batu_norm_idem: "batu_norm (batu_norm v) = batu_norm v"
proof -
  define k where "k = m_fls (drop_bit 2 v AND 0x7ff)"
  have k: "k \<le> 11" unfolding k_def by (rule m_fls_bl_bound)
  have n: "batu_norm v = (v AND 0xfffe0000) OR push_bit 2 (mask k) OR (v AND 3)"
    by (simp only: batu_norm_eq k_def)
  have m: "(mask k :: u32) AND 0x7ff = mask k" by (rule mask_0x7ff [OF k])
  have "batu_norm (batu_norm v) = (batu_norm v AND 0xfffe0000) OR push_bit 2 (mask k) OR (batu_norm v AND 3)"
    using k by (simp only: batu_norm_eq [of "batu_norm v"]) (simp only: n batu_norm_bl m_fls_mask)
  also have "\<dots> = batu_norm v" unfolding n
    by (subst (1 2) m [symmetric]) (simp add: blast32)
  finally show ?thesis .
qed

lemma bat_get_set_lower: "bat_get_lower (bat_set_lower v b) = batl_norm v"
  by (simp add: bat_get_lower_def bat_set_lower_def batl_norm_def blast32)

lemma bat_cross [simp]:
  "bat_get_upper (bat_set_lower v b) = bat_get_upper b"
  "bat_get_lower (bat_set_upper v b) = bat_get_lower b"
  by (simp_all add: bat_get_upper_def bat_set_lower_def bat_get_lower_def bat_set_upper_def)

subsection \<open>The interpretations\<close>

lemma inv_fields [simp]:
  "m_ibat (iutlbInv m) = m_ibat m" "m_dbat (iutlbInv m) = m_dbat m"
  "m_segreg (iutlbInv m) = m_segreg m"
  "m_ibat (dutlbInv m) = m_ibat m" "m_dbat (dutlbInv m) = m_dbat m"
  "m_segreg (dutlbInv m) = m_segreg m"
  "m_enabled_i (iutlbInv m) = m_enabled_i m" "m_enabled_d (iutlbInv m) = m_enabled_d m"
  "m_enabled_i (dutlbInv m) = m_enabled_i m" "m_enabled_d (dutlbInv m) = m_enabled_d m"
  by (simp_all add: iutlbInv_def dutlbInv_def)

lemmas bat_accessors =
  setIBATupper_def setIBATlower_def setDBATupper_def setDBATlower_def
  getIBATupper_def getIBATlower_def getDBATupper_def getDBATlower_def

lemmas bat_roundtrip = bat_get_set_upper' bat_get_set_lower batu_norm_idem

interpretation ibatu: masked_reg getIBATupper setIBATupper batu_norm PPCMMU_NR_BATS
  by unfold_locales (auto simp: bat_accessors bat_roundtrip ASSERT_def Let_def split: if_splits)

interpretation dbatu: masked_reg getDBATupper setDBATupper batu_norm PPCMMU_NR_BATS
  by unfold_locales (auto simp: bat_accessors bat_roundtrip ASSERT_def Let_def split: if_splits)

lemma batl_norm_idem: "batl_norm (batl_norm v) = batl_norm v"
  by (simp add: batl_norm_def and.assoc)

interpretation ibatl: masked_reg getIBATlower setIBATlower batl_norm PPCMMU_NR_BATS
  by unfold_locales
    (auto simp: bat_accessors bat_roundtrip batl_norm_idem ASSERT_def Let_def split: if_splits)

interpretation dbatl: masked_reg getDBATlower setDBATlower batl_norm PPCMMU_NR_BATS
  by unfold_locales
    (auto simp: bat_accessors bat_roundtrip batl_norm_idem ASSERT_def Let_def split: if_splits)

lemma seg_get_set:
  "(v AND 0x00ffffff) OR (if v AND B 30 \<noteq> 0 then B 30 else 0) OR
   (if v AND B 29 \<noteq> 0 then B 29 else 0) OR (if v AND B 28 \<noteq> 0 then B 28 else 0) = seg_norm v"
proof -
  have B: "(B k :: u32) = 2 ^ k" for k by (simp add: B_def)
  have one: "(if bit v k then 2 ^ k else 0) = v AND 2 ^ k" for k
    by (rule bit_word_eqI) (auto simp: bit_simps bit_exp_iff)
  have const: "(0x70ffffff :: u32) = 0x00ffffff OR 2 ^ 30 OR 2 ^ 29 OR 2 ^ 28"
    by (simp add: word32_eq_bits bit_simps all_less_32)
  have "seg_norm v = (v AND 0x00ffffff) OR (v AND 2 ^ 30) OR (v AND 2 ^ 29) OR (v AND 2 ^ 28)"
    by (simp only: seg_norm_def const bit.conj_disj_distrib or.assoc)
  then show ?thesis unfolding B and_exp_nonzero one by simp
qed

lemma setSegmentReg_SomeD:
  assumes "setSegmentReg i v m = Some m'"
  shows "i < PPCMMU_NR_SEGS"
    and "m_segreg m' = (m_segreg m)(i := \<lparr>seg_vsid = v AND 0x00ffffff, seg_ks = (v AND B 30 \<noteq> 0),
           seg_kp = (v AND B 29 \<noteq> 0), seg_n = (v AND B 28 \<noteq> 0)\<rparr>)"
  using assms by (auto simp: setSegmentReg_def Let_def elim!: bind_SomeE simp del: PPCMMU_NR_SEGS_def)

lemma getSegmentReg_set:
  assumes "setSegmentReg i v m = Some m'"
  shows "getSegmentReg j m' = (if j = i then Some (seg_norm v) else getSegmentReg j m)"
proof (cases "j = i")
  case True
  then show ?thesis
    unfolding getSegmentReg_def setSegmentReg_SomeD(2) [OF assms] Let_def
    by (simp only: fun_upd_same seg_t.simps seg_get_set setSegmentReg_SomeD(1) [OF assms]
        ASSERT_simps bind.bind_lunit if_True simp_thms)
next
  case False
  then show ?thesis
    unfolding getSegmentReg_def setSegmentReg_SomeD(2) [OF assms] by simp
qed

interpretation segr: masked_reg getSegmentReg setSegmentReg seg_norm PPCMMU_NR_SEGS
  by unfold_locales
    (auto simp: getSegmentReg_set, simp_all add: setSegmentReg_def Let_def seg_norm_def and.assoc)

subsection \<open>Every change of a register or of the page tables' base empties the micro-TLB\<close>

definition utlb_empty :: "bool \<Rightarrow> mmu \<Rightarrow> bool" where
  "utlb_empty InD m \<longleftrightarrow> (\<forall>priv i. select_utlb InD priv m i = \<lparr>utlb_ea = 0, utlb_pa = 0\<rparr>)"

lemma utlb_tag_valid: "bit (utlb_tag InD a m) 1"
  by (simp add: utlb_tag_def PPCMMU_UTLB_VALID_def bit_simps)

lemma utlb_empty_lookup: "utlb_empty InD m \<Longrightarrow> utlbLookup InD priv a m = None"
  using utlb_tag_valid [of InD a m] by (auto simp: utlb_empty_def utlbLookup_def utlb_getEA_def Let_def)

lemma inv_empty [simp]:
  "utlb_empty True (iutlbInv m)" "utlb_empty False (dutlbInv m)"
  "utlb_empty False (iutlbInv m) = utlb_empty False m"
  "utlb_empty True (dutlbInv m) = utlb_empty True m"
  "utlb_empty d (m\<lparr>m_generation_count := g\<rparr>) = utlb_empty d m"
  by (simp_all add: utlb_empty_def select_utlb_def iutlbInv_def dutlbInv_def)

lemma setIBAT_empty:
  "setIBATupper i v m = Some m' \<Longrightarrow> utlb_empty True m'"
  "setIBATlower i v m = Some m' \<Longrightarrow> utlb_empty True m'"
  by (auto simp: bat_accessors Let_def ASSERT_def split: if_splits)

lemma setDBAT_empty:
  "setDBATupper i v m = Some m' \<Longrightarrow> utlb_empty False m'"
  "setDBATlower i v m = Some m' \<Longrightarrow> utlb_empty False m'"
  by (auto simp: bat_accessors Let_def ASSERT_def split: if_splits)

lemma setSegmentReg_empty: "setSegmentReg i v m = Some m' \<Longrightarrow> utlb_empty InD m'"
  by (cases InD) (auto simp: setSegmentReg_def Let_def ASSERT_def split: if_splits)

lemma mmu_inv_ops_empty:
  "utlb_empty InD (mmu_setSDR1 v m)" "utlb_empty InD (tlbia m)" "utlb_empty InD (tlbie m)"
  "utlb_empty InD (PPCMMU_init m)"
  by (cases InD; simp add: mmu_setSDR1_def tlbia_def tlbie_def PPCMMU_init_def Let_def)+

end
