(* ===== verification/Bus.thy ===== *)
theory Bus
  imports MR_Prelude
begin

section \<open>The physical address bus: \<open>Bus\<close>\<close>

text \<open>
  Class \<open>Bus\<close> of \<open>Bus.h\<close>: a table of 32 address windows, each with the device
  that serves it, searched in order, and a one-entry cache \<open>last_dev\<close> in front of
  the search.  The theory is parametric in the type of devices; theory System\_Bus
  instantiates it with the simulator's devices and dispatches the accesses.

  The window test is the code's: 32-bit, so a window that would end at \<open>2^32\<close>
  matches nothing (its end wraps to 0).  \<open>find_dev_for_addr\<close> returns \<open>None\<close> for
  \<open>-1\<close>; \<open>get_dev\<close> is fatal then.

  The lemmas show that for windows that do not overlap the cache is transparent, and that
  attaching keeps the table well-formed.
\<close>

record 'd busdev =
  bd_addr :: u32
  bd_size :: u32
  bd_dev :: "'d option"

record 'd bus =
  bus_devs :: "'d busdev list"
  bus_last_dev :: nat

definition bus_entries :: nat where
  "bus_entries = 32"

definition bus_init :: "'d bus" where
  "bus_init = \<lparr>bus_devs = replicate bus_entries \<lparr>bd_addr = 0, bd_size = 0, bd_dev = None\<rparr>,
               bus_last_dev = 0\<rparr>"

definition dev_matches_addr :: "'d bus \<Rightarrow> nat \<Rightarrow> u32 \<Rightarrow> bool" where
  "dev_matches_addr b i addr =
     (bd_addr (bus_devs b ! i) \<le> addr \<and>
      addr < bd_addr (bus_devs b ! i) + bd_size (bus_devs b ! i))"

definition find_dev_for_addr :: "'d bus \<Rightarrow> u32 \<Rightarrow> nat option" where
  "find_dev_for_addr b addr = find (\<lambda>i. dev_matches_addr b i addr) [0..<bus_entries]"

definition get_dev :: "u32 \<Rightarrow> 'd bus \<Rightarrow> (nat \<times> 'd bus) option" where
  "get_dev addr b =
     (if dev_matches_addr b (bus_last_dev b) addr then Some (bus_last_dev b, b)
      else case find_dev_for_addr b addr of
        None \<Rightarrow> None
      | Some i \<Rightarrow> Some (i, b\<lparr>bus_last_dev := i\<rparr>))"

text \<open>\<open>attach\<close>; the first argument is the device's \<open>setProps\<close> method.\<close>

definition attach :: "(u32 \<Rightarrow> u32 \<Rightarrow> 'd \<Rightarrow> 'd) \<Rightarrow> 'd \<Rightarrow> u32 \<Rightarrow> u32 \<Rightarrow> 'd bus \<Rightarrow> 'd bus option" where
  "attach setProps dev base sz b =
     (case find (\<lambda>i. bd_dev (bus_devs b ! i) = None) [0..<bus_entries] of
        None \<Rightarrow> None
      | Some i \<Rightarrow> Some (b\<lparr>bus_devs := (bus_devs b)[i :=
          \<lparr>bd_addr = base, bd_size = sz, bd_dev = Some (setProps base sz dev)\<rparr>]\<rparr>))"

subsection \<open>Well-formed tables\<close>

text \<open>A free slot has size zero (so no address matches it), and the windows of two slots
  share no address.\<close>

definition bus_wf :: "'d bus \<Rightarrow> bool" where
  "bus_wf b \<longleftrightarrow>
     length (bus_devs b) = bus_entries \<and> bus_last_dev b < bus_entries \<and>
     (\<forall>i<bus_entries. bd_dev (bus_devs b ! i) = None \<longrightarrow> bd_size (bus_devs b ! i) = 0)"

definition bus_disjoint :: "'d bus \<Rightarrow> bool" where
  "bus_disjoint b \<longleftrightarrow>
     (\<forall>i<bus_entries. \<forall>j<bus_entries. \<forall>a.
        dev_matches_addr b i a \<longrightarrow> dev_matches_addr b j a \<longrightarrow> i = j)"

lemma bus_init_wf: "bus_wf bus_init" "bus_disjoint bus_init"
  by (auto simp: bus_wf_def bus_disjoint_def bus_init_def dev_matches_addr_def bus_entries_def)

lemma dev_matches_last_dev [simp]:
  "dev_matches_addr (b\<lparr>bus_last_dev := k\<rparr>) i a = dev_matches_addr b i a"
  by (simp add: dev_matches_addr_def)

lemma find_dev_last_dev [simp]:
  "find_dev_for_addr (b\<lparr>bus_last_dev := k\<rparr>) a = find_dev_for_addr b a"
  by (simp add: find_dev_for_addr_def)

lemma bus_wf_last_dev: "bus_wf b \<Longrightarrow> k < bus_entries \<Longrightarrow> bus_wf (b\<lparr>bus_last_dev := k\<rparr>)"
  by (simp add: bus_wf_def)

lemma bus_disjoint_last_dev [simp]: "bus_disjoint (b\<lparr>bus_last_dev := k\<rparr>) = bus_disjoint b"
  by (simp add: bus_disjoint_def)

lemma find_dev_SomeD:
  assumes "find_dev_for_addr b a = Some i"
  shows "i < bus_entries" and "dev_matches_addr b i a"
  using assms by (auto simp: find_dev_for_addr_def find_Some_iff)

lemma find_dev_None: "find_dev_for_addr b a = None \<longleftrightarrow> (\<forall>i<bus_entries. \<not> dev_matches_addr b i a)"
  by (auto simp: find_dev_for_addr_def find_None_iff)

text \<open>What \<open>get_dev\<close> returns serves the address, and only the cache has changed.\<close>

lemma get_dev_SomeD:
  assumes "get_dev a b = Some (i, b')" and "bus_wf b"
  shows "i < bus_entries" and "dev_matches_addr b i a" and "b' = b\<lparr>bus_last_dev := i\<rparr>" and "bus_wf b'"
proof -
  have "i < bus_entries \<and> dev_matches_addr b i a \<and> b' = b\<lparr>bus_last_dev := i\<rparr>"
    using assms by (auto simp: get_dev_def bus_wf_def dest: find_dev_SomeD split: if_splits option.splits)
  then show "i < bus_entries" "dev_matches_addr b i a" "b' = b\<lparr>bus_last_dev := i\<rparr>" "bus_wf b'"
    using assms(2) by (auto simp: bus_wf_last_dev)
qed

lemma get_dev_attached:
  assumes "get_dev a b = Some (i, b')" and "bus_wf b"
  shows "bd_dev (bus_devs b ! i) \<noteq> None"
proof
  assume "bd_dev (bus_devs b ! i) = None"
  with get_dev_SomeD [OF assms] assms(2) have "bd_size (bus_devs b ! i) = 0"
    by (simp add: bus_wf_def)
  with get_dev_SomeD(2) [OF assms] show False
    by (auto simp: dev_matches_addr_def dest: leD)
qed

text \<open>The cache is transparent: the device found is the one the search finds.\<close>

lemma get_dev_find:
  assumes "bus_wf b" and "bus_disjoint b"
  shows "get_dev a b =
    (case find_dev_for_addr b a of None \<Rightarrow> None | Some i \<Rightarrow> Some (i, b\<lparr>bus_last_dev := i\<rparr>))"
proof (cases "dev_matches_addr b (bus_last_dev b) a")
  case True
  have last: "bus_last_dev b < bus_entries" using assms(1) by (simp add: bus_wf_def)
  then obtain i where i: "find_dev_for_addr b a = Some i"
    using True by (cases "find_dev_for_addr b a") (auto simp: find_dev_None)
  then have "i = bus_last_dev b"
    using assms(2) True last find_dev_SomeD [OF i] by (auto simp: bus_disjoint_def)
  with True i show ?thesis by (simp add: get_dev_def)
next
  case False
  then show ?thesis by (simp add: get_dev_def)
qed

text \<open>Hence the state of the cache never influences a later lookup.\<close>

lemma get_dev_cache_irrelevant:
  assumes "bus_wf b" and "bus_disjoint b" and "k < bus_entries"
  shows "get_dev a (b\<lparr>bus_last_dev := k\<rparr>) = get_dev a b"
  using assms by (simp add: get_dev_find bus_wf_last_dev split: option.split)

lemma attach_SomeD:
  assumes "attach sp d base sz b = Some b'"
  obtains i where "i < bus_entries" and "bd_dev (bus_devs b ! i) = None"
    and "b' = b\<lparr>bus_devs := (bus_devs b)[i :=
           \<lparr>bd_addr = base, bd_size = sz, bd_dev = Some (sp base sz d)\<rparr>]\<rparr>"
  using assms by (auto simp: attach_def find_Some_iff split: option.splits)

lemma attach_wf: "attach sp d base sz b = Some b' \<Longrightarrow> bus_wf b \<Longrightarrow> bus_wf b'"
  by (erule attach_SomeD) (auto simp: bus_wf_def nth_list_update)

lemma attach_disjoint:
  assumes att: "attach sp d base sz b = Some b'" and wf: "bus_wf b" and disj: "bus_disjoint b"
    and new: "\<forall>i<bus_entries. \<forall>a. dev_matches_addr b i a \<longrightarrow> \<not> (base \<le> a \<and> a < base + sz)"
  shows "bus_disjoint b'"
proof -
  obtain i where i: "i < bus_entries" "bd_dev (bus_devs b ! i) = None"
    and b': "b' = b\<lparr>bus_devs := (bus_devs b)[i :=
           \<lparr>bd_addr = base, bd_size = sz, bd_dev = Some (sp base sz d)\<rparr>]\<rparr>"
    using att by (rule attach_SomeD)
  have len: "length (bus_devs b) = bus_entries" using wf by (simp add: bus_wf_def)
  have match: "dev_matches_addr b' j a =
      (if j = i then base \<le> a \<and> a < base + sz else dev_matches_addr b j a)" if "j < bus_entries" for j a
    using that len b' by (auto simp: dev_matches_addr_def)
  show ?thesis
    unfolding bus_disjoint_def
  proof (intro allI impI)
    fix j k a
    assume "j < bus_entries" "k < bus_entries" "dev_matches_addr b' j a" "dev_matches_addr b' k a"
    then show "j = k"
      using new disj by (auto simp: match bus_disjoint_def split: if_splits)
  qed
qed

end
