(* ===== verification/Host_Mem.thy ===== *)
theory Host_Mem
  imports Inst_Utility
begin

section \<open>Host memory\<close>

text \<open>
  The simulator reaches guest RAM through host pointers (the \<open>mmap\<close> regions of
  \<open>DevRAM\<close>, and the host addresses that the uTLB stores). Host memory is a
  function from 64-bit host addresses to bytes, and \<open>*(u32 *)p\<close> is a little-endian
  access of four bytes (the supported hosts, x86-64 and arm64, are little-endian).
  \<open>BS32\<close> and \<open>BS16\<close> of \<open>PPCMMU.cc\<close> then turn a host value into the
  big-endian guest value and back.
\<close>

type_synonym hmem = "u64 \<Rightarrow> u8"

definition hload8 :: "hmem \<Rightarrow> u64 \<Rightarrow> u8" where
  "hload8 m a = m a"

definition hload16 :: "hmem \<Rightarrow> u64 \<Rightarrow> u16" where
  "hload16 m a = ucast (m a) OR push_bit 8 (ucast (m (a + 1)))"

definition hload32 :: "hmem \<Rightarrow> u64 \<Rightarrow> u32" where
  "hload32 m a = ucast (m a) OR push_bit 8 (ucast (m (a + 1))) OR
                 push_bit 16 (ucast (m (a + 2))) OR push_bit 24 (ucast (m (a + 3)))"

definition hstore8 :: "u64 \<Rightarrow> u8 \<Rightarrow> hmem \<Rightarrow> hmem" where
  "hstore8 a v m = m(a := v)"

definition hstore16 :: "u64 \<Rightarrow> u16 \<Rightarrow> hmem \<Rightarrow> hmem" where
  "hstore16 a v m = m(a := ucast v, a + 1 := ucast (drop_bit 8 v))"

definition hstore32 :: "u64 \<Rightarrow> u32 \<Rightarrow> hmem \<Rightarrow> hmem" where
  "hstore32 a v m = m(a := ucast v, a + 1 := ucast (drop_bit 8 v),
                      a + 2 := ucast (drop_bit 16 v), a + 3 := ucast (drop_bit 24 v))"

text \<open>A block of memory, as \<open>write\<close> and \<open>memcpy\<close> take it.\<close>

definition host_bytes :: "hmem \<Rightarrow> u64 \<Rightarrow> nat \<Rightarrow> u8 list" where
  "host_bytes m p n = map (\<lambda>i. hload8 m (p + of_nat i)) [0..<n]"

text \<open>\<open>BS32(x)\<close> is \<open>htonl(x)\<close>, \<open>BS16(x)\<close> is \<open>htons(x)\<close>
  (\<open>isBigEndian()\<close> is constantly true): a byte swap on a little-endian host.\<close>

definition BS32 :: "u32 \<Rightarrow> u32" where
  "BS32 x = BSWAP32 x"

definition BS16 :: "u16 \<Rightarrow> u16" where
  "BS16 x = push_bit 8 x OR drop_bit 8 x"

text \<open>The guest's view: the big-endian word of four consecutive bytes.\<close>

definition be32 :: "u8 \<Rightarrow> u8 \<Rightarrow> u8 \<Rightarrow> u8 \<Rightarrow> u32" where
  "be32 b0 b1 b2 b3 = push_bit 24 (ucast b0) OR push_bit 16 (ucast b1) OR
                      push_bit 8 (ucast b2) OR ucast b3"

lemma BS32_BS32 [simp]: "BS32 (BS32 x) = x"
  by (simp add: BS32_def)

lemma BS32_hload32: "BS32 (hload32 m a) = be32 (m a) (m (a + 1)) (m (a + 2)) (m (a + 3))"
  by (simp add: BS32_def hload32_def be32_def BSWAP32_def blast32)

lemma offsets_distinct [simp]:
  "a \<noteq> a + 1" "a \<noteq> a + 2" "a \<noteq> a + 3" "a + 1 \<noteq> a + 2" "a + 1 \<noteq> a + 3" "a + 2 \<noteq> a + 3"
  "a + 1 \<noteq> a" "a + 2 \<noteq> a" "a + 3 \<noteq> a" "a + 2 \<noteq> a + 1" "a + 3 \<noteq> a + 1" "a + 3 \<noteq> a + 2"
  for a :: u64
  by (simp_all add: eq_commute [of a])

lemma hload32_hstore32 [simp]: "hload32 (hstore32 a v m) a = v"
  by (simp add: hload32_def hstore32_def blast32)

lemma hstore32_other:
  "b \<notin> {a, a + 1, a + 2, a + 3} \<Longrightarrow> hstore32 a v m b = m b"
  by (simp add: hstore32_def)

text \<open>The bytes of a stored guest word, most significant first.\<close>

lemma hstore32_BS32:
  "hstore32 a (BS32 v) m a = ucast (drop_bit 24 v)"
  "hstore32 a (BS32 v) m (a + 1) = ucast (drop_bit 16 v)"
  "hstore32 a (BS32 v) m (a + 2) = ucast (drop_bit 8 v)"
  "hstore32 a (BS32 v) m (a + 3) = ucast v"
  by (simp_all add: hstore32_def BS32_def BSWAP32_def blast8)

end
