(* ===== verification/Dev_RAM.thy ===== *)
theory Dev_RAM
  imports Host_Mem
begin

section \<open>RAM and ROM: \<open>DevRAM\<close>\<close>

text \<open>
  Class \<open>DevRAM\<close> of \<open>DevRAM.h\<close> (built with \<open>ALIGNMENT_HAX\<close>): a region of
  host memory at \<open>mmap_base\<close> that serves the physical addresses from
  \<open>base_address\<close>.  Every access is an access to host memory, so the operations
  take and return it.  There is no bounds check: the bus sends only addresses inside
  the device's window.
\<close>

record ram =
  r_isROM :: bool
  r_mmap_base :: u64
  r_base_address :: u32
  r_address_span :: u32

definition offset_from_PA :: "ram \<Rightarrow> u32 \<Rightarrow> u32" where
  "offset_from_PA d addr = addr - r_base_address d"

definition ram_host :: "ram \<Rightarrow> u32 \<Rightarrow> u64" where
  "ram_host d addr = r_mmap_base d + ucast (offset_from_PA d addr)"

definition ram_read32 :: "ram \<Rightarrow> u32 \<Rightarrow> hmem \<Rightarrow> u32" where
  "ram_read32 d addr m = hload32 m (ram_host d addr)"

definition ram_read16 :: "ram \<Rightarrow> u32 \<Rightarrow> hmem \<Rightarrow> u16" where
  "ram_read16 d addr m = hload16 m (ram_host d addr)"

definition ram_read8 :: "ram \<Rightarrow> u32 \<Rightarrow> hmem \<Rightarrow> u8" where
  "ram_read8 d addr m = hload8 m (ram_host d addr)"

definition ram_write32 :: "ram \<Rightarrow> u32 \<Rightarrow> u32 \<Rightarrow> hmem \<Rightarrow> hmem" where
  "ram_write32 d addr data m =
     (if \<not> r_isROM d then hstore32 (ram_host d addr) data m else m)"

definition ram_write16 :: "ram \<Rightarrow> u32 \<Rightarrow> u16 \<Rightarrow> hmem \<Rightarrow> hmem" where
  "ram_write16 d addr data m =
     (if \<not> r_isROM d then hstore16 (ram_host d addr) data m else m)"

definition ram_write8 :: "ram \<Rightarrow> u32 \<Rightarrow> u8 \<Rightarrow> hmem \<Rightarrow> hmem" where
  "ram_write8 d addr data m =
     (if \<not> r_isROM d then hstore8 (ram_host d addr) data m else m)"

definition ram_setProps :: "u32 \<Rightarrow> u32 \<Rightarrow> ram \<Rightarrow> ram" where
  "ram_setProps addr sz d = d\<lparr>r_base_address := addr\<rparr>"

text \<open>\<open>direct_map\<close> always succeeds and yields the host address.\<close>

definition ram_direct_map :: "ram \<Rightarrow> u32 \<Rightarrow> u64" where
  "ram_direct_map d addr = r_mmap_base d + ucast (offset_from_PA d addr)"

text \<open>\<open>init\<close>: \<open>mmap\<close> is the operating system's; its result is an argument,
  \<open>None\<close> for \<open>MAP_FAILED\<close>.\<close>

definition ram_init :: "u64 option \<Rightarrow> u32 \<Rightarrow> ram \<Rightarrow> ram option" where
  "ram_init mmap_result sz d =
     (case mmap_result of
        None \<Rightarrow> None
      | Some p \<Rightarrow> Some (d\<lparr>r_base_address := 0, r_address_span := sz, r_mmap_base := p\<rparr>))"

text \<open>\<open>loadAtOffset\<close>: the file's contents are an argument (\<open>None\<close>: it cannot be
  opened; a short or failing \<open>read\<close> is fatal as well and is not considered).\<close>

fun hwrite_bytes :: "u64 \<Rightarrow> u8 list \<Rightarrow> hmem \<Rightarrow> hmem" where
  "hwrite_bytes a [] m = m"
| "hwrite_bytes a (b # bs) m = hwrite_bytes (a + 1) bs (m(a := b))"

definition loadAtOffset :: "u8 list option \<Rightarrow> u32 \<Rightarrow> ram \<Rightarrow> hmem \<Rightarrow> hmem option" where
  "loadAtOffset contents offset d m =
     (if r_mmap_base d = 0 then None
      else case contents of
        None \<Rightarrow> None
      | Some bs \<Rightarrow>
          if length bs + unat offset > unat (r_address_span d) then None
          else Some (hwrite_bytes (r_mmap_base d + ucast offset) bs m))"

subsection \<open>Lemmas\<close>

lemma ram_read_write32:
  "\<not> r_isROM d \<Longrightarrow> ram_read32 d a (ram_write32 d a v m) = v"
  by (simp add: ram_read32_def ram_write32_def)

lemma ram_write_ROM [simp]:
  "r_isROM d \<Longrightarrow> ram_write32 d a v m = m"
  "r_isROM d \<Longrightarrow> ram_write16 d a v16 m = m"
  "r_isROM d \<Longrightarrow> ram_write8 d a v8 m = m"
  by (simp_all add: ram_write32_def ram_write16_def ram_write8_def)

text \<open>A direct access through the host pointer is the device's own access.\<close>

lemma ram_direct_read: "hload32 m (ram_direct_map d a) = ram_read32 d a m"
  by (simp add: ram_read32_def ram_host_def ram_direct_map_def)

lemma ram_direct_write:
  "\<not> r_isROM d \<Longrightarrow> hstore32 (ram_direct_map d a) v m = ram_write32 d a v m"
  by (simp add: ram_write32_def ram_host_def ram_direct_map_def)

lemma hwrite_bytes_below:
  "uint a + int (length bs) \<le> 2 ^ 64 \<Longrightarrow> uint b < uint a \<Longrightarrow> hwrite_bytes a bs m b = m b"
proof (induction bs arbitrary: a m)
  case (Cons x bs)
  show ?case
  proof (cases bs)
    case Nil
    with Cons.prems show ?thesis by auto
  next
    case (Cons y ys)
    with Cons.prems have "uint (a + 1) = uint a + 1"
      by (simp add: uint_word_ariths)
    then have "hwrite_bytes (a + 1) bs (m(a := x)) b = (m(a := x)) b"
      using Cons.prems by (intro Cons.IH) auto
    with Cons.prems show ?thesis by auto
  qed
qed simp

lemma hwrite_bytes_nth:
  "uint a + int (length bs) \<le> 2 ^ 64 \<Longrightarrow> i < length bs \<Longrightarrow> hwrite_bytes a bs m (a + of_nat i) = bs ! i"
proof (induction bs arbitrary: a m i)
  case (Cons x bs)
  show ?case
  proof (cases bs)
    case Nil
    with Cons.prems show ?thesis by simp
  next
    case (Cons y ys)
    with Cons.prems have next_a: "uint (a + 1) = uint a + 1"
      by (simp add: uint_word_ariths)
    show ?thesis
    proof (cases i)
      case 0
      with next_a Cons.prems hwrite_bytes_below [of "a + 1" bs a "m(a := x)"] show ?thesis
        by simp
    next
      case (Suc j)
      then have "hwrite_bytes (a + 1) bs (m(a := x)) (a + 1 + of_nat j) = bs ! j"
        using next_a Cons.prems by (intro Cons.IH) auto
      with Suc show ?thesis by (simp add: add.assoc)
    qed
  qed
qed simp

end
