(* ===== verification/Irq_Edge.thy ===== *)
theory Irq_Edge
  imports MR_Prelude
begin

section \<open>Serial back ends and edge-triggered interrupt sources\<close>

text \<open>
  Both UARTs talk to an \<open>AbstractSerial\<close>. Only its interface is in the devices'
  hands: \<open>putByte\<close> sends a byte to the far end, \<open>getByte\<close> yields the oldest
  byte the far end has sent and waits when there is none (the loop on \<open>EAGAIN\<close> in
  \<open>SerialPTY::getByte\<close>); a wait that nothing ends is the result \<open>None\<close>.

  Both UARTs also drive the interrupt controller by edges: \<open>assessIRQstatus\<close>
  computes whether an interrupt is wanted, raises it on the transition from inactive to
  wanted and remembers it in \<open>irq_active\<close>.  The locale states that contract once;
  its lemma says that over any sequence of register changes, each followed by an
  assessment, the interrupts raised are exactly the rising edges of the wanted line.
\<close>

record serial =
  ser_in :: "u8 list"
  ser_out :: "u8 list"

definition putByte :: "u8 \<Rightarrow> serial \<Rightarrow> serial" where
  "putByte b s = s\<lparr>ser_out := ser_out s @ [b]\<rparr>"

definition getByte :: "serial \<Rightarrow> (u8 \<times> serial) option" where
  "getByte s = (case ser_in s of [] \<Rightarrow> None | b # bs \<Rightarrow> Some (b, s\<lparr>ser_in := bs\<rparr>))"

text \<open>Runs of changes and assessments, and the rising edges of a line.\<close>

fun assess_run :: "('d \<Rightarrow> 'd \<times> bool) \<Rightarrow> ('d \<Rightarrow> 'd) list \<Rightarrow> 'd \<Rightarrow> bool list" where
  "assess_run assess [] d = []"
| "assess_run assess (f # fs) d =
     (let (d', raised) = assess (f d) in raised # assess_run assess fs d')"

fun wanted_run :: "('d \<Rightarrow> 'd \<times> bool) \<Rightarrow> ('d \<Rightarrow> bool) \<Rightarrow> ('d \<Rightarrow> 'd) list \<Rightarrow> 'd \<Rightarrow> bool list" where
  "wanted_run assess want [] d = []"
| "wanted_run assess want (f # fs) d = want (f d) # wanted_run assess want fs (fst (assess (f d)))"

fun rising_edges :: "bool \<Rightarrow> bool list \<Rightarrow> bool list" where
  "rising_edges prev [] = []"
| "rising_edges prev (w # ws) = (w \<and> \<not> prev) # rising_edges w ws"

locale edge_source =
  fixes assess :: "'d \<Rightarrow> 'd \<times> bool"
    and want :: "'d \<Rightarrow> bool"
    and active :: "'d \<Rightarrow> bool"
  assumes raised_iff: "snd (assess d) \<longleftrightarrow> want d \<and> \<not> active d"
    and active_after: "active (fst (assess d)) \<longleftrightarrow> want d"
begin

lemma raises_are_edges:
  assumes "\<forall>f \<in> set fs. \<forall>d. active (f d) = active d"
  shows "assess_run assess fs d = rising_edges (active d) (wanted_run assess want fs d)"
  using assms
proof (induction fs arbitrary: d)
  case (Cons f fs)
  then have "assess_run assess fs (fst (assess (f d))) =
      rising_edges (active (fst (assess (f d)))) (wanted_run assess want fs (fst (assess (f d))))"
    by simp
  with Cons.prems show ?case
    by (simp add: case_prod_beta Let_def raised_iff active_after)
qed simp

lemma quiet_when_active: "active d \<Longrightarrow> \<not> snd (assess d)"
  by (simp add: raised_iff)

lemma raise_sets_active: "snd (assess d) \<Longrightarrow> active (fst (assess d))"
  by (simp add: raised_iff active_after)

end

end
