(* ===== verification/Dev_SimpleUart.thy ===== *)
theory Dev_SimpleUart
  imports Irq_Edge
begin

section \<open>The MR UART: \<open>DevSimpleUart\<close>\<close>

text \<open>
  Class \<open>DevSimpleUart\<close> of \<open>DevSimpleUart.h\<close> and \<open>DevSimpleUart.cc\<close>:
  four byte registers, a sticky write-one-to-clear receive interrupt, and the back end.
  An operation that assesses the interrupt also returns whether \<open>raiseIRQ()\<close> was
  called.  The mutex, which serialises the CPU and receive threads, is the atomicity of
  each operation; the copy of every sent byte on the simulator's standard output is left
  out.  The 16- and 32-bit accessors are fatal.
\<close>

definition SUART_REG_TX :: u32 where [simp]: "SUART_REG_TX = 0x00"
definition SUART_REG_RX :: u32 where [simp]: "SUART_REG_RX = 0x00"
definition SUART_REG_STATUS :: u32 where [simp]: "SUART_REG_STATUS = 0x04"
definition SUART_REG_STATUS_RXNE :: u8 where [simp]: "SUART_REG_STATUS_RXNE = 1"
definition SUART_REG_STATUS_TXNF :: u8 where [simp]: "SUART_REG_STATUS_TXNF = 2"
definition SUART_REG_IRQ_STATUS :: u32 where [simp]: "SUART_REG_IRQ_STATUS = 0x08"
definition SUART_REG_IRQ_STATUS_RX :: u8 where [simp]: "SUART_REG_IRQ_STATUS_RX = 1"
definition SUART_REG_IRQ_ENABLE :: u32 where [simp]: "SUART_REG_IRQ_ENABLE = 0x0c"

record suart =
  su_base_address :: u32
  su_address_span :: u32
  su_regs :: "nat \<Rightarrow> u8"
  su_intc :: bool
  su_irq_number :: nat
  su_irq_active :: bool
  su_serio :: "serial option"

abbreviation suart_reg :: "u32 \<Rightarrow> nat" where
  "suart_reg r \<equiv> unat (drop_bit 2 r)"

definition suart_init :: "suart \<Rightarrow> suart" where
  "suart_init d = d\<lparr>su_regs := (su_regs d)
     (suart_reg SUART_REG_IRQ_ENABLE := 0, suart_reg SUART_REG_IRQ_STATUS := 0,
      suart_reg SUART_REG_STATUS := SUART_REG_STATUS_TXNF)\<rparr>"

definition suart_sendByte :: "u8 \<Rightarrow> suart \<Rightarrow> suart" where
  "suart_sendByte data d = d\<lparr>su_serio := map_option (putByte data) (su_serio d)\<rparr>"

definition suart_getByte :: "suart \<Rightarrow> (u8 \<times> suart) option" where
  "suart_getByte d =
     (case su_serio d of
        None \<Rightarrow> Some (0, d)
      | Some s \<Rightarrow> do { (b, s) \<leftarrow> getByte s; Some (b, d\<lparr>su_serio := Some s\<rparr>) })"

definition suart_want :: "suart \<Rightarrow> bool" where
  "suart_want d =
     (su_regs d (suart_reg SUART_REG_IRQ_STATUS) AND su_regs d (suart_reg SUART_REG_IRQ_ENABLE) \<noteq> 0)"

definition suart_assessIRQstatus :: "suart \<Rightarrow> suart \<times> bool" where
  "suart_assessIRQstatus d =
     (let want_irq = suart_want d in
      if \<not> su_irq_active d \<and> want_irq then (d\<lparr>su_irq_active := True\<rparr>, True)
      else if su_irq_active d \<and> \<not> want_irq then (d\<lparr>su_irq_active := False\<rparr>, False)
      else (d, False))"

definition suart_rx_flags :: "suart \<Rightarrow> suart" where
  "suart_rx_flags d = d\<lparr>su_regs := (su_regs d)
     (suart_reg SUART_REG_STATUS := su_regs d (suart_reg SUART_REG_STATUS) OR SUART_REG_STATUS_RXNE,
      suart_reg SUART_REG_IRQ_STATUS :=
        su_regs d (suart_reg SUART_REG_IRQ_STATUS) OR SUART_REG_IRQ_STATUS_RX)\<rparr>"

definition suart_asyncRxCB :: "suart \<Rightarrow> suart \<times> bool" where
  "suart_asyncRxCB d = suart_assessIRQstatus (suart_rx_flags d)"

definition suart_read8 :: "u32 \<Rightarrow> suart \<Rightarrow> (u8 \<times> suart \<times> bool) option" where
  "suart_read8 addr d =
     (let reg = addr AND 0xf in
      do {
        (data, d) \<leftarrow>
          (if reg = SUART_REG_RX
             then do { (data, d) \<leftarrow> suart_getByte d;
                       Some (data, d\<lparr>su_regs := (su_regs d)(suart_reg SUART_REG_STATUS :=
                          su_regs d (suart_reg SUART_REG_STATUS) AND NOT SUART_REG_STATUS_RXNE)\<rparr>) }
           else if reg = SUART_REG_STATUS \<or> reg = SUART_REG_IRQ_STATUS \<or> reg = SUART_REG_IRQ_ENABLE
             then Some (su_regs d (suart_reg reg), d)
           else None);
        let (d, raised) = suart_assessIRQstatus d;
        Some (data, d, raised)
      })"

definition suart_write8 :: "u32 \<Rightarrow> u8 \<Rightarrow> suart \<Rightarrow> (suart \<times> bool) option" where
  "suart_write8 addr data d =
     (let reg = addr AND 0xf in
      do {
        d \<leftarrow>
          (if reg = SUART_REG_TX then Some (suart_sendByte data d)
           else if reg = SUART_REG_IRQ_STATUS
             then Some (d\<lparr>su_regs := (su_regs d)(suart_reg reg :=
                          su_regs d (suart_reg reg) AND NOT data)\<rparr>)
           else if reg = SUART_REG_IRQ_ENABLE
             then Some (d\<lparr>su_regs := (su_regs d)(suart_reg reg := data)\<rparr>)
           else None);
        Some (suart_assessIRQstatus d)
      })"

subsection \<open>Interrupts\<close>

lemma suart_want_active [simp]: "suart_want (d\<lparr>su_irq_active := b\<rparr>) = suart_want d"
  by (simp add: suart_want_def)

interpretation su: edge_source suart_assessIRQstatus suart_want su_irq_active
  by unfold_locales (simp_all add: suart_assessIRQstatus_def Let_def)

text \<open>Between operations the remembered level is the wanted level.\<close>

definition suart_inv :: "suart \<Rightarrow> bool" where
  "suart_inv d \<longleftrightarrow> (su_irq_active d \<longleftrightarrow> suart_want d)"

lemma suart_assess_inv: "suart_inv (fst (suart_assessIRQstatus d))"
  by (simp add: suart_inv_def suart_assessIRQstatus_def Let_def)

lemma suart_ops_inv:
  "suart_inv (fst (suart_asyncRxCB d))"
  "suart_read8 addr d = Some (v, d', r) \<Longrightarrow> suart_inv d'"
  "suart_write8 addr data d = Some (d', r) \<Longrightarrow> suart_inv d'"
  by (auto simp: suart_asyncRxCB_def suart_assess_inv suart_read8_def suart_write8_def Let_def
      case_prod_beta elim!: bind_SomeE)
    (metis suart_assess_inv fst_conv)+

text \<open>A read or write ends with an assessment; no operation changes where the interrupt goes.\<close>

lemma suart_read8_assess:
  assumes "suart_read8 addr d = Some (v, d', raised)"
  obtains e where "suart_assessIRQstatus e = (d', raised)" and "su_irq_active e = su_irq_active d"
    and "su_intc e = su_intc d" and "su_irq_number e = su_irq_number d" and "(su_serio e = None) = (su_serio d = None)"
  using assms
  by (auto simp: suart_read8_def Let_def suart_getByte_def
      split: if_splits option.splits prod.splits elim!: bind_SomeE)

lemma suart_write8_assess:
  assumes "suart_write8 addr data d = Some (d', raised)"
  obtains e where "suart_assessIRQstatus e = (d', raised)" and "su_irq_active e = su_irq_active d"
    and "su_intc e = su_intc d" and "su_irq_number e = su_irq_number d" and "(su_serio e = None) = (su_serio d = None)"
  using assms
  by (auto simp: suart_write8_def Let_def suart_sendByte_def split: if_splits elim!: bind_SomeE)

lemma suart_assess_wired:
  assumes "suart_assessIRQstatus e = (d, r)"
  shows "su_intc d = su_intc e" and "su_irq_number d = su_irq_number e" and "su_serio d = su_serio e"
  using assms by (auto simp: suart_assessIRQstatus_def Let_def split: if_splits)

lemma suart_wired:
  "suart_read8 addr d = Some (v, d', r) \<Longrightarrow>
     su_intc d' = su_intc d \<and> su_irq_number d' = su_irq_number d \<and> (su_serio d' = None) = (su_serio d = None)"
  "suart_write8 addr data d = Some (d', r) \<Longrightarrow>
     su_intc d' = su_intc d \<and> su_irq_number d' = su_irq_number d \<and> (su_serio d' = None) = (su_serio d = None)"
  by (auto elim!: suart_read8_assess suart_write8_assess dest: suart_assess_wired)

end
