(* ===== verification/Dev_Uart.thy ===== *)
theory Dev_Uart
  imports Irq_Edge
begin

section \<open>The 16550-like UART: \<open>DevUart\<close>\<close>

text \<open>
  Class \<open>DevUart\<close> of \<open>DevUart.h\<close> and \<open>DevUart.cc\<close>.  The array \<open>regs\<close>
  holds page 0 at 0 to 7 and page 1 (DLL, DLM and, as the code notes, IIR) at 8 and up.
  As for the other UART, the mutex is the atomicity of the operations, the copy on the
  simulator's standard output is left out, and an operation returns whether it raised the
  interrupt.
\<close>

definition UART_REG_RBR :: nat where [simp]: "UART_REG_RBR = 0"
definition UART_REG_THR :: nat where [simp]: "UART_REG_THR = UART_REG_RBR"
definition UART_REG_IER :: nat where [simp]: "UART_REG_IER = 1"
definition UART_REG_IER_RXDA :: u8 where [simp]: "UART_REG_IER_RXDA = 0x01"
definition UART_REG_IER_THRE :: u8 where [simp]: "UART_REG_IER_THRE = 0x02"
definition UART_REG_FCR :: nat where [simp]: "UART_REG_FCR = 2"
definition UART_REG_LCR :: nat where [simp]: "UART_REG_LCR = 3"
definition UART_REG_LCR_DLAB :: u8 where [simp]: "UART_REG_LCR_DLAB = 0x80"
definition UART_REG_MCR :: nat where [simp]: "UART_REG_MCR = 4"
definition UART_REG_LSR :: nat where [simp]: "UART_REG_LSR = 5"
definition UART_REG_LSR_DR :: u8 where [simp]: "UART_REG_LSR_DR = 0x01"
definition UART_REG_LSR_THRE :: u8 where [simp]: "UART_REG_LSR_THRE = 0x20"
definition UART_REG_LSR_TEMT :: u8 where [simp]: "UART_REG_LSR_TEMT = 0x40"
definition UART_REG_LSR_DEFAULT :: u8 where
  [simp]: "UART_REG_LSR_DEFAULT = UART_REG_LSR_THRE OR UART_REG_LSR_TEMT"
definition UART_REG_MSR :: nat where [simp]: "UART_REG_MSR = 6"
definition UART_REG_SCR :: nat where [simp]: "UART_REG_SCR = 7"
definition UART_REG_IIR :: nat where [simp]: "UART_REG_IIR = UART_REG_FCR"
definition UART_REG_DLL :: nat where [simp]: "UART_REG_DLL = UART_REG_RBR"
definition UART_REG_DLM :: nat where [simp]: "UART_REG_DLM = UART_REG_IER"

record uart =
  ua_base_address :: u32
  ua_address_span :: u32
  ua_regs :: "nat \<Rightarrow> u8"
  ua_intc :: bool
  ua_irq_number :: nat
  ua_irq_active :: bool
  ua_serio :: "serial option"
  ua_thre_reported :: bool

definition uart_init :: "uart \<Rightarrow> uart" where
  "uart_init d = d\<lparr>ua_regs := (ua_regs d)
     (UART_REG_RBR := 0, UART_REG_IER := 0, UART_REG_FCR := 0, UART_REG_LCR := 0,
      UART_REG_MCR := 0, UART_REG_LSR := UART_REG_LSR_DEFAULT, UART_REG_MSR := 0,
      UART_REG_SCR := 0,
      8 + UART_REG_IIR := 0x01, 8 + UART_REG_DLL := 0x45, 8 + UART_REG_DLM := 0x01)\<rparr>"

definition isPage1 :: "uart \<Rightarrow> bool" where
  "isPage1 d = (ua_regs d UART_REG_LCR AND UART_REG_LCR_DLAB \<noteq> 0)"

definition uart_sendByte :: "u8 \<Rightarrow> uart \<Rightarrow> uart" where
  "uart_sendByte data d = d\<lparr>ua_serio := map_option (putByte data) (ua_serio d)\<rparr>"

definition uart_getByte :: "uart \<Rightarrow> (u8 \<times> uart) option" where
  "uart_getByte d =
     (case ua_serio d of
        None \<Rightarrow> Some (0, d)
      | Some s \<Rightarrow> do { (b, s) \<leftarrow> getByte s; Some (b, d\<lparr>ua_serio := Some s\<rparr>) })"

definition uart_dr_irq :: "uart \<Rightarrow> bool" where
  "uart_dr_irq d = (ua_regs d UART_REG_LSR AND UART_REG_LSR_DR \<noteq> 0 \<and>
                    ua_regs d UART_REG_IER AND UART_REG_IER_RXDA \<noteq> 0)"

definition uart_thre_irq :: "uart \<Rightarrow> bool" where
  "uart_thre_irq d = (ua_regs d UART_REG_LSR AND UART_REG_LSR_THRE \<noteq> 0 \<and>
                      ua_regs d UART_REG_IER AND UART_REG_IER_THRE \<noteq> 0 \<and>
                      \<not> ua_thre_reported d)"

definition uart_want :: "uart \<Rightarrow> bool" where
  "uart_want d = (uart_dr_irq d \<or> uart_thre_irq d)"

definition uart_assessIRQstatus :: "uart \<Rightarrow> uart \<times> bool" where
  "uart_assessIRQstatus d =
     (let dr_irq = uart_dr_irq d;
          thre_irq = uart_thre_irq d;
          want_irq = (dr_irq \<or> thre_irq);
          d = d\<lparr>ua_regs := (ua_regs d)(8 + UART_REG_IIR :=
                 (if dr_irq then 4 else if thre_irq then 2 else 1))\<rparr>
      in if \<not> ua_irq_active d \<and> want_irq then
           (d\<lparr>ua_irq_active := True,
              ua_thre_reported :=
                (if thre_irq \<and> \<not> ua_thre_reported d then True else ua_thre_reported d)\<rparr>, True)
         else if ua_irq_active d \<and> \<not> want_irq then (d\<lparr>ua_irq_active := False\<rparr>, False)
         else (d, False))"

definition uart_asyncRxCB :: "uart \<Rightarrow> uart \<times> bool" where
  "uart_asyncRxCB d = uart_assessIRQstatus
     (d\<lparr>ua_regs := (ua_regs d)(UART_REG_LSR := ua_regs d UART_REG_LSR OR UART_REG_LSR_DR)\<rparr>)"

definition uart_read8 :: "u32 \<Rightarrow> uart \<Rightarrow> (u8 \<times> uart \<times> bool) option" where
  "uart_read8 addr d =
     (let reg = unat (addr AND 0x7) in
      do {
        (data, d) \<leftarrow>
          (if reg = UART_REG_THR then
             if isPage1 d then Some (ua_regs d (8 + reg), d)
             else do { (data, d) \<leftarrow> uart_getByte d;
                       Some (data, d\<lparr>ua_regs := (ua_regs d)(UART_REG_LSR :=
                         ua_regs d UART_REG_LSR AND NOT UART_REG_LSR_DR)\<rparr>) }
           else if reg = UART_REG_IER then
             Some (if isPage1 d then ua_regs d (8 + reg) else ua_regs d reg, d)
           else if reg = UART_REG_IIR then Some (ua_regs d (8 + reg), d)
           else if reg \<in> {UART_REG_LCR, UART_REG_MCR, UART_REG_LSR, UART_REG_MSR, UART_REG_SCR}
             then Some (ua_regs d reg, d)
           else None);
        let (d, raised) = uart_assessIRQstatus d;
        Some (data, d, raised)
      })"

definition uart_write8 :: "u32 \<Rightarrow> u8 \<Rightarrow> uart \<Rightarrow> (uart \<times> bool) option" where
  "uart_write8 addr data d =
     (let reg = unat (addr AND 0x7) in
      do {
        (d, sent_byte) \<leftarrow>
          (if reg = UART_REG_THR then
             if isPage1 d then Some (d\<lparr>ua_regs := (ua_regs d)(8 + reg := data)\<rparr>, False)
             else Some (uart_sendByte data d, True)
           else if reg = UART_REG_IER then
             if isPage1 d then Some (d\<lparr>ua_regs := (ua_regs d)(8 + reg := data)\<rparr>, False)
             else Some (d\<lparr>ua_regs := (ua_regs d)(reg := data)\<rparr>, False)
           else if reg \<in> {UART_REG_FCR, UART_REG_LCR, UART_REG_MCR, UART_REG_LSR,
                          UART_REG_MSR, UART_REG_SCR}
             then Some (d\<lparr>ua_regs := (ua_regs d)(reg := data)\<rparr>, False)
           else None);
        let d = (if sent_byte then d\<lparr>ua_thre_reported := False\<rparr> else d);
        Some (uart_assessIRQstatus d)
      })"

subsection \<open>Interrupts\<close>

interpretation ua: edge_source uart_assessIRQstatus uart_want ua_irq_active
  by unfold_locales (simp_all add: uart_assessIRQstatus_def uart_want_def Let_def)

text \<open>The identification register names the cause of the interrupt, receive data first,
  or says that there is none.\<close>

definition uart_IIR_for :: "uart \<Rightarrow> u8" where
  "uart_IIR_for d = (if uart_dr_irq d then 4 else if uart_thre_irq d then 2 else 1)"

lemma uart_assess_IIR:
  "ua_regs (fst (uart_assessIRQstatus d)) (8 + UART_REG_IIR) = uart_IIR_for d"
  by (simp add: uart_assessIRQstatus_def uart_IIR_for_def Let_def)

lemma uart_assess_page0 [simp]:
  "i < 8 \<Longrightarrow> ua_regs (fst (uart_assessIRQstatus d)) i = ua_regs d i"
  "ua_serio (fst (uart_assessIRQstatus d)) = ua_serio d"
  by (simp_all add: uart_assessIRQstatus_def Let_def)

text \<open>A transmit-empty interrupt is reported once: right after it has been raised the
  condition is off until another byte is sent.\<close>

lemma uart_thre_once:
  "snd (uart_assessIRQstatus d) \<Longrightarrow> \<not> uart_thre_irq (fst (uart_assessIRQstatus d))"
  by (auto simp: uart_assessIRQstatus_def uart_thre_irq_def Let_def split: if_splits)

text \<open>The eight register numbers are all of the three address bits: no access is fatal.\<close>

lemma and_7_cases: "unat (x AND 7) \<in> {0, 1, 2, 3, 4, 5, 6, 7}" for x :: u32
proof -
  have "x AND 7 = x mod 8"
    using take_bit_eq_mask [of 3 x]
    by (simp add: mask_eq_exp_minus_1 take_bit_eq_mod)
  then have "unat (x AND 7) < 8" by (simp add: unat_mod)
  then show ?thesis by auto
qed

lemma uart_write8_total: "uart_write8 addr data d \<noteq> None"
  using and_7_cases [of addr] by (auto simp: uart_write8_def Let_def split: if_splits)

end
