(* ===== verification/Dev_GPIO.thy ===== *)
theory Dev_GPIO
  imports MR_Prelude
begin

section \<open>General-purpose I/O: \<open>DevGPIO\<close>\<close>

text \<open>
  Class \<open>DevGPIO\<close> of \<open>DevGPIO.h\<close> and \<open>DevGPIO.cc\<close>: an output latch with
  set and clear registers, and the inputs.  An address whose low four bits are none of
  the four registers is fatal, and so are the 8- and 16-bit accessors.
\<close>

definition GPIO_REG_OUT :: u32 where [simp]: "GPIO_REG_OUT = 0x00"
definition GPIO_REG_OUT_W1S :: u32 where [simp]: "GPIO_REG_OUT_W1S = 0x04"
definition GPIO_REG_OUT_W1C :: u32 where [simp]: "GPIO_REG_OUT_W1C = 0x08"
definition GPIO_REG_IN :: u32 where [simp]: "GPIO_REG_IN = 0x0c"

record gpio =
  gp_base_address :: u32
  gp_address_span :: u32
  gp_out_state :: u32
  gp_in_state :: u32

definition gpio_read32 :: "gpio \<Rightarrow> u32 \<Rightarrow> u32 option" where
  "gpio_read32 d addr =
     (let reg = addr AND 0xf in
      if reg = GPIO_REG_OUT \<or> reg = GPIO_REG_OUT_W1S \<or> reg = GPIO_REG_OUT_W1C
        then Some (gp_out_state d)
      else if reg = GPIO_REG_IN then Some (gp_in_state d)
      else None)"

definition gpio_write32 :: "u32 \<Rightarrow> u32 \<Rightarrow> gpio \<Rightarrow> gpio option" where
  "gpio_write32 addr data d =
     (let reg = addr AND 0xf in
      if reg = GPIO_REG_OUT then Some (d\<lparr>gp_out_state := data\<rparr>)
      else if reg = GPIO_REG_OUT_W1S then Some (d\<lparr>gp_out_state := gp_out_state d OR data\<rparr>)
      else if reg = GPIO_REG_OUT_W1C then Some (d\<lparr>gp_out_state := gp_out_state d AND NOT data\<rparr>)
      else if reg = GPIO_REG_IN then Some d
      else None)"

lemma gpio_write_out_bit:
  assumes "gpio_write32 addr data d = Some d'"
  shows "bit (gp_out_state d') n \<longleftrightarrow>
    (if addr AND 0xf = 0 then bit data n
     else if addr AND 0xf = 4 then bit (gp_out_state d) n \<or> bit data n
     else if addr AND 0xf = 8 then bit (gp_out_state d) n \<and> \<not> bit data n
     else bit (gp_out_state d) n)"
  using assms
  by (cases "n < 32") (auto simp: gpio_write32_def Let_def bit_simps split: if_splits)

end
