(* ===== verification/Dev_SDCard.thy ===== *)
theory Dev_SDCard
  imports Host_Mem
begin

section \<open>The SD card: \<open>DevSDCard\<close>\<close>

text \<open>
  Class \<open>DevSDCard\<close> of \<open>DevSDCard.h\<close> and \<open>DevSDCard.cc\<close>: the command
  state machine of a card, the CRC-7 of commands and responses, the CID, CSD and status
  blocks, and block reads and writes on an image file.  Field \<open>x\<close> of the class is
  \<open>sd_x\<close>; \<open>sd_fd\<close> says whether a file is open (the code's test is \<open>fd == -1\<close>).
  The four response words are a list.

  The image file is the operating system's: \<open>pread\<close> (its size and offset arguments to the
  bytes it puts into the buffer, \<open>None\<close> for an error) and \<open>pwrite\<close> (the bytes and the
  offset to its return value and the changed file) are arguments.  Warnings and traces are left out, and with them
  \<open>checkRCA\<close> and the checks of odd sizes, which only warn.
\<close>

subsection \<open>CRC-7\<close>

definition crc7_tab :: "u8 list" where
  "crc7_tab =
    [
     0x00, 0x12, 0x24, 0x36, 0x48, 0x5a, 0x6c, 0x7e, 0x90, 0x82, 0xb4, 0xa6, 0xd8, 0xca, 0xfc, 0xee,
     0x32, 0x20, 0x16, 0x04, 0x7a, 0x68, 0x5e, 0x4c, 0xa2, 0xb0, 0x86, 0x94, 0xea, 0xf8, 0xce, 0xdc,
     0x64, 0x76, 0x40, 0x52, 0x2c, 0x3e, 0x08, 0x1a, 0xf4, 0xe6, 0xd0, 0xc2, 0xbc, 0xae, 0x98, 0x8a,
     0x56, 0x44, 0x72, 0x60, 0x1e, 0x0c, 0x3a, 0x28, 0xc6, 0xd4, 0xe2, 0xf0, 0x8e, 0x9c, 0xaa, 0xb8,
     0xc8, 0xda, 0xec, 0xfe, 0x80, 0x92, 0xa4, 0xb6, 0x58, 0x4a, 0x7c, 0x6e, 0x10, 0x02, 0x34, 0x26,
     0xfa, 0xe8, 0xde, 0xcc, 0xb2, 0xa0, 0x96, 0x84, 0x6a, 0x78, 0x4e, 0x5c, 0x22, 0x30, 0x06, 0x14,
     0xac, 0xbe, 0x88, 0x9a, 0xe4, 0xf6, 0xc0, 0xd2, 0x3c, 0x2e, 0x18, 0x0a, 0x74, 0x66, 0x50, 0x42,
     0x9e, 0x8c, 0xba, 0xa8, 0xd6, 0xc4, 0xf2, 0xe0, 0x0e, 0x1c, 0x2a, 0x38, 0x46, 0x54, 0x62, 0x70,
     0x82, 0x90, 0xa6, 0xb4, 0xca, 0xd8, 0xee, 0xfc, 0x12, 0x00, 0x36, 0x24, 0x5a, 0x48, 0x7e, 0x6c,
     0xb0, 0xa2, 0x94, 0x86, 0xf8, 0xea, 0xdc, 0xce, 0x20, 0x32, 0x04, 0x16, 0x68, 0x7a, 0x4c, 0x5e,
     0xe6, 0xf4, 0xc2, 0xd0, 0xae, 0xbc, 0x8a, 0x98, 0x76, 0x64, 0x52, 0x40, 0x3e, 0x2c, 0x1a, 0x08,
     0xd4, 0xc6, 0xf0, 0xe2, 0x9c, 0x8e, 0xb8, 0xaa, 0x44, 0x56, 0x60, 0x72, 0x0c, 0x1e, 0x28, 0x3a,
     0x4a, 0x58, 0x6e, 0x7c, 0x02, 0x10, 0x26, 0x34, 0xda, 0xc8, 0xfe, 0xec, 0x92, 0x80, 0xb6, 0xa4,
     0x78, 0x6a, 0x5c, 0x4e, 0x30, 0x22, 0x14, 0x06, 0xe8, 0xfa, 0xcc, 0xde, 0xa0, 0xb2, 0x84, 0x96,
     0x2e, 0x3c, 0x0a, 0x18, 0x66, 0x74, 0x42, 0x50, 0xbe, 0xac, 0x9a, 0x88, 0xf6, 0xe4, 0xd2, 0xc0,
     0x1c, 0x0e, 0x38, 0x2a, 0x54, 0x46, 0x70, 0x62, 0x8c, 0x9e, 0xa8, 0xba, 0xc4, 0xd6, 0xe0, 0xf2
    ]"

definition crc7_step :: "u8 \<Rightarrow> u8 \<Rightarrow> u8" where
  "crc7_step c d = crc7_tab ! unat (c XOR d)"

text \<open>The loop over the five bytes of a command, the most significant first.\<close>

definition sd_crc7 :: "u64 \<Rightarrow> u8" where
  "sd_crc7 v = fold (\<lambda>i c. crc7_step c (ucast (drop_bit (32 - 8 * i) v AND 0xff))) [0..<5] 0"

text \<open>The 15 bytes are an array, its last element first.\<close>

definition sd_crc7_120 :: "u8 list \<Rightarrow> u8" where
  "sd_crc7_120 v = fold (\<lambda>i c. crc7_step c (v ! (14 - i))) [0..<15] 0"

subsection \<open>Commands\<close>

definition CMD0 :: u32 where [simp]: "CMD0 = 0x000"
definition CMD2 :: u32 where [simp]: "CMD2 = 0x202"
definition CMD3 :: u32 where [simp]: "CMD3 = 0x603"
definition CMD6 :: u32 where [simp]: "CMD6 = 0x106"
definition CMD7 :: u32 where [simp]: "CMD7 = 0xf07"
definition CMD8 :: u32 where [simp]: "CMD8 = 0x708"
definition CMD9 :: u32 where [simp]: "CMD9 = 0x209"
definition CMD12 :: u32 where [simp]: "CMD12 = 0xf0c"
definition CMD13 :: u32 where [simp]: "CMD13 = 0x10d"
definition CMD17 :: u32 where [simp]: "CMD17 = 0x111"
definition CMD18 :: u32 where [simp]: "CMD18 = 0x112"
definition CMD23 :: u32 where [simp]: "CMD23 = 0x117"
definition CMD24 :: u32 where [simp]: "CMD24 = 0x118"
definition CMD25 :: u32 where [simp]: "CMD25 = 0x119"
definition CMD55 :: u32 where [simp]: "CMD55 = 0x137"
definition ACMD13 :: u32 where [simp]: "ACMD13 = 0x10d"
definition ACMD41 :: u32 where [simp]: "ACMD41 = 0x329"
definition ACMD51 :: u32 where [simp]: "ACMD51 = 0x133"
definition ACMD6 :: u32 where [simp]: "ACMD6 = 0x106"

definition RCMD :: "u32 \<Rightarrow> u32" where
  "RCMD x = x AND 0xff"

definition RRESP :: "u32 \<Rightarrow> int" where
  "RRESP x = uint (drop_bit 8 x AND 0xf)"

definition SD_STATE_IDLE :: nat where [simp]: "SD_STATE_IDLE = 0"
definition SD_STATE_READY :: nat where [simp]: "SD_STATE_READY = 1"
definition SD_STATE_IDENT :: nat where [simp]: "SD_STATE_IDENT = 2"
definition SD_STATE_STBY :: nat where [simp]: "SD_STATE_STBY = 3"
definition SD_STATE_TRAN :: nat where [simp]: "SD_STATE_TRAN = 4"
definition SD_STATE_DATA :: nat where [simp]: "SD_STATE_DATA = 5"

record sdcard =
  sd_fd :: bool
  sd_image_blocks :: u32
  sd_acmd_pending :: bool
  sd_state :: nat
  sd_width :: nat
  sd_last_cmd :: u32
  sd_last_arg :: u32
  sd_last_acmd :: bool
  sd_offset :: u32
  sd_block_count :: u32

text \<open>\<open>init\<close>: the first argument is \<open>None\<close> without a file name, otherwise what
  \<open>open\<close> and \<open>fstat\<close> say: \<open>None\<close> if it cannot be opened, else the size in bytes.
  A failed \<open>open\<close> leaves \<open>fd\<close> at -1 and the other fields reset.\<close>

definition sdcard_init :: "nat option option \<Rightarrow> sdcard \<Rightarrow> bool \<times> sdcard" where
  "sdcard_init file c =
     (let c = c\<lparr>sd_state := SD_STATE_IDLE, sd_width := 1, sd_acmd_pending := False,
                sd_last_cmd := 0, sd_last_arg := 0, sd_offset := 0, sd_block_count := 0\<rparr>
      in case file of
           None \<Rightarrow> (True, c\<lparr>sd_image_blocks := 0\<rparr>)
         | Some None \<Rightarrow> (False, c\<lparr>sd_fd := False\<rparr>)
         | Some (Some st_size) \<Rightarrow>
             (True, c\<lparr>sd_fd := True, sd_image_blocks := of_nat (st_size div 512)\<rparr>))"

definition getStatus :: "sdcard \<Rightarrow> u32" where
  "getStatus c = push_bit 9 (of_nat (sd_state c)) OR (if sd_acmd_pending c then push_bit 5 1 else 0) OR
     push_bit 8 1"

subsection \<open>Responses\<close>

text \<open>Writing 16 bytes, the least significant of word 0 first.\<close>

definition words_of_bytes :: "u8 list \<Rightarrow> u32 list" where
  "words_of_bytes b = map (\<lambda>k. ucast (b ! (4 * k)) OR push_bit 8 (ucast (b ! (4 * k + 1))) OR
     push_bit 16 (ucast (b ! (4 * k + 2))) OR push_bit 24 (ucast (b ! (4 * k + 3)))) [0..<4]"

definition cid_bytes :: "u8 list" where
  "cid_bytes = [0x55, 0x01, 0x64, 0x63, 0x62, 0x61, 123, 0x20, 0x44, 0x53, 0x79, 0x4d, 0x4d, 0x45, 0x69]"

definition makeCID :: "u32 list" where
  "makeCID = words_of_bytes ((sd_crc7_120 cid_bytes OR 1) # cid_bytes)"

definition csd_bytes :: "u32 \<Rightarrow> u8 list" where
  "csd_bytes blocks =
     (let s = blocks div 1024 - 1
      in [0x00, 0x40, 0x0a, 0x80, 0x7f, ucast (s AND 0xff), ucast (drop_bit 8 (s AND 0xff00)),
          ucast (drop_bit 16 (s AND 0xff0000)), 0x00, 0x59, 0x5b, 0x0b, 0, 0x0e, 0x40])"

definition makeCSD :: "u32 \<Rightarrow> u32 list" where
  "makeCSD blocks = words_of_bytes ((sd_crc7_120 (csd_bytes blocks) OR 1) # csd_bytes blocks)"

definition makeResponse :: "u32 \<Rightarrow> u32 list \<Rightarrow> u32 \<Rightarrow> u32 list" where
  "makeResponse cmd r payload =
     (let content = push_bit 32 (ucast cmd AND 0x3f) OR ucast payload;
          crc = sd_crc7 content;
          content = push_bit 8 content OR ucast crc OR (1 :: u64)
      in r[0 := ucast (content AND 0xffffffff), 1 := ucast (drop_bit 32 content)])"

subsection \<open>Command execution\<close>

text \<open>The two \<open>switch\<close> statements: the response type (-1: not set), the subtype and the
  new state.\<close>

definition sd_cmd :: "u32 \<Rightarrow> u32 \<Rightarrow> sdcard \<Rightarrow> int \<times> int \<times> sdcard" where
  "sd_cmd cmd arg c =
    (if cmd = RCMD CMD0 then (RRESP CMD0, -1, c\<lparr>sd_state := SD_STATE_IDLE\<rparr>)
     else if cmd = RCMD CMD2 then (RRESP CMD2, 0, c\<lparr>sd_state := SD_STATE_IDENT\<rparr>)
     else if cmd = RCMD CMD3 then (RRESP CMD3, -1, c\<lparr>sd_state := SD_STATE_STBY\<rparr>)
     else if cmd = RCMD CMD8 then (RRESP CMD8, -1, c)
     else if cmd = RCMD CMD6 then (RRESP CMD6, -1, c\<lparr>sd_state := SD_STATE_DATA\<rparr>)
     else if cmd = RCMD CMD7 then (RRESP CMD7, -1, c\<lparr>sd_state := SD_STATE_TRAN\<rparr>)
     else if cmd = RCMD CMD9 then (RRESP CMD9, 1, c)
     else if cmd = RCMD CMD12 then (RRESP CMD12, -1, c\<lparr>sd_state := SD_STATE_TRAN\<rparr>)
     else if cmd = RCMD CMD13 then (RRESP CMD13, -1, c)
     else if cmd = RCMD CMD17 then (RRESP CMD17, -1, c\<lparr>sd_offset := arg * 512, sd_state := SD_STATE_DATA\<rparr>)
     else if cmd = RCMD CMD18 then (RRESP CMD18, -1, c\<lparr>sd_offset := arg * 512, sd_state := SD_STATE_DATA\<rparr>)
     else if cmd = RCMD CMD23 then (RRESP CMD23, -1, c\<lparr>sd_block_count := arg\<rparr>)
     else if cmd = RCMD CMD24 then (RRESP CMD24, -1, c\<lparr>sd_offset := arg * 512, sd_state := SD_STATE_DATA\<rparr>)
     else if cmd = RCMD CMD25 then (RRESP CMD25, -1, c\<lparr>sd_offset := arg * 512, sd_state := SD_STATE_DATA\<rparr>)
     else if cmd = RCMD CMD55 then (RRESP CMD55, -1, c\<lparr>sd_acmd_pending := True\<rparr>)
     else (-1, -1, c))"

definition sd_acmd :: "u32 \<Rightarrow> u32 \<Rightarrow> sdcard \<Rightarrow> int \<times> int \<times> sdcard" where
  "sd_acmd cmd arg c =
     (let (r_type, subtype, c) =
       (if cmd = RCMD ACMD41 then (RRESP ACMD41, -1, c\<lparr>sd_state := SD_STATE_READY\<rparr>)
        else if cmd = RCMD ACMD6 then
          (RRESP ACMD6, -1, if arg AND 1 = 0 then c\<lparr>sd_width := (if arg AND 2 \<noteq> 0 then 4 else 1)\<rparr> else c)
        else if cmd = RCMD ACMD51 then (RRESP ACMD51, -1, c\<lparr>sd_state := SD_STATE_DATA\<rparr>)
        else if cmd = RCMD ACMD13 then (RRESP ACMD13, -1, c\<lparr>sd_state := SD_STATE_DATA\<rparr>)
        else (-1, -1, c))
      in (r_type, subtype, c\<lparr>sd_acmd_pending := False\<rparr>))"

definition sd_respond :: "int \<Rightarrow> int \<Rightarrow> u32 \<Rightarrow> u32 \<Rightarrow> u32 list \<Rightarrow> sdcard \<Rightarrow> u32 list option" where
  "sd_respond r_type subtype cmd arg r c =
     (if r_type = 0xf \<or> r_type = 1 then Some (makeResponse cmd r (getStatus c))
      else if r_type = 2 then
        (if subtype = 0 then Some makeCID
         else if subtype = 1 then Some (makeCSD (sd_image_blocks c))
         else None)
      else if r_type = 3 then Some (makeResponse cmd r (0x80000000 OR 0x40000000 OR 0x00ff8000))
      else if r_type = 6 then Some (makeResponse cmd r 0xbeef0000)
      else if r_type = 7 then Some (makeResponse cmd r (arg AND 0xfff))
      else None)"

definition sd_command :: "u32 \<Rightarrow> u32 \<Rightarrow> u32 list \<Rightarrow> sdcard \<Rightarrow> (bool \<times> u32 list \<times> sdcard) option" where
  "sd_command cmd arg r c =
     (if \<not> sd_fd c then Some (False, r, c)
      else
        (let acmd = sd_acmd_pending c;
             c = c\<lparr>sd_last_cmd := cmd, sd_last_arg := arg, sd_last_acmd := acmd\<rparr>;
             (r_type, subtype, c) = (if \<not> acmd then sd_cmd cmd arg c else sd_acmd cmd arg c)
         in if r_type \<le> 0 then Some (False, r, c)
            else do { r \<leftarrow> sd_respond r_type subtype cmd arg r c; Some (True, r, c) }))"

subsection \<open>Data transfer\<close>

definition writeSCR :: "u8 list" where
  "writeSCR = [0x02, 0x05, 0x80, 0x02, 0, 0, 0, 0]"

definition writeStatus :: "nat \<Rightarrow> u8 list" where
  "writeStatus width = (replicate 64 0)[0 := if width = 4 then 0x80 else 0x00, 8 := 0x04, 9 := 0xff, 10 := 0x10]"

definition writeSwitchStatus :: "u8 list" where
  "writeSwitchStatus = (replicate 64 0)[1 := 2]"

text \<open>\<open>read\<close>: success, \<open>*err\<close>, the bytes put into the buffer, and the card.  A short
  read fails but has filled the buffer with what it got.\<close>

definition sd_read :: "(u32 \<Rightarrow> u32 \<Rightarrow> u8 list option) \<Rightarrow> u32 \<Rightarrow> nat \<Rightarrow> sdcard \<Rightarrow> bool \<times> nat \<times> u8 list \<times> sdcard" where
  "sd_read pread sz err c =
     (if sd_state c \<noteq> SD_STATE_DATA then (False, 0, [], c)
      else
        (let tran = c\<lparr>sd_state := SD_STATE_TRAN\<rparr>;
             transfer = (\<lambda>n. let got = (case pread n (sd_offset c) of None \<Rightarrow> [] | Some bs \<Rightarrow> bs)
               in if pread n (sd_offset c) = None \<or> length got \<noteq> unat n
                  then (False, 1, got, tran) else (True, err, got, tran))
         in if sd_last_acmd c \<and> sd_last_cmd c = RCMD ACMD51 then (True, err, writeSCR, tran)
            else if sd_last_acmd c \<and> sd_last_cmd c = RCMD ACMD13 then (True, err, writeStatus (sd_width c), tran)
            else if \<not> sd_last_acmd c \<and> sd_last_cmd c = RCMD CMD6 then (True, err, writeSwitchStatus, tran)
            else if \<not> sd_last_acmd c \<and> sd_last_cmd c = RCMD CMD17 then transfer 512
            else if \<not> sd_last_acmd c \<and> sd_last_cmd c = RCMD CMD18 then transfer sz
            else (False, 1, [], tran)))"

text \<open>\<open>write\<close>: success, \<open>*err\<close>, the card and the file.  \<open>data_in n\<close> is the
  first \<open>n\<close> bytes of the buffer.\<close>

definition sd_write :: "(u8 list \<Rightarrow> u32 \<Rightarrow> 'f \<Rightarrow> int \<times> 'f) \<Rightarrow> (u32 \<Rightarrow> u8 list) \<Rightarrow> u32 \<Rightarrow> nat \<Rightarrow>
    sdcard \<Rightarrow> 'f \<Rightarrow> bool \<times> nat \<times> sdcard \<times> 'f" where
  "sd_write pwrite data_in sz err c f =
     (if sd_state c \<noteq> SD_STATE_DATA then (False, 0, c, f)
      else
        (let tran = c\<lparr>sd_state := SD_STATE_TRAN\<rparr>;
             transfer = (\<lambda>n. let (r, f) = pwrite (data_in n) (sd_offset c) f
               in if r \<noteq> uint n then (False, 1, tran, f) else (True, err, tran, f))
         in if \<not> sd_last_acmd c \<and> sd_last_cmd c = RCMD CMD24 then transfer 512
            else if \<not> sd_last_acmd c \<and> sd_last_cmd c = RCMD CMD25 then transfer sz
            else (False, 1, tran, f)))"

subsection \<open>CRC-7, bit by bit\<close>

text \<open>The reference: the register of the generator polynomial \<open>x^7 + x^3 + 1\<close>, kept in
  the upper seven bits of a byte, shifted once for each bit of the message.\<close>

definition crc7_shift :: "u8 \<Rightarrow> u8" where
  "crc7_shift c = (if bit c 7 then push_bit 1 c XOR 0x12 else push_bit 1 c)"

definition crc7_bit :: "bool \<Rightarrow> u8 \<Rightarrow> u8" where
  "crc7_bit b c = crc7_shift (if b then c XOR 0x80 else c)"

definition crc7_of_bits :: "bool list \<Rightarrow> u8" where
  "crc7_of_bits bs = fold crc7_bit bs 0"

definition bits_msb :: "u8 \<Rightarrow> bool list" where
  "bits_msb d = map (\<lambda>k. bit d (7 - k)) [0..<8]"

lemma crc7_shift_xor: "crc7_shift (a XOR b) = crc7_shift a XOR crc7_shift b"
  by (auto simp: crc7_shift_def blast8)

lemma crc7_bit_alt: "crc7_bit b c = crc7_shift (c XOR (if b then 0x80 else 0))"
  by (simp add: crc7_bit_def)

lemma crc7_pow_zero: "(crc7_shift ^^ k) 0 = 0"
  by (induction k) (simp_all add: crc7_shift_def)

lemma crc7_pow_xor: "(crc7_shift ^^ k) (a XOR b) = (crc7_shift ^^ k) a XOR (crc7_shift ^^ k) b"
  by (induction k) (simp_all add: crc7_shift_xor)

text \<open>The table doubles: its second half is the first one XORed with the entry of the new bit.\<close>

definition grow :: "u8 list \<Rightarrow> u8 \<Rightarrow> u8 list" where
  "grow T b = T @ map (\<lambda>t. b XOR t) T"

lemma exp_xor: "i < 2 ^ n \<Longrightarrow> (of_nat (2 ^ n + i) :: u8) = push_bit n 1 XOR of_nat i"
proof -
  assume i: "i < 2 ^ n"
  have "\<not> bit i m" if "n \<le> m" for m
    using i that less_le_trans [OF i, of "2 ^ m"] by (simp add: bit_iff_odd div_eq_0_iff)
  then have "(push_bit n 1 :: u8) AND of_nat i = 0"
    by (auto simp: word8_eq_bits bit_simps bit_1_iff)
  then have "(push_bit n 1 :: u8) + of_nat i = push_bit n 1 XOR of_nat i"
    by (simp add: disjunctive_add_eq_xor)
  then show ?thesis by simp
qed

lemma grow_bits:
  assumes "T = map (\<lambda>i. (crc7_shift ^^ 8) (of_nat i)) [0..<2 ^ n]"
  shows "grow T ((crc7_shift ^^ 8) (push_bit n 1)) = map (\<lambda>i. (crc7_shift ^^ 8) (of_nat i)) [0..<2 ^ Suc n]"
proof -
  have "[0..<2 ^ Suc n] = [0..<2 ^ n] @ map (\<lambda>i. 2 ^ n + i) [0..<2 ^ n]"
    using upt_add_eq_append [of 0 "2 ^ n" "2 ^ n"] map_add_upt [of "2 ^ n" "2 ^ n"]
    by (simp add: mult_2 add.commute)
  then show ?thesis
    unfolding assms grow_def map_append map_map comp_def
    by (simp add: exp_xor crc7_pow_xor del: funpow.simps of_nat_add)
qed

lemma crc7_basis:
  "map (\<lambda>n. (crc7_shift ^^ 8) (push_bit n 1)) [0, 1, 2, 3, 4, 5, 6, 7] =
     [0x12, 0x24, 0x48, 0x90, 0x32, 0x64, 0xc8, 0x82]"
  by code_simp

lemma crc7_tab_grown: "crc7_tab = foldl grow [0] [0x12, 0x24, 0x48, 0x90, 0x32, 0x64, 0xc8, 0x82]"
  by (simp add: crc7_tab_def grow_def)

lemma crc7_table_bits: "x < 256 \<Longrightarrow> crc7_tab ! x = (crc7_shift ^^ 8) (of_nat x)"
proof -
  have "foldl grow [0] (map (\<lambda>n. (crc7_shift ^^ 8) (push_bit n 1)) [0..<n]) =
      map (\<lambda>i. (crc7_shift ^^ 8) (of_nat i)) [0..<2 ^ n]" for n
  proof (induction n)
    case 0
    show ?case by (simp add: crc7_pow_zero del: funpow.simps)
  next
    case (Suc n)
    then show ?case using grow_bits [OF Suc] by (simp del: funpow.simps power_Suc)
  qed
  from this [of 8] have "crc7_tab = map (\<lambda>i. (crc7_shift ^^ 8) (of_nat i)) [0..<2 ^ 8]"
    unfolding crc7_tab_grown crc7_basis [symmetric] by (simp add: upt_rec)
  then have T: "crc7_tab = map (\<lambda>i. (crc7_shift ^^ 8) (of_nat i)) [0..<256]"
    by (simp del: funpow.simps)
  assume "x < 256"
  then show ?thesis unfolding T by (subst nth_map) (simp_all del: funpow.simps)
qed

lemma crc7_pow_top: "k < 8 \<Longrightarrow> (crc7_shift ^^ k) (push_bit (7 - k) 1) = 0x80"
proof -
  have "\<forall>k<8. (crc7_shift ^^ k) (push_bit (7 - k) 1) = (0x80 :: u8)"
    unfolding all_less_8 by code_simp
  then show "k < 8 \<Longrightarrow> (crc7_shift ^^ k) (push_bit (7 - k) 1) = 0x80" by simp
qed

lemma crc7_bits_prefix:
  "n \<le> 8 \<Longrightarrow> fold crc7_bit (map (\<lambda>k. bit d (7 - k)) [0..<n]) c =
     (crc7_shift ^^ n) (c XOR (d AND NOT (mask (8 - n))))"
proof (induction n)
  case 0
  have "d AND NOT (mask 8) = 0" by (simp add: blast8)
  then show ?case by simp
next
  case (Suc n)
  then have n: "n < 8" by simp
  have split: "d AND NOT (mask (8 - Suc n)) =
      (d AND NOT (mask (8 - n))) XOR (if bit d (7 - n) then push_bit (7 - n) 1 else 0)"
  proof -
    have "\<exists>p. 8 - Suc n = p \<and> 8 - n = Suc p \<and> 7 - n = p \<and> p < 8"
      using n by (intro exI [of _ "7 - n"]) arith
    then obtain p where p: "8 - Suc n = p" "8 - n = Suc p" "7 - n = p" "p < 8" by blast
    show ?thesis unfolding p by (rule bit_word_eqI) (use p(4) in \<open>auto simp: bit_simps bit_1_iff less_Suc_eq\<close>)
  qed
  let ?y = "c XOR (d AND NOT (mask (8 - n)))"
  let ?z = "if bit d (7 - n) then push_bit (7 - n) 1 else 0 :: u8"
  have "fold crc7_bit (map (\<lambda>k. bit d (7 - k)) [0..<Suc n]) c =
      crc7_bit (bit d (7 - n)) ((crc7_shift ^^ n) ?y)"
    using Suc by simp
  also have "\<dots> = crc7_shift ((crc7_shift ^^ n) ?y XOR (crc7_shift ^^ n) ?z)"
    using crc7_pow_top [OF n] by (simp add: crc7_bit_alt crc7_pow_zero)
  also have "\<dots> = (crc7_shift ^^ Suc n) (?y XOR ?z)"
    by (simp only: crc7_pow_xor [symmetric] funpow.simps comp_def)
  also have "?y XOR ?z = c XOR (d AND NOT (mask (8 - Suc n)))"
    by (simp only: split xor.assoc)
  finally show ?case .
qed

lemma crc7_step_bits: "crc7_step c d = fold crc7_bit (bits_msb d) c"
proof -
  have "fold crc7_bit (bits_msb d) c = (crc7_shift ^^ 8) (c XOR d)"
    using crc7_bits_prefix [of 8 d c] by (simp add: bits_msb_def)
  moreover have "crc7_tab ! unat (c XOR d) = (crc7_shift ^^ 8) (c XOR d)"
    using crc7_table_bits [of "unat (c XOR d)"] unsigned_less [of "c XOR d"] by simp
  ultimately show ?thesis by (simp add: crc7_step_def)
qed

definition command_bytes :: "u64 \<Rightarrow> u8 list" where
  "command_bytes v = map (\<lambda>i. ucast (drop_bit (32 - 8 * i) v)) [0..<5]"

lemma ucast_and_ff: "(ucast (v AND 0xff) :: u8) = ucast v" for v :: u64
  by (simp add: blast8)

lemma fold_concat_map: "fold f (concat (map g xs)) c = fold (\<lambda>x c. fold f (g x) c) xs c"
  by (induction xs arbitrary: c) simp_all

lemma sd_crc7_bits: "sd_crc7 v = crc7_of_bits (concat (map bits_msb (command_bytes v)))"
  by (simp add: sd_crc7_def crc7_of_bits_def command_bytes_def fold_concat_map crc7_step_bits
      ucast_and_ff fold_map comp_def)

lemma sd_crc7_120_bits:
  assumes "length v = 15"
  shows "sd_crc7_120 v = crc7_of_bits (concat (map bits_msb (rev v)))"
proof -
  have "rev v = map (\<lambda>i. v ! (14 - i)) [0..<15]"
    using assms by (intro nth_equalityI) (simp_all add: rev_nth)
  then show ?thesis
    by (simp add: sd_crc7_120_def crc7_of_bits_def fold_concat_map crc7_step_bits fold_map comp_def)
qed

end
