(* ===== verification/Dev_SPI.thy ===== *)
theory Dev_SPI
  imports MR_Prelude
begin

section \<open>The SPI controller \<open>DevSPI\<close> and the pin-driven device \<open>SPIDevGPIO\<close>\<close>

text \<open>
  Class \<open>DevSPI\<close> of \<open>DevSPI.h\<close> and \<open>DevSPI.cc\<close>; the device behind
  \<open>AbstractSPIDev\<close> is \<open>SPIDevGPIO\<close> of \<open>SPIDevGPIO.cc\<close>, the only one in the
  source, which drives four pins.  The pin library \<open>pigpio\<close> is not part of the source:
  what is written to the pins is the trace of \<open>gpioWrite\<close> calls (oldest first), and what
  \<open>gpioRead\<close> of the input pin returns is a function \<open>din\<close> of the trace so far.
  \<open>spidev\<close> is \<open>None\<close> for the null pointer.
\<close>

definition GPIO_DOUT :: nat where [simp]: "GPIO_DOUT = 7"
definition GPIO_DIN :: nat where [simp]: "GPIO_DIN = 8"
definition GPIO_CLK :: nat where [simp]: "GPIO_CLK = 9"
definition GPIO_CS :: nat where [simp]: "GPIO_CS = 10"

type_synonym pins = "(nat \<times> bool) list"

record spidev_gpio =
  sg_cpol :: bool
  sg_cpha :: bool
  sg_clkdiv :: u8
  sg_pins :: pins

definition gpioWrite :: "nat \<Rightarrow> bool \<Rightarrow> spidev_gpio \<Rightarrow> spidev_gpio" where
  "gpioWrite pin v d = d\<lparr>sg_pins := sg_pins d @ [(pin, v)]\<rparr>"

definition setClk :: "bool \<Rightarrow> spidev_gpio \<Rightarrow> spidev_gpio" where
  "setClk on d = gpioWrite GPIO_CLK (on \<noteq> sg_cpol d) d"

definition spi_setConfig :: "bool \<Rightarrow> bool \<Rightarrow> u8 \<Rightarrow> spidev_gpio \<Rightarrow> spidev_gpio" where
  "spi_setConfig cpol cpha clkdiv d =
     setClk False (d\<lparr>sg_cpol := cpol, sg_cpha := cpha, sg_clkdiv := clkdiv\<rparr>)"

definition spi_setCS :: "bool \<Rightarrow> spidev_gpio \<Rightarrow> spidev_gpio" where
  "spi_setCS v d = gpioWrite GPIO_CS v d"

text \<open>One round of the loop of \<open>getPutByte\<close>.\<close>

definition spi_bit :: "(pins \<Rightarrow> bool) \<Rightarrow> u8 \<Rightarrow> nat \<Rightarrow> u8 \<times> bool \<times> spidev_gpio \<Rightarrow> u8 \<times> bool \<times> spidev_gpio" where
  "spi_bit din b n = (\<lambda>(r, clk, d).
     let d = gpioWrite GPIO_DOUT (b AND push_bit n 1 \<noteq> 0) d;
         r = push_bit 1 r OR (if din (sg_pins d) then 1 else 0);
         clk = (\<not> clk);
         d = setClk clk d
     in if \<not> (sg_cpha d \<and> n = 0) then (r, \<not> clk, setClk (\<not> clk) d) else (r, clk, d))"

definition getPutByte :: "(pins \<Rightarrow> bool) \<Rightarrow> u8 \<Rightarrow> spidev_gpio \<Rightarrow> u8 \<times> spidev_gpio" where
  "getPutByte din b d =
     (let clk = sg_cpha d;
          (r, clk, d) = fold (spi_bit din b) (rev [0..<8]) (0, clk, setClk clk d)
      in (r, setClk False d))"

subsection \<open>The controller\<close>

definition DEVSPI_REG_CTRL :: u32 where [simp]: "DEVSPI_REG_CTRL = 0x00"
definition DEVSPI_REG_CTRL_CPOL :: u32 where [simp]: "DEVSPI_REG_CTRL_CPOL = 0x00000001"
definition DEVSPI_REG_CTRL_CPHA :: u32 where [simp]: "DEVSPI_REG_CTRL_CPHA = 0x00000002"
definition DEVSPI_REG_CTRL_RUN_A :: u32 where [simp]: "DEVSPI_REG_CTRL_RUN_A = 0x00000080"
definition DEVSPI_REG_CTRL_XFLEN_A_SHIFT :: nat where [simp]: "DEVSPI_REG_CTRL_XFLEN_A_SHIFT = 8"
definition DEVSPI_REG_CTRL_XFLEN_MASK :: u32 where [simp]: "DEVSPI_REG_CTRL_XFLEN_MASK = 0x03"
definition DEVSPI_REG_CTRL_RUN_B :: u32 where [simp]: "DEVSPI_REG_CTRL_RUN_B = 0x00000400"
definition DEVSPI_REG_CTRL_XFLEN_B_SHIFT :: nat where [simp]: "DEVSPI_REG_CTRL_XFLEN_B_SHIFT = 11"
definition DEVSPI_REG_TXD_A :: u32 where [simp]: "DEVSPI_REG_TXD_A = 0x04"
definition DEVSPI_REG_RXD_A :: u32 where [simp]: "DEVSPI_REG_RXD_A = 0x08"
definition DEVSPI_REG_CS :: u32 where [simp]: "DEVSPI_REG_CS = 0x0c"
definition DEVSPI_REG_CS_CS0 :: u32 where [simp]: "DEVSPI_REG_CS_CS0 = 0x01"
definition DEVSPI_REG_CLKDIV :: u32 where [simp]: "DEVSPI_REG_CLKDIV = 0x10"
definition DEVSPI_REG_CLKDIV_DIV_MASK :: u32 where [simp]: "DEVSPI_REG_CLKDIV_DIV_MASK = 0xff"
definition DEVSPI_REG_TXD_B :: u32 where [simp]: "DEVSPI_REG_TXD_B = 0x14"
definition DEVSPI_REG_RXD_B :: u32 where [simp]: "DEVSPI_REG_RXD_B = 0x18"

record spi =
  sp_config :: u32
  sp_len_a :: u32
  sp_len_b :: u32
  sp_cs :: u32
  sp_txd_a :: u32
  sp_rxd_a :: u32
  sp_txd_b :: u32
  sp_rxd_b :: u32
  sp_clkdiv :: u8
  sp_spidev :: "spidev_gpio option"

definition DevSPI_read32 :: "u32 \<Rightarrow> spi \<Rightarrow> u32 option" where
  "DevSPI_read32 addr d =
     (let reg = addr AND 0xfc
      in if reg = DEVSPI_REG_CTRL then
           Some (sp_config d OR push_bit DEVSPI_REG_CTRL_XFLEN_A_SHIFT (sp_len_a d) OR
             push_bit DEVSPI_REG_CTRL_XFLEN_B_SHIFT (sp_len_b d))
         else if reg = DEVSPI_REG_TXD_A then Some (sp_txd_a d)
         else if reg = DEVSPI_REG_RXD_A then Some (sp_rxd_a d)
         else if reg = DEVSPI_REG_TXD_B then Some (sp_txd_b d)
         else if reg = DEVSPI_REG_RXD_B then Some (sp_rxd_b d)
         else if reg = DEVSPI_REG_CS then Some (sp_cs d)
         else if reg = DEVSPI_REG_CLKDIV then Some (ucast (sp_clkdiv d))
         else None)"

text \<open>\<open>doTransfer\<close>: the loop over \<open>len + 1\<close> bytes, the least significant first.\<close>

definition spi_byte :: "(pins \<Rightarrow> bool) \<Rightarrow> u32 \<Rightarrow> nat \<Rightarrow> u32 \<times> spidev_gpio \<Rightarrow> u32 \<times> spidev_gpio" where
  "spi_byte din txd i = (\<lambda>(r, d).
     let (b, d) = getPutByte din (ucast (drop_bit (i * 8) txd AND 0xff)) d
     in (r OR push_bit (i * 8) (ucast b), d))"

definition doTransfer :: "(pins \<Rightarrow> bool) \<Rightarrow> u32 \<Rightarrow> u32 \<Rightarrow> spi \<Rightarrow> u32 \<times> spi" where
  "doTransfer din txd len d =
     (case sp_spidev d of
        None \<Rightarrow> (0, d)
      | Some g \<Rightarrow>
          (let (r, g) = fold (spi_byte din txd) [0..<unat (len + 1)] (0, g)
           in (r, d\<lparr>sp_spidev := Some g\<rparr>)))"

definition spi_configure :: "spi \<Rightarrow> spi" where
  "spi_configure d = d\<lparr>sp_spidev := map_option
     (spi_setConfig (sp_config d AND DEVSPI_REG_CTRL_CPOL \<noteq> 0)
        (sp_config d AND DEVSPI_REG_CTRL_CPHA \<noteq> 0) (sp_clkdiv d)) (sp_spidev d)\<rparr>"

definition DevSPI_write32 :: "(pins \<Rightarrow> bool) \<Rightarrow> u32 \<Rightarrow> u32 \<Rightarrow> spi \<Rightarrow> spi option" where
  "DevSPI_write32 din addr data d =
     (let reg = addr AND 0xfc
      in if reg = DEVSPI_REG_CTRL then
           (let d = spi_configure (d\<lparr>
                  sp_config := data AND (DEVSPI_REG_CTRL_CPOL OR DEVSPI_REG_CTRL_CPHA),
                  sp_len_a := drop_bit DEVSPI_REG_CTRL_XFLEN_A_SHIFT data AND DEVSPI_REG_CTRL_XFLEN_MASK,
                  sp_len_b := drop_bit DEVSPI_REG_CTRL_XFLEN_B_SHIFT data AND DEVSPI_REG_CTRL_XFLEN_MASK\<rparr>);
                d = (if data AND DEVSPI_REG_CTRL_RUN_A \<noteq> 0
                     then let (r, d) = doTransfer din (sp_txd_a d) (sp_len_a d) d in d\<lparr>sp_rxd_a := r\<rparr> else d);
                d = (if data AND DEVSPI_REG_CTRL_RUN_B \<noteq> 0
                     then let (r, d) = doTransfer din (sp_txd_b d) (sp_len_b d) d in d\<lparr>sp_rxd_b := r\<rparr> else d)
            in Some d)
         else if reg = DEVSPI_REG_TXD_A then Some (d\<lparr>sp_txd_a := data\<rparr>)
         else if reg = DEVSPI_REG_RXD_A then Some d
         else if reg = DEVSPI_REG_TXD_B then Some (d\<lparr>sp_txd_b := data\<rparr>)
         else if reg = DEVSPI_REG_RXD_B then Some d
         else if reg = DEVSPI_REG_CS then
           Some (d\<lparr>sp_cs := data,
             sp_spidev := map_option (spi_setCS (data AND DEVSPI_REG_CS_CS0 \<noteq> 0)) (sp_spidev d)\<rparr>)
         else if reg = DEVSPI_REG_CLKDIV then
           Some (spi_configure (d\<lparr>sp_clkdiv := ucast (data AND DEVSPI_REG_CLKDIV_DIV_MASK)\<rparr>))
         else None)"

subsection \<open>What the wire carries\<close>

text \<open>A reference peripheral: it samples the data line at every sampling edge of the clock, the
  leading edge (away from the idle level \<open>cpol\<close>) for \<open>cpha = 0\<close> and the trailing edge for
  \<open>cpha = 1\<close>.  \<open>wire_bits\<close> runs over a trace with the current clock level and data.\<close>

fun wire_bits :: "bool \<Rightarrow> bool \<Rightarrow> bool \<Rightarrow> bool \<Rightarrow> pins \<Rightarrow> bool list" where
  "wire_bits cpol cpha clk dout [] = []"
| "wire_bits cpol cpha clk dout ((pin, v) # tr) =
     (if pin = GPIO_DOUT then wire_bits cpol cpha clk v tr
      else if pin = GPIO_CLK then
        (if v \<noteq> clk \<and> (v \<noteq> cpol) = (\<not> cpha) then dout # wire_bits cpol cpha v dout tr
         else wire_bits cpol cpha v dout tr)
      else wire_bits cpol cpha clk dout tr)"

definition byte_bits :: "u8 \<Rightarrow> bool list" where
  "byte_bits b = [bit b 7, bit b 6, bit b 5, bit b 4, bit b 3, bit b 2, bit b 1, bit b 0]"

text \<open>A loopback wire: the input pin shows the last level of the output pin.\<close>

definition loopback :: "pins \<Rightarrow> bool" where
  "loopback tr = fold (\<lambda>(p, v) c. if p = GPIO_DOUT then v else c) tr False"

lemma byte_tests:
  "b AND 128 = 0 \<longleftrightarrow> \<not> bit b 7" "b AND 64 = 0 \<longleftrightarrow> \<not> bit b 6" "b AND 32 = 0 \<longleftrightarrow> \<not> bit b 5"
  "b AND 16 = 0 \<longleftrightarrow> \<not> bit b 4" "b AND 8 = 0 \<longleftrightarrow> \<not> bit b 3" "b AND 4 = 0 \<longleftrightarrow> \<not> bit b 2"
  "b AND 2 = 0 \<longleftrightarrow> \<not> bit b (Suc 0)" "b AND 1 = 0 \<longleftrightarrow> \<not> bit b 0" for b :: u8
  using and_exp_nonzero [of b 7] and_exp_nonzero [of b 6] and_exp_nonzero [of b 5] and_exp_nonzero [of b 4]
    and_exp_nonzero [of b 3] and_exp_nonzero [of b 2] and_exp_nonzero [of b 1] and_exp_nonzero [of b 0]
  by auto

lemma upt8: "rev [0..<8] = [7, 6, 5, 4, 3, 2, 1, 0::nat]"
  by (simp add: upt_rec)

lemma setClk_fields [simp]:
  "sg_cpol (setClk v d) = sg_cpol d" "sg_cpha (setClk v d) = sg_cpha d"
  "sg_pins (setClk v d) = sg_pins d @ [(GPIO_CLK, v \<noteq> sg_cpol d)]"
  by (simp_all add: setClk_def gpioWrite_def)

lemma gpioWrite_fields [simp]:
  "sg_cpol (gpioWrite p v d) = sg_cpol d" "sg_cpha (gpioWrite p v d) = sg_cpha d"
  "sg_pins (gpioWrite p v d) = sg_pins d @ [(p, v)]"
  by (simp_all add: gpioWrite_def)

text \<open>\<open>sends bs d d'\<close>: between the two states the peripheral samples the bytes \<open>bs\<close>,
  from the idle clock and back to it, and the mode stays.\<close>

definition sends :: "u8 list \<Rightarrow> spidev_gpio \<Rightarrow> spidev_gpio \<Rightarrow> bool" where
  "sends bs d d' \<longleftrightarrow> sg_cpol d' = sg_cpol d \<and> sg_cpha d' = sg_cpha d \<and>
     (\<exists>tr. sg_pins d' = sg_pins d @ tr \<and>
        fold (\<lambda>(p, v) c. if p = GPIO_CLK then v else c) tr (sg_cpol d) = sg_cpol d \<and>
        (\<forall>dout. wire_bits (sg_cpol d) (sg_cpha d) (sg_cpol d) dout tr = concat (map byte_bits bs)))"

lemma wire_bits_append:
  "wire_bits cpol cpha clk dout (tr @ tr') =
     wire_bits cpol cpha clk dout tr @
     wire_bits cpol cpha (fold (\<lambda>(p, v) c. if p = GPIO_CLK then v else c) tr clk)
       (fold (\<lambda>(p, v) c. if p = GPIO_DOUT then v else c) tr dout) tr'"
  by (induction tr arbitrary: clk dout) auto

lemma sends_refl: "sends [] d d"
  by (simp add: sends_def)

lemma sends_trans: "sends bs d d' \<Longrightarrow> sends bs' d' d'' \<Longrightarrow> sends (bs @ bs') d d''"
  unfolding sends_def by (auto simp: wire_bits_append simp del: wire_bits.simps)

lemma getPutByte_sends: "sends [b] d (snd (getPutByte din b d))"
  unfolding getPutByte_def upt8 sends_def
  by (cases "sg_cpha d"; cases "sg_cpol d")
    (simp_all add: Let_def spi_bit_def byte_bits_def byte_tests)

lemma getPutByte_loopback: "fst (getPutByte loopback b d) = b"
  unfolding getPutByte_def upt8
  by (cases "sg_cpha d"; simp add: Let_def spi_bit_def byte_tests loopback_def) (simp_all add: blast8)

definition word_bytes :: "u32 \<Rightarrow> nat \<Rightarrow> u8 list" where
  "word_bytes w n = map (\<lambda>i. ucast (drop_bit (i * 8) w)) [0..<n]"

lemma take_bit_Suc_byte: "take_bit (8 * n) w OR push_bit (n * 8) (ucast (ucast (drop_bit (n * 8) w AND 0xff) :: u8)) =
    take_bit (8 * Suc n) w" for w :: u32
proof (rule bit_word_eqI)
  fix k assume k: "k < LENGTH(32)"
  have ff: "(0xff :: u32) = mask 8" by (simp add: mask_eq_exp_minus_1)
  show "bit (take_bit (8 * n) w OR push_bit (n * 8) (ucast (ucast (drop_bit (n * 8) w AND 0xff) :: u8))) k =
      bit (take_bit (8 * Suc n) w) k"
    using k unfolding ff by (auto simp: bit_simps)
qed

lemma ucast_and_byte: "(ucast (v AND 0xff) :: u8) = ucast v" for v :: u32
  by (simp add: blast8)

lemma spi_bytes_sends:
  "sends (word_bytes txd n) d (snd (fold (spi_byte din txd) [0..<n] (r, d)))"
proof (induction n)
  case 0
  then show ?case by (simp add: word_bytes_def sends_refl)
next
  case (Suc n)
  let ?d = "snd (fold (spi_byte din txd) [0..<n] (r, d))"
  have "sends [ucast (drop_bit (n * 8) txd)] ?d
      (snd (fold (spi_byte din txd) [0..<Suc n] (r, d)))"
    using getPutByte_sends [of "ucast (drop_bit (n * 8) txd)" ?d din]
    by (simp add: spi_byte_def case_prod_beta ucast_and_byte)
  from sends_trans [OF Suc this] show ?case by (simp add: word_bytes_def)
qed

lemma spi_bytes_loopback:
  "fst (fold (spi_byte loopback txd) [0..<n] (0, d)) = take_bit (8 * n) txd"
proof (induction n)
  case (Suc n)
  then show ?case
    using take_bit_Suc_byte [of n txd]
    by (simp add: spi_byte_def case_prod_beta getPutByte_loopback)
qed simp

end
