(* ===== verification/Dev_State.thy ===== *)
theory Dev_State
  imports Dev_SDCard Dev_SPI
begin

section \<open>The devices that master the bus: their state, and their host\<close>

text \<open>
  The block device, the SD host controller and the display access guest RAM themselves, through the bus
  they are attached to.  Their records stand here, ahead of the bus; their operations are in the
  theories Dev\_SBD, Dev\_SD and Dev\_LCDC.

  What these devices use of the host's operating system and of its libraries is the record
  \<open>host\<close>: \<open>pread\<close> and \<open>pwrite\<close> on an image file, the input pin of \<open>pigpio\<close>, the size of the
  SDL window, and whether the window is asked to close when it is polled at some tick.
\<close>

record sbd =
  sb_bus :: bool
  sb_fd :: int
  sb_nr_blocks :: u32
  sb_regs :: "u32 list"

record sdhc =
  hc_regs :: "u32 list"
  hc_bus :: bool
  hc_intc :: bool
  hc_irq_number :: nat
  hc_irq_tx_triggered :: bool
  hc_irq_tx_enabled :: bool
  hc_irq_rx_triggered :: bool
  hc_irq_rx_enabled :: bool
  hc_txblocks :: u32
  hc_cmd_ack :: bool
  hc_tx_ack :: bool
  hc_rx_ack :: bool
  hc_cmd_status :: u32
  hc_tx_status :: u32
  hc_rx_status :: u32
  hc_dma_status :: u32

record lcdc =
  lc_bus :: bool
  lc_init_done :: bool
  lc_done :: bool
  lc_frame_end_time :: u32
  lc_regs :: "u32 list"
  lc_palette :: "u32 list"
  lc_display_enable :: bool
  lc_border_enable :: bool
  lc_display_x :: u32
  lc_display_y :: u32
  lc_scale_x :: u32
  lc_scale_y :: u32
  lc_bpp :: u8

text \<open>The window's surface: a function from pixel indices.\<close>

type_synonym surface = "nat \<Rightarrow> u32"

type_synonym image = "u8 list"

type_synonym path = string

record host =
  h_pread :: "image \<Rightarrow> u32 \<Rightarrow> u32 \<Rightarrow> u8 list option"
  h_pwrite :: "u8 list \<Rightarrow> u32 \<Rightarrow> image \<Rightarrow> int \<times> image"
  h_gpioRead :: "pins \<Rightarrow> bool"
  h_window :: "nat \<times> nat"
  h_closed :: "u64 \<Rightarrow> bool"

end
