(* ===== verification/System_IO.thy ===== *)
theory System_IO
  imports Bus Dev_RAM Dev_XpsIntc Dev_SimpleUart Dev_Uart Dev_GPIO Dev_State
begin

section \<open>Devices on the bus\<close>

text \<open>
  The devices behind the virtual methods of class \<open>Device\<close> as a datatype.  The state they
  share is the record \<open>io\<close>: the bus with its devices, host memory, the CPU's \<open>irqFlag\<close>, which the
  interrupt controller sets and clears through its pointer, the files of the host, and the host.  A UART's
  \<open>raiseIRQ()\<close> calls the interrupt controller; the controller is the (first) \<open>DIntc\<close> on the
  bus, as in \<open>platform.cc\<close>.  A block device comes with the path of its image file, the SD host controller
  with the card and the path of its image, the display with the surface of its window.  Two devices
  that opened the same path share the file, as the SD card and the first block device of platform 3 do.

  This theory has what a device can ask of the bus (\<open>get_direct_map\<close>, interrupts).  Theory
  System\_Bus adds the accesses that reach the devices.
\<close>

datatype device =
    DRam ram
  | DIntc intc
  | DSuart suart
  | DUart uart
  | DGpio gpio
  | DSbd sbd path
  | DSd sdhc sdcard path
  | DLcdc lcdc surface
  | DSpi spi
  | DDummy
  | DDebug

record io =
  io_bus :: "device bus"
  io_hmem :: hmem
  io_irqFlag :: bool
  io_files :: "path \<Rightarrow> image"
  io_host :: host

subsection \<open>Properties and direct mapping\<close>

text \<open>The base address of a device that never reads it is not modelled.\<close>

fun dev_setProps :: "u32 \<Rightarrow> u32 \<Rightarrow> device \<Rightarrow> device" where
  "dev_setProps a sz (DRam d) = DRam (ram_setProps a sz d)"
| "dev_setProps a sz (DIntc d) = DIntc (d\<lparr>ic_base_address := a, ic_address_span := sz\<rparr>)"
| "dev_setProps a sz (DSuart d) = DSuart (d\<lparr>su_base_address := a, su_address_span := sz\<rparr>)"
| "dev_setProps a sz (DUart d) = DUart (d\<lparr>ua_base_address := a, ua_address_span := sz\<rparr>)"
| "dev_setProps a sz (DGpio d) = DGpio (d\<lparr>gp_base_address := a, gp_address_span := sz\<rparr>)"
| "dev_setProps a sz d = d"

text \<open>Only \<open>DevRAM\<close> overrides \<open>Device::direct_map\<close>; the others return false.\<close>

fun dev_direct_map :: "device \<Rightarrow> u32 \<Rightarrow> u64 option" where
  "dev_direct_map (DRam d) a = Some (ram_direct_map d a)"
| "dev_direct_map _ a = None"

subsection \<open>What a device can ask of the bus\<close>

abbreviation io_dev :: "io \<Rightarrow> nat \<Rightarrow> device option" where
  "io_dev io i \<equiv> bd_dev (bus_devs (io_bus io) ! i)"

definition io_set_dev :: "nat \<Rightarrow> device \<Rightarrow> io \<Rightarrow> io" where
  "io_set_dev i d io = io\<lparr>io_bus := io_bus io\<lparr>bus_devs :=
     (bus_devs (io_bus io))[i := (bus_devs (io_bus io) ! i)\<lparr>bd_dev := Some d\<rparr>]\<rparr>\<rparr>"

definition is_intc :: "device option \<Rightarrow> bool" where
  "is_intc d = (case d of Some (DIntc _) \<Rightarrow> True | _ \<Rightarrow> False)"

text \<open>\<open>intc->triggerIRQ(n)\<close> on the controller of the platform.\<close>

definition io_triggerIRQ :: "nat \<Rightarrow> io \<Rightarrow> io" where
  "io_triggerIRQ n io =
     (case find (\<lambda>i. is_intc (io_dev io i)) [0..<bus_entries] of
        None \<Rightarrow> io
      | Some i \<Rightarrow>
          (case io_dev io i of
             Some (DIntc d) \<Rightarrow>
               (let (d, f) = triggerIRQ n (d, io_irqFlag io)
                in (io_set_dev i (DIntc d) io)\<lparr>io_irqFlag := f\<rparr>)
           | _ \<Rightarrow> io))"

definition io_get_dev :: "u32 \<Rightarrow> io \<Rightarrow> (nat \<times> device \<times> io) option" where
  "io_get_dev addr io =
     do { (i, b) \<leftarrow> get_dev addr (io_bus io);
          d \<leftarrow> bd_dev (bus_devs b ! i);
          Some (i, d, io\<lparr>io_bus := b\<rparr>) }"

definition get_direct_map :: "u32 \<Rightarrow> io \<Rightarrow> (u64 option \<times> io) option" where
  "get_direct_map addr io =
     do { (i, d, io) \<leftarrow> io_get_dev addr io;
          Some (dev_direct_map d addr, io) }"

subsection \<open>What an access leaves alone\<close>

lemma io_set_dev_same [simp]:
  "io_dev io i = Some d \<Longrightarrow> io_set_dev i d io = io"
  by (cases "i < length (bus_devs (io_bus io))")
    (auto simp: io_set_dev_def list_update_same_conv list_update_beyond not_less)

lemma io_get_dev_SomeD:
  assumes "io_get_dev a io = Some (i, d, io')" and "bus_wf (io_bus io)"
  shows "i < bus_entries" "dev_matches_addr (io_bus io) i a" "io_dev io i = Some d"
    and "io' = io\<lparr>io_bus := io_bus io\<lparr>bus_last_dev := i\<rparr>\<rparr>" "bus_wf (io_bus io')"
proof -
  obtain b where g: "get_dev a (io_bus io) = Some (i, b)" and d: "bd_dev (bus_devs b ! i) = Some d"
    and io': "io' = io\<lparr>io_bus := b\<rparr>"
    using assms(1) by (auto simp: io_get_dev_def case_prod_beta elim!: bind_SomeE)
  note b = get_dev_SomeD [OF g assms(2)]
  show "i < bus_entries" "dev_matches_addr (io_bus io) i a" by (rule b(1), rule b(2))
  show "io_dev io i = Some d" using d b(3) by simp
  show "io' = io\<lparr>io_bus := io_bus io\<lparr>bus_last_dev := i\<rparr>\<rparr>" "bus_wf (io_bus io')"
    using io' b(3,4) by simp_all
qed

text \<open>The part of the I/O state that the guest can observe: everything but the cache.\<close>

definition io_core :: "io \<Rightarrow> io" where
  "io_core io = io\<lparr>io_bus := io_bus io\<lparr>bus_last_dev := 0\<rparr>\<rparr>"

lemma get_direct_map_core:
  assumes "get_direct_map a io = Some (p, io')" and "bus_wf (io_bus io)"
  shows "io_core io' = io_core io" and "bus_wf (io_bus io')" and "io_hmem io' = io_hmem io"
  using assms io_get_dev_SomeD(4,5) [of a io]
  by (auto simp: get_direct_map_def io_core_def case_prod_beta elim!: bind_SomeE)

text \<open>RAM at a physical address: the bus access is the access to host memory at the
  address that \<open>get_direct_map\<close> reports.\<close>

definition ram_at :: "io \<Rightarrow> u32 \<Rightarrow> ram \<Rightarrow> bool" where
  "ram_at io a d \<longleftrightarrow> (\<exists>i. find_dev_for_addr (io_bus io) a = Some i \<and> io_dev io i = Some (DRam d))"

lemma ram_at_get_dev:
  assumes "ram_at io a d" and "bus_wf (io_bus io)" and "bus_disjoint (io_bus io)"
  obtains i where "io_get_dev a io = Some (i, DRam d, io\<lparr>io_bus := io_bus io\<lparr>bus_last_dev := i\<rparr>\<rparr>)"
    and "i < bus_entries" and "io_dev io i = Some (DRam d)"
proof -
  obtain i where i: "find_dev_for_addr (io_bus io) a = Some i" "io_dev io i = Some (DRam d)"
    using assms(1) by (auto simp: ram_at_def)
  show thesis
  proof (rule that)
    show "io_get_dev a io = Some (i, DRam d, io\<lparr>io_bus := io_bus io\<lparr>bus_last_dev := i\<rparr>\<rparr>)"
      using i by (simp add: io_get_dev_def get_dev_find [OF assms(2,3)])
    show "i < bus_entries" using i(1) by (rule find_dev_SomeD)
    show "io_dev io i = Some (DRam d)" by (rule i(2))
  qed
qed

lemma ram_get_direct_map:
  assumes "ram_at io a d" and "bus_wf (io_bus io)" and "bus_disjoint (io_bus io)"
  shows "map_option fst (get_direct_map a io) = Some (Some (ram_direct_map d a))"
proof -
  obtain i where "io_get_dev a io = Some (i, DRam d, io\<lparr>io_bus := io_bus io\<lparr>bus_last_dev := i\<rparr>\<rparr>)"
    using assms by (rule ram_at_get_dev)
  then show ?thesis by (simp add: get_direct_map_def)
qed

end
