(* ===== verification/Dev_DMA.thy ===== *)
theory Dev_DMA
  imports System_IO
begin

section \<open>Bus mastering\<close>

text \<open>
  What the devices that read and write guest RAM themselves share: \<open>getAddrDMA\<close>, which
  \<open>DevSD.cc\<close>, \<open>DevSBD.cc\<close> and \<open>DevLCDC.cc\<close> hold in the same words, and the
  transfer of bytes between a buffer and host memory.  The first argument says whether the device
  has been given its bus; without it, or where nothing can be mapped directly, the simulator stops.
\<close>

definition getAddrDMA :: "bool \<Rightarrow> u32 \<Rightarrow> io \<Rightarrow> (u64 \<times> io) option" where
  "getAddrDMA has_bus addr io =
     (if \<not> has_bus then None
      else do { (p, io) \<leftarrow> get_direct_map addr io; p \<leftarrow> p; Some (p, io) })"

text \<open>The bytes that the operating system puts at, or takes from, a host address.\<close>

definition dma_in :: "u64 \<Rightarrow> u8 list \<Rightarrow> io \<Rightarrow> io" where
  "dma_in base bs io = io\<lparr>io_hmem := hwrite_bytes base bs (io_hmem io)\<rparr>"

definition dma_out :: "u64 \<Rightarrow> io \<Rightarrow> u32 \<Rightarrow> u8 list" where
  "dma_out base io n = map (\<lambda>i. io_hmem io (base + of_nat i)) [0..<unat n]"

lemma io_bus_dma_in [simp]: "io_bus (dma_in base bs io) = io_bus io"
  by (simp add: dma_in_def)

lemma dma_in_irqFlag [simp]: "io_irqFlag (dma_in base bs io) = io_irqFlag io"
  by (simp add: dma_in_def)

lemma dma_in_Nil [simp]: "dma_in base [] io = io"
  by (simp add: dma_in_def)

lemma dma_out_in:
  assumes "length bs = unat n" and "uint base + int (length bs) \<le> 2 ^ 64"
  shows "dma_out base (dma_in base bs io) n = bs"
  using assms by (intro nth_equalityI) (simp_all add: dma_out_def dma_in_def hwrite_bytes_nth)

lemma getAddrDMA_ram:
  assumes "ram_at io a d" and "bus_wf (io_bus io)" and "bus_disjoint (io_bus io)"
  obtains i where "getAddrDMA True a io =
    Some (ram_direct_map d a, io\<lparr>io_bus := io_bus io\<lparr>bus_last_dev := i\<rparr>\<rparr>)"
proof -
  obtain i where "io_get_dev a io = Some (i, DRam d, io\<lparr>io_bus := io_bus io\<lparr>bus_last_dev := i\<rparr>\<rparr>)"
    using assms by (rule ram_at_get_dev)
  then show thesis by (intro that [of i]) (simp add: getAddrDMA_def get_direct_map_def)
qed

end
