(* ===== verification/Dev_SD.thy ===== *)
theory Dev_SD
  imports Dev_DMA
begin

section \<open>The SD host controller: \<open>DevSD\<close>\<close>

text \<open>
  Class \<open>DevSD\<close> of \<open>DevSD.h\<close> and \<open>DevSD.cc\<close>: the register interface, the
  toggle handshake of commands, receptions and transmissions (a request bit in the control
  register against an acknowledge flag), and the DMA between the card and RAM, which goes through
  \<open>getAddrDMA\<close>.  Field \<open>x\<close> of the class is \<open>hc_x\<close>; \<open>hc_intc\<close>
  and \<open>hc_bus\<close> say whether the pointer is set.

  The controller's work touches the card, RAM, the interrupt controller and the image file: the
  record \<open>sd_sys\<close> holds them together.  16- and 8-bit accesses and undefined registers are
  \<open>FATAL\<close>, \<open>None\<close> here.
\<close>

definition SD_REG_RB0 :: nat where [simp]: "SD_REG_RB0 = 0"
definition SD_REG_RB1 :: nat where [simp]: "SD_REG_RB1 = 1"
definition SD_REG_RB2 :: nat where [simp]: "SD_REG_RB2 = 2"
definition SD_REG_RB3 :: nat where [simp]: "SD_REG_RB3 = 3"
definition SD_REG_CB0 :: nat where [simp]: "SD_REG_CB0 = 4"
definition SD_REG_CB1 :: nat where [simp]: "SD_REG_CB1 = 5"
definition SD_REG_CTRL :: nat where [simp]: "SD_REG_CTRL = 6"
definition SD_CTRL_CMDREQ :: u32 where [simp]: "SD_CTRL_CMDREQ = 0x01"
definition SD_CTRL_RXREQ :: u32 where [simp]: "SD_CTRL_RXREQ = 0x10"
definition SD_CTRL_TXREQ :: u32 where [simp]: "SD_CTRL_TXREQ = 0x100"
definition SD_REG_STATUS :: nat where [simp]: "SD_REG_STATUS = 7"
definition SD_STATUS_CMDACK :: u32 where [simp]: "SD_STATUS_CMDACK = 0x00000001"
definition SD_STATUS_CMD_PEND :: u32 where [simp]: "SD_STATUS_CMD_PEND = 0x00000002"
definition SD_STATUS_RXACK :: u32 where [simp]: "SD_STATUS_RXACK = 0x00000010"
definition SD_STATUS_RX_PEND :: u32 where [simp]: "SD_STATUS_RX_PEND = 0x00000020"
definition SD_STATUS_TXACK :: u32 where [simp]: "SD_STATUS_TXACK = 0x00000100"
definition SD_STATUS_TX_PEND :: u32 where [simp]: "SD_STATUS_TX_PEND = 0x00000200"
definition SD_STATUS_CMD_SHIFT :: nat where [simp]: "SD_STATUS_CMD_SHIFT = 2"
definition SD_STATUS_RX_SHIFT :: nat where [simp]: "SD_STATUS_RX_SHIFT = 6"
definition SD_STATUS_TX_SHIFT :: nat where [simp]: "SD_STATUS_TX_SHIFT = 10"
definition SD_STATUS_DMA_SHIFT :: nat where [simp]: "SD_STATUS_DMA_SHIFT = 14"
definition SD_STATUS_CMD_OK :: u32 where [simp]: "SD_STATUS_CMD_OK = 0"
definition SD_STATUS_CMD_TIMEOUT :: u32 where [simp]: "SD_STATUS_CMD_TIMEOUT = 1"
definition SD_STATUS_RX_OK :: u32 where [simp]: "SD_STATUS_RX_OK = 0"
definition SD_STATUS_RX_TIMEOUT :: u32 where [simp]: "SD_STATUS_RX_TIMEOUT = 1"
definition SD_STATUS_TX_OK :: u32 where [simp]: "SD_STATUS_TX_OK = 0"
definition SD_STATUS_TX_TIMEOUT :: u32 where [simp]: "SD_STATUS_TX_TIMEOUT = 1"
definition SD_REG_STATUS2 :: nat where [simp]: "SD_REG_STATUS2 = 8"
definition SD_REG_DATACFG :: nat where [simp]: "SD_REG_DATACFG = 12"
definition SD_REG_DMA_ADDR :: nat where [simp]: "SD_REG_DMA_ADDR = 14"
definition SD_REG_IRQ :: nat where [simp]: "SD_REG_IRQ = 15"
definition SD_IRQ_RX_COMPLETE :: u32 where [simp]: "SD_IRQ_RX_COMPLETE = 0x01"
definition SD_IRQ_TX_COMPLETE :: u32 where [simp]: "SD_IRQ_TX_COMPLETE = 0x02"
definition SD_IRQ_RX_ENABLE :: u32 where [simp]: "SD_IRQ_RX_ENABLE = 0x100"
definition SD_IRQ_TX_ENABLE :: u32 where [simp]: "SD_IRQ_TX_ENABLE = 0x200"

definition SD_DATACFG_WIB :: "u32 \<Rightarrow> u32" where
  "SD_DATACFG_WIB x = x AND 0xff"

definition SD_DATACFG_NRBLK :: "u32 \<Rightarrow> u32" where
  "SD_DATACFG_NRBLK x = drop_bit 16 (x AND 0xffff0000)"

definition DEVSD_REG_END :: nat where [simp]: "DEVSD_REG_END = 16"

record 'f sd_sys =
  ss_hc :: sdhc
  ss_card :: sdcard
  ss_io :: io
  ss_file :: 'f

definition DevSD_init :: "sdhc \<Rightarrow> sdhc" where
  "DevSD_init d = d\<lparr>hc_regs := replicate DEVSD_REG_END 0, hc_txblocks := 0,
     hc_irq_rx_triggered := False, hc_irq_tx_triggered := False,
     hc_irq_rx_enabled := False, hc_irq_tx_enabled := False,
     hc_cmd_ack := False, hc_tx_ack := False, hc_rx_ack := False,
     hc_cmd_status := 0, hc_tx_status := 0, hc_rx_status := 0, hc_dma_status := 0\<rparr>"

definition cmdPending :: "sdhc \<Rightarrow> bool" where
  "cmdPending d \<longleftrightarrow> (hc_regs d ! SD_REG_CTRL AND SD_CTRL_CMDREQ \<noteq> 0) \<noteq> hc_cmd_ack d"

definition txPending :: "sdhc \<Rightarrow> bool" where
  "txPending d \<longleftrightarrow> (hc_regs d ! SD_REG_CTRL AND SD_CTRL_TXREQ \<noteq> 0) \<noteq> hc_tx_ack d"

definition rxPending :: "sdhc \<Rightarrow> bool" where
  "rxPending d \<longleftrightarrow> (hc_regs d ! SD_REG_CTRL AND SD_CTRL_RXREQ \<noteq> 0) \<noteq> hc_rx_ack d"

abbreviation flag_bits :: "bool \<Rightarrow> u32 \<Rightarrow> u32" where
  "flag_bits b v \<equiv> if b then v else 0"

definition sd_reg_of :: "u32 \<Rightarrow> nat" where
  "sd_reg_of addr = unat (drop_bit 2 (addr AND 0x3f))"

definition DevSD_status :: "sdhc \<Rightarrow> u32" where
  "DevSD_status d =
     flag_bits (hc_cmd_ack d) SD_STATUS_CMDACK OR flag_bits (cmdPending d) SD_STATUS_CMD_PEND OR
     flag_bits (hc_rx_ack d) SD_STATUS_RXACK OR flag_bits (rxPending d) SD_STATUS_RX_PEND OR
     flag_bits (hc_tx_ack d) SD_STATUS_TXACK OR flag_bits (txPending d) SD_STATUS_TX_PEND OR
     push_bit SD_STATUS_CMD_SHIFT (hc_cmd_status d AND 3) OR
     push_bit SD_STATUS_RX_SHIFT (hc_rx_status d AND 3) OR
     push_bit SD_STATUS_TX_SHIFT (hc_tx_status d AND 3) OR
     push_bit SD_STATUS_DMA_SHIFT (hc_dma_status d AND 3)"

definition DevSD_read32 :: "u32 \<Rightarrow> sdhc \<Rightarrow> u32 option" where
  "DevSD_read32 addr d =
     (let reg = sd_reg_of addr
      in if reg \<in> {SD_REG_RB0, SD_REG_RB1, SD_REG_RB2, SD_REG_RB3, SD_REG_CB0, SD_REG_CB1, SD_REG_CTRL,
                   SD_REG_DATACFG, SD_REG_DMA_ADDR} then Some (hc_regs d ! reg)
         else if reg = SD_REG_STATUS then Some (DevSD_status d)
         else if reg = SD_REG_STATUS2 then Some (hc_txblocks d AND 0xffff)
         else if reg = SD_REG_IRQ then
           Some (flag_bits (hc_irq_rx_triggered d) SD_IRQ_RX_COMPLETE OR
             flag_bits (hc_irq_tx_triggered d) SD_IRQ_TX_COMPLETE OR
             flag_bits (hc_irq_rx_enabled d) SD_IRQ_RX_ENABLE OR
             flag_bits (hc_irq_tx_enabled d) SD_IRQ_TX_ENABLE)
         else None)"

subsection \<open>Work\<close>

definition DevSD_getAddrDMA :: "u32 \<Rightarrow> 'f sd_sys \<Rightarrow> (u64 \<times> 'f sd_sys) option" where
  "DevSD_getAddrDMA addr s =
     do { (p, io) \<leftarrow> getAddrDMA (hc_bus (ss_hc s)) addr (ss_io s); Some (p, s\<lparr>ss_io := io\<rparr>) }"

definition rx_length :: "u32 \<Rightarrow> u32" where
  "rx_length cfg = (if SD_DATACFG_NRBLK cfg = 0 then SD_DATACFG_WIB cfg * 4
                    else (SD_DATACFG_NRBLK cfg + 1) * 512)"

definition tx_length :: "u32 \<Rightarrow> u32" where
  "tx_length cfg = (SD_DATACFG_NRBLK cfg + 1) * 512"

text \<open>The card's \<open>read\<close> into RAM.\<close>

definition DevSD_rx :: "('f \<Rightarrow> u32 \<Rightarrow> u32 \<Rightarrow> u8 list option) \<Rightarrow> 'f sd_sys \<Rightarrow> 'f sd_sys option" where
  "DevSD_rx pread s =
     (if \<not> rxPending (ss_hc s) then Some s
      else do {
        let len = rx_length (hc_regs (ss_hc s) ! SD_REG_DATACFG);
        (base, s) \<leftarrow> DevSD_getAddrDMA (hc_regs (ss_hc s) ! SD_REG_DMA_ADDR) s;
        let (rx_ok, err, bs, c) = sd_read (pread (ss_file s)) len 0 (ss_card s);
        let s = s\<lparr>ss_card := c, ss_io := dma_in base bs (ss_io s)\<rparr>;
        Some (if rx_ok \<or> err \<noteq> 0
              then s\<lparr>ss_hc := (ss_hc s)\<lparr>
                     hc_rx_status := (if err \<noteq> 0 then SD_STATUS_RX_TIMEOUT else SD_STATUS_RX_OK),
                     hc_rx_ack := \<not> hc_rx_ack (ss_hc s), hc_irq_rx_triggered := True\<rparr>\<rparr>
              else s) })"

definition DevSD_cmd :: "('f \<Rightarrow> u32 \<Rightarrow> u32 \<Rightarrow> u8 list option) \<Rightarrow> 'f sd_sys \<Rightarrow> 'f sd_sys option" where
  "DevSD_cmd pread s =
     (if \<not> cmdPending (ss_hc s) then Some s
      else do {
        let regs = hc_regs (ss_hc s);
        let cmd = drop_bit 8 (regs ! SD_REG_CB1) AND 0x3f;
        let arg = push_bit 24 (regs ! SD_REG_CB1) OR drop_bit 8 (regs ! SD_REG_CB0);
        (cmd_ok, r, c) \<leftarrow> sd_command cmd arg (take 4 regs) (ss_card s);
        DevSD_rx pread (s\<lparr>ss_card := c, ss_hc := (ss_hc s)\<lparr>
          hc_regs := r @ drop 4 regs,
          hc_cmd_status := (if cmd_ok then SD_STATUS_CMD_OK else SD_STATUS_CMD_TIMEOUT),
          hc_cmd_ack := \<not> hc_cmd_ack (ss_hc s)\<rparr>\<rparr>) })"

definition DevSD_tx :: "(u8 list \<Rightarrow> u32 \<Rightarrow> 'f \<Rightarrow> int \<times> 'f) \<Rightarrow> 'f sd_sys \<Rightarrow> 'f sd_sys option" where
  "DevSD_tx pwrite s =
     (if \<not> txPending (ss_hc s) then Some s
      else do {
        let len = tx_length (hc_regs (ss_hc s) ! SD_REG_DATACFG);
        (base, s) \<leftarrow> DevSD_getAddrDMA (hc_regs (ss_hc s) ! SD_REG_DMA_ADDR) s;
        let (tx_ok, err, c, f) =
          sd_write pwrite (dma_out base (ss_io s)) len 0 (ss_card s) (ss_file s);
        Some (s\<lparr>ss_card := c, ss_file := f, ss_hc := (ss_hc s)\<lparr>
          hc_tx_status := (if tx_ok then SD_STATUS_TX_OK else SD_STATUS_TX_TIMEOUT),
          hc_tx_ack := \<not> hc_tx_ack (ss_hc s), hc_irq_tx_triggered := True\<rparr>\<rparr>) })"

definition sd_irq_wanted :: "sdhc \<Rightarrow> bool" where
  "sd_irq_wanted d \<longleftrightarrow> hc_irq_tx_triggered d \<and> hc_irq_tx_enabled d \<or> hc_irq_rx_triggered d \<and> hc_irq_rx_enabled d"

definition DevSD_checkForWork ::
  "('f \<Rightarrow> u32 \<Rightarrow> u32 \<Rightarrow> u8 list option) \<Rightarrow> (u8 list \<Rightarrow> u32 \<Rightarrow> 'f \<Rightarrow> int \<times> 'f) \<Rightarrow>
    'f sd_sys \<Rightarrow> 'f sd_sys option" where
  "DevSD_checkForWork pread pwrite s =
     do { s \<leftarrow> DevSD_cmd pread s;
          s \<leftarrow> DevSD_tx pwrite s;
          Some (if hc_intc (ss_hc s) \<and> sd_irq_wanted (ss_hc s)
                then s\<lparr>ss_io := io_triggerIRQ (hc_irq_number (ss_hc s)) (ss_io s)\<rparr> else s) }"

definition DevSD_write32 ::
  "('f \<Rightarrow> u32 \<Rightarrow> u32 \<Rightarrow> u8 list option) \<Rightarrow> (u8 list \<Rightarrow> u32 \<Rightarrow> 'f \<Rightarrow> int \<times> 'f) \<Rightarrow>
    u32 \<Rightarrow> u32 \<Rightarrow> 'f sd_sys \<Rightarrow> 'f sd_sys option" where
  "DevSD_write32 pread pwrite addr data s =
     (let reg = sd_reg_of addr; d = ss_hc s
      in if reg \<in> {SD_REG_CB0, SD_REG_CB1, SD_REG_CTRL, SD_REG_DATACFG, SD_REG_DMA_ADDR}
         then DevSD_checkForWork pread pwrite (s\<lparr>ss_hc := d\<lparr>hc_regs := (hc_regs d)[reg := data]\<rparr>\<rparr>)
         else if reg = SD_REG_IRQ
         then DevSD_checkForWork pread pwrite (s\<lparr>ss_hc := d\<lparr>
             hc_irq_tx_enabled := data AND SD_IRQ_TX_ENABLE \<noteq> 0,
             hc_irq_rx_enabled := data AND SD_IRQ_RX_ENABLE \<noteq> 0,
             hc_irq_tx_triggered := hc_irq_tx_triggered d \<and> data AND SD_IRQ_TX_COMPLETE = 0,
             hc_irq_rx_triggered := hc_irq_rx_triggered d \<and> data AND SD_IRQ_RX_COMPLETE = 0\<rparr>\<rparr>)
         else None)"

end
