(* ===== verification/Dev_SBD.thy ===== *)
theory Dev_SBD
  imports Dev_DMA
begin

section \<open>The simple block device: \<open>DevSBD\<close>\<close>

text \<open>
  Class \<open>DevSBD\<close> of \<open>DevSBD.h\<close> and \<open>DevSBD.cc\<close>: a block device with one
  synchronous command at a time.  Field \<open>x\<close> of the class is \<open>sb_x\<close>.  The image file is
  the operating system's: \<open>pread file n offset\<close> is the bytes read, or \<open>None\<close> for an
  error, and \<open>pwrite bytes offset file\<close> the changed file (the code ignores the count it
  returns).  \<open>num*DEVSBD_BLK_SIZE\<close> and \<open>block_start*DEVSBD_BLK_SIZE\<close> are 32-bit products.
\<close>

definition DEVSBD_REG_IDR :: nat where [simp]: "DEVSBD_REG_IDR = 0"
definition DEVSBD_REG_IDR_ID :: u32 where [simp]: "DEVSBD_REG_IDR_ID = 0xfeedf00d"
definition DEVSBD_REG_BLKS :: nat where [simp]: "DEVSBD_REG_BLKS = 1"
definition DEVSBD_REG_IRQ :: nat where [simp]: "DEVSBD_REG_IRQ = 2"
definition DEVSBD_REG_CMD :: nat where [simp]: "DEVSBD_REG_CMD = 3"
definition DEVSBD_REG_CMD_IDLE :: u32 where [simp]: "DEVSBD_REG_CMD_IDLE = 0"
definition DEVSBD_REG_CMD_RD :: u32 where [simp]: "DEVSBD_REG_CMD_RD = 1"
definition DEVSBD_REG_CMD_WR :: u32 where [simp]: "DEVSBD_REG_CMD_WR = 3"
definition DEVSBD_REG_PA :: nat where [simp]: "DEVSBD_REG_PA = 4"
definition DEVSBD_REG_BLK_START :: nat where [simp]: "DEVSBD_REG_BLK_START = 5"
definition DEVSBD_REG_LEN :: nat where [simp]: "DEVSBD_REG_LEN = 6"
definition DEVSBD_REG_INFO :: nat where [simp]: "DEVSBD_REG_INFO = 7"
definition DEVSBD_REG_INFO_BLKSZ_MASK :: u32 where [simp]: "DEVSBD_REG_INFO_BLKSZ_MASK = 0xff"
definition DEVSBD_REG_END :: nat where [simp]: "DEVSBD_REG_END = DEVSBD_REG_INFO"
definition DEVSBD_BLK_SIZE :: u32 where [simp]: "DEVSBD_BLK_SIZE = 512"

definition DevSBD_init :: "sbd \<Rightarrow> sbd" where
  "DevSBD_init d = d\<lparr>sb_regs := (replicate 8 0)
     [DEVSBD_REG_IDR := DEVSBD_REG_IDR_ID, DEVSBD_REG_BLKS := 0, DEVSBD_REG_IRQ := 0,
      DEVSBD_REG_CMD := 0, DEVSBD_REG_PA := 0, DEVSBD_REG_BLK_START := 0, DEVSBD_REG_LEN := 0,
      DEVSBD_REG_INFO := DEVSBD_REG_INFO_BLKSZ_MASK AND (DEVSBD_BLK_SIZE div 512)]\<rparr>"

definition sbd_new :: sbd where
  "sbd_new = DevSBD_init \<lparr>sb_bus = False, sb_fd = -1, sb_nr_blocks = 0, sb_regs = []\<rparr>"

text \<open>\<open>openImage\<close>: what \<open>open\<close> returns, and the size that \<open>fstat\<close> reports
  (\<open>None\<close>: it fails).  A closed descriptor stays in \<open>fd\<close>.\<close>

definition openImage :: "int \<Rightarrow> nat option \<Rightarrow> sbd \<Rightarrow> sbd" where
  "openImage fd st_size d =
     (let d = d\<lparr>sb_fd := fd\<rparr>
      in if fd < 0 then d
         else case st_size of
           None \<Rightarrow> d
         | Some n \<Rightarrow>
             (let blks = n div 512
              in if blks > 4294967295 then d
                 else d\<lparr>sb_nr_blocks := of_nat blks,
                        sb_regs := (sb_regs d)[DEVSBD_REG_BLKS := of_nat blks]\<rparr>))"

definition DevSBD_read32 :: "u32 \<Rightarrow> sbd \<Rightarrow> u32 option" where
  "DevSBD_read32 addr d =
     (let reg = unat (drop_bit 2 (addr AND 0x1f))
      in if reg \<le> DEVSBD_REG_END then Some (sb_regs d ! reg) else None)"

text \<open>The code's test that a request lies on the device, in 32-bit arithmetic.\<close>

definition off_end :: "u32 \<Rightarrow> u32 \<Rightarrow> sbd \<Rightarrow> bool" where
  "off_end block_start num d \<longleftrightarrow> block_start \<ge> sb_nr_blocks d \<or> block_start + num > sb_nr_blocks d"

definition doRead :: "('f \<Rightarrow> u32 \<Rightarrow> u32 \<Rightarrow> u8 list option) \<Rightarrow> u32 \<Rightarrow> u32 \<Rightarrow> u32 \<Rightarrow> sbd \<Rightarrow> io \<Rightarrow> 'f \<Rightarrow> io option" where
  "doRead pread block_start num to d io f =
     (if num = 0 then Some io
      else if sb_fd d \<ge> 0 then do {
        (ha, io) \<leftarrow> getAddrDMA (sb_bus d) to io;
        Some (if off_end block_start num d then io
              else case pread f (num * DEVSBD_BLK_SIZE) (block_start * DEVSBD_BLK_SIZE) of
                     None \<Rightarrow> io
                   | Some bs \<Rightarrow> dma_in ha bs io) }
      else Some io)"

definition doWrite :: "(u8 list \<Rightarrow> u32 \<Rightarrow> 'f \<Rightarrow> 'f) \<Rightarrow> u32 \<Rightarrow> u32 \<Rightarrow> u32 \<Rightarrow> sbd \<Rightarrow> io \<Rightarrow> 'f \<Rightarrow> (io \<times> 'f) option" where
  "doWrite pwrite block_start num from_pa d io f =
     (if num = 0 then Some (io, f)
      else if sb_fd d \<ge> 0 then do {
        (ha, io) \<leftarrow> getAddrDMA (sb_bus d) from_pa io;
        Some (io, if off_end block_start num d then f
                  else pwrite (dma_out ha io (num * DEVSBD_BLK_SIZE)) (block_start * DEVSBD_BLK_SIZE) f) }
      else Some (io, f))"

definition sbd_set :: "nat \<Rightarrow> u32 \<Rightarrow> sbd \<Rightarrow> sbd" where
  "sbd_set reg v d = d\<lparr>sb_regs := (sb_regs d)[reg := v]\<rparr>"

definition DevSBD_write32 ::
  "('f \<Rightarrow> u32 \<Rightarrow> u32 \<Rightarrow> u8 list option) \<Rightarrow> (u8 list \<Rightarrow> u32 \<Rightarrow> 'f \<Rightarrow> 'f) \<Rightarrow> u32 \<Rightarrow> u32 \<Rightarrow>
    sbd \<times> io \<times> 'f \<Rightarrow> (sbd \<times> io \<times> 'f) option" where
  "DevSBD_write32 pread pwrite addr data = (\<lambda>(d, io, f).
     let reg = unat (drop_bit 2 (addr AND 0x1f))
     in if reg \<in> {DEVSBD_REG_IRQ, DEVSBD_REG_PA, DEVSBD_REG_LEN, DEVSBD_REG_BLK_START}
        then Some (sbd_set reg data d, io, f)
        else if reg = DEVSBD_REG_CMD then
          (if sb_regs d ! DEVSBD_REG_CMD \<noteq> DEVSBD_REG_CMD_IDLE then Some (d, io, f)
           else
             (let d = sbd_set DEVSBD_REG_CMD data d; start = sb_regs d ! DEVSBD_REG_BLK_START;
                  len = sb_regs d ! DEVSBD_REG_LEN; pa = sb_regs d ! DEVSBD_REG_PA;
                  idle = sbd_set DEVSBD_REG_CMD DEVSBD_REG_CMD_IDLE d
              in if data = DEVSBD_REG_CMD_RD then do {
                   io \<leftarrow> doRead pread start len pa d io f; Some (idle, io, f) }
                 else if data = DEVSBD_REG_CMD_WR then do {
                   (io, f) \<leftarrow> doWrite pwrite start len pa d io f; Some (idle, io, f) }
                 else Some (idle, io, f)))
        else Some (d, io, f))"

text \<open>The 32-bit test is exact unless the sum wraps around.\<close>

lemma off_end_exact:
  assumes "unat block_start + unat num < 2 ^ 32" and "num \<noteq> 0"
  shows "off_end block_start num d \<longleftrightarrow> unat block_start + unat num > unat (sb_nr_blocks d)"
proof -
  have "unat (block_start + num) = unat block_start + unat num"
    using assms(1) by (simp add: unat_word_ariths)
  moreover have "unat num \<noteq> 0" using assms(2) by (simp add: unat_eq_0)
  ultimately show ?thesis
    by (auto simp: off_end_def word_le_nat_alt word_less_nat_alt)
qed

lemma off_end_wrapped:
  assumes "unat block_start + unat num \<ge> 2 ^ 32"
  shows "off_end block_start num d \<longleftrightarrow>
    unat block_start \<ge> unat (sb_nr_blocks d) \<or> unat block_start + unat num - 2 ^ 32 > unat (sb_nr_blocks d)"
proof -
  have small: "unat block_start < 2 ^ LENGTH(32)" "unat num < 2 ^ LENGTH(32)"
    by (rule unsigned_less)+
  have "unat (block_start + num) = (unat block_start + unat num) mod 2 ^ 32"
    by (simp add: unat_word_ariths)
  also have "\<dots> = unat block_start + unat num - 2 ^ 32"
    using assms small by (simp add: le_mod_geq)
  finally show ?thesis
    by (auto simp: off_end_def word_le_nat_alt word_less_nat_alt)
qed

end
