(* ===== verification/Dev_LCDC.thy ===== *)
theory Dev_LCDC
  imports Dev_DMA
begin

section \<open>The display controller: \<open>DevLCDC\<close>\<close>

text \<open>
  Class \<open>DevLCDC\<close> of \<open>DevLCDC.h\<close> and \<open>DevLCDC.cc\<close>: the register interface, the
  palette, and the conversion of the framebuffer in guest RAM into the pixels of the window.
  Field \<open>x\<close> of the class is \<open>lc_x\<close>.  The window itself belongs to SDL, which is not part of
  the source: its surface is a function from pixel indices to pixels, and its width and height
  are arguments.  \<open>DISP_SCALE\<close> is 1 in the source and is kept as a constant.
\<close>

definition DEVLCDC_REG_STAT_CTRL :: nat where [simp]: "DEVLCDC_REG_STAT_CTRL = 0"
definition DEVLCDC_REG_STAT_CTRL_BEN :: u32 where [simp]: "DEVLCDC_REG_STAT_CTRL_BEN = 0x40000000"
definition DEVLCDC_REG_STAT_CTRL_EN :: u32 where [simp]: "DEVLCDC_REG_STAT_CTRL_EN = 0x80000000"
definition DEVLCDC_REG_DSIZE :: nat where [simp]: "DEVLCDC_REG_DSIZE = 1"
definition DEVLCDC_REG_DSIZE_WIDTH_SHIFT :: nat where [simp]: "DEVLCDC_REG_DSIZE_WIDTH_SHIFT = 0"
definition DEVLCDC_REG_DSIZE_WIDTH_MASK :: u32 where [simp]: "DEVLCDC_REG_DSIZE_WIDTH_MASK = 0x7ff"
definition DEVLCDC_REG_DSIZE_XMUL_SHIFT :: nat where [simp]: "DEVLCDC_REG_DSIZE_XMUL_SHIFT = 11"
definition DEVLCDC_REG_DSIZE_XMUL_MASK :: u32 where [simp]: "DEVLCDC_REG_DSIZE_XMUL_MASK = 0xf800"
definition DEVLCDC_REG_DSIZE_HEIGHT_SHIFT :: nat where [simp]: "DEVLCDC_REG_DSIZE_HEIGHT_SHIFT = 16"
definition DEVLCDC_REG_DSIZE_HEIGHT_MASK :: u32 where [simp]: "DEVLCDC_REG_DSIZE_HEIGHT_MASK = 0x7ff0000"
definition DEVLCDC_REG_DSIZE_YMUL_SHIFT :: nat where [simp]: "DEVLCDC_REG_DSIZE_YMUL_SHIFT = 27"
definition DEVLCDC_REG_DSIZE_YMUL_MASK :: u32 where [simp]: "DEVLCDC_REG_DSIZE_YMUL_MASK = 0xf8000000"
definition DEVLCDC_REG_VSYNC :: nat where [simp]: "DEVLCDC_REG_VSYNC = 2"
definition DEVLCDC_REG_VSYNC_WIDTH_MASK :: u32 where [simp]: "DEVLCDC_REG_VSYNC_WIDTH_MASK = 0xff"
definition DEVLCDC_REG_VSYNC_FP_MASK :: u32 where [simp]: "DEVLCDC_REG_VSYNC_FP_MASK = 0xff00"
definition DEVLCDC_REG_VSYNC_BP_MASK :: u32 where [simp]: "DEVLCDC_REG_VSYNC_BP_MASK = 0xff0000"
definition DEVLCDC_REG_VSYNC_POL_MASK :: u32 where [simp]: "DEVLCDC_REG_VSYNC_POL_MASK = 0x1000000"
definition DEVLCDC_REG_HSYNC :: nat where [simp]: "DEVLCDC_REG_HSYNC = 3"
definition DEVLCDC_REG_HSYNC_WIDTH_MASK :: u32 where [simp]: "DEVLCDC_REG_HSYNC_WIDTH_MASK = 0xff"
definition DEVLCDC_REG_HSYNC_FP_MASK :: u32 where [simp]: "DEVLCDC_REG_HSYNC_FP_MASK = 0xff00"
definition DEVLCDC_REG_HSYNC_BP_MASK :: u32 where [simp]: "DEVLCDC_REG_HSYNC_BP_MASK = 0xff0000"
definition DEVLCDC_REG_HSYNC_POL_MASK :: u32 where [simp]: "DEVLCDC_REG_HSYNC_POL_MASK = 0x1000000"
definition DEVLCDC_REG_HSYNC_DE_POL_MASK :: u32 where [simp]: "DEVLCDC_REG_HSYNC_DE_POL_MASK = 0x2000000"
definition DEVLCDC_REG_HSYNC_BLK_POL_MASK :: u32 where [simp]: "DEVLCDC_REG_HSYNC_BLK_POL_MASK = 0x4000000"
definition DEVLCDC_REG_FB_BASE :: nat where [simp]: "DEVLCDC_REG_FB_BASE = 4"
definition DEVLCDC_REG_ID :: nat where [simp]: "DEVLCDC_REG_ID = 5"
definition DEVLCDC_REG_ID_VAL :: u32 where [simp]: "DEVLCDC_REG_ID_VAL = 0x44430001"
definition DEVLCDC_REG_DWPL_BPP :: nat where [simp]: "DEVLCDC_REG_DWPL_BPP = 6"
definition DEVLCDC_REG_DWPL_BPP_DWPL_MASK :: u32 where [simp]: "DEVLCDC_REG_DWPL_BPP_DWPL_MASK = 0x7ff"
definition DEVLCDC_REG_DWPL_BPP_BPP_SHIFT :: nat where [simp]: "DEVLCDC_REG_DWPL_BPP_BPP_SHIFT = 11"
definition DEVLCDC_REG_DWPL_BPP_BPP_MASK :: u32 where [simp]: "DEVLCDC_REG_DWPL_BPP_BPP_MASK = 0x3800"
definition DEVLCDC_REG_PAL_IDX :: nat where [simp]: "DEVLCDC_REG_PAL_IDX = 7"
definition DEVLCDC_REG_PAL_IDX_MASK :: u32 where [simp]: "DEVLCDC_REG_PAL_IDX_MASK = 0xff"
definition DEVLCDC_REG_PAL_ENTRY :: nat where [simp]: "DEVLCDC_REG_PAL_ENTRY = 8"
definition DEVLCDC_REG_PAL_ENTRY_MASK :: u32 where [simp]: "DEVLCDC_REG_PAL_ENTRY_MASK = 0xffffff"
definition DEVLCDC_REG_END :: nat where [simp]: "DEVLCDC_REG_END = 8"
definition DISP_SCALE :: nat where [simp]: "DISP_SCALE = 1"

text \<open>The last round of the loop of \<open>init\<close> writes \<open>regs[8]\<close>, one past the array: it
  lands on the next member, the first palette entry.\<close>

definition DevLCDC_init :: "lcdc \<Rightarrow> lcdc" where
  "DevLCDC_init d = d\<lparr>lc_frame_end_time := 0, lc_regs := replicate 8 0,
     lc_palette := (lc_palette d)[0 := 0], lc_init_done := True\<rparr>"

definition DevLCDC_read32 :: "u32 \<Rightarrow> lcdc \<Rightarrow> u32 option" where
  "DevLCDC_read32 addr d =
     (let reg = unat (drop_bit 2 (addr AND 0x3f))
      in if reg \<in> {DEVLCDC_REG_STAT_CTRL, DEVLCDC_REG_DSIZE, DEVLCDC_REG_VSYNC, DEVLCDC_REG_HSYNC,
                   DEVLCDC_REG_FB_BASE, DEVLCDC_REG_DWPL_BPP, DEVLCDC_REG_PAL_IDX}
         then Some (lc_regs d ! reg)
         else if reg = DEVLCDC_REG_ID then Some DEVLCDC_REG_ID_VAL
         else if reg = DEVLCDC_REG_PAL_ENTRY then
           Some (lc_palette d ! unat (lc_regs d ! DEVLCDC_REG_PAL_IDX AND DEVLCDC_REG_PAL_IDX_MASK))
         else None)"

definition lcdc_set :: "nat \<Rightarrow> u32 \<Rightarrow> lcdc \<Rightarrow> lcdc" where
  "lcdc_set reg v d = d\<lparr>lc_regs := (lc_regs d)[reg := v]\<rparr>"

definition DevLCDC_write32 :: "u32 \<Rightarrow> u32 \<Rightarrow> lcdc \<Rightarrow> lcdc option" where
  "DevLCDC_write32 addr data d =
     (let reg = unat (drop_bit 2 (addr AND 0x3f))
      in if reg = DEVLCDC_REG_STAT_CTRL then
           Some ((lcdc_set reg (data AND (DEVLCDC_REG_STAT_CTRL_BEN OR DEVLCDC_REG_STAT_CTRL_EN)) d)
             \<lparr>lc_display_enable := data AND DEVLCDC_REG_STAT_CTRL_EN \<noteq> 0,
              lc_border_enable := data AND DEVLCDC_REG_STAT_CTRL_BEN \<noteq> 0\<rparr>)
         else if reg = DEVLCDC_REG_DSIZE then
           Some ((lcdc_set reg (data AND (DEVLCDC_REG_DSIZE_WIDTH_MASK OR DEVLCDC_REG_DSIZE_XMUL_MASK OR
                    DEVLCDC_REG_DSIZE_HEIGHT_MASK OR DEVLCDC_REG_DSIZE_YMUL_MASK)) d)
             \<lparr>lc_display_x := drop_bit DEVLCDC_REG_DSIZE_WIDTH_SHIFT (data AND DEVLCDC_REG_DSIZE_WIDTH_MASK),
              lc_display_y := drop_bit DEVLCDC_REG_DSIZE_HEIGHT_SHIFT (data AND DEVLCDC_REG_DSIZE_HEIGHT_MASK),
              lc_scale_x := drop_bit DEVLCDC_REG_DSIZE_XMUL_SHIFT (data AND DEVLCDC_REG_DSIZE_XMUL_MASK) + 1,
              lc_scale_y := drop_bit DEVLCDC_REG_DSIZE_YMUL_SHIFT (data AND DEVLCDC_REG_DSIZE_YMUL_MASK) + 1\<rparr>)
         else if reg = DEVLCDC_REG_VSYNC then
           Some (lcdc_set reg (data AND (DEVLCDC_REG_VSYNC_WIDTH_MASK OR DEVLCDC_REG_VSYNC_FP_MASK OR
             DEVLCDC_REG_VSYNC_BP_MASK OR DEVLCDC_REG_VSYNC_POL_MASK)) d)
         else if reg = DEVLCDC_REG_HSYNC then
           Some (lcdc_set reg (data AND (DEVLCDC_REG_HSYNC_WIDTH_MASK OR DEVLCDC_REG_HSYNC_FP_MASK OR
             DEVLCDC_REG_HSYNC_BP_MASK OR DEVLCDC_REG_HSYNC_POL_MASK OR
             DEVLCDC_REG_HSYNC_DE_POL_MASK OR DEVLCDC_REG_HSYNC_BLK_POL_MASK)) d)
         else if reg = DEVLCDC_REG_FB_BASE then Some (lcdc_set reg data d)
         else if reg = DEVLCDC_REG_DWPL_BPP then
           Some ((lcdc_set reg (data AND (DEVLCDC_REG_DWPL_BPP_DWPL_MASK OR DEVLCDC_REG_DWPL_BPP_BPP_MASK)) d)
             \<lparr>lc_bpp := push_bit (unat (drop_bit DEVLCDC_REG_DWPL_BPP_BPP_SHIFT
                (data AND DEVLCDC_REG_DWPL_BPP_BPP_MASK))) 1\<rparr>)
         else if reg = DEVLCDC_REG_PAL_IDX then
           Some (lcdc_set reg (data AND DEVLCDC_REG_PAL_IDX_MASK) d)
         else if reg = DEVLCDC_REG_PAL_ENTRY then
           Some (d\<lparr>lc_palette := (lc_palette d)
             [unat (lc_regs d ! DEVLCDC_REG_PAL_IDX) := data AND DEVLCDC_REG_PAL_ENTRY_MASK]\<rparr>)
         else None)"

subsection \<open>Lines\<close>

text \<open>The three line converters read words from the framebuffer pointer, a host address, and
  return the pixels written from \<open>lineout\<close> on, and the advanced pointer.\<close>

fun copyLine32bpp :: "nat \<Rightarrow> nat \<Rightarrow> hmem \<Rightarrow> u64 \<Rightarrow> u32 list \<times> u64" where
  "copyLine32bpp 0 pscale m ps = ([], ps)"
| "copyLine32bpp (Suc width) pscale m ps =
     (let pix = BSWAP32 (hload32 m ps);
          (out, ps) = copyLine32bpp width pscale m (ps + 4)
      in (replicate pscale pix @ out, ps))"

definition bgr565 :: "u32 \<Rightarrow> u32" where
  "bgr565 opx =
     (let r = ucast (push_bit 3 (opx AND 0x001f)) :: u8;
          g = ucast (drop_bit 4 (opx AND 0x07e0)) :: u8;
          b = ucast (drop_bit 8 (opx AND 0xf800)) :: u8
      in push_bit 16 (ucast r) OR push_bit 8 (ucast g) OR ucast b)"

fun copyLine16bpp :: "nat \<Rightarrow> nat \<Rightarrow> hmem \<Rightarrow> nat \<Rightarrow> u32 \<Rightarrow> u64 \<Rightarrow> u32 list \<times> u64" where
  "copyLine16bpp 0 pscale m pcount opx ps = ([], ps)"
| "copyLine16bpp (Suc width) pscale m pcount opx ps =
     (let (opx, ps, pcount) = (if pcount = 0 then (hload32 m ps, ps + 4, 2) else (opx, ps, pcount));
          (out, ps) = copyLine16bpp width pscale m (pcount - 1) (drop_bit 16 opx) ps
      in (replicate pscale (bgr565 opx) @ out, ps))"

definition pal_pixel :: "u32 \<Rightarrow> u32" where
  "pal_pixel p =
     (let r = ucast (p AND 0xff) :: u8;
          g = ucast (drop_bit 8 (p AND 0xff00)) :: u8;
          b = ucast (drop_bit 16 (p AND 0xff0000)) :: u8
      in push_bit 16 (ucast r) OR push_bit 8 (ucast g) OR ucast b)"

fun copyLineIndexed :: "nat \<Rightarrow> u32 list \<Rightarrow> nat \<Rightarrow> nat \<Rightarrow> hmem \<Rightarrow> nat \<Rightarrow> u32 \<Rightarrow> u64 \<Rightarrow> u32 list \<times> u64" where
  "copyLineIndexed bpp palette 0 pscale m pcount opx ps = ([], ps)"
| "copyLineIndexed bpp palette (Suc width) pscale m pcount opx ps =
     (let (opx, ps, pcount) = (if pcount = 0 then (hload32 m ps, ps + 4, 32 div bpp) else (opx, ps, pcount));
          pix = pal_pixel (palette ! unat (opx AND (push_bit bpp 1 - 1)));
          (out, ps) = copyLineIndexed bpp palette width pscale m (pcount - 1) (drop_bit bpp opx) ps
      in (replicate pscale pix @ out, ps))"

subsection \<open>Frames\<close>

text \<open>\<open>lineout\<close> and \<open>pd\<close> are pixel indices into the surface.\<close>

fun put_pixels :: "nat \<Rightarrow> u32 list \<Rightarrow> surface \<Rightarrow> surface" where
  "put_pixels k [] sf = sf"
| "put_pixels k (p # ps) sf = put_pixels (k + 1) ps (sf(k := p))"

definition lcdc_line :: "lcdc \<Rightarrow> nat \<Rightarrow> hmem \<Rightarrow> u64 \<Rightarrow> u32 list \<times> u64" where
  "lcdc_line d w m ps =
     (let bpp = unat (lc_bpp d); sx = unat (lc_scale_x d); width = w div DISP_SCALE div sx;
          pscale = DISP_SCALE * sx
      in if bpp = 32 then copyLine32bpp width pscale m ps
         else if bpp = 16 then copyLine16bpp width pscale m 0 0 ps
         else if bpp = 8 then copyLineIndexed 8 (lc_palette d) width pscale m 0 0 ps
         else if bpp = 4 then copyLineIndexed 4 (lc_palette d) width pscale m 0 0 ps
         else if bpp = 2 then copyLineIndexed 2 (lc_palette d) width pscale m 0 0 ps
         else if bpp = 1 then copyLineIndexed 1 (lc_palette d) width pscale m 0 0 ps
         else (replicate w 0x000000ff, ps))"

text \<open>\<open>memcpy\<close> of the line at \<open>pd\<close> into the next rows.\<close>

definition copy_row :: "nat \<Rightarrow> nat \<Rightarrow> nat \<Rightarrow> surface \<Rightarrow> surface" where
  "copy_row w pd s sf = put_pixels (pd + w * s) (map (\<lambda>x. sf (pd + x)) [0..<w]) sf"

fun lcdc_rows :: "nat \<Rightarrow> lcdc \<Rightarrow> nat \<Rightarrow> hmem \<Rightarrow> nat \<Rightarrow> u64 \<Rightarrow> surface \<Rightarrow> surface" where
  "lcdc_rows 0 d w m pd ps sf = sf"
| "lcdc_rows (Suc n) d w m pd ps sf =
     (let (out, ps) = lcdc_line d w m ps;
          sf = put_pixels pd out sf;
          sf = fold (copy_row w pd) [1..<DISP_SCALE * unat (lc_scale_y d)] sf
      in lcdc_rows n d w m (pd + w * DISP_SCALE * unat (lc_scale_y d)) ps sf)"

definition transformFramebuffer :: "nat \<Rightarrow> nat \<Rightarrow> lcdc \<Rightarrow> surface \<Rightarrow> io \<Rightarrow> (surface \<times> io) option" where
  "transformFramebuffer w h d sf io =
     do { (ps, io) \<leftarrow> getAddrDMA (lc_bus d) (lc_regs d ! DEVLCDC_REG_FB_BASE) io;
          Some (lcdc_rows (h div DISP_SCALE div unat (lc_scale_y d)) d w (io_hmem io) 0 ps sf, io) }"

text \<open>\<open>periodic\<close>: the argument says whether SDL reported that the window was closed; a closed window ends the
  simulator.\<close>

definition DevLCDC_periodic :: "bool \<Rightarrow> nat \<Rightarrow> nat \<Rightarrow> lcdc \<Rightarrow> surface \<Rightarrow> io \<Rightarrow> (lcdc \<times> surface \<times> io) option" where
  "DevLCDC_periodic quit w h d sf io =
     (if \<not> lc_init_done d then Some (d, sf, io)
      else
        (let d = (if quit then d\<lparr>lc_done := True\<rparr> else d)
         in if lc_done d then None
            else if lc_display_enable d then
              do { (sf, io) \<leftarrow> transformFramebuffer w h d sf io; Some (d, sf, io) }
            else Some (d, sf, io)))"

subsection \<open>Pixels\<close>

definition fb_word :: "hmem \<Rightarrow> u64 \<Rightarrow> nat \<Rightarrow> u32" where
  "fb_word m base k = hload32 m (base + 4 * of_nat k)"

text \<open>The pixel with number \<open>i\<close> of a line that starts at \<open>base\<close>, with
  \<open>32 div bpp\<close> pixels in a word, the lowest bits first.\<close>

definition idx_pixel :: "nat \<Rightarrow> u32 list \<Rightarrow> hmem \<Rightarrow> u64 \<Rightarrow> nat \<Rightarrow> u32" where
  "idx_pixel bpp palette m base i =
     pal_pixel (palette ! unat (drop_bit (bpp * (i mod (32 div bpp))) (fb_word m base (i div (32 div bpp))) AND
       (push_bit bpp 1 - 1)))"

lemma ceil_div: "0 < N \<Longrightarrow> (i + N - 1) div N = (if i mod N = 0 then i div N else i div N + 1)" for i N :: nat
proof -
  assume N: "0 < N"
  have "i + N - 1 = i div N * N + (i mod N + N - 1)"
    using N div_mult_mod_eq [of i N] by linarith
  then have "(i + N - 1) div N = i div N + (i mod N + N - 1) div N"
    using N div_mult_self1 [of N "i mod N + N - 1" "i div N"] by (simp only: add.commute)
  moreover have "(i mod N + N - 1) div N = (if i mod N = 0 then 0 else 1)"
    using N mod_less_divisor [OF N, of i] by (auto simp: div_if)
  ultimately show ?thesis by simp
qed

lemma copyLineIndexed_from:
  assumes N: "N = 32 div bpp" "2 \<le> N"
    and "if i mod N = 0 then pcount = 0 \<and> ps = base + 4 * of_nat (i div N)
         else pcount = N - i mod N \<and> opx = drop_bit (bpp * (i mod N)) (fb_word m base (i div N)) \<and>
              ps = base + 4 * of_nat (i div N + 1)"
  shows "copyLineIndexed bpp palette width pscale m pcount opx ps =
    (concat (map (\<lambda>x. replicate pscale (idx_pixel bpp palette m base x)) [i..<i + width]),
     base + 4 * of_nat ((i + width + N - 1) div N))"
  using assms(3)
proof (induction width arbitrary: i pcount opx ps)
  case 0
  then show ?case using ceil_div [of N i] N(2) by (simp split: if_splits)
next
  case (Suc width)
  define w where "w = fb_word m base (i div N)"
  define opx' where "opx' = drop_bit (bpp * (i mod N)) w"
  have lt: "i mod (32 div bpp) < 32 div bpp" using N by simp
  have step: "copyLineIndexed bpp palette (Suc width) pscale m pcount opx ps =
      (let (out, ps) = copyLineIndexed bpp palette width pscale m (N - i mod N - 1) (drop_bit bpp opx')
          (base + 4 * of_nat (i div N + 1))
       in (replicate pscale (idx_pixel bpp palette m base i) @ out, ps))"
    using Suc.prems N by (auto simp: lt [unfolded not_le [symmetric]] opx'_def w_def idx_pixel_def fb_word_def Let_def algebra_simps split: if_splits)
  have "copyLineIndexed bpp palette width pscale m (N - i mod N - 1) (drop_bit bpp opx') (base + 4 * of_nat (i div N + 1)) =
    (concat (map (\<lambda>x. replicate pscale (idx_pixel bpp palette m base x)) [Suc i..<Suc i + width]),
     base + 4 * of_nat ((Suc i + width + N - 1) div N))"
    by (rule Suc.IH) (use N(2) in \<open>auto simp: mod_Suc div_Suc opx'_def w_def add.commute\<close>)
  then show ?case unfolding step by (simp add: upt_rec [of i])
qed

lemma copyLineIndexed_line:
  assumes "2 \<le> 32 div bpp"
  shows "copyLineIndexed bpp palette width pscale m 0 0 ps =
    (concat (map (\<lambda>x. replicate pscale (idx_pixel bpp palette m ps x)) [0..<width]),
     ps + 4 * of_nat ((width + 32 div bpp - 1) div (32 div bpp)))"
  using copyLineIndexed_from [of "32 div bpp" bpp 0 0 ps ps] assms by simp

lemma length_concat_replicate: "length (concat (map (\<lambda>x. replicate n (f x)) xs)) = n * length xs"
  by (induction xs) simp_all

lemma nth_concat_replicate:
  "k < n * length xs \<Longrightarrow> concat (map (\<lambda>x. replicate n (f x)) xs) ! k = f (xs ! (k div n))"
proof (induction xs arbitrary: k)
  case (Cons x xs)
  show ?case
  proof (cases "k < n")
    case False
    moreover have "0 < n" using Cons.prems by (cases n) auto
    ultimately have "k div n = Suc ((k - n) div n)" by (simp add: div_if)
    with False Cons show ?thesis by (simp add: nth_append)
  qed (simp add: nth_append)
qed simp

lemma put_pixels_at:
  "put_pixels k ps sf n = (if k \<le> n \<and> n < k + length ps then ps ! (n - k) else sf n)"
  by (induction ps arbitrary: k sf) (auto simp: nth_Cons' Suc_diff_Suc)

lemma copy_row_at:
  "copy_row w pd s sf n = (if pd + w * s \<le> n \<and> n < pd + w * s + w then sf (n - w * s) else sf n)"
  by (auto simp: copy_row_def put_pixels_at)

text \<open>After the copies the first \<open>s\<close> rows from \<open>pd\<close> on are equal; nothing else changes.\<close>

lemma copy_rows_at:
  "fold (copy_row w pd) [1..<Suc s] sf n =
     (if pd \<le> n \<and> n < pd + w * Suc s then sf (pd + (n - pd) mod w) else sf n)"
proof (induction s arbitrary: n)
  case 0
  then show ?case by (auto simp: mod_less)
next
  case (Suc s)
  let ?sf = "fold (copy_row w pd) [1..<Suc s] sf"
  have "fold (copy_row w pd) [1..<Suc (Suc s)] sf n = copy_row w pd (Suc s) ?sf n"
    by simp
  also have "\<dots> = (if pd + w * Suc s \<le> n \<and> n < pd + w * Suc s + w then ?sf (n - w * Suc s) else ?sf n)"
    by (simp only: copy_row_at)
  also have "\<dots> = (if pd \<le> n \<and> n < pd + w * Suc (Suc s) then sf (pd + (n - pd) mod w) else sf n)"
  proof (cases "pd + w * Suc s \<le> n \<and> n < pd + w * Suc s + w")
    case True
    then obtain k where k: "n = pd + w * Suc s + k" "k < w"
      by (metis add_less_cancel_left le_Suc_ex)
    then have "n - w * Suc s = pd + k" "(n - pd) mod w = k" by simp_all
    with k show ?thesis unfolding Suc by simp
  next
    case False
    then show ?thesis unfolding Suc by (auto simp: algebra_simps)
  qed
  finally show ?case .
qed

lemma lcdc_rows_at:
  assumes line: "\<And>p. lcdc_line d w m p = (L p, p + delta)" and len: "\<And>p. length (L p) = w"
    and w: "0 < w" and sy: "unat (lc_scale_y d) = Suc s"
  shows "lcdc_rows n d w m pd ps sf k =
    (if pd \<le> k \<and> k < pd + w * Suc s * n
     then L (ps + of_nat ((k - pd) div (w * Suc s)) * delta) ! ((k - pd) mod w) else sf k)"
proof (induction n arbitrary: pd ps sf)
  case 0
  then show ?case by auto
next
  case (Suc n)
  let ?h = "w * Suc s"
  let ?sf = "fold (copy_row w pd) [1..<Suc s] (put_pixels pd (L ps) sf)"
  have first: "?sf k = (if pd \<le> k \<and> k < pd + ?h then L ps ! ((k - pd) mod w) else sf k)"
    unfolding copy_rows_at put_pixels_at len using w by (auto simp: not_less algebra_simps)
  have "lcdc_rows (Suc n) d w m pd ps sf k = lcdc_rows n d w m (pd + ?h) (ps + delta) ?sf k"
    by (simp add: line sy Let_def mult_1_right del: upt_Suc fold_simps)
  also have "\<dots> = (if pd + ?h \<le> k \<and> k < pd + ?h + ?h * n
     then L (ps + delta + of_nat ((k - (pd + ?h)) div ?h) * delta) ! ((k - (pd + ?h)) mod w) else ?sf k)"
    by (rule Suc)
  also have "\<dots> = (if pd \<le> k \<and> k < pd + ?h * Suc n
     then L (ps + of_nat ((k - pd) div ?h) * delta) ! ((k - pd) mod w) else sf k)"
  proof (cases "pd + ?h \<le> k")
    case True
    then obtain j where k: "k = pd + ?h + j" by (metis le_Suc_ex)
    have d: "(k - pd) div ?h = Suc (j div ?h)" "(k - pd) mod w = j mod w" "k - (pd + ?h) = j"
      using w unfolding k by (simp_all add: div_add_self1 del: mult_Suc_right)
    show ?thesis unfolding d using True first w by (auto simp: k algebra_simps)
  next
    case False
    then show ?thesis unfolding first by (auto simp: div_less del: mult_Suc_right)
  qed
  finally show ?case .
qed

lemma lcdc_line_indexed:
  assumes "unat (lc_bpp d) \<in> {1, 2, 4, 8}"
  defines "bpp \<equiv> unat (lc_bpp d)" and "sx \<equiv> unat (lc_scale_x d)"
  shows "lcdc_line d w m p =
    (concat (map (\<lambda>x. replicate sx (idx_pixel bpp (lc_palette d) m p x)) [0..<w div sx]),
     p + 4 * of_nat ((w div sx + 32 div bpp - 1) div (32 div bpp)))"
  using assms by (auto simp: lcdc_line_def Let_def copyLineIndexed_line simp del: One_nat_def)

end
