(* ===== verification/System_Bus.thy ===== *)
theory System_Bus
  imports Dev_SD Dev_SBD Dev_LCDC
begin

section \<open>Accesses through the bus\<close>

text \<open>
  The virtual dispatch of the methods of class \<open>Device\<close>, and the accesses of class \<open>Bus\<close>
  that find a device and call it.  An access that a device class answers with \<open>FATAL\<close> is
  \<open>None\<close>.
\<close>

subsection \<open>Virtual dispatch\<close>

text \<open>32- and 16-bit reads change no device; an 8-bit read of a UART does, and may
  raise its interrupt (the last component: the IRQ numbers raised).\<close>

fun dev_read32 :: "device \<Rightarrow> u32 \<Rightarrow> hmem \<Rightarrow> u32 option" where
  "dev_read32 (DRam d) a m = Some (ram_read32 d a m)"
| "dev_read32 (DIntc d) a m = intc_read32 d a"
| "dev_read32 (DGpio d) a m = gpio_read32 d a"
| "dev_read32 (DSbd d f) a m = DevSBD_read32 a d"
| "dev_read32 (DSd d c f) a m = DevSD_read32 a d"
| "dev_read32 (DLcdc d sf) a m = DevLCDC_read32 a d"
| "dev_read32 (DSpi d) a m = DevSPI_read32 a d"
| "dev_read32 DDummy a m = Some 0"
| "dev_read32 _ a m = None"

fun dev_read16 :: "device \<Rightarrow> u32 \<Rightarrow> hmem \<Rightarrow> u16 option" where
  "dev_read16 (DRam d) a m = Some (ram_read16 d a m)"
| "dev_read16 DDummy a m = Some 0"
| "dev_read16 _ a m = None"

fun dev_read8 :: "device \<Rightarrow> u32 \<Rightarrow> hmem \<Rightarrow> (u8 \<times> device \<times> nat list) option" where
  "dev_read8 (DRam d) a m = Some (ram_read8 d a m, DRam d, [])"
| "dev_read8 (DSuart d) a m =
     do { (v, d, r) \<leftarrow> suart_read8 a d;
          Some (v, DSuart d, if r \<and> su_intc d then [su_irq_number d] else []) }"
| "dev_read8 (DUart d) a m =
     do { (v, d, r) \<leftarrow> uart_read8 a d;
          Some (v, DUart d, if r \<and> ua_intc d then [ua_irq_number d] else []) }"
| "dev_read8 DDummy a m = Some (0, DDummy, [])"
| "dev_read8 _ a m = None"

text \<open>The devices that a 32-bit write changes without help of the bus.\<close>

fun dev_write32 :: "host \<Rightarrow> u32 \<Rightarrow> u32 \<Rightarrow> device \<Rightarrow> hmem \<Rightarrow> bool \<Rightarrow> (device \<times> hmem \<times> bool) option" where
  "dev_write32 h a v (DRam d) m f = Some (DRam d, ram_write32 d a v m, f)"
| "dev_write32 h a v (DIntc d) m f =
     do { (d, f) \<leftarrow> intc_write32 a v (d, f); Some (DIntc d, m, f) }"
| "dev_write32 h a v (DGpio d) m f = do { d \<leftarrow> gpio_write32 a v d; Some (DGpio d, m, f) }"
| "dev_write32 h a v (DLcdc d sf) m f = do { d \<leftarrow> DevLCDC_write32 a v d; Some (DLcdc d sf, m, f) }"
| "dev_write32 h a v (DSpi d) m f = do { d \<leftarrow> DevSPI_write32 (h_gpioRead h) a v d; Some (DSpi d, m, f) }"
| "dev_write32 h a v DDummy m f = Some (DDummy, m, f)"
| "dev_write32 h a v _ m f = None"

fun dev_write16 :: "u32 \<Rightarrow> u16 \<Rightarrow> device \<Rightarrow> hmem \<Rightarrow> hmem option" where
  "dev_write16 a v (DRam d) m = Some (ram_write16 d a v m)"
| "dev_write16 a v DDummy m = Some m"
| "dev_write16 a v _ m = None"

fun dev_write8 :: "u32 \<Rightarrow> u8 \<Rightarrow> device \<Rightarrow> hmem \<Rightarrow> (device \<times> hmem \<times> nat list) option" where
  "dev_write8 a v (DRam d) m = Some (DRam d, ram_write8 d a v m, [])"
| "dev_write8 a v (DSuart d) m =
     do { (d, r) \<leftarrow> suart_write8 a v d;
          Some (DSuart d, m, if r \<and> su_intc d then [su_irq_number d] else []) }"
| "dev_write8 a v (DUart d) m =
     do { (d, r) \<leftarrow> uart_write8 a v d;
          Some (DUart d, m, if r \<and> ua_intc d then [ua_irq_number d] else []) }"
| "dev_write8 a v DDummy m = Some (DDummy, m, [])"
| "dev_write8 a v _ m = None"

subsection \<open>Accesses\<close>

definition bus_read32 :: "u32 \<Rightarrow> io \<Rightarrow> (u32 \<times> io) option" where
  "bus_read32 addr io =
     do { (i, d, io) \<leftarrow> io_get_dev addr io;
          v \<leftarrow> dev_read32 d addr (io_hmem io);
          Some (v, io) }"

definition bus_read16 :: "u32 \<Rightarrow> io \<Rightarrow> (u16 \<times> io) option" where
  "bus_read16 addr io =
     do { (i, d, io) \<leftarrow> io_get_dev addr io;
          v \<leftarrow> dev_read16 d addr (io_hmem io);
          Some (v, io) }"

definition bus_read8 :: "u32 \<Rightarrow> io \<Rightarrow> (u8 \<times> io) option" where
  "bus_read8 addr io =
     do { (i, d, io) \<leftarrow> io_get_dev addr io;
          (v, d, irqs) \<leftarrow> dev_read8 d addr (io_hmem io);
          Some (v, fold io_triggerIRQ irqs (io_set_dev i d io)) }"

text \<open>A write of a block device or of the SD host controller may start a transfer, so it works on the
  whole I/O state.  The device's own slot is set last; nothing looks at it before.\<close>

definition bus_write32 :: "u32 \<Rightarrow> u32 \<Rightarrow> io \<Rightarrow> io option" where
  "bus_write32 addr data io =
     do { (i, d, io) \<leftarrow> io_get_dev addr io;
          let h = io_host io;
          case d of
            DSbd d p \<Rightarrow>
              do { (d, io, f) \<leftarrow> DevSBD_write32 (h_pread h) (\<lambda>bs off f. snd (h_pwrite h bs off f)) addr data
                     (d, io, io_files io p);
                   Some ((io_set_dev i (DSbd d p) io)\<lparr>io_files := (io_files io)(p := f)\<rparr>) }
          | DSd hc c p \<Rightarrow>
              do { s \<leftarrow> DevSD_write32 (h_pread h) (h_pwrite h) addr data
                     \<lparr>ss_hc = hc, ss_card = c, ss_io = io, ss_file = io_files io p\<rparr>;
                   let io = ss_io s;
                   Some ((io_set_dev i (DSd (ss_hc s) (ss_card s) p) io)\<lparr>io_files := (io_files io)(p := ss_file s)\<rparr>) }
          | _ \<Rightarrow>
              do { (d, m, f) \<leftarrow> dev_write32 h addr data d (io_hmem io) (io_irqFlag io);
                   Some ((io_set_dev i d io)\<lparr>io_hmem := m, io_irqFlag := f\<rparr>) } }"

definition bus_write16 :: "u32 \<Rightarrow> u16 \<Rightarrow> io \<Rightarrow> io option" where
  "bus_write16 addr data io =
     do { (i, d, io) \<leftarrow> io_get_dev addr io;
          m \<leftarrow> dev_write16 addr data d (io_hmem io);
          Some (io\<lparr>io_hmem := m\<rparr>) }"

definition bus_write8 :: "u32 \<Rightarrow> u8 \<Rightarrow> io \<Rightarrow> io option" where
  "bus_write8 addr data io =
     do { (i, d, io) \<leftarrow> io_get_dev addr io;
          (d, m, irqs) \<leftarrow> dev_write8 addr data d (io_hmem io);
          Some (fold io_triggerIRQ irqs ((io_set_dev i d io)\<lparr>io_hmem := m\<rparr>)) }"

subsection \<open>Periodic work\<close>

text \<open>\<open>platform_poll_periodic\<close> polls the platform's display (the first on the bus) every \<open>2^20\<close>
  instructions; a platform without a display has nothing to do.\<close>

definition LCDC0_POLL_PERIOD_MASK :: u64 where "LCDC0_POLL_PERIOD_MASK = 0xfffff"

definition is_lcdc :: "device option \<Rightarrow> bool" where
  "is_lcdc d = (case d of Some (DLcdc _ _) \<Rightarrow> True | _ \<Rightarrow> False)"

definition platform_poll_lcdc0 :: "u64 \<Rightarrow> io \<Rightarrow> io option" where
  "platform_poll_lcdc0 ticks io =
     (case find (\<lambda>i. is_lcdc (io_dev io i)) [0..<bus_entries] of
        None \<Rightarrow> Some io
      | Some i \<Rightarrow>
          (case io_dev io i of
             Some (DLcdc d sf) \<Rightarrow>
               (let (w, h) = h_window (io_host io)
                in do { (d, sf, io) \<leftarrow> DevLCDC_periodic (h_closed (io_host io) ticks) w h d sf io;
                        Some (io_set_dev i (DLcdc d sf) io) })
           | _ \<Rightarrow> Some io))"

definition platform_poll_periodic :: "u64 \<Rightarrow> io \<Rightarrow> io option" where
  "platform_poll_periodic ticks io =
     (if ticks AND LCDC0_POLL_PERIOD_MASK = 0 then platform_poll_lcdc0 ticks io else Some io)"

subsection \<open>What an access leaves alone\<close>

lemma bus_read32_core:
  assumes "bus_read32 a io = Some (v, io')" and "bus_wf (io_bus io)"
  shows "io_core io' = io_core io" and "bus_wf (io_bus io')" and "io_hmem io' = io_hmem io"
  using assms io_get_dev_SomeD(4,5) [of a io]
  by (auto simp: bus_read32_def io_core_def case_prod_beta elim!: bind_SomeE)

lemma ram_bus_read32:
  assumes "ram_at io a d" and "bus_wf (io_bus io)" and "bus_disjoint (io_bus io)"
  shows "map_option fst (bus_read32 a io) = Some (ram_read32 d a (io_hmem io))"
proof -
  obtain i where "io_get_dev a io = Some (i, DRam d, io\<lparr>io_bus := io_bus io\<lparr>bus_last_dev := i\<rparr>\<rparr>)"
    using assms by (rule ram_at_get_dev)
  then show ?thesis by (simp add: bus_read32_def)
qed

lemma ram_bus_write32:
  assumes "ram_at io a d" and "bus_wf (io_bus io)" and "bus_disjoint (io_bus io)"
  shows "map_option io_core (bus_write32 a v io) =
         Some (io_core (io\<lparr>io_hmem := ram_write32 d a v (io_hmem io)\<rparr>))"
proof -
  obtain i where g: "io_get_dev a io = Some (i, DRam d, io\<lparr>io_bus := io_bus io\<lparr>bus_last_dev := i\<rparr>\<rparr>)"
    and d: "io_dev io i = Some (DRam d)"
    using assms by (rule ram_at_get_dev)
  then show ?thesis by (simp add: bus_write32_def io_core_def)
qed

end
