(* ===== verification/MMU_Translate.thy ===== *)
theory MMU_Translate
  imports MMU_Regs System_Bus
begin

section \<open>Address translation\<close>

text \<open>
  \<open>PPCMMU::matchBAT\<close>, \<open>translateEA\<close>, \<open>utlbInsert\<close> and \<open>translateAddr\<close>.
  The state is the pair of the MMU and the I/O state, because a walk reads page tables
  over the bus and updates their R and C bits there.  A fault is \<open>Inl\<close>.
  \<open>None\<close> is a \<open>FATAL\<close>: an access to a physical address that no device serves, or
  the "TLB miss after insert" of \<open>translateAddr\<close>, which the lemmas below exclude.
  The \<open>do_lookup\<close> loop of \<open>translateAddr\<close> is a partial function; they also show
  that it is entered at most once more.

  Out-parameters that the C++ leaves unwritten keep the value they had: \<open>matchBAT\<close>
  takes \<open>*output_addr\<close> as an argument for that reason.
\<close>

type_synonym mmu_io = "mmu \<times> io"

subsection \<open>Filling the micro-TLB\<close>

definition utlbInsert :: "bool \<Rightarrow> bool \<Rightarrow> u32 \<Rightarrow> u32 \<Rightarrow> u8 \<Rightarrow> mmu_io \<Rightarrow> mmu_io option" where
  "utlbInsert InD priv addr out_addr perms s = do {
     let (m, io) = s;
     (host_addr, io) \<leftarrow> get_direct_map out_addr io;
     let pa = (case host_addr of Some h \<Rightarrow> h | None \<Rightarrow> ucast out_addr OR PPCMMU_HVA_IO_BIT);
     let tr = (if (if InD then m_enabled_i m else m_enabled_d m) then PPCMMU_UTLB_TR else 0);
     Some (write_utlb InD priv (utlb_idx addr) (utlb_set addr tr pa perms) m, io) }"

subsection \<open>Block address translation\<close>

definition bat_amask :: "bat_t \<Rightarrow> u32" where
  "bat_amask b = push_bit (bat_bl_shift b) 0xfffe0000"

definition bat_matches :: "u32 \<Rightarrow> bool \<Rightarrow> bat_t \<Rightarrow> bool" where
  "bat_matches addr priv b =
     (if (priv \<and> \<not> bat_vs b) \<or> (\<not> priv \<and> \<not> bat_vp b) then False
      else (bat_vp b \<or> bat_vs b) \<and> (addr XOR bat_bepi b) AND bat_amask b = 0)"

text \<open>\<open>None\<close> is the result false; the loop runs over the four entries in order.\<close>

definition matchBAT :: "u32 \<Rightarrow> bool \<Rightarrow> bool \<Rightarrow> u32 \<Rightarrow> mmu \<Rightarrow> (u32 \<times> mmuperms_t) option" where
  "matchBAT addr InD priv output_addr m =
     (let bat_tab = (if InD then m_ibat m else m_dbat m)
      in case find (bat_matches addr priv) (map bat_tab [0..<PPCMMU_NR_BATS]) of
           None \<Rightarrow> None
         | Some b \<Rightarrow>
             if bat_pp b = 0 then Some (output_addr, no_perms)
             else Some (bat_brpn b OR (addr AND NOT (bat_amask b)),
                        no_perms\<lparr>perm_r := True, perm_w := (bat_pp b = 2)\<rparr>))"

subsection \<open>The hashed page table\<close>

definition pteg_addr :: "mmu \<Rightarrow> u32 \<Rightarrow> u32" where
  "pteg_addr m hashfn =
     m_htab_phys m OR (push_bit 6 hashfn AND (push_bit 16 (m_htab_mask m) OR 0xffc0))"

definition pte_matches :: "seg_t \<Rightarrow> u32 \<Rightarrow> u32 \<Rightarrow> u32 \<Rightarrow> bool" where
  "pte_matches sr api want_h ptel \<longleftrightarrow>
     ptel AND PPC_PTE_V \<noteq> 0 \<and> ptel AND PPC_PTE_H = want_h \<and>
     ptel AND 0x7fffff80 = push_bit 7 (seg_vsid sr) \<and> ptel AND 0x3f = api"

text \<open>One pass of the inner loop: the eight PTEs of a group, in order, until one matches.\<close>

fun scan_pteg :: "seg_t \<Rightarrow> u32 \<Rightarrow> u32 \<Rightarrow> u32 list \<Rightarrow> io \<Rightarrow> (u32 option \<times> io) option" where
  "scan_pteg sr api want_h [] io = Some (None, io)"
| "scan_pteg sr api want_h (pte_pa # rest) io = do {
     (v, io) \<leftarrow> bus_read32 pte_pa io;
     if pte_matches sr api want_h (BS32 v) then Some (Some pte_pa, io)
     else scan_pteg sr api want_h rest io }"

definition pte_addrs :: "u32 \<Rightarrow> u32 list" where
  "pte_addrs pteg = map (\<lambda>pte. pteg + of_nat pte * 8) [0..<8]"

text \<open>The outer loop: the primary hash, then its complement with the H bit wanted.\<close>

definition find_pte :: "u32 \<Rightarrow> mmu \<Rightarrow> io \<Rightarrow> (u32 option \<times> io) option" where
  "find_pte addr m io = do {
     let sr = m_segreg m (unat (drop_bit 28 addr AND 0xf));
     let pgidx = drop_bit 12 addr AND 0xffff;
     let api = drop_bit 10 pgidx;
     let hashfn = (seg_vsid sr AND 0x7ffff) XOR pgidx;
     (p, io) \<leftarrow> scan_pteg sr api 0 (pte_addrs (pteg_addr m hashfn)) io;
     case p of
       Some pte_pa \<Rightarrow> Some (Some pte_pa, io)
     | None \<Rightarrow> scan_pteg sr api PPC_PTE_H (pte_addrs (pteg_addr m (NOT hashfn))) io }"

text \<open>Whether a protection key and the PP bits allow writes.\<close>

definition pte_writable :: "bool \<Rightarrow> u32 \<Rightarrow> bool" where
  "pte_writable k pp \<longleftrightarrow> (\<not> k \<and> pp < 3) \<or> (k \<and> pp = 2)"

text \<open>The permissions, and the value to write back to the second word when R or C changes.\<close>

definition pte_access :: "bool \<Rightarrow> bool \<Rightarrow> seg_t \<Rightarrow> u32 \<Rightarrow> mmuperms_t \<times> u32 option" where
  "pte_access RnW priv sr pteh =
     (let r = (pteh AND 0x100 \<noteq> 0);
          c = (pteh AND 0x80 \<noteq> 0);
          pp = pteh AND 3;
          uw = pte_writable (seg_kp sr) pp;
          kw = pte_writable (seg_ks sr) pp;
          update_r = (\<not> r);
          update_c = ((\<not> RnW \<and> priv \<and> kw \<and> \<not> c) \<or> (\<not> RnW \<and> \<not> priv \<and> uw \<and> \<not> c));
          c = (if update_c then True else c);
          new_pteh = pteh OR (if update_c then 0x180 else if update_r then 0x100 else 0)
      in (\<lparr>perm_r = (if priv then \<not> (seg_ks sr \<and> pp = 0) else \<not> (seg_kp sr \<and> pp = 0)),
           perm_w = (if priv then kw else uw), perm_clean = (\<not> c)\<rparr>,
          if update_r \<or> update_c then Some new_pteh else None))"

text \<open>A PTE found at \<open>pte_pa\<close>: read the second word, update it, fill the micro-TLB.\<close>

definition use_pte ::
    "u32 \<Rightarrow> bool \<Rightarrow> bool \<Rightarrow> bool \<Rightarrow> u32 \<Rightarrow> mmu_io \<Rightarrow> ((u32 \<times> mmuperms_t) \<times> mmu_io) option" where
  "use_pte addr InD RnW priv pte_pa s = do {
     let (m, io) = s;
     let sr = m_segreg m (unat (drop_bit 28 addr AND 0xf));
     (v, io) \<leftarrow> bus_read32 (pte_pa + 4) io;
     let pteh = BS32 v;
     let rpn = pteh AND 0xfffff000;
     let (perms, update) = pte_access RnW priv sr pteh;
     io \<leftarrow> (case update of None \<Rightarrow> Some io | Some w \<Rightarrow> bus_write32 (pte_pa + 4) (BS32 w) io);
     let output_addr = rpn OR (addr AND 0xfff);
     s \<leftarrow> utlbInsert InD priv addr output_addr (perms_field perms) (m, io);
     Some ((output_addr, perms), s) }"

subsection \<open>\<open>translateEA\<close>\<close>

definition translateEA ::
    "u32 \<Rightarrow> bool \<Rightarrow> bool \<Rightarrow> bool \<Rightarrow> u32 \<Rightarrow> mmu_io \<Rightarrow> ((fault_t + u32 \<times> mmuperms_t) \<times> mmu_io) option" where
  "translateEA addr InD RnW priv output_addr s =
     (let (m, io) = s;
          sr = m_segreg m (unat (drop_bit 28 addr AND 0xf))
      in if (InD \<and> \<not> m_enabled_i m) \<or> (\<not> InD \<and> \<not> m_enabled_d m) then do {
           s \<leftarrow> utlbInsert InD priv addr addr (perms_field PPCMMU_PERMS_ANY) s;
           Some (Inr (addr, PPCMMU_PERMS_ANY), s) }
         else case matchBAT addr InD priv output_addr m of
           Some (output_addr, perms) \<Rightarrow>
             if \<not> perm_r perms \<and> \<not> perm_w perms then Some (Inl FAULT_PERMS, s)
             else do {
               s \<leftarrow> utlbInsert InD priv addr output_addr (perms_field perms) s;
               Some (Inr (output_addr, perms), s) }
         | None \<Rightarrow>
             if InD \<and> seg_n sr then Some (Inl FAULT_PERMS_NX, s)
             else do {
               (p, io) \<leftarrow> find_pte addr m io;
               case p of
                 None \<Rightarrow> Some (Inl FAULT_NO_PAGE, (m, io))
               | Some pte_pa \<Rightarrow> do {
                   (out, s) \<leftarrow> use_pte addr InD RnW priv pte_pa (m, io);
                   Some (Inr out, s) } })"

subsection \<open>\<open>translateAddr\<close>\<close>

text \<open>The code after the label \<open>do_lookup\<close>, with the jump back to it; \<open>scratch\<close> is
  the uninitialised \<open>scratch_pa\<close>.\<close>

partial_function (option) do_lookup ::
    "u32 \<Rightarrow> bool \<Rightarrow> bool \<Rightarrow> bool \<Rightarrow> u32 \<Rightarrow> mmu_io \<Rightarrow> ((fault_t + u64) \<times> mmu_io) option" where
  "do_lookup addr InD RnW priv scratch s = do {
     (r, s) \<leftarrow> translateEA addr InD RnW priv scratch s;
     case r of
       Inl fault \<Rightarrow> Some (Inl fault, s)
     | Inr out \<Rightarrow>
         (case utlbLookup InD priv addr (fst s) of
            None \<Rightarrow> None
          | Some (pa, perms) \<Rightarrow>
              if checkPerms perms RnW InD then Some (Inr pa, s)
              else if checkFaultWasCleanliness perms RnW InD
                then do_lookup addr InD RnW priv (fst out) s
              else Some (Inl FAULT_PERMS, s)) }"

definition translateAddr ::
    "u32 \<Rightarrow> bool \<Rightarrow> bool \<Rightarrow> bool \<Rightarrow> u32 \<Rightarrow> mmu_io \<Rightarrow> ((fault_t + u64) \<times> mmu_io) option" where
  "translateAddr addr InD RnW priv scratch s =
     (case utlbLookup InD priv addr (fst s) of
        None \<Rightarrow> do_lookup addr InD RnW priv scratch s
      | Some (pa, perms) \<Rightarrow>
          if checkPerms perms RnW InD then Some (Inr pa, s)
          else if checkFaultWasCleanliness perms RnW InD
            then do_lookup addr InD RnW priv scratch s
          else Some (Inl FAULT_PERMS, s))"

subsection \<open>Insert then look up\<close>

lemma bit_0xfff [simp]:
  "bit (0xfff :: 'a::len word) n \<longleftrightarrow> n < 12 \<and> n < LENGTH('a)"
  "bit (0xff :: 'a::len word) n \<longleftrightarrow> n < 8 \<and> n < LENGTH('a)"
  using bit_mask_iff [where 'a = "'a word", of 12 n] bit_mask_iff [where 'a = "'a word", of 8 n]
  by (auto simp: mask_eq_exp_minus_1 simp del: bit_mask_iff)

lemma bit_int_0xfff [simp]: "bit (4095 :: int) n \<longleftrightarrow> n < 12" "bit (255 :: int) n \<longleftrightarrow> n < 8"
  using bit_mask_iff [where 'a = int, of 12 n] bit_mask_iff [where 'a = int, of 8 n]
  by (auto simp: mask_eq_exp_minus_1 simp del: bit_mask_iff)

lemma utlb_set_fields:
  "utlb_getPA (utlb_set ea tr pa pf) = pa AND NOT 0xfff"
  "utlb_getPerms (utlb_set ea tr pa pf) = pf"
  "utlb_getEA (utlb_set ea tr pa pf) = (ea AND NOT 0xfff) OR tr OR PPCMMU_UTLB_VALID"
proof -
  show "utlb_getPA (utlb_set ea tr pa pf) = pa AND NOT 0xfff"
    by (rule bit_word_eqI) (auto simp: utlb_getPA_def utlb_set_def bit_simps)
  show "utlb_getPerms (utlb_set ea tr pa pf) = pf"
    by (rule bit_word_eqI) (auto simp: utlb_getPerms_def utlb_set_def bit_simps)
qed (simp add: utlb_getEA_def utlb_set_def)

lemma select_write_utlb:
  "select_utlb InD priv (write_utlb InD' priv' i t m) j =
     (if InD = InD' \<and> priv = priv' \<and> j = i then t else select_utlb InD priv m j)"
  by (cases InD; cases priv; cases InD'; cases priv') (auto simp: select_utlb_def write_utlb_def)

lemma write_utlb_fields [simp]:
  "m_enabled_i (write_utlb InD priv i t m) = m_enabled_i m"
  "m_enabled_d (write_utlb InD priv i t m) = m_enabled_d m"
  "m_htab_phys (write_utlb InD priv i t m) = m_htab_phys m"
  "m_htab_mask (write_utlb InD priv i t m) = m_htab_mask m"
  "m_ibat (write_utlb InD priv i t m) = m_ibat m"
  "m_dbat (write_utlb InD priv i t m) = m_dbat m"
  "m_segreg (write_utlb InD priv i t m) = m_segreg m"
  "m_generation_count (write_utlb InD priv i t m) = m_generation_count m"
  by (simp_all add: write_utlb_def)

lemma utlb_tag_write [simp]: "utlb_tag InD a (write_utlb d p i t m) = utlb_tag InD a m"
  by (simp add: utlb_tag_def)

text \<open>What a uTLB entry holds for a physical address: the host address that the device
  maps it to, or the address itself with the I/O bit.\<close>

definition resolve :: "u32 \<Rightarrow> io \<Rightarrow> u64 option" where
  "resolve a io = map_option (\<lambda>(h, _). case h of Some h \<Rightarrow> h | None \<Rightarrow> ucast a OR PPCMMU_HVA_IO_BIT)
     (get_direct_map a io)"

definition page_of :: "u64 \<Rightarrow> u64" where
  "page_of a = a AND NOT 0xfff"

lemma utlbInsert_SomeD:
  assumes "utlbInsert InD priv addr out pf (m, io) = Some (m', io')"
  obtains h g where "resolve out io = Some h" and "get_direct_map out io = Some (g, io')"
    and "m' = write_utlb InD priv (utlb_idx addr)
           (utlb_set addr (if (if InD then m_enabled_i m else m_enabled_d m) then PPCMMU_UTLB_TR else 0) h pf) m"
  using assms by (auto simp: utlbInsert_def resolve_def Let_def elim!: bind_SomeE)

lemma utlb_tag_set: "utlb_getEA (utlb_set addr (if (if InD then m_enabled_i m else m_enabled_d m)
     then PPCMMU_UTLB_TR else 0) h pf) = utlb_tag InD addr m"
  by (simp add: utlb_set_fields utlb_tag_def ac_simps)

lemma lookup_after_insert:
  assumes "utlbInsert InD priv addr out pf (m, io) = Some (m', io')"
  obtains h where "resolve out io = Some h"
    and "utlbLookup InD priv addr m' = Some (page_of h OR (ucast addr AND 0xfff), perms_of_field pf)"
proof -
  obtain h g where h: "resolve out io = Some h"
    and m': "m' = write_utlb InD priv (utlb_idx addr)
           (utlb_set addr (if (if InD then m_enabled_i m else m_enabled_d m) then PPCMMU_UTLB_TR else 0) h pf) m"
    using assms by (rule utlbInsert_SomeD)
  have "utlbLookup InD priv addr m' = Some (page_of h OR (ucast addr AND 0xfff), perms_of_field pf)"
    unfolding m' utlbLookup_def Let_def select_write_utlb
    by (simp only: utlb_tag_set utlb_tag_write utlb_set_fields(1,2) page_of_def if_True simp_thms)
  with h show thesis by (rule that)
qed

subsection \<open>\<open>translateEA\<close> always leaves an entry that the next lookup finds\<close>

lemma matchBAT_clean: "matchBAT a InD priv x m = Some (out, p) \<Longrightarrow> \<not> perm_clean p"
  by (auto simp: matchBAT_def no_perms_def Let_def split: option.splits if_splits)

lemma pte_access_clean: "perm_w (fst (pte_access False priv sr w)) \<Longrightarrow> \<not> perm_clean (fst (pte_access False priv sr w))"
  by (auto simp: pte_access_def Let_def split: if_splits)

lemma use_pte_SomeD:
  assumes "use_pte addr InD RnW priv pte (m, io) = Some ((out, p), (m', io'))"
  obtains v io1 io2 where "bus_read32 (pte + 4) io = Some (v, io1)"
    and "p = fst (pte_access RnW priv (m_segreg m (unat (drop_bit 28 addr AND 0xf))) (BS32 v))"
    and "out = (BS32 v AND 0xfffff000) OR (addr AND 0xfff)"
    and "(case snd (pte_access RnW priv (m_segreg m (unat (drop_bit 28 addr AND 0xf))) (BS32 v)) of
            None \<Rightarrow> Some io1 | Some w \<Rightarrow> bus_write32 (pte + 4) (BS32 w) io1) = Some io2"
    and "utlbInsert InD priv addr out (perms_field p) (m, io2) = Some (m', io')"
  using assms by (auto simp: use_pte_def Let_def case_prod_beta elim!: bind_SomeE)

text \<open>A successful walk: an insertion with the permissions returned, and a page made for a
  store is not left clean.\<close>

lemma translateEA_inserts:
  assumes "translateEA addr InD RnW priv x (m, io) = Some (Inr (out, p), (m', io'))"
  obtains io1 where "utlbInsert InD priv addr out (perms_field p) (m, io1) = Some (m', io')"
    and "\<not> InD \<Longrightarrow> \<not> RnW \<Longrightarrow> perm_w p \<Longrightarrow> \<not> perm_clean p"
proof -
  let ?real = "(InD \<and> \<not> m_enabled_i m) \<or> (\<not> InD \<and> \<not> m_enabled_d m)"
  let ?sr = "m_segreg m (unat (drop_bit 28 addr AND 0xf))"
  consider (real) "?real" | (bat) q where "\<not> ?real" "matchBAT addr InD priv x m = Some q"
    | (page) "\<not> ?real" "matchBAT addr InD priv x m = None" by fastforce
  then show thesis
  proof cases
    case real
    with assms that show thesis
      by (auto simp: translateEA_def PPCMMU_PERMS_ANY_def elim!: bind_SomeE)
  next
    case bat
    with assms that matchBAT_clean [of addr InD priv x m] show thesis
      by (cases q) (auto simp: translateEA_def split: if_splits elim!: bind_SomeE)
  next
    case page
    from page assms obtain io1 pte where
      "use_pte addr InD RnW priv pte (m, io1) = Some ((out, p), (m', io'))"
      by (auto simp: translateEA_def Let_def split: if_splits option.splits elim!: bind_SomeE)
    then show thesis
      by (rule use_pte_SomeD) (use that pte_access_clean [of priv ?sr] in auto)
  qed
qed

text \<open>So the second lookup of \<open>translateAddr\<close> hits, and a walk is never followed by
  another: \<open>do_lookup\<close> is one walk and a permission check.\<close>

definition answered ::
    "u32 \<Rightarrow> bool \<Rightarrow> bool \<Rightarrow> bool \<Rightarrow> mmu \<Rightarrow> fault_t + u32 \<times> mmuperms_t \<Rightarrow> fault_t + u64 \<Rightarrow> bool" where
  "answered addr InD RnW priv m r res =
     (case r of Inl f \<Rightarrow> res = Inl f
      | Inr q \<Rightarrow> (\<exists>pa. utlbLookup InD priv addr m = Some (pa, snd q) \<and>
           res = (if checkPerms (snd q) RnW InD then Inr pa else Inl FAULT_PERMS)))"

lemma answered_simps [simp]:
  "answered addr InD RnW priv m (Inl f) res \<longleftrightarrow> res = Inl f"
  "answered addr InD RnW priv m (Inr (out, p)) res \<longleftrightarrow>
     (\<exists>pa. utlbLookup InD priv addr m = Some (pa, p) \<and>
        res = (if checkPerms p RnW InD then Inr pa else Inl FAULT_PERMS))"
  by (simp_all add: answered_def)

lemma answered_fault: "answered addr InD RnW priv m r (Inl f) \<Longrightarrow> r = Inl f \<or> f = FAULT_PERMS"
  by (auto simp: answered_def split: sum.splits if_splits)

lemma do_lookup_unfold:
  assumes "translateEA addr InD RnW priv x s = Some (r, s')"
  shows "\<exists>res. do_lookup addr InD RnW priv x s = Some (res, s') \<and>
    answered addr InD RnW priv (fst s') r res"
proof (cases r)
  case (Inl f)
  with assms show ?thesis by (simp add: do_lookup.simps [of addr InD RnW priv x s])
next
  case (Inr q)
  obtain m io m' io' out p where s: "s = (m, io)" "s' = (m', io')" and q: "q = (out, p)"
    by (cases s, cases s', cases q)
  obtain io1 where ins: "utlbInsert InD priv addr out (perms_field p) (m, io1) = Some (m', io')"
    and clean: "\<not> InD \<Longrightarrow> \<not> RnW \<Longrightarrow> perm_w p \<Longrightarrow> \<not> perm_clean p"
    using assms translateEA_inserts unfolding s q Inr by metis
  obtain pa where pa: "utlbLookup InD priv addr m' = Some (pa, p)"
    using lookup_after_insert [OF ins] by (metis perms_of_field_field)
  have "\<not> checkFaultWasCleanliness p RnW InD"
    using clean by (auto simp: checkFaultWasCleanliness_def)
  with pa assms show ?thesis
    unfolding s q Inr by (subst do_lookup.simps) simp
qed

end
