(* ===== verification/Bus_Frame.thy ===== *)
theory Bus_Frame
  imports System_Bus
begin

section \<open>What bus accesses keep: the address map and the interrupt lines\<close>

text \<open>
  The address map is the table of windows together with the kind of device in each, and which host
  memory a RAM stands for.  No access changes it, whatever else a device does; so what
  \<open>get_direct_map\<close> answered once (and the MMU has cached in its uTLB) stays true.  The kind includes
  what a device is connected to: whether the interrupt controller knows the CPU, and a UART the controller
  and a back end, and the UART's interrupt line.

  Every access also keeps the I/O state sound: the CPU's interrupt flag is what the one interrupt controller
  says, and a UART remembers the level that it last drove its line to.
\<close>

fun dev_kind :: "device \<Rightarrow> nat \<times> ram option \<times> bool list \<times> nat" where
  "dev_kind (DRam d) = (0, Some d, [], 0)"
| "dev_kind (DIntc d) = (1, None, [ic_cpus d], 0)"
| "dev_kind (DSuart d) = (2, None, [su_intc d, su_serio d \<noteq> None], su_irq_number d)"
| "dev_kind (DUart d) = (3, None, [], 0)"
| "dev_kind (DGpio d) = (4, None, [], 0)"
| "dev_kind (DSbd d p) = (5, None, [], 0)"
| "dev_kind (DSd d c p) = (6, None, [], 0)"
| "dev_kind (DLcdc d sf) = (7, None, [], 0)"
| "dev_kind (DSpi d) = (8, None, [], 0)"
| "dev_kind DDummy = (9, None, [], 0)"
| "dev_kind DDebug = (10, None, [], 0)"

lemma dev_direct_map_kind:
  "dev_direct_map d = (\<lambda>a. map_option (\<lambda>r. ram_direct_map r a) (fst (snd (dev_kind d))))"
  by (cases d) (simp_all add: fun_eq_iff)

lemma kinds_direct_map:
  "map_option dev_kind x = map_option dev_kind y \<Longrightarrow> map_option dev_direct_map x = map_option dev_direct_map y"
  by (cases x; cases y) (simp_all add: dev_direct_map_kind)

lemma dev_kindD:
  "dev_kind d = (0, Some r, w) \<Longrightarrow> d = DRam r"
  "dev_kind d = (1, None, [c], n) \<Longrightarrow> \<exists>ic. d = DIntc ic \<and> ic_cpus ic = c"
  "dev_kind d = (2, None, [c, b], n) \<Longrightarrow>
     \<exists>u. d = DSuart u \<and> su_intc u = c \<and> (su_serio u \<noteq> None) = b \<and> su_irq_number u = n"
  by (cases d; simp)+

lemma is_intc_kind: "is_intc d \<longleftrightarrow> map_option (fst \<circ> dev_kind) d = Some 1"
  by (cases d) (auto simp: is_intc_def split: device.split)

definition io_shape :: "io \<Rightarrow> (u32 \<times> u32 \<times> (nat \<times> ram option \<times> bool list \<times> nat) option) list" where
  "io_shape io = map (\<lambda>w. (bd_addr w, bd_size w, map_option dev_kind (bd_dev w))) (bus_devs (io_bus io))"

definition io_ok :: "io \<Rightarrow> bool" where
  "io_ok io \<longleftrightarrow> bus_wf (io_bus io) \<and> bus_disjoint (io_bus io)"

text \<open>Soundness, for a value of the CPU's interrupt flag.\<close>

fun dev_sound :: "bool \<Rightarrow> device \<Rightarrow> bool" where
  "dev_sound f (DIntc d) \<longleftrightarrow> intc_inv (d, f)"
| "dev_sound f (DSuart d) \<longleftrightarrow> suart_inv d"
| "dev_sound f d \<longleftrightarrow> True"

definition io_sound :: "io \<Rightarrow> bool" where
  "io_sound io \<longleftrightarrow> length (bus_devs (io_bus io)) = bus_entries \<and>
     (\<forall>i < bus_entries. \<forall>j < bus_entries. is_intc (io_dev io i) \<longrightarrow> is_intc (io_dev io j) \<longrightarrow> i = j) \<and>
     (\<forall>i < bus_entries. \<forall>d. io_dev io i = Some d \<longrightarrow> dev_sound (io_irqFlag io) d)"

definition same_map :: "io \<Rightarrow> io \<Rightarrow> bool" where
  "same_map io io' \<longleftrightarrow>
     io_shape io' = io_shape io \<and> bus_last_dev (io_bus io') < bus_entries \<and> (io_sound io \<longrightarrow> io_sound io')"

lemma same_map_refl: "io_ok io \<Longrightarrow> same_map io io"
  by (simp add: same_map_def io_ok_def bus_wf_def)

lemma same_map_trans: "same_map a b \<Longrightarrow> same_map b c \<Longrightarrow> same_map a c"
  by (simp add: same_map_def)

lemma same_length:
  "io_shape io' = io_shape io \<Longrightarrow> length (bus_devs (io_bus io')) = length (bus_devs (io_bus io))"
  unfolding io_shape_def by (drule arg_cong [where f = length]) simp

lemma io_shape_nth:
  assumes "io_shape io' = io_shape io" and "i < length (bus_devs (io_bus io))"
  shows "bd_addr (bus_devs (io_bus io') ! i) = bd_addr (bus_devs (io_bus io) ! i)"
    and "bd_size (bus_devs (io_bus io') ! i) = bd_size (bus_devs (io_bus io) ! i)"
    and "map_option dev_kind (io_dev io' i) = map_option dev_kind (io_dev io i)"
proof -
  have len: "length (bus_devs (io_bus io')) = length (bus_devs (io_bus io))"
    by (rule same_length [OF assms(1)])
  have "io_shape io' ! i = io_shape io ! i" using assms(1) by simp
  then show "bd_addr (bus_devs (io_bus io') ! i) = bd_addr (bus_devs (io_bus io) ! i)"
    "bd_size (bus_devs (io_bus io') ! i) = bd_size (bus_devs (io_bus io) ! i)"
    "map_option dev_kind (io_dev io' i) = map_option dev_kind (io_dev io i)"
    using assms(2) len by (simp_all add: io_shape_def)
qed

lemma same_map_matches:
  assumes "same_map io io'" and "io_ok io" and "i < bus_entries"
  shows "dev_matches_addr (io_bus io') i a = dev_matches_addr (io_bus io) i a"
proof -
  have "i < length (bus_devs (io_bus io))" "io_shape io' = io_shape io"
    using assms by (simp_all add: same_map_def io_ok_def bus_wf_def)
  then show ?thesis using io_shape_nth(1,2) [of io' io i] by (simp add: dev_matches_addr_def)
qed

lemma same_map_ok:
  assumes "same_map io io'" and "io_ok io"
  shows "io_ok io'"
proof -
  have shape: "io_shape io' = io_shape io" and wf: "bus_wf (io_bus io)"
    using assms by (simp_all add: same_map_def io_ok_def)
  have len: "length (bus_devs (io_bus io')) = bus_entries"
    using same_length [OF shape] wf by (simp add: bus_wf_def)
  have free: "bd_size (bus_devs (io_bus io') ! i) = 0" if "i < bus_entries" "io_dev io' i = None" for i
  proof -
    have i: "i < length (bus_devs (io_bus io))" using that(1) wf by (simp add: bus_wf_def)
    have "io_dev io i = None" using io_shape_nth(3) [OF shape i] that(2) by simp
    then show ?thesis using io_shape_nth(2) [OF shape i] wf that(1) by (simp add: bus_wf_def)
  qed
  have "bus_disjoint (io_bus io')"
    using assms(2) same_map_matches [OF assms] by (simp add: bus_disjoint_def io_ok_def)
  moreover have "bus_wf (io_bus io')"
    using len free assms(1) by (simp add: bus_wf_def same_map_def)
  ultimately show ?thesis by (simp add: io_ok_def)
qed

lemma find_dev_cong:
  "(\<And>i. i < bus_entries \<Longrightarrow> dev_matches_addr b i a = dev_matches_addr b' i a) \<Longrightarrow>
   find_dev_for_addr b a = find_dev_for_addr b' a"
  unfolding find_dev_for_addr_def by (rule find_cong) auto

lemma get_direct_map_eq:
  assumes "io_ok io"
  shows "get_direct_map a io =
    (case find_dev_for_addr (io_bus io) a of None \<Rightarrow> None
     | Some i \<Rightarrow> map_option (\<lambda>f. (f a, io\<lparr>io_bus := io_bus io\<lparr>bus_last_dev := i\<rparr>\<rparr>))
         (map_option dev_direct_map (io_dev io i)))"
proof (cases "find_dev_for_addr (io_bus io) a")
  case (Some i)
  then show ?thesis
    using assms get_dev_find [of "io_bus io" a]
    by (cases "io_dev io i") (simp_all add: get_direct_map_def io_get_dev_def io_ok_def)
qed (use assms get_dev_find [of "io_bus io" a] in
    \<open>simp add: get_direct_map_def io_get_dev_def io_ok_def\<close>)

lemma same_map_direct_map:
  assumes "same_map io io'" and "io_ok io"
  shows "map_option fst (get_direct_map a io') = map_option fst (get_direct_map a io)"
proof -
  have f: "find_dev_for_addr (io_bus io') a = find_dev_for_addr (io_bus io) a"
    using same_map_matches [OF assms] by (rule find_dev_cong)
  have d: "map_option dev_direct_map (io_dev io' i) = map_option dev_direct_map (io_dev io i)"
    if "find_dev_for_addr (io_bus io) a = Some i" for i
  proof (rule kinds_direct_map, rule io_shape_nth(3))
    show "io_shape io' = io_shape io" using assms(1) by (simp add: same_map_def)
    show "i < length (bus_devs (io_bus io))"
      using find_dev_SomeD [OF that] assms(2) by (simp add: io_ok_def bus_wf_def)
  qed
  have fst_map: "map_option fst (map_option (\<lambda>f. (f a, y)) x) = map_option (\<lambda>f. f a) x"
    for x :: "(u32 \<Rightarrow> u64 option) option" and y :: io
    by (cases x) simp_all
  show ?thesis
  proof (cases "find_dev_for_addr (io_bus io) a")
    case (Some i)
    then show ?thesis
      unfolding get_direct_map_eq [OF assms(2)] get_direct_map_eq [OF same_map_ok [OF assms]] f
      by (simp only: option.case fst_map d [OF Some])
  qed (simp add: get_direct_map_eq [OF assms(2)] get_direct_map_eq [OF same_map_ok [OF assms]] f)
qed

subsection \<open>Every access keeps the map\<close>

lemma io_shape_simps [simp]:
  "io_shape (io\<lparr>io_hmem := m\<rparr>) = io_shape io" "io_shape (io\<lparr>io_irqFlag := f\<rparr>) = io_shape io"
  "io_shape (io\<lparr>io_files := fs\<rparr>) = io_shape io"
  "io_shape (io\<lparr>io_bus := io_bus io\<lparr>bus_last_dev := k\<rparr>\<rparr>) = io_shape io"
  by (simp_all add: io_shape_def)

lemma io_shape_set_dev:
  assumes "map_option dev_kind (io_dev io i) = Some (dev_kind d)"
  shows "io_shape (io_set_dev i d io) = io_shape io"
proof (cases "i < length (bus_devs (io_bus io))")
  case True
  with assms show ?thesis
    by (auto simp: io_shape_def io_set_dev_def map_update list_update_same_conv)
qed (simp add: io_shape_def io_set_dev_def list_update_beyond)

lemma last_dev_set_dev [simp]: "bus_last_dev (io_bus (io_set_dev i d io)) = bus_last_dev (io_bus io)"
  by (simp add: io_set_dev_def)

lemma io_sound_simps [simp]:
  "io_sound (io\<lparr>io_hmem := m\<rparr>) = io_sound io" "io_sound (io\<lparr>io_files := fs\<rparr>) = io_sound io"
  "io_sound (io\<lparr>io_bus := io_bus io\<lparr>bus_last_dev := k\<rparr>\<rparr>) = io_sound io"
  by (simp_all add: io_sound_def)

lemma dev_sound_other: "\<not> is_intc (Some d) \<Longrightarrow> dev_sound f d = dev_sound f' d"
  by (cases d) (simp_all add: is_intc_def)

text \<open>A device may be replaced by a sound one of its kind; only the interrupt controller may change the flag.\<close>

lemma io_sound_put:
  assumes "io_sound io" and at: "io_dev io i = Some d0" "i < bus_entries" and kind: "dev_kind d = dev_kind d0"
    and d: "dev_sound f d" and f: "f = io_irqFlag io \<or> is_intc (Some d0)"
  shows "io_sound ((io_set_dev i d io)\<lparr>io_irqFlag := f\<rparr>)"
proof -
  let ?io = "(io_set_dev i d io)\<lparr>io_irqFlag := f\<rparr>"
  have len: "length (bus_devs (io_bus io)) = bus_entries"
    and one: "is_intc (io_dev io k) \<Longrightarrow> is_intc (io_dev io j) \<Longrightarrow> k < bus_entries \<Longrightarrow> j < bus_entries \<Longrightarrow> k = j"
    and sound: "k < bus_entries \<Longrightarrow> io_dev io k = Some e \<Longrightarrow> dev_sound (io_irqFlag io) e" for k j e
    using assms(1) unfolding io_sound_def by blast+
  have dev: "io_dev ?io k = (if k = i then Some d else io_dev io k)" if "k < bus_entries" for k
    using that len by (simp add: io_set_dev_def nth_list_update)
  have intc: "is_intc (io_dev ?io k) = is_intc (io_dev io k)" if "k < bus_entries" for k
    using dev [OF that] at kind by (simp add: is_intc_kind)
  have "dev_sound f e" if "k < bus_entries" "io_dev ?io k = Some e" for k e
  proof (cases "k = i")
    case True
    then show ?thesis using dev [OF that(1)] that(2) d by simp
  next
    case False
    then have e: "io_dev io k = Some e" using dev [OF that(1)] that(2) by simp
    note s = sound [OF that(1) e]
    show ?thesis
    proof (cases "is_intc (Some d0)")
      case True
      then have "\<not> is_intc (Some e)" using one [of k i] e at that(1) False by auto
      with s show ?thesis using dev_sound_other by blast
    qed (use s f in auto)
  qed
  moreover have "length (bus_devs (io_bus ?io)) = bus_entries" using len by (simp add: io_set_dev_def)
  moreover have "k = j"
    if "k < bus_entries" "j < bus_entries" "is_intc (io_dev ?io k)" "is_intc (io_dev ?io j)" for k j
    using intc [OF that(1)] intc [OF that(2)] that one [of k j] by simp
  ultimately show ?thesis unfolding io_sound_def io.select_convs by auto
qed

lemma same_map_put:
  assumes "same_map io io'" and at: "io_dev io' i = Some d0" "i < bus_entries" and "dev_kind d = dev_kind d0"
    and d: "dev_sound (io_irqFlag io') d0 \<Longrightarrow> dev_sound f d" and "f = io_irqFlag io' \<or> is_intc (Some d0)"
  shows "same_map io ((io_set_dev i d io')\<lparr>io_irqFlag := f\<rparr>)"
proof -
  have "io_sound ((io_set_dev i d io')\<lparr>io_irqFlag := f\<rparr>)" if "io_sound io'"
  proof (rule io_sound_put)
    have "dev_sound (io_irqFlag io') d0" using that at unfolding io_sound_def by blast
    then show "dev_sound f d" by (rule d)
  qed (fact that assms)+
  then show ?thesis using assms(1,2,4) by (auto simp: same_map_def io_shape_set_dev)
qed

lemma same_map_set_dev:
  assumes "same_map io io'" and at: "io_dev io' i = Some d0" "i < bus_entries" and "dev_kind d = dev_kind d0"
    and d: "dev_sound (io_irqFlag io') d0 \<Longrightarrow> dev_sound (io_irqFlag io') d"
  shows "same_map io (io_set_dev i d io')"
proof -
  have "(io_set_dev i d io')\<lparr>io_irqFlag := io_irqFlag io'\<rparr> = io_set_dev i d io'" by (simp add: io_set_dev_def)
  then show ?thesis using same_map_put [OF assms] by simp
qed

lemma same_map_simps [simp]:
  "same_map io (io'\<lparr>io_hmem := m\<rparr>) = same_map io io'"
  "same_map io (io'\<lparr>io_files := fs\<rparr>) = same_map io io'"
  by (simp_all add: same_map_def)

lemma same_map_hmem_flag:
  assumes "same_map io (io'\<lparr>io_irqFlag := f\<rparr>)"
  shows "same_map io (io'\<lparr>io_hmem := m, io_irqFlag := f\<rparr>)"
proof -
  have "io'\<lparr>io_hmem := m, io_irqFlag := f\<rparr> = (io'\<lparr>io_irqFlag := f\<rparr>)\<lparr>io_hmem := m\<rparr>" by simp
  with assms show ?thesis by (simp only: same_map_simps(1))
qed

lemma io_get_dev_same_map:
  assumes "io_get_dev a io = Some (i, d, io')" and "io_ok io"
  shows "same_map io io'" and "io_dev io' i = Some d" and "i < bus_entries"
  using io_get_dev_SomeD [OF assms(1)] assms(2) by (auto simp: same_map_def io_ok_def)

lemma dev_read8_map:
  assumes "dev_read8 d a m = Some (v, d', irqs)"
  shows "dev_kind d' = dev_kind d" and "dev_sound f d \<Longrightarrow> dev_sound f d'"
  using assms by (cases d; auto elim!: bind_SomeE dest: suart_wired suart_ops_inv(2,3))+

lemma dev_write32_map:
  assumes "dev_write32 h a v d m f = Some (d', m', f')"
  shows "dev_kind d' = dev_kind d" and "dev_sound f d \<Longrightarrow> dev_sound f' d'" and "f' = f \<or> is_intc (Some d)"
  using assms
  by (cases d; auto simp: is_intc_def elim!: bind_SomeE dest: intc_cpus_kept(1) intc_write32_inv)+

lemma dev_write8_map:
  assumes "dev_write8 a v d m = Some (d', m', irqs)"
  shows "dev_kind d' = dev_kind d" and "dev_sound f d \<Longrightarrow> dev_sound f d'"
  using assms by (cases d; auto elim!: bind_SomeE dest: suart_wired suart_ops_inv(2,3))+

lemma io_triggerIRQ_same_map:
  assumes "same_map io io'"
  shows "same_map io (io_triggerIRQ n io')"
proof -
  have "same_map io ((io_set_dev i (DIntc (fst p)) io')\<lparr>io_irqFlag := snd p\<rparr>)"
    if "find (\<lambda>i. is_intc (io_dev io' i)) [0..<bus_entries] = Some i" "io_dev io' i = Some (DIntc d)"
      "p = triggerIRQ n (d, io_irqFlag io')" for i d p
    using assms that(2)
  proof (rule same_map_put)
    show "i < bus_entries" using that(1) by (auto simp: find_Some_iff)
    show "dev_kind (DIntc (fst p)) = dev_kind (DIntc d)" by (simp add: that(3) intc_cpus_kept(2))
    show "dev_sound (io_irqFlag io') (DIntc d) \<Longrightarrow> dev_sound (snd p) (DIntc (fst p))"
      using triggerIRQ_inv [of "(d, io_irqFlag io')" n] by (simp add: that(3))
  qed (simp add: is_intc_def)
  then show ?thesis
    using assms by (auto simp: io_triggerIRQ_def case_prod_beta Let_def split: option.split device.split)
qed

lemma fold_triggerIRQ_same_map: "same_map io io' \<Longrightarrow> same_map io (fold io_triggerIRQ ns io')"
  by (induction ns arbitrary: io') (auto intro: io_triggerIRQ_same_map)

text \<open>The transfers of the devices that master the bus.\<close>

lemma getAddrDMA_same_map:
  assumes "getAddrDMA b a io' = Some (p, io'')" and "same_map io io'" and "io_ok io"
  shows "same_map io io''"
proof -
  obtain i d where "io_get_dev a io' = Some (i, d, io'')"
    using assms(1) by (auto simp: getAddrDMA_def get_direct_map_def case_prod_beta elim!: bind_SomeE split: if_splits)
  then have "same_map io' io''" using same_map_ok [OF assms(2,3)] by (rule io_get_dev_same_map)
  with assms(2) show ?thesis by (rule same_map_trans)
qed

lemma dma_in_same_map [simp]: "same_map io (dma_in base bs io') = same_map io io'"
  by (simp add: dma_in_def)

lemma DevSBD_write32_same_map:
  assumes "DevSBD_write32 pread pwrite a v (d, io', f) = Some (d', io'', f')" and "same_map io io'" and "io_ok io"
  shows "same_map io io''"
  using assms
  by (auto simp: DevSBD_write32_def doRead_def doWrite_def Let_def
      intro: getAddrDMA_same_map elim!: bind_SomeE split: if_splits option.splits)

lemma DevSD_getAddrDMA_same_map:
  assumes "DevSD_getAddrDMA a s = Some (p, s')" and "same_map io (ss_io s)" and "io_ok io"
  shows "same_map io (ss_io s')"
  using assms by (auto simp: DevSD_getAddrDMA_def intro: getAddrDMA_same_map elim!: bind_SomeE)

lemma DevSD_rx_same_map:
  assumes "DevSD_rx pread s = Some s'" and "same_map io (ss_io s)" and "io_ok io"
  shows "same_map io (ss_io s')"
  using assms DevSD_getAddrDMA_same_map [OF _ assms(2,3)]
  by (auto simp: DevSD_rx_def Let_def case_prod_beta elim!: bind_SomeE split: if_splits)

lemma DevSD_cmd_same_map:
  assumes "DevSD_cmd pread s = Some s'" and "same_map io (ss_io s)" and "io_ok io"
  shows "same_map io (ss_io s')"
  using assms by (auto simp: DevSD_cmd_def Let_def case_prod_beta elim!: bind_SomeE intro: DevSD_rx_same_map split: if_splits)

lemma DevSD_tx_same_map:
  assumes "DevSD_tx pwrite s = Some s'" and "same_map io (ss_io s)" and "io_ok io"
  shows "same_map io (ss_io s')"
  using assms DevSD_getAddrDMA_same_map [OF _ assms(2,3)]
  by (auto simp: DevSD_tx_def Let_def case_prod_beta elim!: bind_SomeE split: if_splits)

lemma DevSD_checkForWork_same_map:
  assumes "DevSD_checkForWork pread pwrite s = Some s'" and "same_map io (ss_io s)" and "io_ok io"
  shows "same_map io (ss_io s')"
proof -
  obtain s1 s2 where c: "DevSD_cmd pread s = Some s1" "DevSD_tx pwrite s1 = Some s2"
    and s': "s' = (if hc_intc (ss_hc s2) \<and> sd_irq_wanted (ss_hc s2)
                   then s2\<lparr>ss_io := io_triggerIRQ (hc_irq_number (ss_hc s2)) (ss_io s2)\<rparr> else s2)"
    using assms(1) by (auto simp: DevSD_checkForWork_def elim!: bind_SomeE)
  have "same_map io (ss_io s1)" using c(1) assms(2,3) by (rule DevSD_cmd_same_map)
  with c(2) have "same_map io (ss_io s2)" using assms(3) by (rule DevSD_tx_same_map)
  then show ?thesis by (simp add: s' io_triggerIRQ_same_map)
qed

lemma DevSD_write32_same_map:
  assumes "DevSD_write32 pread pwrite a v s = Some s'" and "same_map io (ss_io s)" and "io_ok io"
  shows "same_map io (ss_io s')"
  using assms by (auto simp: DevSD_write32_def Let_def intro: DevSD_checkForWork_same_map [OF _ _ assms(3)] split: if_splits)

lemma same_map_dev:
  assumes "same_map io io'" and "io_ok io" and "i < bus_entries"
  shows "map_option dev_kind (io_dev io' i) = map_option dev_kind (io_dev io i)"
  using assms io_shape_nth(3) [of io' io i] by (simp add: same_map_def io_ok_def bus_wf_def)

text \<open>A device that the bus found stays where it is while its transfers change the rest.\<close>

lemma bus_write32_same_map:
  assumes "bus_write32 a v io = Some io'" and ok: "io_ok io"
  shows "same_map io io'"
proof -
  obtain i d io1 where g: "io_get_dev a io = Some (i, d, io1)"
    using assms(1) by (auto simp: bus_write32_def elim!: bind_SomeE)
  note m = io_get_dev_same_map [OF g ok]
  have at: "io_dev io i = Some d" using io_get_dev_SomeD [OF g] ok by (simp add: io_ok_def)
  have put: "same_map io (io_set_dev i d' io2)"
    if "same_map io io2" "dev_kind d' = dev_kind d" "\<And>f. dev_sound f d'" for d' io2
  proof -
    have "map_option dev_kind (io_dev io2 i) = Some (dev_kind d)"
      using same_map_dev [OF that(1) ok m(3)] at by simp
    then obtain d2 where "io_dev io2 i = Some d2" "dev_kind d2 = dev_kind d" by auto
    then show ?thesis using that m(3) by (auto intro: same_map_set_dev)
  qed
  have local: "same_map io io'"
    if "do { (d, m, f) \<leftarrow> dev_write32 h a v d (io_hmem io1) (io_irqFlag io1);
             Some ((io_set_dev i d io1)\<lparr>io_hmem := m, io_irqFlag := f\<rparr>) } = Some io'" for h
    using that by (auto elim!: bind_SomeE dest: dev_write32_map
        intro!: same_map_hmem_flag same_map_put [OF m(1,2,3)])
  have masters: "same_map io io'"
    if "do { (d, io, f) \<leftarrow> DevSBD_write32 pr pw a v (sb, io1, f0);
             Some ((io_set_dev i (DSbd d p) io)\<lparr>io_files := (io_files io)(p := f)\<rparr>) } = Some io'"
      "d = DSbd sb p" for pr pw sb f0 p
    using that by (auto elim!: bind_SomeE intro!: put intro: DevSBD_write32_same_map [OF _ m(1) ok])
  have "same_map io io'"
    if "do { s \<leftarrow> DevSD_write32 pr pw a v \<lparr>ss_hc = hc, ss_card = c, ss_io = io1, ss_file = f\<rparr>;
             Some ((io_set_dev i (DSd (ss_hc s) (ss_card s) p) (ss_io s))
               \<lparr>io_files := (io_files (ss_io s))(p := ss_file s)\<rparr>) } = Some io'"
      "d = DSd hc c p" for pr pw hc c f p
    using that put DevSD_write32_same_map [OF _ _ ok] m(1) by (fastforce elim!: bind_SomeE)
  then show ?thesis
    using assms(1) local masters by (cases d) (simp_all add: bus_write32_def g Let_def)
qed

lemma bus_write8_same_map:
  assumes "bus_write8 a v io = Some io'" and ok: "io_ok io"
  shows "same_map io io'"
proof -
  obtain i d io1 d' m irqs where g: "io_get_dev a io = Some (i, d, io1)"
    and w: "dev_write8 a v d (io_hmem io1) = Some (d', m, irqs)"
    and io': "io' = fold io_triggerIRQ irqs ((io_set_dev i d' io1)\<lparr>io_hmem := m\<rparr>)"
    using assms(1) by (auto simp: bus_write8_def case_prod_beta elim!: bind_SomeE)
  have "same_map io (io_set_dev i d' io1)"
    by (rule same_map_set_dev [OF io_get_dev_same_map [OF g ok] dev_write8_map [OF w]])
  then show ?thesis unfolding io' by (auto intro: fold_triggerIRQ_same_map)
qed

lemma bus_read8_same_map:
  assumes "bus_read8 a io = Some (v, io')" and ok: "io_ok io"
  shows "same_map io io'"
proof -
  obtain i d io1 d' irqs where g: "io_get_dev a io = Some (i, d, io1)"
    and w: "dev_read8 d a (io_hmem io1) = Some (v, d', irqs)"
    and io': "io' = fold io_triggerIRQ irqs (io_set_dev i d' io1)"
    using assms(1) by (auto simp: bus_read8_def case_prod_beta elim!: bind_SomeE)
  have "same_map io (io_set_dev i d' io1)"
    by (rule same_map_set_dev [OF io_get_dev_same_map [OF g ok] dev_read8_map [OF w]])
  then show ?thesis unfolding io' by (rule fold_triggerIRQ_same_map)
qed

lemma bus_quiet_same_map:
  assumes "io_ok io"
  shows "bus_read32 a io = Some (v32, io') \<Longrightarrow> same_map io io'"
    and "bus_read16 a io = Some (v16, io') \<Longrightarrow> same_map io io'"
    and "bus_write16 a v16 io = Some io' \<Longrightarrow> same_map io io'"
    and "get_direct_map a io = Some (p, io') \<Longrightarrow> same_map io io'"
  by (auto simp: bus_read32_def bus_read16_def bus_write16_def get_direct_map_def
      io_get_dev_same_map [OF _ assms] elim!: bind_SomeE)

text \<open>Redrawing the display keeps it too.\<close>

lemma DevLCDC_periodic_same_map:
  assumes "DevLCDC_periodic q w h d sf io' = Some (d', sf', io'')" and "same_map io io'" and "io_ok io"
  shows "same_map io io''"
  using assms
  by (auto simp: DevLCDC_periodic_def transformFramebuffer_def Let_def
      intro: getAddrDMA_same_map elim!: bind_SomeE split: if_splits)

lemma poll_same_map:
  assumes "platform_poll_periodic ticks io = Some io'" and ok: "io_ok io"
  shows "same_map io io'"
proof -
  have "same_map io io'"
    if "find (\<lambda>i. is_lcdc (io_dev io i)) [0..<bus_entries] = Some i" "io_dev io i = Some (DLcdc d sf)"
      "DevLCDC_periodic q w h d sf io = Some (d', sf', io2)" "io' = io_set_dev i (DLcdc d' sf') io2" for i d sf q w h d' sf' io2
  proof -
    have m: "same_map io io2" using that(3) same_map_refl [OF ok] ok by (rule DevLCDC_periodic_same_map)
    moreover have "i < bus_entries" using that(1) by (auto simp: find_Some_iff)
    ultimately have "map_option dev_kind (io_dev io2 i) = Some (dev_kind (DLcdc d' sf'))" and i: "i < bus_entries"
      using that(2) same_map_dev [OF m ok, of i] by simp_all
    then obtain d2 where "io_dev io2 i = Some d2" "dev_kind d2 = dev_kind (DLcdc d' sf')" by auto
    from same_map_set_dev [OF m this(1) i this(2) [symmetric]] show ?thesis using that(4) by simp
  qed
  then show ?thesis
    using assms same_map_refl [OF ok]
    by (auto simp: platform_poll_periodic_def platform_poll_lcdc0_def Let_def case_prod_beta
        elim!: bind_SomeE split: if_splits option.splits device.splits)
qed

lemmas bus_access_same_map =
  bus_write32_same_map bus_write8_same_map bus_read8_same_map bus_quiet_same_map

end
