(* ===== verification/MMU_Coherence.thy ===== *)
theory MMU_Coherence
  imports MMU_Translate Bus_Frame
begin

section \<open>The micro-TLB never lies\<close>

text \<open>
  The uTLB is a cache in front of \<open>translateEA\<close>. \<open>coherent\<close> says what each valid entry
  may hold: an entry made with translation off is the identity with all permissions; one
  made with translation on agrees with the BAT that matches its page now, if one does,
  and otherwise is no instruction entry of a no-execute segment and, if writable, also readable.  (What the page tables
  say may differ from an entry until the guest executes \<open>tlbie\<close>, as on hardware.)
  The constructor establishes it, translations keep it, and every register write keeps it
  because it empties the uTLBs that depend on the register.
\<close>

definition page :: "u32 \<Rightarrow> u32" where
  "page a = a AND NOT 0xfff"

definition seg_of :: "mmu \<Rightarrow> u32 \<Rightarrow> seg_t" where
  "seg_of m a = m_segreg m (unat (drop_bit 28 a AND 0xf))"

definition backs :: "io \<Rightarrow> u32 \<Rightarrow> utlb_t \<Rightarrow> bool" where
  "backs io out t \<longleftrightarrow> (\<exists>h. resolve out io = Some h \<and> utlb_getPA t = page_of h)"

definition real_entry :: "io \<Rightarrow> u32 \<Rightarrow> utlb_t \<Rightarrow> bool" where
  "real_entry io a t \<longleftrightarrow> utlb_getEA t = page a OR PPCMMU_UTLB_VALID \<and> backs io a t \<and>
     perms_of_field (utlb_getPerms t) = PPCMMU_PERMS_ANY"

definition readable :: "mmuperms_t \<Rightarrow> bool" where
  "readable p \<longleftrightarrow> (perm_w p \<longrightarrow> perm_r p)"

definition virt_entry :: "bool \<Rightarrow> bool \<Rightarrow> mmu \<Rightarrow> io \<Rightarrow> u32 \<Rightarrow> utlb_t \<Rightarrow> bool" where
  "virt_entry InD priv m io a t \<longleftrightarrow>
     utlb_getEA t = page a OR PPCMMU_UTLB_VALID OR PPCMMU_UTLB_TR \<and>
     (case matchBAT a InD priv 0 m of
        Some (out, p) \<Rightarrow> backs io out t \<and> perms_of_field (utlb_getPerms t) = p
      | None \<Rightarrow> \<not> (InD \<and> seg_n (seg_of m a)) \<and> readable (perms_of_field (utlb_getPerms t)))"

definition entry_ok :: "bool \<Rightarrow> bool \<Rightarrow> mmu \<Rightarrow> io \<Rightarrow> utlb_t \<Rightarrow> bool" where
  "entry_ok InD priv m io t \<longleftrightarrow>
     (utlb_isValid t \<longrightarrow> (\<exists>a. real_entry io a t \<or> virt_entry InD priv m io a t))"

definition coherent :: "mmu \<Rightarrow> io \<Rightarrow> bool" where
  "coherent m io \<longleftrightarrow> (\<forall>InD priv i. entry_ok InD priv m io (select_utlb InD priv m i))"

definition enabled :: "bool \<Rightarrow> mmu \<Rightarrow> bool" where
  "enabled InD m = (if InD then m_enabled_i m else m_enabled_d m)"

subsection \<open>Tags and pages\<close>

lemma bit_page: "bit (page a) n \<longleftrightarrow> bit a n \<and> 12 \<le> n"
  by (auto simp: page_def bit_simps dest: bit_imp_le_length)

lemma bit_valid_tr:
  "bit PPCMMU_UTLB_VALID n \<longleftrightarrow> n = 1" "bit PPCMMU_UTLB_TR n \<longleftrightarrow> n = 0"
  by (auto simp: PPCMMU_UTLB_VALID_def PPCMMU_UTLB_TR_def bit_2_iff bit_1_iff)

lemma page_eq_iff: "page a = page b \<longleftrightarrow> (\<forall>n\<ge>12. bit a n = bit b n)"
  by (auto simp: word_eq_bits bit_page) (metis bits_above(3) not_less)+

lemma page_page [simp]: "page (page a) = page a"
  by (rule bit_word_eqI) (auto simp: bit_page)

lemma tag_inj:
  "page a OR PPCMMU_UTLB_VALID = page b OR PPCMMU_UTLB_VALID \<longleftrightarrow> page a = page b"
  "page a OR PPCMMU_UTLB_VALID OR PPCMMU_UTLB_TR = page b OR PPCMMU_UTLB_VALID OR PPCMMU_UTLB_TR \<longleftrightarrow>
   page a = page b"
  "page a OR PPCMMU_UTLB_VALID \<noteq> page b OR PPCMMU_UTLB_VALID OR PPCMMU_UTLB_TR"
  "page a OR PPCMMU_UTLB_VALID OR PPCMMU_UTLB_TR \<noteq> page b OR PPCMMU_UTLB_VALID"
proof -
  have bits: "bit (page c OR PPCMMU_UTLB_VALID) n \<longleftrightarrow> bit (page c) n \<or> n = 1"
    "bit (page c OR PPCMMU_UTLB_VALID OR PPCMMU_UTLB_TR) n \<longleftrightarrow> bit (page c) n \<or> n = 1 \<or> n = 0" for c n
    by (auto simp: bit_or_iff bit_valid_tr)
  have low: "\<not> bit (page c) 0" "\<not> bit (page c) (Suc 0)" for c by (simp_all add: bit_page)
  have eqI: "page a = page b" if "\<And>n. n \<noteq> 0 \<Longrightarrow> n \<noteq> 1 \<Longrightarrow> bit (page a) n = bit (page b) n"
    using that low by (intro bit_word_eqI) (metis One_nat_def)
  have ne: "x \<noteq> y" if "bit x 0 \<noteq> bit y 0" for x y :: u32 using that by auto
  show "page a OR PPCMMU_UTLB_VALID = page b OR PPCMMU_UTLB_VALID \<longleftrightarrow> page a = page b"
    using eqI bits(1) by (metis (mono_tags, lifting))
  show "page a OR PPCMMU_UTLB_VALID OR PPCMMU_UTLB_TR = page b OR PPCMMU_UTLB_VALID OR PPCMMU_UTLB_TR \<longleftrightarrow>
   page a = page b"
    using eqI bits(2) by (metis (mono_tags, lifting))
  show "page a OR PPCMMU_UTLB_VALID \<noteq> page b OR PPCMMU_UTLB_VALID OR PPCMMU_UTLB_TR"
    "page a OR PPCMMU_UTLB_VALID OR PPCMMU_UTLB_TR \<noteq> page b OR PPCMMU_UTLB_VALID"
    by (rule ne; simp add: bits low)+
qed

lemma utlb_tag_eq:
  "utlb_tag InD a m = (if enabled InD m then page a OR PPCMMU_UTLB_VALID OR PPCMMU_UTLB_TR
                       else page a OR PPCMMU_UTLB_VALID)"
  by (simp add: utlb_tag_def enabled_def page_def)

lemma same_page_seg: "page a = page b \<Longrightarrow> seg_of m a = seg_of m b"
proof -
  assume "page a = page b"
  then have "drop_bit 28 a = drop_bit 28 b"
    by (intro bit_word_eqI) (simp add: page_eq_iff bit_simps)
  then show ?thesis by (simp add: seg_of_def)
qed

subsection \<open>A BAT translates whole pages\<close>

lemma bit_bat_amask: "bit (bat_amask b) n \<Longrightarrow> 17 \<le> n"
proof -
  have "bit (0xfffe0000 :: u32) k \<Longrightarrow> 17 \<le> k" for k
  proof (rule ccontr)
    assume k: "bit (0xfffe0000 :: u32) k" "\<not> 17 \<le> k"
    have "\<forall>n<32. bit (0xfffe0000 :: u32) n \<longrightarrow> 17 \<le> n" by (simp add: all_less_32)
    moreover have "k < 32" using k(2) by simp
    ultimately show False using k by blast
  qed
  then show "bit (bat_amask b) n \<Longrightarrow> 17 \<le> n"
    by (fastforce simp: bat_amask_def bit_push_bit_iff)
qed

lemma bat_matches_page: "page a = page b \<Longrightarrow> bat_matches a priv t = bat_matches b priv t"
proof -
  assume "page a = page b"
  then have "(a XOR bat_bepi t) AND bat_amask t = (b XOR bat_bepi t) AND bat_amask t"
    by (intro bit_word_eqI) (auto simp: page_eq_iff bit_simps dest: bit_bat_amask)
  then show ?thesis by (simp add: bat_matches_def)
qed

lemma matchBAT_page:
  assumes "page a = page b" and "matchBAT a InD priv x m = Some (out, p)"
  obtains out' where "matchBAT b InD priv y m = Some (out', p)"
    and "perm_r p \<or> perm_w p \<Longrightarrow> page out' = page out"
proof -
  have same: "bat_matches b priv = bat_matches a priv"
    using bat_matches_page [OF assms(1)] by blast
  obtain t where t: "find (bat_matches a priv) (map (if InD then m_ibat m else m_dbat m) [0..<PPCMMU_NR_BATS]) = Some t"
    using assms(2) by (auto simp: matchBAT_def Let_def split: option.splits)
  let ?out = "\<lambda>c. bat_brpn t OR (c AND NOT (bat_amask t))"
  have pg: "page (?out b) = page (?out a)"
    using assms(1) by (auto simp: page_eq_iff bit_simps)
  show thesis
  proof (cases "bat_pp t = 0")
    case True
    then have "matchBAT b InD priv y m = Some (y, p)" "p = no_perms"
      using assms(2) t same by (simp_all add: matchBAT_def Let_def)
    then show thesis by (intro that [of y]) (simp_all add: no_perms_def)
  next
    case False
    then have "matchBAT b InD priv y m = Some (?out b, p)" "out = ?out a"
      using assms(2) t same by (simp_all add: matchBAT_def Let_def)
    with pg show thesis by (intro that [of "?out b"]) simp_all
  qed
qed

lemma matchBAT_scratch:
  assumes "matchBAT a InD priv x m = Some (out, p)" and "perm_r p \<or> perm_w p"
  shows "matchBAT a InD priv y m = Some (out, p)"
  using assms by (auto simp: matchBAT_def Let_def no_perms_def split: option.splits if_splits)

lemma matchBAT_None_scratch: "matchBAT a InD priv x m = None \<longleftrightarrow> matchBAT a InD priv y m = None"
  by (auto simp: matchBAT_def Let_def split: option.splits if_splits)

lemma matchBAT_cong:
  "(if InD then m_ibat m' else m_dbat m') = (if InD then m_ibat m else m_dbat m) \<Longrightarrow>
   matchBAT a InD priv x m' = matchBAT a InD priv x m"
  by (simp add: matchBAT_def)

subsection \<open>Translations keep coherence\<close>

lemma resolve_same_map: "same_map io io' \<Longrightarrow> io_ok io \<Longrightarrow> resolve a io' = resolve a io"
  using same_map_direct_map [of io io' a] unfolding resolve_def
  by (cases "get_direct_map a io"; cases "get_direct_map a io'") auto

lemma backs_same_map: "same_map io io' \<Longrightarrow> io_ok io \<Longrightarrow> backs io' = backs io"
  by (intro ext) (simp add: backs_def resolve_same_map)

lemma entry_ok_same_map:
  "same_map io io' \<Longrightarrow> io_ok io \<Longrightarrow> entry_ok InD priv m io' t = entry_ok InD priv m io t"
  unfolding entry_ok_def real_entry_def virt_entry_def by (simp only: backs_same_map)

lemma coherent_same_map: "same_map io io' \<Longrightarrow> io_ok io \<Longrightarrow> coherent m io' = coherent m io"
  by (simp add: coherent_def entry_ok_same_map)

lemma entry_ok_cong:
  assumes "(if InD then m_ibat m' else m_dbat m') = (if InD then m_ibat m else m_dbat m)"
    and "m_segreg m' = m_segreg m"
  shows "entry_ok InD priv m' io t = entry_ok InD priv m io t"
proof -
  have "seg_of m' = seg_of m" using assms(2) by (intro ext) (simp add: seg_of_def)
  then show ?thesis unfolding entry_ok_def virt_entry_def by (simp only: matchBAT_cong [OF assms(1)])
qed

lemma coherent_write:
  assumes "coherent m io" and "entry_ok InD priv m io t"
  shows "coherent (write_utlb InD priv i t m) io"
  using assms by (auto simp: coherent_def select_write_utlb
      entry_ok_cong [of _ "write_utlb InD priv i t m" m])

lemma insert_coherent:
  assumes ins: "utlbInsert InD priv addr out pf (m, io1) = Some (m', io')"
    and coh: "coherent m io" and ok: "io_ok io" and sm: "same_map io io1"
    and real: "\<not> enabled InD m \<Longrightarrow> out = addr \<and> perms_of_field pf = PPCMMU_PERMS_ANY"
    and virt: "enabled InD m \<Longrightarrow> (case matchBAT addr InD priv 0 m of
        Some (out', p) \<Rightarrow> out' = out \<and> perms_of_field pf = p
      | None \<Rightarrow> \<not> (InD \<and> seg_n (seg_of m addr)) \<and> readable (perms_of_field pf))"
  shows "coherent m' io'" and "same_map io io'"
proof -
  obtain h g where h: "resolve out io1 = Some h" and g: "get_direct_map out io1 = Some (g, io')"
    and m': "m' = write_utlb InD priv (utlb_idx addr)
           (utlb_set addr (if (if InD then m_enabled_i m else m_enabled_d m) then PPCMMU_UTLB_TR else 0) h pf) m"
    (is "m' = write_utlb InD priv _ ?t m")
    using ins by (rule utlbInsert_SomeD)
  have ok1: "io_ok io1" by (rule same_map_ok [OF sm ok])
  show sm': "same_map io io'"
    using sm bus_access_same_map(7) [OF ok1 g] by (rule same_map_trans)
  have tag: "utlb_getEA ?t = utlb_tag InD addr m" by (rule utlb_tag_set)
  have b: "backs io out ?t"
    using h resolve_same_map [OF sm ok] by (simp add: backs_def utlb_set_fields page_of_def)
  have perms: "utlb_getPerms ?t = pf" by (simp only: utlb_set_fields)
  have "entry_ok InD priv m io ?t"
  proof (cases "enabled InD m")
    case False
    then have "real_entry io addr ?t"
      using real tag b perms by (simp add: real_entry_def utlb_tag_eq)
    then show ?thesis by (auto simp: entry_ok_def)
  next
    case True
    then have "virt_entry InD priv m io addr ?t"
      using virt tag b perms by (auto simp: virt_entry_def utlb_tag_eq split: option.splits)
    then show ?thesis by (auto simp: entry_ok_def)
  qed
  then have "coherent m' io" unfolding m' by (rule coherent_write [OF coh])
  then show "coherent m' io'" using coherent_same_map [OF sm' ok] by simp
qed

lemma scan_pteg_same_map:
  "scan_pteg sr api h as io = Some (p, io') \<Longrightarrow> io_ok io \<Longrightarrow> same_map io io'"
proof (induction as arbitrary: io)
  case Nil
  then show ?case by (simp add: same_map_refl)
next
  case (Cons a as)
  obtain v io1 where r: "bus_read32 a io = Some (v, io1)"
    and rest: "(if pte_matches sr api h (BS32 v) then Some (Some a, io1)
                else scan_pteg sr api h as io1) = Some (p, io')"
    using Cons.prems(1) by (auto elim!: bind_SomeE)
  have sm: "same_map io io1" by (rule bus_access_same_map(4) [OF Cons.prems(2) r])
  with rest Cons.IH [of io1] same_map_ok [OF sm Cons.prems(2)] show ?case
    by (auto split: if_splits intro: same_map_trans)
qed

lemma find_pte_same_map: "find_pte a m io = Some (p, io') \<Longrightarrow> io_ok io \<Longrightarrow> same_map io io'"
  by (auto simp: find_pte_def Let_def elim!: bind_SomeE split: option.splits
      dest!: scan_pteg_same_map dest: same_map_ok intro: same_map_trans)

lemma pte_access_readable: "readable (fst (pte_access RnW priv sr v))"
  by (auto simp: readable_def pte_access_def pte_writable_def Let_def)

lemma use_pte_io:
  assumes "use_pte addr InD RnW priv pte (m, io) = Some ((out, p), (m', io'))" and ok: "io_ok io"
  obtains io2 where "utlbInsert InD priv addr out (perms_field p) (m, io2) = Some (m', io')"
    and "same_map io io2" and "readable p"
proof -
  obtain v io1 io2 w where r: "bus_read32 (pte + 4) io = Some (v, io1)"
    and p: "readable p"
    and u: "(case w of None \<Rightarrow> Some io1 | Some w \<Rightarrow> bus_write32 (pte + 4) (BS32 w) io1) = Some io2"
    and i: "utlbInsert InD priv addr out (perms_field p) (m, io2) = Some (m', io')"
    using assms(1) by (rule use_pte_SomeD) (use pte_access_readable in blast)
  have s1: "same_map io io1" by (rule bus_access_same_map(4) [OF ok r])
  have ok1: "io_ok io1" by (rule same_map_ok [OF s1 ok])
  have "same_map io1 io2"
    using u ok1 by (auto split: option.splits intro: bus_access_same_map same_map_refl)
  with s1 i p that show thesis by (blast intro: same_map_trans)
qed

lemma translateEA_eq:
  "translateEA addr InD RnW priv x (m, io) =
     (if \<not> enabled InD m then do {
        s \<leftarrow> utlbInsert InD priv addr addr (perms_field PPCMMU_PERMS_ANY) (m, io);
        Some (Inr (addr, PPCMMU_PERMS_ANY), s) }
      else case matchBAT addr InD priv x m of
        Some (out, perms) \<Rightarrow>
          if \<not> perm_r perms \<and> \<not> perm_w perms then Some (Inl FAULT_PERMS, (m, io))
          else do {
            s \<leftarrow> utlbInsert InD priv addr out (perms_field perms) (m, io);
            Some (Inr (out, perms), s) }
      | None \<Rightarrow>
          if InD \<and> seg_n (seg_of m addr) then Some (Inl FAULT_PERMS_NX, (m, io))
          else do {
            (p, io) \<leftarrow> find_pte addr m io;
            case p of
              None \<Rightarrow> Some (Inl FAULT_NO_PAGE, (m, io))
            | Some pte_pa \<Rightarrow> do {
                (out, s) \<leftarrow> use_pte addr InD RnW priv pte_pa (m, io);
                Some (Inr out, s) } })"
proof -
  have e: "((InD \<and> \<not> m_enabled_i m) \<or> (\<not> InD \<and> \<not> m_enabled_d m)) = (\<not> enabled InD m)"
    by (simp add: enabled_def)
  show ?thesis unfolding translateEA_def Let_def prod.case e seg_of_def by (rule refl)
qed

text \<open>The three ways \<open>translateEA\<close> goes.\<close>

lemma translateEA_cases:
  assumes "translateEA addr InD RnW priv x (m, io) = Some (r, (m', io'))"
  obtains (real) "\<not> enabled InD m" and "r = Inr (addr, PPCMMU_PERMS_ANY)"
      and "utlbInsert InD priv addr addr (perms_field PPCMMU_PERMS_ANY) (m, io) = Some (m', io')"
  | (bat_fault) out p where "enabled InD m" and "matchBAT addr InD priv x m = Some (out, p)"
      and "\<not> perm_r p" and "\<not> perm_w p" and "r = Inl FAULT_PERMS" and "m' = m" and "io' = io"
  | (bat) out p where "enabled InD m" and "matchBAT addr InD priv x m = Some (out, p)"
      and "perm_r p \<or> perm_w p" and "r = Inr (out, p)"
      and "utlbInsert InD priv addr out (perms_field p) (m, io) = Some (m', io')"
  | (no_exec) "enabled InD m" and "matchBAT addr InD priv x m = None" and "InD"
      and "seg_n (seg_of m addr)" and "r = Inl FAULT_PERMS_NX" and "m' = m" and "io' = io"
  | (no_page) "enabled InD m" and "matchBAT addr InD priv x m = None"
      and "\<not> (InD \<and> seg_n (seg_of m addr))" and "find_pte addr m io = Some (None, io')"
      and "r = Inl FAULT_NO_PAGE" and "m' = m"
  | (page) pte io1 out p where "enabled InD m" and "matchBAT addr InD priv x m = None"
      and "\<not> (InD \<and> seg_n (seg_of m addr))" and "find_pte addr m io = Some (Some pte, io1)"
      and "use_pte addr InD RnW priv pte (m, io1) = Some ((out, p), (m', io'))" and "r = Inr (out, p)"
proof -
  consider "\<not> enabled InD m" | out p where "enabled InD m" "matchBAT addr InD priv x m = Some (out, p)"
    | "enabled InD m" "matchBAT addr InD priv x m = None" by fastforce
  then show thesis
  proof cases
    case 1
    with assms show thesis
      by (intro real) (auto simp: translateEA_eq elim!: bind_SomeE)
  next
    case (2 out p)
    with assms show thesis
      by (cases "\<not> perm_r p \<and> \<not> perm_w p")
        (auto simp: translateEA_eq elim!: bind_SomeE intro: bat_fault bat split: if_splits)
  next
    case 3
    show thesis
    proof (cases "InD \<and> seg_n (seg_of m addr)")
      case True
      with assms 3 show thesis by (intro no_exec) (auto simp: translateEA_eq)
    next
      case False
      then obtain p io1 where p: "find_pte addr m io = Some (p, io1)"
        and rest: "(case p of None \<Rightarrow> Some (Inl FAULT_NO_PAGE, (m, io1))
          | Some pte_pa \<Rightarrow> do {
              (out, s) \<leftarrow> use_pte addr InD RnW priv pte_pa (m, io1);
              Some (Inr out, s) }) = Some (r, (m', io'))"
        using assms 3 unfolding translateEA_eq by (auto simp del: not_None_eq elim!: bind_SomeE)
      show thesis
      proof (cases p)
        case None
        with p rest 3 False show thesis by (intro no_page) auto
      next
        case (Some pte)
        with rest obtain q s where q: "use_pte addr InD RnW priv pte (m, io1) = Some (q, s)"
          and "r = Inr q" "s = (m', io')"
          by (auto elim!: bind_SomeE)
        with p 3 False Some show thesis by (cases q) (intro page, auto)
      qed
    qed
  qed
qed

lemma translateEA_coherent:
  assumes tr: "translateEA addr InD RnW priv x (m, io) = Some (r, (m', io'))"
    and coh: "coherent m io" and ok: "io_ok io"
  shows "coherent m' io' \<and> same_map io io'"
  using tr
proof (cases rule: translateEA_cases)
  case real
  then show ?thesis
    using insert_coherent [OF real(3) coh ok same_map_refl [OF ok]] by simp
next
  case (bat out p)
  have "matchBAT addr InD priv 0 m = Some (out, p)"
    by (rule matchBAT_scratch [OF bat(2,3)])
  then show ?thesis
    using insert_coherent [OF bat(5) coh ok same_map_refl [OF ok]] bat(1) by simp
next
  case no_page
  then have "same_map io io'" using find_pte_same_map ok by blast
  with no_page coh show ?thesis using coherent_same_map [OF _ ok] by blast
next
  case (page pte io1 out p)
  have s1: "same_map io io1" using find_pte_same_map [OF page(4) ok] .
  obtain io2 where ins: "utlbInsert InD priv addr out (perms_field p) (m, io2) = Some (m', io')"
    and s2: "same_map io1 io2" and rd: "readable p"
    using page(5) same_map_ok [OF s1 ok] by (rule use_pte_io)
  have "matchBAT addr InD priv 0 m = None" using page(2) matchBAT_None_scratch by blast
  then show ?thesis
    using insert_coherent [OF ins coh ok same_map_trans [OF s1 s2]] page(1,3) rd by simp
qed (use coh ok same_map_refl in auto)

subsection \<open>\<open>translateAddr\<close>\<close>

lemma do_lookup_None: "translateEA addr InD RnW priv x s = None \<Longrightarrow> do_lookup addr InD RnW priv x s = None"
  by (subst do_lookup.simps) simp

lemma do_lookup_SomeD:
  assumes "do_lookup addr InD RnW priv x s = Some (res, s')"
  obtains r where "translateEA addr InD RnW priv x s = Some (r, s')"
    and "answered addr InD RnW priv (fst s') r res"
proof -
  obtain r s1 where r: "translateEA addr InD RnW priv x s = Some (r, s1)"
  proof (cases "translateEA addr InD RnW priv x s")
    case None
    then show ?thesis using assms do_lookup_None [OF None] by (simp only: option.distinct)
  next
    case (Some q)
    then show ?thesis by (cases q) (auto intro: that)
  qed
  have "s1 = s'" using do_lookup_unfold [OF r] assms by auto
  with do_lookup_unfold [OF r] assms r that show thesis by auto
qed

text \<open>Either the uTLB answers, with no change of state, or one walk is made.\<close>

lemma translateAddr_cases:
  assumes "translateAddr addr InD RnW priv x s = Some (res, s')"
  obtains (hit) pa p where "utlbLookup InD priv addr (fst s) = Some (pa, p)" and "s' = s"
      and "\<not> checkFaultWasCleanliness p RnW InD \<or> checkPerms p RnW InD"
      and "res = (if checkPerms p RnW InD then Inr pa else Inl FAULT_PERMS)"
  | (walk) "do_lookup addr InD RnW priv x s = Some (res, s')"
proof (cases "utlbLookup InD priv addr (fst s)")
  case None
  with assms show thesis by (intro walk) (simp add: translateAddr_def)
next
  case (Some q)
  obtain pa p where q: "q = (pa, p)" by (cases q)
  show thesis
  proof (cases "\<not> checkPerms p RnW InD \<and> checkFaultWasCleanliness p RnW InD")
    case True
    with assms Some q show thesis by (intro walk) (simp add: translateAddr_def)
  next
    case False
    with assms Some q show thesis
      by (intro hit [of pa p]) (auto simp: translateAddr_def split: if_splits)
  qed
qed

lemma do_lookup_coherent:
  assumes "do_lookup addr InD RnW priv x (m, io) = Some (res, (m', io'))"
    and "coherent m io" and "io_ok io"
  shows "coherent m' io' \<and> same_map io io'"
  using assms(1) by (rule do_lookup_SomeD) (rule translateEA_coherent [OF _ assms(2,3)])

lemma translateAddr_keeps:
  assumes "translateAddr addr InD RnW priv x (m, io) = Some (res, (m', io'))"
    and "coherent m io" and "io_ok io"
  shows "coherent m' io' \<and> same_map io io'"
  using assms(1)
proof (cases rule: translateAddr_cases)
  case hit
  then show ?thesis using assms same_map_refl by simp
next
  case walk
  then show ?thesis using do_lookup_coherent assms by blast
qed

text \<open>What a hit in a coherent uTLB means.\<close>

lemma utlbLookup_SomeD:
  assumes "utlbLookup InD priv addr m = Some (pa, p)" and "coherent m io"
  obtains a t where "page a = page addr" and "utlb_getPA t OR (ucast addr AND 0xfff) = pa"
    and "perms_of_field (utlb_getPerms t) = p"
    and "if enabled InD m then virt_entry InD priv m io a t else real_entry io a t"
proof -
  let ?t = "select_utlb InD priv m (utlb_idx addr)"
  have tag: "utlb_getEA ?t = utlb_tag InD addr m"
    and pa: "pa = utlb_getPA ?t OR (ucast addr AND 0xfff)" and p: "p = perms_of_field (utlb_getPerms ?t)"
    using assms(1) by (auto simp: utlbLookup_def Let_def split: if_splits)
  have "utlb_isValid ?t"
    using tag utlb_tag_valid [of InD addr m] and_exp_nonzero [of "utlb_ea ?t" 1]
    by (simp add: utlb_isValid_def utlb_getEA_def PPCMMU_UTLB_VALID_def)
  then obtain a where a: "real_entry io a ?t \<or> virt_entry InD priv m io a ?t"
    using assms(2) unfolding coherent_def entry_ok_def by blast
  have "page a = page addr \<and> (if enabled InD m then virt_entry InD priv m io a ?t else real_entry io a ?t)"
    using a tag by (auto simp: utlb_tag_eq real_entry_def virt_entry_def tag_inj split: if_splits)
  with pa p that show thesis by blast
qed

text \<open>The contexts of an access: the permission check on what the entry grants.\<close>

lemma granted:
  assumes "translateAddr addr InD RnW priv x s = Some (Inr pa, s')"
  obtains p where "utlbLookup InD priv addr (fst s') = Some (pa, p)" and "checkPerms p RnW InD"
  using assms
proof (cases rule: translateAddr_cases)
  case (hit pa' p)
  then show thesis using that by (auto split: if_splits)
next
  case walk
  then show thesis
    by (rule do_lookup_SomeD) (use that in \<open>auto simp: answered_def split: sum.splits if_splits\<close>)
qed

subsection \<open>Register writes and the constructor\<close>

lemma empty_entry_ok [simp]: "entry_ok InD priv m io \<lparr>utlb_ea = 0, utlb_pa = 0\<rparr>"
  by (simp add: entry_ok_def utlb_isValid_def)

lemma coherent_side:
  assumes "coherent m io"
    and "\<And>InD. utlb_empty InD m' \<or>
      (\<forall>priv i. select_utlb InD priv m' i = select_utlb InD priv m i) \<and>
      (if InD then m_ibat m' else m_dbat m') = (if InD then m_ibat m else m_dbat m) \<and>
      m_segreg m' = m_segreg m"
  shows "coherent m' io"
  unfolding coherent_def
proof (intro allI)
  fix InD priv i
  from assms(2) [of InD] show "entry_ok InD priv m' io (select_utlb InD priv m' i)"
  proof
    assume "utlb_empty InD m'"
    then have "select_utlb InD priv m' i = \<lparr>utlb_ea = 0, utlb_pa = 0\<rparr>"
      unfolding utlb_empty_def by blast
    then show ?thesis by (simp only: empty_entry_ok)
  next
    assume a: "(\<forall>priv i. select_utlb InD priv m' i = select_utlb InD priv m i) \<and>
      (if InD then m_ibat m' else m_dbat m') = (if InD then m_ibat m else m_dbat m) \<and>
      m_segreg m' = m_segreg m"
    then have "entry_ok InD priv m' io t = entry_ok InD priv m io t" for t
      by (intro entry_ok_cong) blast+
    with a assms(1) show ?thesis by (simp add: coherent_def)
  qed
qed

lemma coherent_empty: "(\<And>InD. utlb_empty InD m) \<Longrightarrow> coherent m io"
  by (simp add: coherent_def utlb_empty_def)

lemma select_other_side:
  "select_utlb False priv (iutlbInv m) i = select_utlb False priv m i"
  "select_utlb True priv (dutlbInv m) i = select_utlb True priv m i"
  by (simp_all add: select_utlb_def iutlbInv_def dutlbInv_def)

lemma select_update_other [simp]:
  "select_utlb InD priv (m\<lparr>m_ibat := b\<rparr>) = select_utlb InD priv m"
  "select_utlb InD priv (m\<lparr>m_dbat := b\<rparr>) = select_utlb InD priv m"
  "select_utlb InD priv (m\<lparr>m_generation_count := g\<rparr>) = select_utlb InD priv m"
  "select_utlb InD priv (m\<lparr>m_enabled_d := d, m_enabled_i := e\<rparr>) = select_utlb InD priv m"
  by (intro ext; simp add: select_utlb_def)+

lemma setIBAT_side:
  assumes "setIBATupper i v m = Some m' \<or> setIBATlower i v m = Some m'"
  shows "utlb_empty True m'" and "select_utlb False priv m' j = select_utlb False priv m j"
    and "m_dbat m' = m_dbat m" and "m_segreg m' = m_segreg m"
  using assms by (auto simp: bat_accessors Let_def ASSERT_def select_other_side split: if_splits)

lemma setDBAT_side:
  assumes "setDBATupper i v m = Some m' \<or> setDBATlower i v m = Some m'"
  shows "utlb_empty False m'" and "select_utlb True priv m' j = select_utlb True priv m j"
    and "m_ibat m' = m_ibat m" and "m_segreg m' = m_segreg m"
  using assms by (auto simp: bat_accessors Let_def ASSERT_def select_other_side split: if_splits)

lemma coherent_setIBAT:
  assumes "coherent m io" and "setIBATupper i v m = Some m' \<or> setIBATlower i v m = Some m'"
  shows "coherent m' io"
proof (rule coherent_side [OF assms(1)])
  fix InD
  show "utlb_empty InD m' \<or> (\<forall>priv i. select_utlb InD priv m' i = select_utlb InD priv m i) \<and>
      (if InD then m_ibat m' else m_dbat m') = (if InD then m_ibat m else m_dbat m) \<and>
      m_segreg m' = m_segreg m"
    using setIBAT_side [OF assms(2)] by (cases InD) auto
qed

lemma coherent_setDBAT:
  assumes "coherent m io" and "setDBATupper i v m = Some m' \<or> setDBATlower i v m = Some m'"
  shows "coherent m' io"
proof (rule coherent_side [OF assms(1)])
  fix InD
  show "utlb_empty InD m' \<or> (\<forall>priv i. select_utlb InD priv m' i = select_utlb InD priv m i) \<and>
      (if InD then m_ibat m' else m_dbat m') = (if InD then m_ibat m else m_dbat m) \<and>
      m_segreg m' = m_segreg m"
    using setDBAT_side [OF assms(2)] by (cases InD) auto
qed

lemma coherent_setSegmentReg: "setSegmentReg i v m = Some m' \<Longrightarrow> coherent m' io"
  by (intro coherent_empty setSegmentReg_empty)

lemma coherent_inv_ops:
  "coherent (mmu_setSDR1 v m) io" "coherent (tlbia m) io" "coherent (tlbie m) io"
  "coherent (PPCMMU_init m) io"
  by (rule coherent_empty, rule mmu_inv_ops_empty)+

lemma coherent_setIRDR: "coherent m io \<Longrightarrow> coherent (setIRDR ir dr m) io"
  by (rule coherent_side) (auto simp: setIRDR_def)

end
