(* ===== verification/MMU_Machine.thy ===== *)
theory MMU_Machine
  imports MMU_Coherence
begin

section \<open>The MMU as a machine, and a small platform\<close>

text \<open>
  The public operations of \<open>PPCMMU\<close> as an inductive step relation on the MMU and the
  I/O state, with the steps of the rest of the system (device accesses, which keep the
  address map) in between; and a concrete platform of 64 KB of RAM for the witnesses.
\<close>

inductive mmu_step :: "mmu \<times> io \<Rightarrow> mmu \<times> io \<Rightarrow> bool" where
  translate: "translateAddr addr InD RnW priv x s = Some (res, s') \<Longrightarrow> mmu_step s s'"
| sdr1: "mmu_step (m, io) (mmu_setSDR1 v m, io)"
| ibatu: "setIBATupper i v m = Some m' \<Longrightarrow> mmu_step (m, io) (m', io)"
| ibatl: "setIBATlower i v m = Some m' \<Longrightarrow> mmu_step (m, io) (m', io)"
| dbatu: "setDBATupper i v m = Some m' \<Longrightarrow> mmu_step (m, io) (m', io)"
| dbatl: "setDBATlower i v m = Some m' \<Longrightarrow> mmu_step (m, io) (m', io)"
| segreg: "setSegmentReg i v m = Some m' \<Longrightarrow> mmu_step (m, io) (m', io)"
| tlbia: "mmu_step (m, io) (tlbia m, io)"
| tlbie: "mmu_step (m, io) (tlbie m, io)"
| irdr: "mmu_step (m, io) (setIRDR ir dr m, io)"
| access: "same_map io io' \<Longrightarrow> mmu_step (m, io) (m, io')"

definition mmu_good :: "mmu \<times> io \<Rightarrow> bool" where
  "mmu_good s \<longleftrightarrow> coherent (fst s) (snd s) \<and> io_ok (snd s)"

lemma mmu_step_good: "mmu_step s s' \<Longrightarrow> mmu_good s \<Longrightarrow> mmu_good s' \<and> same_map (snd s) (snd s')"
proof (induction rule: mmu_step.induct)
  case (translate addr InD RnW priv x s res s')
  then show ?case
    using translateAddr_keeps [of addr InD RnW priv x "fst s" "snd s" res "fst s'" "snd s'"]
    by (auto simp: mmu_good_def intro: same_map_ok)
next
  case (access io io' m)
  then show ?case by (auto simp: mmu_good_def coherent_same_map intro: same_map_ok)
qed (auto simp: mmu_good_def same_map_refl coherent_inv_ops
      intro: coherent_setIBAT coherent_setDBAT coherent_setSegmentReg coherent_setIRDR)

lemma mmu_steps_good: "mmu_step\<^sup>*\<^sup>* s s' \<Longrightarrow> mmu_good s \<Longrightarrow> mmu_good s'"
  by (induction rule: rtranclp_induct) (auto dest: mmu_step_good)

subsection \<open>Translation off\<close>

lemma walk_real:
  assumes "do_lookup addr InD RnW priv x (m, io) = Some (res, s')" and "\<not> enabled InD m"
  obtains h where "resolve addr io = Some h" and "res = Inr (page_of h OR (ucast addr AND 0xfff))"
proof -
  obtain m' io' where s': "s' = (m', io')" by (cases s')
  obtain r where r: "translateEA addr InD RnW priv x (m, io) = Some (r, s')"
    and c: "answered addr InD RnW priv (fst s') r res"
    using assms(1) by (rule do_lookup_SomeD)
  from r assms(2) have r': "r = Inr (addr, PPCMMU_PERMS_ANY)"
    and ins: "utlbInsert InD priv addr addr (perms_field PPCMMU_PERMS_ANY) (m, io) = Some (m', io')"
    unfolding s' translateEA_eq by (auto elim!: bind_SomeE)
  obtain h where h: "resolve addr io = Some h"
    and l: "utlbLookup InD priv addr m' =
      Some (page_of h OR (ucast addr AND 0xfff), perms_of_field (perms_field PPCMMU_PERMS_ANY))"
    using ins by (rule lookup_after_insert)
  have "checkPerms PPCMMU_PERMS_ANY RnW InD" by (simp add: checkPerms_def PPCMMU_PERMS_ANY_def)
  with c r' l have "res = Inr (page_of h OR (ucast addr AND 0xfff))" by (simp add: s')
  with h show thesis by (rule that)
qed

lemma real_mode_result:
  assumes "translateAddr addr InD RnW priv x (m, io) = Some (res, s')"
    and "coherent m io" and "\<not> enabled InD m"
  shows "\<exists>a h. page a = page addr \<and> resolve a io = Some h \<and>
    res = Inr (page_of h OR (ucast addr AND 0xfff))"
  using assms(1)
proof (cases rule: translateAddr_cases)
  case (hit pa p)
  then obtain a t where "page a = page addr" "utlb_getPA t OR (ucast addr AND 0xfff) = pa"
    "perms_of_field (utlb_getPerms t) = p" "real_entry io a t"
    using utlbLookup_SomeD [of InD priv addr m pa p io] assms(2,3) by auto
  with hit(4) show ?thesis
    by (auto simp: real_entry_def backs_def checkPerms_def PPCMMU_PERMS_ANY_def)
next
  case walk
  then obtain h where "resolve addr io = Some h" "res = Inr (page_of h OR (ucast addr AND 0xfff))"
    using assms(3) by (rule walk_real)
  then show ?thesis by blast
qed

lemma real_mode_memory:
  assumes "translateAddr addr InD RnW priv x (m, io) = Some (res, s')" and "\<not> enabled InD m"
  shows "io_hmem (snd s') = io_hmem io"
  using assms(1)
proof (cases rule: translateAddr_cases)
  case walk
  then obtain r where r: "translateEA addr InD RnW priv x (m, io) = Some (r, s')"
    by (rule do_lookup_SomeD)
  obtain m' io' where s': "s' = (m', io')" by (cases s')
  from r assms(2) have "utlbInsert InD priv addr addr (perms_field PPCMMU_PERMS_ANY) (m, io) = Some (m', io')"
    unfolding s' translateEA_eq by (auto elim!: bind_SomeE)
  then show ?thesis
    by (auto simp: s' utlbInsert_def get_direct_map_def io_get_dev_def case_prod_beta elim!: bind_SomeE)
qed simp

text \<open>What a coherent uTLB says is writable it says is readable.\<close>

lemma lookup_readable:
  assumes "utlbLookup InD priv a m = Some (pa, p)" and "coherent m io"
  shows "perm_w p \<Longrightarrow> perm_r p"
proof -
  assume w: "perm_w p"
  obtain b t where p: "perms_of_field (utlb_getPerms t) = p"
    and e: "if enabled InD m then virt_entry InD priv m io b t else real_entry io b t"
    using assms by (rule utlbLookup_SomeD)
  have "perm_r q" if "matchBAT b InD priv 0 m = Some (out, q)" "perm_w q" for out q
    using that by (auto simp: matchBAT_def no_perms_def Let_def split: option.splits if_splits)
  with e p w show "perm_r p"
    by (auto simp: virt_entry_def real_entry_def PPCMMU_PERMS_ANY_def readable_def split: if_splits option.splits)
qed

subsection \<open>A platform with 64 KB of RAM at address 0\<close>

definition demo_ram :: ram where
  "demo_ram = \<lparr>r_isROM = False, r_mmap_base = 0x10000000, r_base_address = 0, r_address_span = 0x10000\<rparr>"

text \<open>A host without files, with the input pin low and a window that stays open.\<close>

definition quiet_host :: host where
  "quiet_host = \<lparr>h_pread = (\<lambda>f n off. None), h_pwrite = (\<lambda>bs off f. (-1, f)), h_gpioRead = (\<lambda>_. False),
     h_window = (640, 480), h_closed = (\<lambda>_. False)\<rparr>"

definition demo_io :: "hmem \<Rightarrow> io" where
  "demo_io mem = \<lparr>io_bus = the (attach dev_setProps (DRam demo_ram) 0 0x10000 bus_init),
                  io_hmem = mem, io_irqFlag = False, io_files = (\<lambda>_. []),
                  io_host = quiet_host\<rparr>"

definition zero_bat :: bat_t where
  "zero_bat = \<lparr>bat_bepi = 0, bat_bl_shift = 0, bat_vs = False, bat_vp = False,
               bat_brpn = 0, bat_wimg = 0, bat_pp = 0\<rparr>"

definition demo_mmu :: mmu where
  "demo_mmu = PPCMMU_init \<lparr>m_enabled_i = True, m_enabled_d = True, m_htab_phys = 0, m_htab_mask = 0,
     m_pi_utlb = (\<lambda>_. \<lparr>utlb_ea = 0, utlb_pa = 0\<rparr>), m_pd_utlb = (\<lambda>_. \<lparr>utlb_ea = 0, utlb_pa = 0\<rparr>),
     m_ui_utlb = (\<lambda>_. \<lparr>utlb_ea = 0, utlb_pa = 0\<rparr>), m_ud_utlb = (\<lambda>_. \<lparr>utlb_ea = 0, utlb_pa = 0\<rparr>),
     m_ibat = (\<lambda>_. zero_bat), m_dbat = (\<lambda>_. zero_bat),
     m_segreg = (\<lambda>_. \<lparr>seg_vsid = 0, seg_ks = False, seg_kp = False, seg_n = False\<rparr>),
     m_generation_count = 0\<rparr>"

lemma demo_attach:
  "attach dev_setProps (DRam demo_ram) 0 0x10000 bus_init = Some (bus_init\<lparr>bus_devs :=
     (bus_devs bus_init)[0 := \<lparr>bd_addr = 0, bd_size = 0x10000, bd_dev = Some (DRam demo_ram)\<rparr>]\<rparr>)"
proof -
  have "find (\<lambda>i. bd_dev (bus_devs (bus_init :: device bus) ! i) = None) [0..<bus_entries] = Some 0"
    by (simp add: bus_entries_def upt_rec [of 0 32] bus_init_def)
  then show ?thesis by (simp add: attach_def demo_ram_def ram_setProps_def)
qed

lemma replicate_32: "replicate 32 x = x # replicate 31 x"
  by (subst replicate_Suc [symmetric]) simp

lemma demo_devs:
  "bus_devs (io_bus (demo_io mem)) = \<lparr>bd_addr = 0, bd_size = 0x10000, bd_dev = Some (DRam demo_ram)\<rparr> #
     replicate 31 \<lparr>bd_addr = 0, bd_size = 0, bd_dev = None\<rparr>"
  "bus_last_dev (io_bus (demo_io mem)) = 0" "io_hmem (demo_io mem) = mem"
  unfolding demo_io_def demo_attach option.sel
  by (simp_all add: bus_init_def bus_entries_def replicate_32)

lemma demo_io_ok: "io_ok (demo_io mem)"
proof -
  have "bus_wf (io_bus (demo_io mem))" unfolding demo_io_def demo_attach
    using attach_wf [OF demo_attach bus_init_wf(1)] by simp
  moreover have "bus_disjoint (io_bus (demo_io mem))" unfolding demo_io_def demo_attach
    using attach_disjoint [OF demo_attach bus_init_wf]
    by (simp add: bus_init_def dev_matches_addr_def bus_entries_def)
  ultimately show ?thesis by (simp add: io_ok_def)
qed

lemma demo_matches: "a < 0x10000 \<Longrightarrow> dev_matches_addr (io_bus (demo_io mem)) 0 a"
  by (simp add: dev_matches_addr_def demo_devs)

lemma demo_get_dev:
  assumes "a < 0x10000"
  shows "io_get_dev a (demo_io mem) = Some (0, DRam demo_ram, demo_io mem)"
  using demo_matches [OF assms, of mem] demo_devs [of mem]
  by (simp add: io_get_dev_def get_dev_def)

lemma demo_direct_map:
  "a < 0x10000 \<Longrightarrow> get_direct_map a (demo_io mem) = Some (Some (ram_direct_map demo_ram a), demo_io mem)"
  by (simp add: get_direct_map_def demo_get_dev)

lemma demo_ram_at: "a < 0x10000 \<Longrightarrow> ram_at (demo_io mem) a demo_ram"
proof -
  assume "a < 0x10000"
  then have "find_dev_for_addr (io_bus (demo_io mem)) a = Some 0"
    using demo_matches by (simp add: find_dev_for_addr_def bus_entries_def upt_rec [of 0 32])
  then show ?thesis by (simp add: ram_at_def demo_devs)
qed

lemma demo_good: "mmu_good (demo_mmu, demo_io mem)"
  by (simp add: mmu_good_def demo_io_ok demo_mmu_def coherent_inv_ops)

lemma demo_empty: "utlb_empty InD demo_mmu"
  by (simp add: demo_mmu_def mmu_inv_ops_empty)

lemma demo_enabled: "\<not> enabled InD demo_mmu"
  by (simp add: demo_mmu_def enabled_def PPCMMU_init_def Let_def iutlbInv_def dutlbInv_def)

text \<open>A translation whose walk is served returns.\<close>

lemma translateAddr_defined:
  assumes "translateEA addr InD RnW priv x s = Some (r, s1)"
  shows "\<exists>res s'. translateAddr addr InD RnW priv x s = Some (res, s')"
  using do_lookup_unfold [OF assms] unfolding translateAddr_def
  by (auto split: option.split simp del: split_paired_Ex)

lemma demo_insert:
  "out < 0x10000 \<Longrightarrow> \<exists>m'. utlbInsert InD priv a out pf (m, demo_io mem) = Some (m', demo_io mem)"
  by (simp add: utlbInsert_def demo_direct_map)

lemma demo_walk:
  assumes "a < 0x10000"
  obtains m' where "translateEA a InD RnW priv x (demo_mmu, demo_io mem) =
    Some (Inr (a, PPCMMU_PERMS_ANY), (m', demo_io mem))"
  using demo_insert [OF assms, of InD priv a "perms_field PPCMMU_PERMS_ANY" demo_mmu mem] demo_enabled [of InD]
  by (auto simp: translateEA_eq)

text \<open>The same platform with data translation on and one data BAT: 128 KB at 0, read-write
  for the supervisor.\<close>

definition bat_mmu :: mmu where
  "bat_mmu = setIRDR True True (the (setDBATlower 0 2 (the (setDBATupper 0 2 demo_mmu))))"

lemma bat_mmu_steps:
  "setDBATupper 0 2 demo_mmu = Some (the (setDBATupper 0 2 demo_mmu))"
  "setDBATlower 0 2 (the (setDBATupper 0 2 demo_mmu)) =
     Some (the (setDBATlower 0 2 (the (setDBATupper 0 2 demo_mmu))))"
  by (simp_all add: setDBATupper_def setDBATlower_def Let_def)

lemma bat_mmu_good: "mmu_good (bat_mmu, demo_io mem)"
proof -
  have c0: "coherent demo_mmu (demo_io mem)" using demo_good [of mem] by (simp add: mmu_good_def)
  have c1: "coherent (the (setDBATupper 0 2 demo_mmu)) (demo_io mem)"
    by (rule coherent_setDBAT [OF c0 disjI1 [OF bat_mmu_steps(1)]])
  have "coherent (the (setDBATlower 0 2 (the (setDBATupper 0 2 demo_mmu)))) (demo_io mem)"
    by (rule coherent_setDBAT [OF c1 disjI2 [OF bat_mmu_steps(2)]])
  then show ?thesis unfolding bat_mmu_def mmu_good_def
    by (simp only: fst_conv snd_conv coherent_setIRDR demo_io_ok simp_thms)
qed

lemma bat_mmu_match:
  "matchBAT 0x1234 False True x bat_mmu = Some (0x1234, \<lparr>perm_r = True, perm_w = True, perm_clean = False\<rparr>)"
  by (simp add: bat_mmu_def setDBATupper_def setDBATlower_def setIRDR_def matchBAT_def Let_def
      bat_matches_def bat_amask_def bat_set_upper_def bat_set_lower_def dutlbInv_def no_perms_def
      upt_rec m_fls_def)

lemma bat_mmu_enabled: "enabled InD bat_mmu"
  by (simp add: bat_mmu_def enabled_def setIRDR_def)

text \<open>And with instruction translation on and segment 0 marked no-execute.\<close>

definition nx_mmu :: mmu where
  "nx_mmu = setIRDR True True (the (setSegmentReg 0 0x10000000 demo_mmu))"

lemma nx_mmu_step: "setSegmentReg 0 0x10000000 demo_mmu = Some (the (setSegmentReg 0 0x10000000 demo_mmu))"
  by (simp add: setSegmentReg_def Let_def)

lemma nx_mmu_good: "mmu_good (nx_mmu, demo_io mem)"
  unfolding nx_mmu_def mmu_good_def
  by (simp only: fst_conv snd_conv coherent_setSegmentReg [OF nx_mmu_step] coherent_setIRDR demo_io_ok simp_thms)

lemma nx_mmu_segment: "seg_n (seg_of nx_mmu 0x1234)"
  by (simp add: nx_mmu_def setIRDR_def seg_of_def setSegmentReg_def Let_def B_def iutlbInv_def dutlbInv_def)

lemma nx_mmu_no_bat: "matchBAT a InD priv x nx_mmu = None"
  by (simp add: nx_mmu_def setIRDR_def matchBAT_def setSegmentReg_def Let_def iutlbInv_def dutlbInv_def
      bat_matches_def demo_mmu_def PPCMMU_init_def upt_rec zero_bat_def)

lemma demo_translate:
  assumes "a < 0x10000"
  shows "\<exists>pa s'. translateAddr a InD RnW priv x (demo_mmu, demo_io mem) = Some (Inr pa, s')"
proof -
  obtain m' where w: "translateEA a InD RnW priv x (demo_mmu, demo_io mem) =
      Some (Inr (a, PPCMMU_PERMS_ANY), (m', demo_io mem))"
    using assms by (rule demo_walk)
  have "utlbLookup InD priv a demo_mmu = None" by (rule utlb_empty_lookup [OF demo_empty])
  moreover have "checkPerms PPCMMU_PERMS_ANY RnW InD" by (simp add: checkPerms_def PPCMMU_PERMS_ANY_def)
  ultimately show ?thesis using do_lookup_unfold [OF w] by (auto simp: translateAddr_def)
qed

lemma demo_mmu_seg: "seg_of demo_mmu a = \<lparr>seg_vsid = 0, seg_ks = False, seg_kp = False, seg_n = False\<rparr>"
  by (simp add: seg_of_def demo_mmu_def PPCMMU_init_def Let_def)

lemma demo_mmu_htab: "m_htab_phys demo_mmu = 0" "m_htab_mask demo_mmu = 0"
  by (simp_all add: demo_mmu_def PPCMMU_init_def Let_def iutlbInv_def dutlbInv_def)

lemma demo_pte_access:
  "pte_access False True (seg_of demo_mmu a) 0 =
     (\<lparr>perm_r = True, perm_w = True, perm_clean = False\<rparr>, Some 0x180)"
  by (simp add: pte_access_def Let_def pte_writable_def demo_mmu_seg)

lemma demo_use_pte:
  "\<exists>s. use_pte 0x1234 False False True 0x40 (demo_mmu, demo_io (\<lambda>_. 0)) =
     Some ((0x234, \<lparr>perm_r = True, perm_w = True, perm_clean = False\<rparr>), s)"
proof -
  let ?io = "demo_io (\<lambda>_. 0)"
  have z: "BS32 0 = 0" by (simp add: BS32_def BSWAP32_def)
  have rd: "bus_read32 0x44 ?io = Some (0, ?io)"
    by (simp add: bus_read32_def demo_get_dev demo_devs ram_read32_def hload32_def)
  have wr: "bus_write32 0x44 w ?io = Some (demo_io (ram_write32 demo_ram 0x44 w (\<lambda>_. 0)))" for w
    using demo_devs [of "\<lambda>_. 0"] by (simp add: bus_write32_def demo_get_dev) (simp add: demo_io_def)
  have acc: "pte_access False True (m_segreg demo_mmu 0) 0 =
     (\<lparr>perm_r = True, perm_w = True, perm_clean = False\<rparr>, Some 0x180)"
    using demo_pte_access [of 0] by (simp add: seg_of_def)
  obtain m' where ins: "utlbInsert False True 0x1234 0x234
      (perms_field \<lparr>perm_r = True, perm_w = True, perm_clean = False\<rparr>)
      (demo_mmu, demo_io (ram_write32 demo_ram 0x44 (BS32 0x180) (\<lambda>_. 0))) =
      Some (m', demo_io (ram_write32 demo_ram 0x44 (BS32 0x180) (\<lambda>_. 0)))"
    using demo_insert [of "0x234"] by fastforce
  show ?thesis by (simp add: use_pte_def rd z acc wr ins)
qed

end
