(* ===== verification/MMU_Props.thy ===== *)
theory MMU_Props
  imports MMU_Machine
begin

section \<open>Properties of address translation\<close>

text \<open>
  The properties of the MMU: it returns, its uTLB stays coherent, real mode is the
  identity, a BAT takes precedence and is obeyed, no-execute segments are not executed
  from, page table walks find what the tables hold, and R and C bits are kept.
\<close>

subsection \<open>Lemmas: one translation in each mode\<close>

lemma walk_bat:
  assumes "do_lookup addr InD RnW priv x (m, io) = Some (res, s')" and en: "enabled InD m"
    and b: "matchBAT addr InD priv 0 m = Some (out, p)"
  shows "if checkPerms p RnW InD
    then \<exists>h. resolve out io = Some h \<and> res = Inr (page_of h OR (ucast addr AND 0xfff))
    else res = Inl FAULT_PERMS"
proof -
  obtain m' io' where s': "s' = (m', io')" by (cases s')
  obtain r where r: "translateEA addr InD RnW priv x (m, io) = Some (r, (m', io'))"
    and c: "answered addr InD RnW priv m' r res"
    using assms(1) unfolding s' by (rule do_lookup_SomeD) simp
  obtain out' where b': "matchBAT addr InD priv x m = Some (out', p)"
    using matchBAT_page [OF refl b] by blast
  show ?thesis
  proof (cases "perm_r p \<or> perm_w p")
    case True
    have o: "out' = out" using matchBAT_scratch [OF b True] b' by simp
    from r en b' True have r': "r = Inr (out, p)"
      and ins: "utlbInsert InD priv addr out (perms_field p) (m, io) = Some (m', io')"
      unfolding translateEA_eq o by (auto elim!: bind_SomeE)
    obtain h where h: "resolve out io = Some h"
      and l: "utlbLookup InD priv addr m' =
        Some (page_of h OR (ucast addr AND 0xfff), perms_of_field (perms_field p))"
      using ins by (rule lookup_after_insert)
    with c r' show ?thesis by auto
  next
    case False
    with r en b' have "r = Inl FAULT_PERMS" by (auto simp: translateEA_eq)
    with c have "res = Inl FAULT_PERMS" by simp
    with False show ?thesis by (auto simp: checkPerms_def)
  qed
qed

subsection \<open>Properties\<close>

text \<open>C18: Translation returns. Whenever the walk's own bus accesses are served,
  \<open>translateAddr\<close> returns: its \<open>goto do_lookup\<close> loop ends, the \<open>FATAL\<close>
  "TLB miss after insert" is unreachable, the state afterwards is either unchanged (the
  uTLB answered) or the one the single walk left, and a fault is the walk's fault or a
  permission fault.\<close>

theorem translateAddr_returns:
  assumes "translateEA addr InD RnW priv x s = Some (r, s1)"
  shows "\<exists>res s'. translateAddr addr InD RnW priv x s = Some (res, s') \<and> s' \<in> {s, s1} \<and>
    (\<forall>f. res = Inl f \<longrightarrow> r = Inl f \<or> f = FAULT_PERMS)"
proof -
  obtain res where d: "do_lookup addr InD RnW priv x s = Some (res, s1)"
    and c: "answered addr InD RnW priv (fst s1) r res"
    using do_lookup_unfold [OF assms] by blast
  then have f: "\<And>f. res = Inl f \<Longrightarrow> r = Inl f \<or> f = FAULT_PERMS"
    using answered_fault by blast
  from d f show ?thesis
    unfolding translateAddr_def
    by (auto split: option.split simp del: split_paired_Ex)
qed

theorem translateAddr_returns_witness:
  "\<exists>res s'. translateAddr 0x1234 False True True 0 (demo_mmu, demo_io (\<lambda>_. 0)) = Some (res, s')"
proof -
  obtain m' where "translateEA 0x1234 False True True 0 (demo_mmu, demo_io (\<lambda>_. 0)) =
    Some (Inr (0x1234, PPCMMU_PERMS_ANY), (m', demo_io (\<lambda>_. 0)))"
    by (rule demo_walk [of "0x1234"]) simp_all
  from translateAddr_returns [OF this] show ?thesis by blast
qed

text \<open>C19: A translation that succeeded is cached: the same access again, whatever the
  uninitialised scratch address, gives the same physical or host address from the uTLB and
  changes nothing.\<close>

theorem translateAddr_repeat:
  assumes "translateAddr addr InD RnW priv x s = Some (Inr pa, s')"
  shows "translateAddr addr InD RnW priv y s' = Some (Inr pa, s')"
proof -
  obtain p where "utlbLookup InD priv addr (fst s') = Some (pa, p)" "checkPerms p RnW InD"
    using assms by (rule granted)
  then show ?thesis by (simp add: translateAddr_def)
qed

theorem translateAddr_repeat_witness:
  "\<exists>pa s'. translateAddr 0x1234 False False True 0 (demo_mmu, demo_io (\<lambda>_. 0)) = Some (Inr pa, s') \<and>
     translateAddr 0x1234 False False True 7 s' = Some (Inr pa, s')"
proof -
  obtain pa s' where "translateAddr 0x1234 False False True 0 (demo_mmu, demo_io (\<lambda>_. 0)) = Some (Inr pa, s')"
    using demo_translate [of "0x1234" False False True 0 "\<lambda>_. 0"] by auto
  with translateAddr_repeat [OF this] show ?thesis by blast
qed



text \<open>With translation off for the side of the access, no access faults, and the
  result is the access's own page: the host address (or, for a device without direct
  mapping, the I/O address) of an address on the same page, with the access's offset.\<close>

theorem real_mode_identity:
  assumes "translateAddr addr InD RnW priv x (m, io) = Some (res, s')"
    and "coherent m io" and "\<not> enabled InD m"
  shows "\<exists>a h. page a = page addr \<and> resolve a io = Some h \<and>
    res = Inr (page_of h OR (ucast addr AND 0xfff))"
  using assms by (rule real_mode_result)

theorem real_mode_identity_witness:
  "\<exists>res s'. translateAddr 0x1234 False True True 0 (demo_mmu, demo_io (\<lambda>_. 0)) = Some (res, s') \<and>
    (\<exists>a h. page a = page 0x1234 \<and> resolve a (demo_io (\<lambda>_. 0)) = Some h \<and>
      res = Inr (page_of h OR (ucast (0x1234 :: u32) AND 0xfff)))"
proof -
  obtain pa s' where t: "translateAddr 0x1234 False True True 0 (demo_mmu, demo_io (\<lambda>_. 0)) = Some (Inr pa, s')"
    using demo_translate [of "0x1234" False True True 0 "\<lambda>_. 0"] by auto
  have "coherent demo_mmu (demo_io (\<lambda>_. 0))" using demo_good by (simp add: mmu_good_def)
  with t real_mode_identity [OF t _ demo_enabled] show ?thesis by blast
qed

text \<open>C20: With translation on, a BAT that matches decides the access, whatever the uTLB
  and the page tables hold: an access its PP bits forbid is a permission fault, and one they
  allow goes to the BAT's physical page.\<close>

theorem bat_decides:
  assumes tr: "translateAddr addr InD RnW priv x (m, io) = Some (res, s')"
    and coh: "coherent m io" and en: "enabled InD m"
    and b: "matchBAT addr InD priv 0 m = Some (out, p)"
  shows "if checkPerms p RnW InD
    then \<exists>out' h. page out' = page out \<and> resolve out' io = Some h \<and>
      res = Inr (page_of h OR (ucast addr AND 0xfff))
    else res = Inl FAULT_PERMS"
  using tr
proof (cases rule: translateAddr_cases)
  case (hit pa q)
  then obtain a t where a: "page a = page addr" and pa: "utlb_getPA t OR (ucast addr AND 0xfff) = pa"
    and q: "perms_of_field (utlb_getPerms t) = q" and v: "virt_entry InD priv m io a t"
    using utlbLookup_SomeD [of InD priv addr m pa q io] coh en by auto
  obtain out' where o: "matchBAT a InD priv 0 m = Some (out', p)"
    and pg: "perm_r p \<or> perm_w p \<Longrightarrow> page out' = page out"
    using matchBAT_page [OF a [symmetric] b] by metis
  have "q = p" and "backs io out' t" using v o q by (simp_all add: virt_entry_def)
  moreover have "checkPerms p RnW InD \<Longrightarrow> perm_r p \<or> perm_w p"
    by (auto simp: checkPerms_def split: if_splits)
  ultimately show ?thesis using hit(4) pa pg
    by (cases "checkPerms p RnW InD") (fastforce simp: backs_def)+
next
  case walk
  have "if checkPerms p RnW InD
    then \<exists>h. resolve out io = Some h \<and> res = Inr (page_of h OR (ucast addr AND 0xfff))
    else res = Inl FAULT_PERMS"
    using walk en b by (rule walk_bat)
  then show ?thesis by (cases "checkPerms p RnW InD") auto
qed

theorem bat_decides_witness:
  "\<exists>res s'. translateAddr 0x1234 False True True 0 (bat_mmu, demo_io (\<lambda>_. 0)) = Some (res, s') \<and>
    (\<exists>out' h. page out' = page 0x1234 \<and> resolve out' (demo_io (\<lambda>_. 0)) = Some h \<and>
      res = Inr (page_of h OR (ucast (0x1234 :: u32) AND 0xfff)))"
proof -
  obtain m' where "utlbInsert False True 0x1234 0x1234
      (perms_field \<lparr>perm_r = True, perm_w = True, perm_clean = False\<rparr>) (bat_mmu, demo_io (\<lambda>_. 0)) =
      Some (m', demo_io (\<lambda>_. 0))"
    using demo_insert [of "0x1234"] by fastforce
  then have "translateEA 0x1234 False True True 0 (bat_mmu, demo_io (\<lambda>_. 0)) =
      Some (Inr (0x1234, \<lparr>perm_r = True, perm_w = True, perm_clean = False\<rparr>), (m', demo_io (\<lambda>_. 0)))"
    by (simp add: translateEA_eq bat_mmu_enabled bat_mmu_match)
  then obtain res s' where t: "translateAddr 0x1234 False True True 0 (bat_mmu, demo_io (\<lambda>_. 0)) = Some (res, s')"
    using translateAddr_defined by blast
  have c: "coherent bat_mmu (demo_io (\<lambda>_. 0))" using bat_mmu_good by (simp add: mmu_good_def)
  from bat_decides [OF t c bat_mmu_enabled bat_mmu_match] t show ?thesis
    by (auto simp: checkPerms_def)
qed



subsection \<open>BAT blocks\<close>

lemma bit_0xfffe0000: "bit (0xfffe0000 :: u32) n \<longleftrightarrow> 17 \<le> n \<and> n < 32"
proof (cases "n < 32")
  case True
  have "\<forall>n<32. bit (0xfffe0000 :: u32) n \<longleftrightarrow> 17 \<le> n" by (simp add: all_less_32)
  with True show ?thesis by blast
qed (auto dest: bit_imp_le_length)

lemma bit_amask: "bit (bat_amask b) n \<longleftrightarrow> 17 + bat_bl_shift b \<le> n \<and> n < 32"
  unfolding bat_amask_def bit_push_bit_iff bit_0xfffe0000 by auto

lemma amask_mask: "17 + bat_bl_shift b \<le> 32 \<Longrightarrow> NOT (bat_amask b) = mask (17 + bat_bl_shift b)"
  by (rule bit_word_eqI) (auto simp: bit_simps bit_amask)

text \<open>A BAT maps the aligned block its registers describe. With \<open>k\<close> the width of
  the length field written to the upper register (at most 11), the entry matches an address
  of its mode exactly when the two agree above bit \<open>17 + k\<close>, that is in blocks of
  \<open>128 KB * 2 ^ k\<close>; the offset in the block is kept in the translated address.\<close>

theorem bat_block:
  "let b = bat_set_lower l (bat_set_upper u b0); k = m_fls (drop_bit 2 u AND 0x7ff)
   in k \<le> 11 \<and>
    bat_matches addr priv b = (bit u (if priv then 1 else 0) \<and> drop_bit (17 + k) addr = drop_bit (17 + k) u) \<and>
    bat_brpn b OR (addr AND NOT (bat_amask b)) = (l AND 0xfffe0000) OR (addr AND mask (17 + k))"
proof -
  define b where "b = bat_set_lower l (bat_set_upper u b0)"
  define k where "k = m_fls (drop_bit 2 u AND 0x7ff)"
  have f: "bat_bl_shift b = k" "bat_bepi b = u AND 0xfffe0000" "bat_brpn b = l AND 0xfffe0000"
    "bat_vs b = bit u 1" "bat_vp b = bit u 0"
    using and_exp_nonzero [of u 1] and_exp_nonzero [of u 0]
    by (simp_all add: b_def k_def bat_set_lower_def bat_set_upper_def)
  have k: "k \<le> 11" unfolding k_def by (rule m_fls_bl_bound)
  have "(addr XOR bat_bepi b) AND bat_amask b = 0 \<longleftrightarrow> (\<forall>n\<ge>17 + k. bit addr n = bit u n)"
  proof -
    have "(addr XOR bat_bepi b) AND bat_amask b = 0 \<longleftrightarrow> (\<forall>n<32. 17 + k \<le> n \<longrightarrow> bit addr n = bit u n)"
      unfolding word32_eq_bits f(2) bit_and_iff bit_xor_iff bit_amask bit_0xfffe0000 f(1)
      by auto
    also have "\<dots> \<longleftrightarrow> (\<forall>n\<ge>17 + k. bit addr n = bit u n)"
      by (metis bits_above(3) not_less)
    finally show ?thesis .
  qed
  also have "\<dots> \<longleftrightarrow> drop_bit (17 + k) addr = drop_bit (17 + k) u"
    by (rule drop_bit_eq_iff [symmetric])
  finally have m: "(addr XOR bat_bepi b) AND bat_amask b = 0 \<longleftrightarrow> drop_bit (17 + k) addr = drop_bit (17 + k) u" .
  have "bat_matches addr priv b = (bit u (if priv then 1 else 0) \<and> drop_bit (17 + k) addr = drop_bit (17 + k) u)"
    unfolding bat_matches_def m using f by auto
  with k f amask_mask [of b] show ?thesis
    unfolding Let_def b_def [symmetric] k_def [symmetric] by simp
qed

subsection \<open>Page tables\<close>


lemma bus_read32_RAM:
  assumes "ram_at io a d" and "io_ok io"
  obtains i where "bus_read32 a io = Some (ram_read32 d a (io_hmem io), io\<lparr>io_bus := io_bus io\<lparr>bus_last_dev := i\<rparr>\<rparr>)"
    and "i < bus_entries"
proof -
  obtain i where "io_get_dev a io = Some (i, DRam d, io\<lparr>io_bus := io_bus io\<lparr>bus_last_dev := i\<rparr>\<rparr>)"
    "i < bus_entries"
    using assms by (auto simp: io_ok_def elim: ram_at_get_dev)
  then show thesis by (intro that) (simp_all add: bus_read32_def)
qed

lemma ram_at_last_dev [simp]:
  "ram_at (io\<lparr>io_bus := io_bus io\<lparr>bus_last_dev := i\<rparr>\<rparr>) a d = ram_at io a d"
  by (simp add: ram_at_def)

lemma io_ok_last_dev: "io_ok io \<Longrightarrow> i < bus_entries \<Longrightarrow> io_ok (io\<lparr>io_bus := io_bus io\<lparr>bus_last_dev := i\<rparr>\<rparr>)"
  by (simp add: io_ok_def bus_wf_last_dev)








lemma or_bit_set: "bit x n \<Longrightarrow> x OR 2 ^ n = x" for x :: u32
  by (rule bit_word_eqI) (auto simp: bit_or_iff bit_exp_iff)

text \<open>The second word of a PTE after an access: R set, and C with it for a permitted store.\<close>

lemma pte_access_value:
  "(case snd (pte_access RnW priv sr v) of None \<Rightarrow> v | Some w \<Rightarrow> w) =
     v OR 0x100 OR (if \<not> RnW \<and> perm_w (fst (pte_access RnW priv sr v)) then 0x80 else 0)"
proof -
  have c: "v AND 0x100 \<noteq> 0 \<longleftrightarrow> bit v 8" "v AND 0x80 \<noteq> 0 \<longleftrightarrow> bit v 7"
    using and_exp_nonzero [of v 8] and_exp_nonzero [of v 7] by simp_all
  have o: "bit v 8 \<Longrightarrow> v OR 0x100 = v" "bit v 7 \<Longrightarrow> v OR 0x80 = v"
    using or_bit_set [of v 8] or_bit_set [of v 7] by simp_all
  have both: "v OR 0x180 = v OR 0x100 OR 0x80" by (simp add: or.assoc)
  have last: "bit v 7 \<Longrightarrow> v OR 0x100 OR 0x80 = v OR 0x100"
    using o(2) by (metis or.assoc or.commute)
  define w where "w = pte_writable (if priv then seg_ks sr else seg_kp sr) (v AND 3)"
  define uc where "uc \<longleftrightarrow> \<not> RnW \<and> w \<and> \<not> bit v 7"
  have w_if: "w = (if priv then pte_writable (seg_ks sr) (v AND 3) else pte_writable (seg_kp sr) (v AND 3))"
    by (simp add: w_def)
  have u: "((\<not> RnW \<and> priv \<and> pte_writable (seg_ks sr) (v AND 3) \<and> \<not> bit v 7) \<or>
      (\<not> RnW \<and> \<not> priv \<and> pte_writable (seg_kp sr) (v AND 3) \<and> \<not> bit v 7)) = uc"
    by (cases priv) (simp_all add: uc_def w_def)
  have e: "pte_access RnW priv sr v =
     (\<lparr>perm_r = (if priv then \<not> (seg_ks sr \<and> v AND 3 = 0) else \<not> (seg_kp sr \<and> v AND 3 = 0)),
       perm_w = w, perm_clean = (\<not> (if uc then True else bit v 7))\<rparr>,
      if \<not> bit v 8 \<or> uc then Some (v OR (if uc then 0x180 else if \<not> bit v 8 then 0x100 else 0)) else None)"
    unfolding pte_access_def Let_def c u w_if by (rule refl)
  show ?thesis
  proof (cases uc)
    case True
    then show ?thesis unfolding e both by (simp add: uc_def)
  next
    case False
    then have n: "\<not> RnW \<and> w \<Longrightarrow> bit v 7" by (simp add: uc_def)
    show ?thesis
    proof (cases "\<not> RnW \<and> w")
      case True
      then show ?thesis using False o(1) last [OF n] unfolding e by (cases "bit v 8") simp_all
    next
      case f: False
      then show ?thesis using False o(1) unfolding e by (cases "bit v 8") auto
    qed
  qed
qed

text \<open>Referenced and changed bits. When a page table entry in RAM is used, afterwards its
  second word has R set, and C set as well when the access is a store that the protection key
  allows; every other bit is as it was.\<close>

theorem pte_rc_update:
  assumes use: "use_pte addr InD RnW priv pte (m, io) = Some ((out, p), (m', io'))"
    and ram: "ram_at io (pte + 4) d" and rw: "\<not> r_isROM d" and ok: "io_ok io"
  shows "BS32 (ram_read32 d (pte + 4) (io_hmem io')) =
    BS32 (ram_read32 d (pte + 4) (io_hmem io)) OR 0x100 OR (if \<not> RnW \<and> perm_w p then 0x80 else 0)"
proof -
  let ?sr = "m_segreg m (unat (drop_bit 28 addr AND 0xf))"
  obtain i where rd: "bus_read32 (pte + 4) io = Some (ram_read32 d (pte + 4) (io_hmem io), io\<lparr>io_bus := io_bus io\<lparr>bus_last_dev := i\<rparr>\<rparr>)"
    and i: "i < bus_entries"
    using ram ok by (rule bus_read32_RAM)
  define io1 where "io1 = io\<lparr>io_bus := io_bus io\<lparr>bus_last_dev := i\<rparr>\<rparr>"
  define v where "v = BS32 (ram_read32 d (pte + 4) (io_hmem io))"
  obtain v' io1' io2 where rd': "bus_read32 (pte + 4) io = Some (v', io1')"
    and p': "p = fst (pte_access RnW priv ?sr (BS32 v'))"
    and u': "(case snd (pte_access RnW priv ?sr (BS32 v')) of None \<Rightarrow> Some io1' | Some w \<Rightarrow> bus_write32 (pte + 4) (BS32 w) io1') = Some io2"
    and ins: "utlbInsert InD priv addr out (perms_field p) (m, io2) = Some (m', io')"
    using use by (rule use_pte_SomeD)
  have "BS32 v' = v" "io1' = io1" using rd rd' by (simp_all add: v_def io1_def)
  with p' u' have p: "p = fst (pte_access RnW priv ?sr v)"
    and u: "(case snd (pte_access RnW priv ?sr v) of None \<Rightarrow> Some io1 | Some w \<Rightarrow> bus_write32 (pte + 4) (BS32 w) io1) = Some io2"
    by (simp_all only:)
  have ok1: "io_ok io1" unfolding io1_def by (rule io_ok_last_dev [OF ok i])
  obtain j where j: "io_get_dev (pte + 4) io1 = Some (j, DRam d, io1\<lparr>io_bus := io_bus io1\<lparr>bus_last_dev := j\<rparr>\<rparr>)"
    using ram_at_get_dev [of io1 "pte + 4" d] ram ok1 by (auto simp: io1_def io_ok_def)
  have mem': "io_hmem io' = io_hmem io2"
    using ins by (auto simp: utlbInsert_def get_direct_map_def io_get_dev_def case_prod_beta elim!: bind_SomeE)
  have m1: "io_hmem io1 = io_hmem io" by (simp add: io1_def)
  have "BS32 (ram_read32 d (pte + 4) (io_hmem io2)) =
      (case snd (pte_access RnW priv ?sr v) of None \<Rightarrow> v | Some w \<Rightarrow> w)"
  proof (cases "snd (pte_access RnW priv ?sr v)")
    case None
    with u m1 show ?thesis by (simp add: v_def)
  next
    case (Some w)
    with u j rw show ?thesis by (auto simp: bus_write32_def io_set_dev_def ram_read_write32)
  qed
  then show ?thesis using pte_access_value [where RnW = RnW and priv = priv and sr = ?sr and v = v] p by (simp add: mem' v_def)
qed

theorem pte_rc_update_witness:
  "\<exists>out p m' io'. use_pte 0x1234 False False True 0x40 (demo_mmu, demo_io (\<lambda>_. 0)) = Some ((out, p), (m', io')) \<and>
     BS32 (ram_read32 demo_ram 0x44 (io_hmem io')) = 0x180"
proof -
  obtain m' io' where u: "use_pte 0x1234 False False True 0x40 (demo_mmu, demo_io (\<lambda>_. 0)) =
    Some ((0x234, \<lparr>perm_r = True, perm_w = True, perm_clean = False\<rparr>), (m', io'))"
    using demo_use_pte by auto
  have r: "ram_at (demo_io (\<lambda>_. 0)) (0x40 + 4) demo_ram" by (rule demo_ram_at) simp
  have z: "BS32 (ram_read32 demo_ram a (\<lambda>_. 0)) = 0" for a
    by (simp add: ram_read32_def hload32_def BS32_def BSWAP32_def)
  have rw: "\<not> r_isROM demo_ram" by (simp add: demo_ram_def)
  have "BS32 (ram_read32 demo_ram 0x44 (io_hmem io')) = 0x180"
    using pte_rc_update [OF u r rw demo_io_ok] z by (simp add: demo_devs)
  with u show ?thesis by blast
qed

end
