(* ===== verification/Arch_Defns.thy ===== *)
theory Arch_Defns
  imports MR_Prelude
begin

section \<open>Architecture constants: \<open>arch_defns.h\<close>\<close>

text \<open>
  The bit masks of XER and MSR, the special-purpose register numbers and the processor
  version.  The masks keep the form of the header (\<open>B(63-58)\<close>); the lemmas turn a
  test against a mask into a test of one bit.  The numbers unfold by themselves.
\<close>

definition MR_PVR :: u32 where
  "MR_PVR = 0xbb0a0001"

definition XER_SO :: u32 where
  "XER_SO = 0x80000000"

definition XER_OV :: u32 where
  "XER_OV = 0x40000000"

definition XER_CA :: u32 where
  "XER_CA = 0x20000000"

definition XER_STR :: u32 where
  "XER_STR = 0x0000007f"

definition MSR_LE :: u32 where
  "MSR_LE = B (63 - 63)"

definition MSR_RI :: u32 where
  "MSR_RI = B (63 - 62)"

definition MSR_DR :: u32 where
  "MSR_DR = B (63 - 59)"

definition MSR_IR :: u32 where
  "MSR_IR = B (63 - 58)"

definition MSR_IP :: u32 where
  "MSR_IP = B (63 - 57)"

definition MSR_FP :: u32 where
  "MSR_FP = B (63 - 50)"

definition MSR_PR :: u32 where
  "MSR_PR = B (63 - 49)"

definition MSR_EE :: u32 where
  "MSR_EE = B (63 - 48)"

subsection \<open>Special-purpose register numbers\<close>

definition SPR_CTR :: nat where [simp]: "SPR_CTR = 9"
definition SPR_LR :: nat where [simp]: "SPR_LR = 8"
definition SPR_PVR :: nat where [simp]: "SPR_PVR = 287"
definition SPR_TB :: nat where [simp]: "SPR_TB = 268"
definition SPR_TBU :: nat where [simp]: "SPR_TBU = 269"
definition SPR_XER :: nat where [simp]: "SPR_XER = 1"
definition SPR_TB_W :: nat where [simp]: "SPR_TB_W = 284"
definition SPR_TBU_W :: nat where [simp]: "SPR_TBU_W = 285"
definition SPR_DBAT0U :: nat where [simp]: "SPR_DBAT0U = 536"
definition SPR_DBAT0L :: nat where [simp]: "SPR_DBAT0L = 537"
definition SPR_DBAT1U :: nat where [simp]: "SPR_DBAT1U = 538"
definition SPR_DBAT1L :: nat where [simp]: "SPR_DBAT1L = 539"
definition SPR_DBAT2U :: nat where [simp]: "SPR_DBAT2U = 540"
definition SPR_DBAT2L :: nat where [simp]: "SPR_DBAT2L = 541"
definition SPR_DBAT3U :: nat where [simp]: "SPR_DBAT3U = 542"
definition SPR_DBAT3L :: nat where [simp]: "SPR_DBAT3L = 543"
definition SPR_DBAT4U :: nat where [simp]: "SPR_DBAT4U = 568"
definition SPR_DBAT4L :: nat where [simp]: "SPR_DBAT4L = 569"
definition SPR_DBAT5U :: nat where [simp]: "SPR_DBAT5U = 570"
definition SPR_DBAT5L :: nat where [simp]: "SPR_DBAT5L = 571"
definition SPR_DBAT6U :: nat where [simp]: "SPR_DBAT6U = 572"
definition SPR_DBAT6L :: nat where [simp]: "SPR_DBAT6L = 573"
definition SPR_DBAT7U :: nat where [simp]: "SPR_DBAT7U = 574"
definition SPR_DBAT7L :: nat where [simp]: "SPR_DBAT7L = 575"
definition SPR_IBAT0U :: nat where [simp]: "SPR_IBAT0U = 528"
definition SPR_IBAT0L :: nat where [simp]: "SPR_IBAT0L = 529"
definition SPR_IBAT1U :: nat where [simp]: "SPR_IBAT1U = 530"
definition SPR_IBAT1L :: nat where [simp]: "SPR_IBAT1L = 531"
definition SPR_IBAT2U :: nat where [simp]: "SPR_IBAT2U = 532"
definition SPR_IBAT2L :: nat where [simp]: "SPR_IBAT2L = 533"
definition SPR_IBAT3U :: nat where [simp]: "SPR_IBAT3U = 534"
definition SPR_IBAT3L :: nat where [simp]: "SPR_IBAT3L = 535"
definition SPR_IBAT4U :: nat where [simp]: "SPR_IBAT4U = 560"
definition SPR_IBAT4L :: nat where [simp]: "SPR_IBAT4L = 561"
definition SPR_IBAT5U :: nat where [simp]: "SPR_IBAT5U = 562"
definition SPR_IBAT5L :: nat where [simp]: "SPR_IBAT5L = 563"
definition SPR_IBAT6U :: nat where [simp]: "SPR_IBAT6U = 564"
definition SPR_IBAT6L :: nat where [simp]: "SPR_IBAT6L = 565"
definition SPR_IBAT7U :: nat where [simp]: "SPR_IBAT7U = 566"
definition SPR_IBAT7L :: nat where [simp]: "SPR_IBAT7L = 567"
definition SPR_DAR :: nat where [simp]: "SPR_DAR = 19"
definition SPR_DEC :: nat where [simp]: "SPR_DEC = 22"
definition SPR_DSISR :: nat where [simp]: "SPR_DSISR = 18"
definition SPR_SDR1 :: nat where [simp]: "SPR_SDR1 = 25"
definition SPR_SRR0 :: nat where [simp]: "SPR_SRR0 = 26"
definition SPR_SRR1 :: nat where [simp]: "SPR_SRR1 = 27"
definition SPR_SPRG0 :: nat where [simp]: "SPR_SPRG0 = 272"
definition SPR_SPRG1 :: nat where [simp]: "SPR_SPRG1 = 273"
definition SPR_SPRG2 :: nat where [simp]: "SPR_SPRG2 = 274"
definition SPR_SPRG3 :: nat where [simp]: "SPR_SPRG3 = 275"
definition SPR_HID0 :: nat where [simp]: "SPR_HID0 = 1008"
definition SPR_HID1 :: nat where [simp]: "SPR_HID1 = 1009"
definition SPR_MMCR0 :: nat where [simp]: "SPR_MMCR0 = 952"
definition SPR_MMCR1 :: nat where [simp]: "SPR_MMCR1 = 956"
definition SPR_PMC1 :: nat where [simp]: "SPR_PMC1 = 953"
definition SPR_PMC2 :: nat where [simp]: "SPR_PMC2 = 954"
definition SPR_PMC3 :: nat where [simp]: "SPR_PMC3 = 957"
definition SPR_PMC4 :: nat where [simp]: "SPR_PMC4 = 958"
definition SPR_SDA :: nat where [simp]: "SPR_SDA = 959"
definition SPR_SIA :: nat where [simp]: "SPR_SIA = 955"
definition SPR_DEBUG :: nat where [simp]: "SPR_DEBUG = 1023"
definition SPR_DEBUG_EXIT :: u32 where [simp]: "SPR_DEBUG_EXIT = 0x0000"
definition SPR_DEBUG_PUTC :: u32 where [simp]: "SPR_DEBUG_PUTC = 0x0100"
definition SPR_DC_INV_SET :: nat where [simp]: "SPR_DC_INV_SET = 1022"
definition SPR_IC_INV_SET :: nat where [simp]: "SPR_IC_INV_SET = 1021"
definition SPR_EAR :: nat where [simp]: "SPR_EAR = 282"
definition SPR_PIR :: nat where [simp]: "SPR_PIR = 1023"
definition SPR_DABR :: nat where [simp]: "SPR_DABR = 1013"

subsection \<open>Testing a mask is testing a bit\<close>

lemma msr_masks [mask_simps]:
  "x AND MSR_IR \<noteq> 0 \<longleftrightarrow> bit x 5"
  "x AND MSR_DR \<noteq> 0 \<longleftrightarrow> bit x 4"
  "x AND MSR_IP \<noteq> 0 \<longleftrightarrow> bit x 6"
  "x AND MSR_PR \<noteq> 0 \<longleftrightarrow> bit x 14"
  "x AND MSR_EE \<noteq> 0 \<longleftrightarrow> bit x 15"
  by (simp_all add: MSR_IR_def MSR_DR_def MSR_IP_def MSR_PR_def MSR_EE_def B_def blast32)

lemma msr_masks_eq [mask_simps]:
  "x AND MSR_IR = 0 \<longleftrightarrow> \<not> bit x 5"
  "x AND MSR_DR = 0 \<longleftrightarrow> \<not> bit x 4"
  "x AND MSR_IP = 0 \<longleftrightarrow> \<not> bit x 6"
  "x AND MSR_PR = 0 \<longleftrightarrow> \<not> bit x 14"
  "x AND MSR_EE = 0 \<longleftrightarrow> \<not> bit x 15"
  using msr_masks [of x] by blast+

lemma bit_MSR_IP [simp]: "bit (x AND MSR_IP) n \<longleftrightarrow> n = 6 \<and> bit x 6"
  by (auto simp: MSR_IP_def bit_simps)

lemma xer_masks [mask_simps]:
  "x AND XER_SO \<noteq> 0 \<longleftrightarrow> bit x 31"
  "x AND XER_OV \<noteq> 0 \<longleftrightarrow> bit x 30"
  "x AND XER_CA \<noteq> 0 \<longleftrightarrow> bit x 29"
  by (simp_all add: XER_SO_def XER_OV_def XER_CA_def blast32)

end
