(* ===== verification/CPU_State.thy ===== *)
theory CPU_State
  imports Arch_Defns
begin

section \<open>The architected CPU state: \<open>PPCCPUState\<close>\<close>

text \<open>
  The fields of class \<open>PPCCPUState\<close> (\<open>PPCCPUState.h\<close>, \<open>PPCCPUState.cc\<close>) as
  a record, and its accessors.  Field \<open>x\<close> of the class is \<open>c_x\<close> here.  The
  field \<open>irqFlag\<close> is written by the interrupt controller through its pointer to the
  CPU; it is kept with the devices (\<open>io_irqFlag\<close> in theory System\_Bus) and
  passed to the two tests that read it.  \<open>exception_jmp\<close> is null without the JIT.

  Accessing a general register asserts that its number is below 32, so it may abort.
\<close>

record cpu =
  c_gprs :: "nat \<Rightarrow> u32"
  c_pc :: u32
  c_ctr :: u32
  c_lr :: u32
  c_xer :: u32
  c_cr :: u32
  c_msr :: u32
  c_sprg0 :: u32
  c_sprg1 :: u32
  c_sprg2 :: u32
  c_sprg3 :: u32
  c_srr0 :: u32
  c_srr1 :: u32
  c_dar :: u32
  c_dsisr :: u32
  c_dec :: u32
  c_sdr1 :: u32
  c_hid0 :: u32
  c_hid1 :: u32
  c_pir :: u32
  c_tb :: u64
  c_inst_count :: u64

text \<open>The constructor. It leaves SPRG0-3, SRR0/1 and SDR1 as the memory holds them: they
  come from the argument.\<close>

definition PPCCPUState_init :: "cpu \<Rightarrow> cpu" where
  "PPCCPUState_init c = c\<lparr>c_gprs := (\<lambda>i. if i < 32 then 0 else c_gprs c i),
     c_pc := 0, c_ctr := 0, c_lr := 0, c_xer := 0, c_cr := 0, c_msr := 0, c_pir := 0,
     c_tb := 0, c_inst_count := 0, c_hid0 := 0, c_hid1 := 0, c_dar := 0, c_dsisr := 0,
     c_dec := 0xffffffff\<rparr>"

definition TB_SHIFT :: nat where
  "TB_SHIFT = 2"

subsection \<open>Accessors\<close>

definition getGPR :: "cpu \<Rightarrow> nat \<Rightarrow> u32 option" where
  "getGPR c r = do { ASSERT (r < 32); Some (c_gprs c r) }"

definition setGPR :: "nat \<Rightarrow> u32 \<Rightarrow> cpu \<Rightarrow> cpu option" where
  "setGPR r d c = do { ASSERT (r < 32); Some (c\<lparr>c_gprs := (c_gprs c)(r := d)\<rparr>) }"

definition setXER :: "u32 \<Rightarrow> cpu \<Rightarrow> cpu" where
  "setXER v c = c\<lparr>c_xer := v AND 0xe000007f\<rparr>"

definition setXER_SO :: "bool \<Rightarrow> cpu \<Rightarrow> cpu" where
  "setXER_SO v c = c\<lparr>c_xer := (c_xer c AND NOT XER_SO) OR (if v then XER_SO else 0)\<rparr>"

definition setXER_OV :: "bool \<Rightarrow> cpu \<Rightarrow> cpu" where
  "setXER_OV v c = c\<lparr>c_xer := (c_xer c AND NOT XER_OV) OR (if v then XER_OV else 0)\<rparr>"

definition setXER_CA :: "bool \<Rightarrow> cpu \<Rightarrow> cpu" where
  "setXER_CA v c = c\<lparr>c_xer := (c_xer c AND NOT XER_CA) OR (if v then XER_CA else 0)\<rparr>"

definition getXER_SO :: "cpu \<Rightarrow> u32" where
  "getXER_SO c = (if c_xer c AND XER_SO \<noteq> 0 then 1 else 0)"

definition getXER_OV :: "cpu \<Rightarrow> u32" where
  "getXER_OV c = (if c_xer c AND XER_OV \<noteq> 0 then 1 else 0)"

definition getXER_CA :: "cpu \<Rightarrow> u32" where
  "getXER_CA c = (if c_xer c AND XER_CA \<noteq> 0 then 1 else 0)"

definition setTB :: "u64 \<Rightarrow> cpu \<Rightarrow> cpu" where
  "setTB t c = c\<lparr>c_tb := push_bit TB_SHIFT t\<rparr>"

definition getTB :: "cpu \<Rightarrow> u64" where
  "getTB c = drop_bit TB_SHIFT (c_tb c)"

definition isPrivileged :: "cpu \<Rightarrow> bool" where
  "isPrivileged c = (c_msr c AND MSR_PR = 0)"

subsection \<open>Time and pending events\<close>

definition CPUTick :: "u32 \<Rightarrow> cpu \<Rightarrow> cpu" where
  "CPUTick t c =
     (let tb = c_tb c + ucast t
      in c\<lparr>c_inst_count := c_inst_count c + ucast t, c_tb := tb,
           c_dec := (if tb AND (push_bit TB_SHIFT 1 - 1) = 0 then c_dec c - 1 else c_dec c)\<rparr>)"

definition isDecrementerPending :: "cpu \<Rightarrow> bool" where
  "isDecrementerPending c = (c_msr c AND MSR_EE \<noteq> 0 \<and> c_dec c AND 0x80000000 \<noteq> 0)"

definition isIRQPending :: "cpu \<Rightarrow> bool \<Rightarrow> bool" where
  "isIRQPending c irqFlag = (c_msr c AND MSR_EE \<noteq> 0 \<and> irqFlag)"

subsection \<open>Lemmas: registers and XER\<close>

lemma getGPR_some [simp]: "r < 32 \<Longrightarrow> getGPR c r = Some (c_gprs c r)"
  by (simp add: getGPR_def)

lemma setGPR_some [simp]: "r < 32 \<Longrightarrow> setGPR r d c = Some (c\<lparr>c_gprs := (c_gprs c)(r := d)\<rparr>)"
  by (simp add: setGPR_def)

lemma setGPR_SomeD: "setGPR r d c = Some c' \<Longrightarrow> r < 32 \<and> c' = c\<lparr>c_gprs := (c_gprs c)(r := d)\<rparr>"
  by (cases "r < 32") (auto simp: setGPR_def)

text \<open>The reserved bits of XER stay zero.\<close>

definition xer_wf :: "cpu \<Rightarrow> bool" where
  "xer_wf c \<longleftrightarrow> c_xer c AND 0xe000007f = c_xer c"

lemma xer_wf_init: "xer_wf (PPCCPUState_init c)"
  by (simp add: xer_wf_def PPCCPUState_init_def)

lemma xer_wf_setters [intro]:
  "xer_wf (setXER v c)"
  "xer_wf c \<Longrightarrow> xer_wf (setXER_SO b c)"
  "xer_wf c \<Longrightarrow> xer_wf (setXER_OV b c)"
  "xer_wf c \<Longrightarrow> xer_wf (setXER_CA b c)"
  by (auto simp: xer_wf_def setXER_def setXER_SO_def setXER_OV_def setXER_CA_def
      XER_SO_def XER_OV_def XER_CA_def blast32)

lemma xer_flags [simp]:
  "getXER_SO (setXER_SO b c) = of_bool b" "getXER_OV (setXER_SO b c) = getXER_OV c"
  "getXER_CA (setXER_SO b c) = getXER_CA c"
  "getXER_SO (setXER_OV b c) = getXER_SO c" "getXER_OV (setXER_OV b c) = of_bool b"
  "getXER_CA (setXER_OV b c) = getXER_CA c"
  "getXER_SO (setXER_CA b c) = getXER_SO c" "getXER_OV (setXER_CA b c) = getXER_OV c"
  "getXER_CA (setXER_CA b c) = of_bool b"
  by (auto simp: getXER_SO_def getXER_OV_def getXER_CA_def setXER_SO_def setXER_OV_def
      setXER_CA_def xer_masks) (auto simp: XER_SO_def XER_OV_def XER_CA_def bit_simps)

lemma getXER_le [simp]:
  "getXER_SO c \<le> 1" "getXER_OV c \<le> 1" "getXER_CA c \<le> 1" "uint (getXER_CA c) \<le> 1"
  by (simp_all add: getXER_SO_def getXER_OV_def getXER_CA_def)

subsection \<open>Lemmas: the time base and the decrementer move together\<close>

lemma unat_getTB: "unat (getTB c) = unat (c_tb c) div 4"
  by (simp add: getTB_def TB_SHIFT_def drop_bit_eq_div unat_div)

lemma unat_and_3: "unat (x AND 3) = unat x mod 4" for x :: u64
proof -
  have "x AND 3 = take_bit 2 x" by (simp add: take_bit_eq_mask mask_eq_exp_minus_1)
  then show ?thesis by (simp add: take_bit_eq_mod unat_mod)
qed

lemma CPUTick_dec:
  "c_dec (CPUTick 1 c) = (if unat (c_tb c + 1) mod 4 = 0 then c_dec c - 1 else c_dec c)"
proof -
  have "(x AND 3 = 0) = (unat x mod 4 = 0)" for x :: u64
    by (simp add: unat_and_3 [symmetric] unat_eq_0)
  then show ?thesis by (simp add: CPUTick_def TB_SHIFT_def Let_def)
qed

lemma CPUTick_TB:
  "ucast (getTB (CPUTick 1 c)) =
     (ucast (getTB c) + (if unat (c_tb c + 1) mod 4 = 0 then 1 else 0) :: u32)"
proof -
  let ?k = "unat (c_tb c)"
  have cast: "ucast w = (of_nat (unat w) :: u32)" for w :: u64
    by simp
  have tick: "getTB (CPUTick 1 c) = drop_bit 2 (c_tb c + 1)"
    by (simp add: getTB_def CPUTick_def Let_def TB_SHIFT_def)
  show ?thesis
  proof (cases "c_tb c + 1 = 0")
    case True
    then have "c_tb c = - 1" by (simp add: add_eq_0_iff2)
    moreover have "(ucast (drop_bit 2 (- 1 :: u64)) :: u32) = - 1"
      by (rule bit_word_eqI) (simp add: bit_simps)
    ultimately have "ucast (getTB c) = (- 1 :: u32)" by (simp only: getTB_def TB_SHIFT_def)
    with True show ?thesis by (simp add: tick)
  next
    case False
    then have k: "unat (c_tb c + 1) = Suc ?k" using unatSuc [of "c_tb c"] by (simp add: add.commute)
    then have "Suc ?k div 4 = ?k div 4 + (if Suc ?k mod 4 = 0 then 1 else 0)"
      by (simp add: div_Suc)
    then show ?thesis
      unfolding tick cast unat_getTB using k by (simp add: drop_bit_eq_div unat_div)
  qed
qed

lemma CPUTick_dec_TB:
  "c_dec (CPUTick 1 c) + ucast (getTB (CPUTick 1 c)) = c_dec c + ucast (getTB c)"
  by (simp add: CPUTick_dec CPUTick_TB)

end
