(* ===== verification/CPU_Exceptions.thy ===== *)
theory CPU_Exceptions
  imports CPU_State MMU_State
begin

section \<open>Exceptions: \<open>PPCCPUState::takeException\<close> and its callers\<close>

text \<open>
  The CPU state holds a pointer to the MMU, which \<open>takeException\<close> informs of the new
  IR and DR bits: these operations work on the pair of the two.  \<open>exception_jmp\<close> is
  null (no JIT), so \<open>takeException\<close> returns.  \<open>raiseMemException\<close> is fatal on a
  fault type it does not handle and asserts that a no-execute fault comes from a fetch.
\<close>

type_synonym cpu_mmu = "cpu \<times> mmu"

datatype exception_t =
    EXC_RESET | EXC_MC | EXC_DSI | EXC_DS | EXC_ISI | EXC_IS | EXC_IRQ | EXC_ALIGN
  | EXC_PROG | EXC_FPUN | EXC_DEC | EXC_SC | EXC_TRACE | EXC_PMU

fun exc_vector :: "exception_t \<Rightarrow> u32" where
  "exc_vector EXC_RESET = 0x100" | "exc_vector EXC_MC = 0x200" | "exc_vector EXC_DSI = 0x300"
| "exc_vector EXC_DS = 0x380" | "exc_vector EXC_ISI = 0x400" | "exc_vector EXC_IS = 0x480"
| "exc_vector EXC_IRQ = 0x500" | "exc_vector EXC_ALIGN = 0x600" | "exc_vector EXC_PROG = 0x700"
| "exc_vector EXC_FPUN = 0x800" | "exc_vector EXC_DEC = 0x900" | "exc_vector EXC_SC = 0xc00"
| "exc_vector EXC_TRACE = 0xd00" | "exc_vector EXC_PMU = 0xf00"

definition takeException :: "exception_t \<Rightarrow> u32 \<Rightarrow> cpu_mmu \<Rightarrow> cpu_mmu" where
  "takeException e new_srr1 s =
     (let (c, m) = s;
          c = c\<lparr>c_srr0 := c_pc c AND NOT 3, c_srr1 := new_srr1\<rparr>;
          c = c\<lparr>c_msr := c_msr c AND MSR_IP\<rparr>;
          c = c\<lparr>c_pc := (if c_msr c AND MSR_IP \<noteq> 0 then 0xfff00000 else 0) + exc_vector e\<rparr>
      in (c, setIRDR (c_msr c AND MSR_IR \<noteq> 0) (c_msr c AND MSR_DR \<noteq> 0) m))"

text \<open>The DSISR of an alignment interrupt: fields of the instruction.\<close>

definition align_dsisr :: "u32 \<Rightarrow> u32" where
  "align_dsisr inst =
     (if inst AND 0x80000000 \<noteq> 0
      then (drop_bit 12 inst AND 0x4000) OR (drop_bit 17 inst AND 0x3c00)
      else (push_bit 14 inst AND 0x18000) OR (push_bit 8 inst AND 0x4000) OR (push_bit 3 inst AND 0x3c00)) OR
     (drop_bit 16 inst AND 0x3e0) OR (drop_bit 16 inst AND 0x1f)"

definition raiseMemException :: "bool \<Rightarrow> bool \<Rightarrow> u32 \<Rightarrow> fault_t \<Rightarrow> u32 \<Rightarrow> cpu_mmu \<Rightarrow> cpu_mmu option" where
  "raiseMemException RnW InD addr fault inst s =
     (let (c, m) = s; srr1 = c_msr c
      in case fault of
           FAULT_NO_PAGE \<Rightarrow>
             if InD then Some (takeException EXC_ISI ((srr1 AND NOT 0xf8000000) OR 0x40000000) (c, m))
             else Some (takeException EXC_DSI srr1
               (c\<lparr>c_dar := addr, c_dsisr := 0x40000000 OR (if RnW then 0 else 0x02000000)\<rparr>, m))
         | FAULT_PERMS \<Rightarrow>
             if InD then Some (takeException EXC_ISI ((srr1 AND NOT 0xf8000000) OR 0x08000000) (c, m))
             else Some (takeException EXC_DSI srr1
               (c\<lparr>c_dar := addr, c_dsisr := 0x08000000 OR (if RnW then 0 else 0x02000000)\<rparr>, m))
         | FAULT_PERMS_NX \<Rightarrow> do {
             ASSERT InD;
             Some (takeException EXC_ISI ((srr1 AND NOT 0xf8000000) OR 0x10000000) (c, m)) }
         | FAULT_ALIGN \<Rightarrow>
             Some (takeException EXC_ALIGN srr1 (c\<lparr>c_dar := addr, c_dsisr := align_dsisr inst\<rparr>, m))
         | _ \<Rightarrow> None)"

definition raiseIRQException :: "cpu_mmu \<Rightarrow> cpu_mmu" where
  "raiseIRQException s = takeException EXC_IRQ (c_msr (fst s)) s"

definition raiseDECException :: "cpu_mmu \<Rightarrow> cpu_mmu" where
  "raiseDECException s = takeException EXC_DEC (c_msr (fst s)) s"

definition raisePROGException :: "u32 \<Rightarrow> cpu_mmu \<Rightarrow> cpu_mmu" where
  "raisePROGException reason s = takeException EXC_PROG ((c_msr (fst s) AND 0x8000ffff) OR reason) s"

definition raiseSCException :: "cpu_mmu \<Rightarrow> cpu_mmu" where
  "raiseSCException s = takeException EXC_SC (c_msr (fst s)) s"

lemmas raise_defs =
  raiseIRQException_def raiseDECException_def raisePROGException_def raiseSCException_def

subsection \<open>What an exception leaves\<close>

lemma takeException_eq:
  "takeException e v (c, m) =
     (c\<lparr>c_srr0 := c_pc c AND NOT 3, c_srr1 := v, c_msr := c_msr c AND MSR_IP,
        c_pc := (if bit (c_msr c) 6 then 0xfff00000 else 0) + exc_vector e\<rparr>,
      setIRDR False False m)"
  by (simp add: takeException_def Let_def mask_simps)

text \<open>The MMU's mode follows the MSR.\<close>

definition mmu_sync :: "cpu_mmu \<Rightarrow> bool" where
  "mmu_sync s \<longleftrightarrow> m_enabled_i (snd s) = bit (c_msr (fst s)) 5 \<and> m_enabled_d (snd s) = bit (c_msr (fst s)) 4"

lemma takeException_sync: "mmu_sync (takeException e v s)"
  by (cases s) (simp add: takeException_eq mmu_sync_def setIRDR_def)

text \<open>Every exception is a \<open>takeException\<close> on a state that differs in DAR and DSISR only.\<close>

lemma raiseMem_SomeD:
  assumes "raiseMemException RnW InD a f i (c, m) = Some s'"
  obtains e v dar dsisr where "s' = takeException e v (c\<lparr>c_dar := dar, c_dsisr := dsisr\<rparr>, m)"
proof -
  have id: "(c, m) = (c\<lparr>c_dar := c_dar c, c_dsisr := c_dsisr c\<rparr>, m)" by simp
  have "(\<exists>e v. s' = takeException e v (c, m)) \<or>
      (\<exists>e v dsisr. s' = takeException e v (c\<lparr>c_dar := a, c_dsisr := dsisr\<rparr>, m))"
    using assms by (cases f; cases InD) (auto simp: raiseMemException_def Let_def, blast+)
  with id that show thesis by metis
qed

text \<open>The faults the two sides of the MMU can report.\<close>

definition fault_expected :: "bool \<Rightarrow> fault_t \<Rightarrow> bool" where
  "fault_expected InD f \<longleftrightarrow>
     f = FAULT_NO_PAGE \<or> f = FAULT_PERMS \<or> f = FAULT_ALIGN \<or> (InD \<and> f = FAULT_PERMS_NX)"

lemma raiseMem_defined: "fault_expected InD f \<Longrightarrow> raiseMemException RnW InD a f i s \<noteq> None"
  by (cases s) (auto simp: raiseMemException_def fault_expected_def Let_def)

end
