(* ===== verification/MMU_Access.thy ===== *)
theory MMU_Access
  imports MMU_Machine
begin

section \<open>Loads and stores through the MMU\<close>

text \<open>
  The memory accessors of \<open>PPCMMU\<close> (built with \<open>FLAT_MEM\<close> 0 and
  \<open>MEM_OP_ALIGNMENT\<close> 1): translate, access host memory directly or the bus, then
  check that an unaligned access did not cross an eight-byte boundary.  That check comes
  after the access: a store that faults with \<open>FAULT_ALIGN\<close> has written memory.

  The result is \<open>Inl fault\<close> or \<open>Inr value\<close>; the C++ returns \<open>FAULT_NONE\<close> and
  writes \<open>*dest\<close>. A load that faults with \<open>FAULT_ALIGN\<close> has written \<open>*dest\<close>
  too; no caller reads it then.
\<close>

definition IS_DIRECT :: "u64 \<Rightarrow> bool" where
  "IS_DIRECT x = (\<not> (x AND PPCMMU_HVA_IO_BIT \<noteq> 0))"

definition crosses8_32 :: "u64 \<Rightarrow> bool" where
  "crosses8_32 pa \<longleftrightarrow> pa AND 3 \<noteq> 0 \<and> pa AND 7 > 4"

definition crosses8_16 :: "u64 \<Rightarrow> bool" where
  "crosses8_16 pa \<longleftrightarrow> pa AND 1 \<noteq> 0 \<and> pa AND 7 = 7"

definition loadInst32 :: "u32 \<Rightarrow> bool \<Rightarrow> mmu_io \<Rightarrow> ((fault_t + u32) \<times> mmu_io) option" where
  "loadInst32 addr priv s = do {
     (r, m, io) \<leftarrow> translateAddr addr True True priv 0 s;
     case r of
       Inl f \<Rightarrow> Some (Inl f, (m, io))
     | Inr pa \<Rightarrow> do {
         (v, io) \<leftarrow> (if IS_DIRECT pa then Some (hload32 (io_hmem io) pa, io) else bus_read32 (ucast pa) io);
         Some (Inr (BS32 v), (m, io)) } }"

definition load32 :: "u32 \<Rightarrow> bool \<Rightarrow> mmu_io \<Rightarrow> ((fault_t + u32) \<times> mmu_io) option" where
  "load32 addr priv s = do {
     (r, m, io) \<leftarrow> translateAddr addr False True priv 0 s;
     case r of
       Inl f \<Rightarrow> Some (Inl f, (m, io))
     | Inr pa \<Rightarrow> do {
         (v, io) \<leftarrow> (if IS_DIRECT pa then Some (hload32 (io_hmem io) pa, io) else bus_read32 (ucast pa) io);
         Some (if crosses8_32 pa then Inl FAULT_ALIGN else Inr (BS32 v), (m, io)) } }"

definition load16 :: "u32 \<Rightarrow> bool \<Rightarrow> mmu_io \<Rightarrow> ((fault_t + u16) \<times> mmu_io) option" where
  "load16 addr priv s = do {
     (r, m, io) \<leftarrow> translateAddr addr False True priv 0 s;
     case r of
       Inl f \<Rightarrow> Some (Inl f, (m, io))
     | Inr pa \<Rightarrow> do {
         (v, io) \<leftarrow> (if IS_DIRECT pa then Some (hload16 (io_hmem io) pa, io) else bus_read16 (ucast pa) io);
         Some (if crosses8_16 pa then Inl FAULT_ALIGN else Inr (BS16 v), (m, io)) } }"

definition load8 :: "u32 \<Rightarrow> bool \<Rightarrow> mmu_io \<Rightarrow> ((fault_t + u8) \<times> mmu_io) option" where
  "load8 addr priv s = do {
     (r, m, io) \<leftarrow> translateAddr addr False True priv 0 s;
     case r of
       Inl f \<Rightarrow> Some (Inl f, (m, io))
     | Inr pa \<Rightarrow> do {
         (v, io) \<leftarrow> (if IS_DIRECT pa then Some (hload8 (io_hmem io) pa, io) else bus_read8 (ucast pa) io);
         Some (Inr v, (m, io)) } }"

definition store32 :: "u32 \<Rightarrow> u32 \<Rightarrow> bool \<Rightarrow> mmu_io \<Rightarrow> ((fault_t + unit) \<times> mmu_io) option" where
  "store32 addr val priv s = do {
     (r, m, io) \<leftarrow> translateAddr addr False False priv 0 s;
     case r of
       Inl f \<Rightarrow> Some (Inl f, (m, io))
     | Inr pa \<Rightarrow> do {
         io \<leftarrow> (if IS_DIRECT pa then Some (io\<lparr>io_hmem := hstore32 pa (BS32 val) (io_hmem io)\<rparr>)
               else bus_write32 (ucast pa) (BS32 val) io);
         Some (if crosses8_32 pa then Inl FAULT_ALIGN else Inr (), (m, io)) } }"

definition store16 :: "u32 \<Rightarrow> u16 \<Rightarrow> bool \<Rightarrow> mmu_io \<Rightarrow> ((fault_t + unit) \<times> mmu_io) option" where
  "store16 addr val priv s = do {
     (r, m, io) \<leftarrow> translateAddr addr False False priv 0 s;
     case r of
       Inl f \<Rightarrow> Some (Inl f, (m, io))
     | Inr pa \<Rightarrow> do {
         io \<leftarrow> (if IS_DIRECT pa then Some (io\<lparr>io_hmem := hstore16 pa (BS16 val) (io_hmem io)\<rparr>)
               else bus_write16 (ucast pa) (BS16 val) io);
         Some (if crosses8_16 pa then Inl FAULT_ALIGN else Inr (), (m, io)) } }"

definition store8 :: "u32 \<Rightarrow> u8 \<Rightarrow> bool \<Rightarrow> mmu_io \<Rightarrow> ((fault_t + unit) \<times> mmu_io) option" where
  "store8 addr val priv s = do {
     (r, m, io) \<leftarrow> translateAddr addr False False priv 0 s;
     case r of
       Inl f \<Rightarrow> Some (Inl f, (m, io))
     | Inr pa \<Rightarrow> do {
         io \<leftarrow> (if IS_DIRECT pa then Some (io\<lparr>io_hmem := hstore8 pa val (io_hmem io)\<rparr>)
               else bus_write8 (ucast pa) val io);
         Some (Inr (), (m, io)) } }"

lemmas mmu_access_defs =
  loadInst32_def load32_def load16_def load8_def store32_def store16_def store8_def

subsection \<open>Accesses keep the MMU coherent\<close>

lemma translateAddr_good:
  assumes "translateAddr addr InD RnW priv x s = Some (r, s')" and "mmu_good s"
  shows "mmu_good s'" and "same_map (snd s) (snd s')"
  using mmu_step_good [OF mmu_step.translate [OF assms(1)] assms(2)] by auto

lemma good_same_map: "mmu_good (m, io) \<Longrightarrow> same_map io io' \<Longrightarrow> mmu_good (m, io')"
  using mmu_step_good [OF mmu_step.access] by blast

text \<open>The shape common to the seven accessors: translate, then an access \<open>acc\<close> to the
  physical address that keeps the address map.\<close>

lemma access_good:
  assumes "do { (r, m, io) \<leftarrow> translateAddr addr InD RnW priv x s;
      case r of Inl f \<Rightarrow> Some (Inl f, (m, io)) | Inr pa \<Rightarrow> acc pa m io } = Some (res, s')"
    and good: "mmu_good s"
    and acc: "\<And>pa m io res s'. acc pa m io = Some (res, s') \<Longrightarrow> io_ok io \<Longrightarrow>
      fst s' = m \<and> same_map io (snd s')"
  shows "mmu_good s' \<and> same_map (snd s) (snd s')"
proof -
  obtain r m io where t: "translateAddr addr InD RnW priv x s = Some (r, (m, io))"
    and rest: "(case r of Inl f \<Rightarrow> Some (Inl f, (m, io)) | Inr pa \<Rightarrow> acc pa m io) = Some (res, s')"
    using assms(1) by (auto elim!: bind_SomeE)
  note g = translateAddr_good [OF t good]
  show ?thesis
  proof (cases r)
    case (Inl f)
    with rest g show ?thesis by auto
  next
    case (Inr pa)
    have ok: "io_ok io" using g(1) by (simp add: mmu_good_def)
    have "fst s' = m" "same_map io (snd s')" using acc [of pa m io res s'] rest Inr ok by auto
    with g good_same_map [of m io "snd s'"] show ?thesis
      by (cases s') (auto intro: same_map_trans)
  qed
qed

lemma load_good:
  "loadInst32 a priv s = Some (r32, s') \<Longrightarrow> mmu_good s \<Longrightarrow> mmu_good s' \<and> same_map (snd s) (snd s')"
  "load32 a priv s = Some (r32, s') \<Longrightarrow> mmu_good s \<Longrightarrow> mmu_good s' \<and> same_map (snd s) (snd s')"
  "load16 a priv s = Some (r16, s') \<Longrightarrow> mmu_good s \<Longrightarrow> mmu_good s' \<and> same_map (snd s) (snd s')"
  "load8 a priv s = Some (r8, s') \<Longrightarrow> mmu_good s \<Longrightarrow> mmu_good s' \<and> same_map (snd s) (snd s')"
  unfolding mmu_access_defs
  by (erule access_good; auto split: if_splits elim!: bind_SomeE
      intro: same_map_refl bus_access_same_map)+

lemma store_good:
  "store32 a v32 priv s = Some (r, s') \<Longrightarrow> mmu_good s \<Longrightarrow> mmu_good s' \<and> same_map (snd s) (snd s')"
  "store16 a v16 priv s = Some (r, s') \<Longrightarrow> mmu_good s \<Longrightarrow> mmu_good s' \<and> same_map (snd s) (snd s')"
  "store8 a v8 priv s = Some (r, s') \<Longrightarrow> mmu_good s \<Longrightarrow> mmu_good s' \<and> same_map (snd s) (snd s')"
  unfolding mmu_access_defs
  by (erule access_good; auto split: if_splits elim!: bind_SomeE
      intro: same_map_refl bus_access_same_map)+

text \<open>The alignment rule: four bytes from \<open>pa\<close> leave their eight-byte block.\<close>

lemma crosses8_32_iff: "crosses8_32 pa \<longleftrightarrow> 4 < uint pa mod 8"
proof -
  have 7: "uint (pa AND 7) = uint pa mod 8"
    using take_bit_eq_mask [of 3 "uint pa"]
    by (simp add: uint_and mask_eq_exp_minus_1 take_bit_eq_mod)
  have 3: "uint (pa AND 3) = uint pa mod 4"
    using take_bit_eq_mask [of 2 "uint pa"]
    by (simp add: uint_and mask_eq_exp_minus_1 take_bit_eq_mod)
  have "pa AND 3 \<noteq> 0 \<longleftrightarrow> uint pa mod 4 \<noteq> 0" unfolding 3 [symmetric] by (simp add: uint_0_iff)
  moreover have "pa AND 7 > 4 \<longleftrightarrow> 4 < uint pa mod 8" unfolding 7 [symmetric] by (simp add: word_less_def)
  ultimately show ?thesis unfolding crosses8_32_def by presburger
qed

lemma crosses8_16_iff: "crosses8_16 pa \<longleftrightarrow> uint pa mod 8 = 7"
proof -
  have 7: "uint (pa AND 7) = uint pa mod 8"
    using take_bit_eq_mask [of 3 "uint pa"]
    by (simp add: uint_and mask_eq_exp_minus_1 take_bit_eq_mod)
  have 1: "uint (pa AND 1) = uint pa mod 2"
    by (simp add: uint_and) (simp add: and_one_eq)
  have "pa AND 1 \<noteq> 0 \<longleftrightarrow> uint pa mod 2 \<noteq> 0" unfolding 1 [symmetric] by (simp add: uint_0_iff)
  moreover have "pa AND 7 = 7 \<longleftrightarrow> uint pa mod 8 = 7" unfolding 7 [symmetric]
    using word_uint_eq_iff [of "pa AND 7" 7] by simp
  ultimately show ?thesis unfolding crosses8_16_def by presburger
qed

end
