(* ===== verification/Sys_State.thy ===== *)
theory Sys_State
  imports CPU_Exceptions MMU_Access
begin

section \<open>The interpreter's state and helpers\<close>

text \<open>
  \<open>PPCInterpreter\<close> (\<open>PPCInterpreter.h\<close>, \<open>PPCInterpreter.cc\<close>) with what it
  points to: the CPU, the MMU and, behind the MMU's bus, the I/O state. Field \<open>x\<close> of the
  class is \<open>s_x\<close>.  \<open>s_stdout\<close> is what the debug instructions print with
  \<open>putchar\<close>.

  An instruction is a function \<open>sys \<Rightarrow> sys option\<close>; reading a register is in the option
  monad because it may assert.  \<open>MFCHECK\<close> of the code returns early from the
  instruction on a memory fault: here it takes the rest of the instruction as an argument.
\<close>

record sys =
  s_cpu :: cpu
  s_mmu :: mmu
  s_io :: io
  s_pc :: u32
  s_inst :: u32
  s_want_break :: bool
  s_mem_access_fault :: fault_t
  s_mem_access_addr :: u32
  s_exc_generation_count :: u64
  s_reservation_address :: u32
  s_reservation_gencount :: u64
  s_stdout :: "u8 list"

subsection \<open>Registers\<close>

definition upd_cpu :: "(cpu \<Rightarrow> cpu) \<Rightarrow> sys \<Rightarrow> sys" where
  "upd_cpu f s = s\<lparr>s_cpu := f (s_cpu s)\<rparr>"

definition upd_cpu_mmu :: "(cpu_mmu \<Rightarrow> cpu_mmu) \<Rightarrow> sys \<Rightarrow> sys" where
  "upd_cpu_mmu f s = (let (c, m) = f (s_cpu s, s_mmu s) in s\<lparr>s_cpu := c, s_mmu := m\<rparr>)"

definition READ_GPR :: "sys \<Rightarrow> nat \<Rightarrow> u32 option" where
  "READ_GPR s reg = getGPR (s_cpu s) reg"

definition READ_GPR_OZ :: "sys \<Rightarrow> nat \<Rightarrow> u32 option" where
  "READ_GPR_OZ s roz = (if roz \<noteq> 0 then getGPR (s_cpu s) roz else Some 0)"

definition READ_CR :: "sys \<Rightarrow> u32" where
  "READ_CR s = c_cr (s_cpu s)"

definition getCRb :: "sys \<Rightarrow> nat \<Rightarrow> bool" where
  "getCRb s b = (drop_bit (31 - b) (c_cr (s_cpu s)) AND 1 \<noteq> 0)"

definition WRITE_GPR :: "nat \<Rightarrow> u32 \<Rightarrow> sys \<Rightarrow> sys option" where
  "WRITE_GPR reg val s = do { c \<leftarrow> setGPR reg val (s_cpu s); Some (s\<lparr>s_cpu := c\<rparr>) }"

definition WRITE_CA :: "bool \<Rightarrow> sys \<Rightarrow> sys" where
  "WRITE_CA ca s = upd_cpu (setXER_CA ca) s"

definition WRITE_CR :: "u32 \<Rightarrow> sys \<Rightarrow> sys" where
  "WRITE_CR val s = upd_cpu (\<lambda>c. c\<lparr>c_cr := val\<rparr>) s"

definition WRITE_MSR :: "u32 \<Rightarrow> sys \<Rightarrow> sys" where
  "WRITE_MSR val s = s\<lparr>s_cpu := (s_cpu s)\<lparr>c_msr := val\<rparr>,
     s_mmu := setIRDR (val AND MSR_IR \<noteq> 0) (val AND MSR_DR \<noteq> 0) (s_mmu s)\<rparr>"

definition setPC :: "u32 \<Rightarrow> sys \<Rightarrow> sys" where
  "setPC v s = upd_cpu (\<lambda>c. c\<lparr>c_pc := v\<rparr>) s"

definition getPC :: "sys \<Rightarrow> u32" where
  "getPC s = c_pc (s_cpu s)"

definition setLR :: "u32 \<Rightarrow> sys \<Rightarrow> sys" where
  "setLR v s = upd_cpu (\<lambda>c. c\<lparr>c_lr := v\<rparr>) s"

definition incPC :: "sys \<Rightarrow> sys" where
  "incPC s = setPC (getPC s + 4) s"

text \<open>The macros \<open>SET_CR0\<close> and \<open>SET_SO_OV\<close> of \<open>inst_utility.h\<close>.\<close>

definition SET_CR0 :: "u32 \<Rightarrow> sys \<Rightarrow> sys" where
  "SET_CR0 x s = WRITE_CR (WRITE_CR_FIELD (READ_CR s) 0 (CMP x 0 (getXER_SO (s_cpu s)))) s"

definition SET_SO_OV :: "bool \<Rightarrow> sys \<Rightarrow> sys" where
  "SET_SO_OV x s =
     upd_cpu (\<lambda>c. setXER_OV x (setXER_SO (x \<or> getXER_SO c \<noteq> 0) c)) s"

subsection \<open>Memory\<close>

text \<open>The loads yield 0 for the uninitialised \<open>val\<close> of a faulting access; the callers
  check the fault before they use it.\<close>

definition note_access :: "u32 \<Rightarrow> fault_t + 'v \<Rightarrow> mmu_io \<Rightarrow> sys \<Rightarrow> sys" where
  "note_access addr r mi s =
     (let s = s\<lparr>s_mmu := fst mi, s_io := snd mi,
               s_mem_access_fault := (case r of Inl f \<Rightarrow> f | Inr _ \<Rightarrow> FAULT_NONE)\<rparr>
      in if s_mem_access_fault s \<noteq> FAULT_NONE then s\<lparr>s_mem_access_addr := addr\<rparr> else s)"

definition LOAD8 :: "u32 \<Rightarrow> sys \<Rightarrow> (u32 \<times> sys) option" where
  "LOAD8 addr s = do {
     (r, mi) \<leftarrow> load8 addr (isPrivileged (s_cpu s)) (s_mmu s, s_io s);
     Some (case r of Inl _ \<Rightarrow> 0 | Inr v \<Rightarrow> ucast v, note_access addr r mi s) }"

definition LOAD16 :: "u32 \<Rightarrow> sys \<Rightarrow> (u32 \<times> sys) option" where
  "LOAD16 addr s = do {
     (r, mi) \<leftarrow> load16 addr (isPrivileged (s_cpu s)) (s_mmu s, s_io s);
     Some (case r of Inl _ \<Rightarrow> 0 | Inr v \<Rightarrow> ucast v, note_access addr r mi s) }"

definition LOAD32 :: "u32 \<Rightarrow> sys \<Rightarrow> (u32 \<times> sys) option" where
  "LOAD32 addr s = do {
     (r, mi) \<leftarrow> load32 addr (isPrivileged (s_cpu s)) (s_mmu s, s_io s);
     Some (case r of Inl _ \<Rightarrow> 0 | Inr v \<Rightarrow> v, note_access addr r mi s) }"

definition STORE8 :: "u32 \<Rightarrow> u8 \<Rightarrow> sys \<Rightarrow> sys option" where
  "STORE8 addr val s = do {
     (r, mi) \<leftarrow> store8 addr val (isPrivileged (s_cpu s)) (s_mmu s, s_io s);
     Some (note_access addr r mi s) }"

definition STORE16 :: "u32 \<Rightarrow> u16 \<Rightarrow> sys \<Rightarrow> sys option" where
  "STORE16 addr val s = do {
     (r, mi) \<leftarrow> store16 addr val (isPrivileged (s_cpu s)) (s_mmu s, s_io s);
     Some (note_access addr r mi s) }"

definition STORE32 :: "u32 \<Rightarrow> u32 \<Rightarrow> sys \<Rightarrow> sys option" where
  "STORE32 addr val s = do {
     (r, mi) \<leftarrow> store32 addr val (isPrivileged (s_cpu s)) (s_mmu s, s_io s);
     Some (note_access addr r mi s) }"

definition sys_raiseMem :: "bool \<Rightarrow> bool \<Rightarrow> u32 \<Rightarrow> fault_t \<Rightarrow> u32 \<Rightarrow> sys \<Rightarrow> sys option" where
  "sys_raiseMem RnW InD addr f inst s = do {
     (c, m) \<leftarrow> raiseMemException RnW InD addr f inst (s_cpu s, s_mmu s);
     Some (s\<lparr>s_cpu := c, s_mmu := m\<rparr>) }"

definition MFCHECK :: "bool \<Rightarrow> (sys \<Rightarrow> sys option) \<Rightarrow> sys \<Rightarrow> sys option" where
  "MFCHECK RnW rest s =
     (if s_mem_access_fault s \<noteq> FAULT_NONE
      then sys_raiseMem RnW False (s_mem_access_addr s) (s_mem_access_fault s) (s_inst s) s
      else rest s)"

subsection \<open>Miscellaneous\<close>

definition op_unk :: "u32 \<Rightarrow> sys \<Rightarrow> sys" where
  "op_unk inst s = upd_cpu_mmu (raisePROGException 0x80000) s"

definition SIM_QUIT :: "u32 \<Rightarrow> sys \<Rightarrow> sys" where
  "SIM_QUIT returncode s = s\<lparr>s_want_break := True\<rparr>"

definition blow_reservation :: "sys \<Rightarrow> sys" where
  "blow_reservation s = s\<lparr>s_exc_generation_count := s_exc_generation_count s + 1\<rparr>"

lemmas reg_defs [sim_defs] =
  READ_GPR_def READ_GPR_OZ_def READ_CR_def WRITE_GPR_def WRITE_CA_def WRITE_CR_def
  setPC_def getPC_def setLR_def incPC_def upd_cpu_def upd_cpu_mmu_def

end
