(* ===== verification/Interp_Basic.thy ===== *)
theory Interp_Basic
  imports Sys_State "HOL-Library.Signed_Division"
begin

section \<open>Division, branches, condition register, logic and traps\<close>

text \<open>
  The hand-written instructions of \<open>PPCInterpreter_Arithmetic.cc\<close>,
  \<open>PPCInterpreter_Branch.cc\<close>, \<open>PPCInterpreter_CondReg.cc\<close>,
  \<open>PPCInterpreter_Logical.cc\<close> and \<open>PPCInterpreter_Trap.cc\<close>, one definition per
  method (built with \<open>NO_DIVIDE\<close> and \<open>HOSTED\<close> undefined).  Operands that the
  code only tests (\<open>Rc\<close>, \<open>OE\<close>, \<open>AA\<close>, \<open>LK\<close>) are booleans.  Disassembly,
  branch traces and event counters are left out.
\<close>

subsection \<open>Arithmetic\<close>

definition op_divw :: "nat \<Rightarrow> nat \<Rightarrow> nat \<Rightarrow> bool \<Rightarrow> bool \<Rightarrow> sys \<Rightarrow> sys option" where
  "op_divw RA RB RT Rc OE s = do {
     val_RA \<leftarrow> READ_GPR s RA;
     val_RB \<leftarrow> READ_GPR s RB;
     let (val_RT, val_OV) =
       (if val_RB = 0 then (if val_RA \<ge> 0x80000000 then 0x80000000 else 0x7fffffff, True)
        else if val_RA = 0x80000000 \<and> val_RB = 0xffffffff then (0x7fffffff, True)
        else (word_of_int (sint val_RA sdiv sint val_RB), False));
     s \<leftarrow> WRITE_GPR RT val_RT s;
     let s = (if OE then SET_SO_OV val_OV s else s);
     let s = (if Rc then SET_CR0 val_RT s else s);
     Some (incPC s) }"

definition op_divwu :: "nat \<Rightarrow> nat \<Rightarrow> nat \<Rightarrow> bool \<Rightarrow> bool \<Rightarrow> sys \<Rightarrow> sys option" where
  "op_divwu RA RB RT Rc OE s = do {
     val_RA \<leftarrow> READ_GPR s RA;
     val_RB \<leftarrow> READ_GPR s RB;
     let (val_RT, val_OV) = (if val_RB = 0 then (0xffffffff, True) else (val_RA div val_RB, False));
     s \<leftarrow> WRITE_GPR RT val_RT s;
     let s = (if OE then SET_SO_OV val_OV s else s);
     let s = (if Rc then SET_CR0 val_RT s else s);
     Some (incPC s) }"

subsection \<open>Branches\<close>

definition op_b :: "u32 \<Rightarrow> bool \<Rightarrow> bool \<Rightarrow> sys \<Rightarrow> sys option" where
  "op_b LI AA LK s =
     (let offset = signed_drop_bit 6 (push_bit 6 LI);
          dest = (if AA then offset else getPC s + offset);
          s = (if dest = getPC s then SIM_QUIT 0 s else s);
          s = (if LK then setLR (getPC s + 4) s else s)
      in Some (setPC dest s))"

text \<open>The condition that \<open>op_bc\<close> and \<open>op_bclr\<close> both compute, decrementing CTR on the way.\<close>

definition bc_branch :: "u32 \<Rightarrow> nat \<Rightarrow> sys \<Rightarrow> bool \<times> sys" where
  "bc_branch BO BI s =
     (let cr_bit = getCRb s BI;
          eq = (BO AND 0x02 \<noteq> 0);
          n_ctr = (BO AND 0x04 \<noteq> 0);
          cr_p = (BO AND 0x08 \<noteq> 0);
          cr_al = (BO AND 0x10 \<noteq> 0);
          branch = (cr_al \<or> cr_bit = cr_p)
      in if \<not> n_ctr then
           (let ctr = c_ctr (s_cpu s) - 1
            in (branch \<and> ((ctr = 0) = eq), upd_cpu (\<lambda>c. c\<lparr>c_ctr := ctr\<rparr>) s))
         else (branch, s))"

definition op_bc :: "u32 \<Rightarrow> nat \<Rightarrow> u32 \<Rightarrow> bool \<Rightarrow> bool \<Rightarrow> sys \<Rightarrow> sys option" where
  "op_bc BO BI BD AA LK s =
     (let (branch, s) = bc_branch BO BI s;
          offset = SXT16 BD;
          dest = (if AA then offset else getPC s + offset);
          s = (if LK then setLR (getPC s + 4) s else s)
      in Some (if branch then setPC dest s else incPC s))"

definition op_bclr :: "u32 \<Rightarrow> nat \<Rightarrow> u32 \<Rightarrow> bool \<Rightarrow> sys \<Rightarrow> sys option" where
  "op_bclr BO BI BH LK s =
     (let (branch, s) = bc_branch BO BI s;
          dest = c_lr (s_cpu s) AND NOT 3;
          s = (if LK then setLR (getPC s + 4) s else s)
      in Some (if branch then setPC dest s else incPC s))"

definition op_bcctr :: "u32 \<Rightarrow> nat \<Rightarrow> u32 \<Rightarrow> bool \<Rightarrow> sys \<Rightarrow> sys option" where
  "op_bcctr BO BI BH LK s =
     (let cr_bit = getCRb s BI;
          n_ctr = (BO AND 0x04 \<noteq> 0);
          cr_p = (BO AND 0x08 \<noteq> 0);
          cr_al = (BO AND 0x10 \<noteq> 0);
          branch = (cr_al \<or> cr_bit = cr_p)
      in if \<not> n_ctr then Some (op_unk (s_inst s) s)
         else
           (let s = (if LK then setLR (getPC s + 4) s else s);
                dest = c_ctr (s_cpu s) AND NOT 3
            in Some (if branch then setPC dest s else incPC s)))"

subsection \<open>Condition register\<close>

definition op_mcrf :: "nat \<Rightarrow> nat \<Rightarrow> sys \<Rightarrow> sys option" where
  "op_mcrf BF BFA s =
     (let val_CR = READ_CR s;
          val_CR = WRITE_CR_FIELD val_CR BF (READ_CR_FIELD val_CR BFA)
      in Some (incPC (WRITE_CR val_CR s)))"

definition op_mcrxr :: "nat \<Rightarrow> sys \<Rightarrow> sys option" where
  "op_mcrxr BF s =
     (let val_CR = WRITE_CR_FIELD (READ_CR s) BF (drop_bit 28 (c_xer (s_cpu s)));
          s = upd_cpu (setXER 0) (WRITE_CR val_CR s)
      in Some (incPC s))"

definition op_mfcr :: "nat \<Rightarrow> sys \<Rightarrow> sys option" where
  "op_mfcr RT s = do { s \<leftarrow> WRITE_GPR RT (READ_CR s) s; Some (incPC s) }"

definition mtcrf_mask :: "u32 \<Rightarrow> u32" where
  "mtcrf_mask FXM =
     (if FXM AND 0x80 \<noteq> 0 then 0xf0000000 else 0) OR
     (if FXM AND 0x40 \<noteq> 0 then 0x0f000000 else 0) OR
     (if FXM AND 0x20 \<noteq> 0 then 0x00f00000 else 0) OR
     (if FXM AND 0x10 \<noteq> 0 then 0x000f0000 else 0) OR
     (if FXM AND 0x08 \<noteq> 0 then 0x0000f000 else 0) OR
     (if FXM AND 0x04 \<noteq> 0 then 0x00000f00 else 0) OR
     (if FXM AND 0x02 \<noteq> 0 then 0x000000f0 else 0) OR
     (if FXM AND 0x01 \<noteq> 0 then 0x0000000f else 0)"

definition op_mtcrf :: "u32 \<Rightarrow> nat \<Rightarrow> sys \<Rightarrow> sys option" where
  "op_mtcrf FXM RS s = do {
     val_RS \<leftarrow> READ_GPR s RS;
     let mask = mtcrf_mask FXM;
     let val_CR = (READ_CR s AND NOT mask) OR (val_RS AND mask);
     Some (incPC (WRITE_CR val_CR s)) }"

subsection \<open>Logic\<close>

definition op_cntlzw :: "nat \<Rightarrow> nat \<Rightarrow> bool \<Rightarrow> sys \<Rightarrow> sys option" where
  "op_cntlzw RS RA Rc s = do {
     val_RS \<leftarrow> READ_GPR s RS;
     let val_RA = (if val_RS = 0 then 32 else of_nat (builtin_clz val_RS));
     s \<leftarrow> WRITE_GPR RA val_RA s;
     Some (incPC (if Rc then SET_CR0 val_RA s else s)) }"

definition op_rlwimi :: "nat \<Rightarrow> nat \<Rightarrow> nat \<Rightarrow> nat \<Rightarrow> nat \<Rightarrow> bool \<Rightarrow> sys \<Rightarrow> sys option" where
  "op_rlwimi RA RS SH MB ME Rc s = do {
     val_RA \<leftarrow> READ_GPR s RA;
     val_RS \<leftarrow> READ_GPR s RS;
     let m = mkmask MB ME;
     let val = (val_RA AND NOT m) OR (ROTL32 val_RS SH AND m);
     s \<leftarrow> WRITE_GPR RA val s;
     Some (incPC (if Rc then SET_CR0 val s else s)) }"

definition op_rlwinm :: "nat \<Rightarrow> nat \<Rightarrow> nat \<Rightarrow> nat \<Rightarrow> nat \<Rightarrow> bool \<Rightarrow> sys \<Rightarrow> sys option" where
  "op_rlwinm RS SH MB ME RA Rc s = do {
     val_RS \<leftarrow> READ_GPR s RS;
     let val = ROTL32 val_RS SH AND mkmask MB ME;
     s \<leftarrow> WRITE_GPR RA val s;
     Some (incPC (if Rc then SET_CR0 val s else s)) }"

definition op_rlwnm :: "nat \<Rightarrow> nat \<Rightarrow> nat \<Rightarrow> nat \<Rightarrow> nat \<Rightarrow> bool \<Rightarrow> sys \<Rightarrow> sys option" where
  "op_rlwnm RB RS MB ME RA Rc s = do {
     val_RB \<leftarrow> READ_GPR s RB;
     val_RS \<leftarrow> READ_GPR s RS;
     let val = ROTL32 val_RS (unat (val_RB AND 0x1f)) AND mkmask MB ME;
     s \<leftarrow> WRITE_GPR RA val s;
     Some (incPC (if Rc then SET_CR0 val s else s)) }"

definition op_sraw :: "nat \<Rightarrow> nat \<Rightarrow> nat \<Rightarrow> bool \<Rightarrow> sys \<Rightarrow> sys option" where
  "op_sraw RS RB RA Rc s = do {
     val_RS \<leftarrow> READ_GPR s RS;
     val_RB \<leftarrow> READ_GPR s RB;
     let sh = unat (val_RB AND 0x3f);
     let (val_RA, val_CA) =
       (if sh > 31 then (signed_drop_bit 31 val_RS, val_RS AND 0x80000000 \<noteq> 0)
        else (signed_drop_bit sh val_RS,
              val_RS AND 0x80000000 \<noteq> 0 \<and> val_RS AND (push_bit sh 1 - 1) \<noteq> 0));
     s \<leftarrow> WRITE_GPR RA val_RA s;
     let s = WRITE_CA val_CA s;
     Some (incPC (if Rc then SET_CR0 val_RA s else s)) }"

definition op_srawi :: "nat \<Rightarrow> nat \<Rightarrow> nat \<Rightarrow> bool \<Rightarrow> sys \<Rightarrow> sys option" where
  "op_srawi RS SH RA Rc s = do {
     val_RS \<leftarrow> READ_GPR s RS;
     let val_RA = signed_drop_bit SH val_RS;
     let val_CA = (val_RS AND 0x80000000 \<noteq> 0 \<and> val_RS AND (push_bit SH 1 - 1) \<noteq> 0);
     s \<leftarrow> WRITE_GPR RA val_RA s;
     let s = WRITE_CA val_CA s;
     Some (incPC (if Rc then SET_CR0 val_RA s else s)) }"

subsection \<open>Traps\<close>

definition op_sc :: "u8 \<Rightarrow> sys \<Rightarrow> sys option" where
  "op_sc LEV s = Some (upd_cpu_mmu raiseSCException (incPC s))"

definition op_tw :: "u32 \<Rightarrow> nat \<Rightarrow> nat \<Rightarrow> sys \<Rightarrow> sys option" where
  "op_tw TO RA RB s = do {
     val_RA \<leftarrow> READ_GPR s RA;
     val_RB \<leftarrow> READ_GPR s RB;
     if does_trap TO val_RA val_RB then Some (upd_cpu_mmu (raisePROGException 0x20000) s)
     else Some (incPC s) }"

definition op_twi :: "u32 \<Rightarrow> nat \<Rightarrow> u16 \<Rightarrow> sys \<Rightarrow> sys option" where
  "op_twi TO RA SI s = do {
     val_RA \<leftarrow> READ_GPR s RA;
     if does_trap TO val_RA (scast SI) then Some (upd_cpu_mmu (raisePROGException 0x20000) s)
     else Some (incPC s) }"

lemmas basic_ops =
  op_divw_def op_divwu_def op_b_def op_bc_def op_bclr_def op_bcctr_def op_mcrf_def op_mcrxr_def
  op_mfcr_def op_mtcrf_def op_cntlzw_def op_rlwimi_def op_rlwinm_def op_rlwnm_def op_sraw_def
  op_srawi_def op_sc_def op_tw_def op_twi_def

end
