(* ===== verification/Interp_Memory.thy ===== *)
theory Interp_Memory
  imports Sys_State
begin

section \<open>Multiple, string and reservation memory instructions\<close>

text \<open>
  \<open>PPCInterpreter_Memory.cc\<close>.  Each loop is a recursion on the list of the values that
  its variable takes; the part of the method after the loop is in the last equation,
  because \<open>MFCHECK\<close> returns from the method inside the loop.
\<close>

primrec lmw_loop :: "nat list \<Rightarrow> u32 \<Rightarrow> sys \<Rightarrow> sys option" where
  "lmw_loop [] base s = Some (incPC s)"
| "lmw_loop (n # ns) base s = do {
     (v, s) \<leftarrow> LOAD32 base s;
     MFCHECK True (\<lambda>s. do { s \<leftarrow> WRITE_GPR n v s; lmw_loop ns (base + 4) s }) s }"

definition op_lmw :: "nat \<Rightarrow> u16 \<Rightarrow> nat \<Rightarrow> sys \<Rightarrow> sys option" where
  "op_lmw RT D RA0 s = do {
     val_RA0 \<leftarrow> READ_GPR_OZ s RA0;
     lmw_loop [RT..<32] (val_RA0 + scast D) s }"

definition op_lwarx :: "nat \<Rightarrow> nat \<Rightarrow> nat \<Rightarrow> nat \<Rightarrow> sys \<Rightarrow> sys option" where
  "op_lwarx RA0 RB EH RT s = do {
     val_RA0 \<leftarrow> READ_GPR_OZ s RA0;
     val_RB \<leftarrow> READ_GPR s RB;
     let addr = val_RA0 + val_RB;
     (val_RT, s) \<leftarrow> LOAD32 addr s;
     let s = s\<lparr>s_reservation_address := addr, s_reservation_gencount := s_exc_generation_count s\<rparr>;
     MFCHECK True (\<lambda>s. do { s \<leftarrow> WRITE_GPR RT val_RT s; Some (incPC s) }) s }"

primrec stmw_loop :: "nat list \<Rightarrow> u32 \<Rightarrow> sys \<Rightarrow> sys option" where
  "stmw_loop [] base s = Some (incPC s)"
| "stmw_loop (n # ns) base s = do {
     v \<leftarrow> READ_GPR s n;
     s \<leftarrow> STORE32 base v s;
     MFCHECK False (stmw_loop ns (base + 4)) s }"

definition op_stmw :: "nat \<Rightarrow> u16 \<Rightarrow> nat \<Rightarrow> sys \<Rightarrow> sys option" where
  "op_stmw RS D RA0 s = do {
     val_RA0 \<leftarrow> READ_GPR_OZ s RA0;
     stmw_loop [RS..<32] (val_RA0 + scast D) s }"

text \<open>The end of \<open>op_stwcx\<close>, with the value for CR field 0.\<close>

definition stwcx_done :: "u32 \<Rightarrow> sys \<Rightarrow> sys option" where
  "stwcx_done cr0 s =
     (let s = blow_reservation s;
          cr = WRITE_CR_FIELD (READ_CR s) 0 cr0
      in Some (incPC (WRITE_CR cr s)))"

definition op_stwcx :: "nat \<Rightarrow> nat \<Rightarrow> nat \<Rightarrow> sys \<Rightarrow> sys option" where
  "op_stwcx RS RA0 RB s = do {
     val_RA0 \<leftarrow> READ_GPR_OZ s RA0;
     val_RB \<leftarrow> READ_GPR s RB;
     val_RS \<leftarrow> READ_GPR s RS;
     let cr0 = getXER_SO (s_cpu s);
     let base = val_RA0 + val_RB;
     if base \<noteq> s_reservation_address s \<or> s_reservation_gencount s \<noteq> s_exc_generation_count s
     then stwcx_done cr0 s
     else do {
       s \<leftarrow> STORE32 base val_RS s;
       MFCHECK False (stwcx_done (cr0 OR 2)) s } }"

subsection \<open>String instructions\<close>

text \<open>The values of \<open>for (int n = 0; n < NB; n += 4)\<close>.\<close>

definition str_words :: "nat \<Rightarrow> nat list" where
  "str_words nb = map (\<lambda>k. 4 * k) [0..<(nb + 3) div 4]"

definition lsw_mask :: "nat \<Rightarrow> nat \<Rightarrow> u32 \<Rightarrow> u32" where
  "lsw_mask nb n v = (if nb - n < 4 then v AND drop_bit (8 * (nb - n)) 0xffffffff else v)"

primrec lsw_loop :: "nat list \<Rightarrow> nat \<Rightarrow> u32 \<Rightarrow> nat \<Rightarrow> sys \<Rightarrow> sys option" where
  "lsw_loop [] nb base reg s = Some (incPC s)"
| "lsw_loop (n # ns) nb base reg s = do {
     (v, s) \<leftarrow> LOAD32 (base + of_nat n) s;
     MFCHECK True (\<lambda>s. do {
       s \<leftarrow> WRITE_GPR reg (lsw_mask nb n v) s;
       lsw_loop ns nb base ((reg + 1) mod 32) s }) s }"

definition op_lswi :: "nat \<Rightarrow> nat \<Rightarrow> nat \<Rightarrow> sys \<Rightarrow> sys option" where
  "op_lswi RT RA0 NB s = do {
     base \<leftarrow> READ_GPR_OZ s RA0;
     let NB = (if NB = 0 then 32 else NB);
     lsw_loop (str_words NB) NB base RT s }"

definition op_lswx :: "nat \<Rightarrow> nat \<Rightarrow> nat \<Rightarrow> sys \<Rightarrow> sys option" where
  "op_lswx RT RA0 RB s = do {
     val_RA0 \<leftarrow> READ_GPR_OZ s RA0;
     val_RB \<leftarrow> READ_GPR s RB;
     let numbytes = unat (c_xer (s_cpu s) AND XER_STR);
     lsw_loop (str_words numbytes) numbytes (val_RA0 + val_RB) RT s }"

text \<open>The stores of the last, partial word: \<open>STORE32\<close> of the whole register at each
  byte address.\<close>

primrec stsw_bytes :: "nat list \<Rightarrow> u32 \<Rightarrow> u32 \<Rightarrow> (sys \<Rightarrow> sys option) \<Rightarrow> sys \<Rightarrow> sys option" where
  "stsw_bytes [] base v rest s = rest s"
| "stsw_bytes (i # is) base v rest s = do {
     s \<leftarrow> STORE32 (base + of_nat i) v s;
     MFCHECK False (stsw_bytes is base v rest) s }"

primrec stsw_loop :: "nat list \<Rightarrow> nat \<Rightarrow> u32 \<Rightarrow> nat \<Rightarrow> sys \<Rightarrow> sys option" where
  "stsw_loop [] nb base reg s = Some (incPC s)"
| "stsw_loop (n # ns) nb base reg s = do {
     v \<leftarrow> READ_GPR s reg;
     let rest = (\<lambda>s. do {
       s \<leftarrow> WRITE_GPR reg v s;
       stsw_loop ns nb base ((reg + 1) mod 32) s });
     if nb - n < 4 then stsw_bytes [0..<nb - n] (base + of_nat n) v rest s
     else do {
       s \<leftarrow> STORE32 (base + of_nat n) v s;
       MFCHECK False rest s } }"

definition op_stswi :: "nat \<Rightarrow> nat \<Rightarrow> nat \<Rightarrow> sys \<Rightarrow> sys option" where
  "op_stswi RS RA0 NB s = do {
     base \<leftarrow> READ_GPR_OZ s RA0;
     let NB = (if NB = 0 then 32 else NB);
     stsw_loop (str_words NB) NB base RS s }"

definition op_stswx :: "nat \<Rightarrow> nat \<Rightarrow> nat \<Rightarrow> sys \<Rightarrow> sys option" where
  "op_stswx RS RA0 RB s = do {
     val_RA0 \<leftarrow> READ_GPR_OZ s RA0;
     val_RB \<leftarrow> READ_GPR s RB;
     let numbytes = unat (c_xer (s_cpu s) AND XER_STR);
     stsw_loop (str_words numbytes) numbytes (val_RA0 + val_RB) RS s }"

end
