(* ===== verification/Interp_Special.thy ===== *)
theory Interp_Special
  imports Sys_State
begin

section \<open>Special-purpose registers, barriers, TLB and cache instructions\<close>

text \<open>
  \<open>PPCInterpreter_Special.cc\<close>.  The \<open>switch\<close> on the register number is a chain of
  tests in the code's order; its default is \<open>FATAL\<close>, hence \<open>None\<close>.
  \<open>CHECK_YOUR_PRIVILEGE\<close> does nothing in the code and does not appear.  Of the
  debug interface, \<open>putchar\<close> appends to \<open>s_stdout\<close>; the register dump it prints and
  the switch that turns tracing on do not affect the machine and are left out.
\<close>

definition upd_mmu :: "(mmu \<Rightarrow> mmu option) \<Rightarrow> sys \<Rightarrow> sys option" where
  "upd_mmu f s = do { m \<leftarrow> f (s_mmu s); Some (s\<lparr>s_mmu := m\<rparr>) }"

definition putchar :: "u32 \<Rightarrow> sys \<Rightarrow> sys" where
  "putchar c s = s\<lparr>s_stdout := s_stdout s @ [ucast c]\<rparr>"

subsection \<open>Barriers\<close>

definition op_eieio :: "sys \<Rightarrow> sys option" where
  "op_eieio s = Some (incPC s)"

definition op_isync :: "sys \<Rightarrow> sys option" where
  "op_isync s = Some (incPC s)"

definition op_sync :: "nat \<Rightarrow> nat \<Rightarrow> sys \<Rightarrow> sys option" where
  "op_sync L E s = Some (incPC s)"

subsection \<open>Moves from and to special-purpose registers\<close>

definition mfspr_value :: "nat \<Rightarrow> cpu \<Rightarrow> u32 option" where
  "mfspr_value spr c =
    (if spr = SPR_LR then Some (c_lr c)
     else if spr = SPR_CTR then Some (c_ctr c)
     else if spr = SPR_XER then Some (c_xer c)
     else if spr = SPR_PVR then Some (MR_PVR)
     else if spr = SPR_TBU then Some (ucast (drop_bit 32 (getTB c)))
     else if spr = SPR_TB then Some (ucast (getTB c AND 0xffffffff))
     else if spr = SPR_SPRG3 then Some (c_sprg3 c)
     else if spr = SPR_PIR then Some (c_pir c)
     else if spr = SPR_SPRG0 then Some (c_sprg0 c)
     else if spr = SPR_SPRG1 then Some (c_sprg1 c)
     else if spr = SPR_SPRG2 then Some (c_sprg2 c)
     else if spr = SPR_SDR1 then Some (c_sdr1 c)
     else if spr = SPR_SRR0 then Some (c_srr0 c)
     else if spr = SPR_SRR1 then Some (c_srr1 c)
     else if spr = SPR_DSISR then Some (c_dsisr c)
     else if spr = SPR_DAR then Some (c_dar c)
     else if spr = SPR_DEC then Some (c_dec c)
     else if spr = SPR_DABR then Some (0)
     else if spr = SPR_HID0 then Some (c_hid0 c)
     else if spr = SPR_HID1 then Some (c_hid1 c)
     else None)"

definition op_mfspr :: "nat \<Rightarrow> nat \<Rightarrow> sys \<Rightarrow> sys option" where
  "op_mfspr spr RT s = do {
     val_RT \<leftarrow> mfspr_value spr (s_cpu s);
     s \<leftarrow> WRITE_GPR RT val_RT s;
     Some (incPC s) }"

definition op_mftb :: "nat \<Rightarrow> nat \<Rightarrow> sys \<Rightarrow> sys option" where
  "op_mftb spr RT s = do {
     val_RT \<leftarrow> (if spr = SPR_TBU then Some (ucast (drop_bit 32 (getTB (s_cpu s))))
                else if spr = SPR_TB then Some (ucast (getTB (s_cpu s) AND 0xffffffff))
                else None);
     s \<leftarrow> WRITE_GPR RT val_RT s;
     Some (incPC s) }"

definition helper_DEBUG :: "u32 \<Rightarrow> sys \<Rightarrow> sys option" where
  "helper_DEBUG val s =
     (if val AND 0xff00 = SPR_DEBUG_EXIT then Some (SIM_QUIT (val AND 0xff) s)
      else if val AND 0xff00 = SPR_DEBUG_PUTC then Some (putchar (val AND 0xff) s)
      else None)"

definition mtspr_body :: "nat \<Rightarrow> u32 \<Rightarrow> sys \<Rightarrow> sys option" where
  "mtspr_body spr val s =
    (if spr = SPR_LR then Some (setLR val s)
     else if spr = SPR_CTR then Some (upd_cpu (\<lambda>c. c\<lparr>c_ctr := val\<rparr>) s)
     else if spr = SPR_XER then Some (upd_cpu (setXER val) s)
     else if spr = SPR_TB_W then Some (upd_cpu (\<lambda>c. setTB (ucast val OR (getTB c AND 0xffffffff00000000)) c) s)
     else if spr = SPR_TBU_W then Some (upd_cpu (\<lambda>c. setTB (push_bit 32 (ucast val) OR (getTB c AND 0xffffffff)) c) s)
     else if spr = SPR_IBAT0L then upd_mmu (setIBATlower 0 val) s
     else if spr = SPR_IBAT0U then upd_mmu (setIBATupper 0 val) s
     else if spr = SPR_IBAT1L then upd_mmu (setIBATlower 1 val) s
     else if spr = SPR_IBAT1U then upd_mmu (setIBATupper 1 val) s
     else if spr = SPR_IBAT2L then upd_mmu (setIBATlower 2 val) s
     else if spr = SPR_IBAT2U then upd_mmu (setIBATupper 2 val) s
     else if spr = SPR_IBAT3L then upd_mmu (setIBATlower 3 val) s
     else if spr = SPR_IBAT3U then upd_mmu (setIBATupper 3 val) s
     else if spr = SPR_IBAT4L then upd_mmu (setIBATlower 4 val) s
     else if spr = SPR_IBAT4U then upd_mmu (setIBATupper 4 val) s
     else if spr = SPR_IBAT5L then upd_mmu (setIBATlower 5 val) s
     else if spr = SPR_IBAT5U then upd_mmu (setIBATupper 5 val) s
     else if spr = SPR_IBAT6L then upd_mmu (setIBATlower 6 val) s
     else if spr = SPR_IBAT6U then upd_mmu (setIBATupper 6 val) s
     else if spr = SPR_IBAT7L then upd_mmu (setIBATlower 7 val) s
     else if spr = SPR_IBAT7U then upd_mmu (setIBATupper 7 val) s
     else if spr = SPR_DBAT0L then upd_mmu (setDBATlower 0 val) s
     else if spr = SPR_DBAT0U then upd_mmu (setDBATupper 0 val) s
     else if spr = SPR_DBAT1L then upd_mmu (setDBATlower 1 val) s
     else if spr = SPR_DBAT1U then upd_mmu (setDBATupper 1 val) s
     else if spr = SPR_DBAT2L then upd_mmu (setDBATlower 2 val) s
     else if spr = SPR_DBAT2U then upd_mmu (setDBATupper 2 val) s
     else if spr = SPR_DBAT3L then upd_mmu (setDBATlower 3 val) s
     else if spr = SPR_DBAT3U then upd_mmu (setDBATupper 3 val) s
     else if spr = SPR_DBAT4L then upd_mmu (setDBATlower 4 val) s
     else if spr = SPR_DBAT4U then upd_mmu (setDBATupper 4 val) s
     else if spr = SPR_DBAT5L then upd_mmu (setDBATlower 5 val) s
     else if spr = SPR_DBAT5U then upd_mmu (setDBATupper 5 val) s
     else if spr = SPR_DBAT6L then upd_mmu (setDBATlower 6 val) s
     else if spr = SPR_DBAT6U then upd_mmu (setDBATupper 6 val) s
     else if spr = SPR_DBAT7L then upd_mmu (setDBATlower 7 val) s
     else if spr = SPR_DBAT7U then upd_mmu (setDBATupper 7 val) s
     else if spr = SPR_SPRG0 then Some (upd_cpu (\<lambda>c. c\<lparr>c_sprg0 := val\<rparr>) s)
     else if spr = SPR_SPRG1 then Some (upd_cpu (\<lambda>c. c\<lparr>c_sprg1 := val\<rparr>) s)
     else if spr = SPR_SPRG2 then Some (upd_cpu (\<lambda>c. c\<lparr>c_sprg2 := val\<rparr>) s)
     else if spr = SPR_SPRG3 then Some (upd_cpu (\<lambda>c. c\<lparr>c_sprg3 := val\<rparr>) s)
     else if spr = SPR_SRR0 then Some (upd_cpu (\<lambda>c. c\<lparr>c_srr0 := val\<rparr>) s)
     else if spr = SPR_SRR1 then Some (upd_cpu (\<lambda>c. c\<lparr>c_srr1 := val\<rparr>) s)
     else if spr = SPR_DSISR then Some (upd_cpu (\<lambda>c. c\<lparr>c_dsisr := val\<rparr>) s)
     else if spr = SPR_DAR then Some (upd_cpu (\<lambda>c. c\<lparr>c_dar := val\<rparr>) s)
     else if spr = SPR_SDR1 then upd_mmu (\<lambda>m. Some (mmu_setSDR1 val m)) (upd_cpu (\<lambda>c. c\<lparr>c_sdr1 := val\<rparr>) s)
     else if spr = SPR_DEC then Some (upd_cpu (\<lambda>c. c\<lparr>c_dec := val\<rparr>) s)
     else if spr = SPR_DABR then Some s
     else if spr = SPR_HID0 then Some (upd_cpu (\<lambda>c. c\<lparr>c_hid0 := val\<rparr>) s)
     else if spr = SPR_HID1 then Some (upd_cpu (\<lambda>c. c\<lparr>c_hid1 := val\<rparr>) s)
     else if spr = SPR_DEBUG then helper_DEBUG val s
     else if spr = SPR_DC_INV_SET then Some s
     else if spr = SPR_IC_INV_SET then Some s
     else None)"

definition op_mtspr :: "nat \<Rightarrow> nat \<Rightarrow> sys \<Rightarrow> sys option" where
  "op_mtspr spr RS s = do {
     val_RS \<leftarrow> READ_GPR s RS;
     s \<leftarrow> mtspr_body spr val_RS s;
     Some (incPC s) }"

subsection \<open>Return from interrupt\<close>

definition op_rfi :: "sys \<Rightarrow> sys option" where
  "op_rfi s =
     (let new_pc = c_srr0 (s_cpu s) AND NOT 3;
          msr = c_srr1 (s_cpu s)
      in Some (WRITE_MSR msr (setPC new_pc (blow_reservation s))))"

subsection \<open>Segment registers, TLB and cache\<close>

definition op_mfsr :: "nat \<Rightarrow> nat \<Rightarrow> sys \<Rightarrow> sys option" where
  "op_mfsr SR RT s = do {
     val_RT \<leftarrow> getSegmentReg SR (s_mmu s);
     s \<leftarrow> WRITE_GPR RT val_RT s;
     Some (incPC s) }"

definition op_mfsrin :: "nat \<Rightarrow> nat \<Rightarrow> sys \<Rightarrow> sys option" where
  "op_mfsrin RB RT s = do {
     val_RB \<leftarrow> READ_GPR s RB;
     val_RT \<leftarrow> getSegmentReg (unat (drop_bit 28 val_RB AND 0xf)) (s_mmu s);
     s \<leftarrow> WRITE_GPR RT val_RT s;
     Some (incPC s) }"

definition op_mtsr :: "nat \<Rightarrow> nat \<Rightarrow> sys \<Rightarrow> sys option" where
  "op_mtsr SR RS s = do {
     val_RS \<leftarrow> READ_GPR s RS;
     s \<leftarrow> upd_mmu (setSegmentReg SR val_RS) s;
     Some (incPC s) }"

definition op_mtsrin :: "nat \<Rightarrow> nat \<Rightarrow> sys \<Rightarrow> sys option" where
  "op_mtsrin RS RB s = do {
     val_RS \<leftarrow> READ_GPR s RS;
     val_RB \<leftarrow> READ_GPR s RB;
     s \<leftarrow> upd_mmu (setSegmentReg (unat (drop_bit 28 val_RB AND 0xf)) val_RS) s;
     Some (incPC s) }"

definition op_tlbie :: "nat \<Rightarrow> nat \<Rightarrow> sys \<Rightarrow> sys option" where
  "op_tlbie RB L s = do { s \<leftarrow> upd_mmu (\<lambda>m. Some (tlbie m)) s; Some (incPC s) }"

definition op_tlbiel :: "nat \<Rightarrow> nat \<Rightarrow> sys \<Rightarrow> sys option" where
  "op_tlbiel RB L s = do { s \<leftarrow> upd_mmu (\<lambda>m. Some (tlbie m)) s; Some (incPC s) }"

definition op_DEBUG :: "nat \<Rightarrow> sys \<Rightarrow> sys option" where
  "op_DEBUG RA s = do {
     val_RA \<leftarrow> READ_GPR s RA;
     opc \<leftarrow> READ_GPR s 0;
     s \<leftarrow> (if opc = 0 then Some (SIM_QUIT val_RA s)
          else if opc = 1 then do { c \<leftarrow> READ_GPR s 3; Some (putchar c s) }
          else Some s);
     Some (incPC s) }"

definition op_icbi :: "nat \<Rightarrow> nat \<Rightarrow> sys \<Rightarrow> sys option" where
  "op_icbi RA0 RB s = do {
     val_RA0 \<leftarrow> READ_GPR_OZ s RA0;
     val_RB \<leftarrow> READ_GPR s RB;
     let va = val_RA0 + val_RB;
     (r, m, io) \<leftarrow> translateAddr va False True (isPrivileged (s_cpu s)) 0 (s_mmu s, s_io s);
     let s = s\<lparr>s_mmu := m, s_io := io\<rparr>;
     case r of
       Inl fault \<Rightarrow> sys_raiseMem True False va fault 0 s
     | Inr pa \<Rightarrow> Some (incPC s) }"

lemmas special_ops =
  op_eieio_def op_isync_def op_sync_def op_mfspr_def op_mftb_def op_mtspr_def op_rfi_def
  op_mfsr_def op_mfsrin_def op_mtsr_def op_mtsrin_def op_tlbie_def op_tlbiel_def op_DEBUG_def op_icbi_def

end
