(* ===== verification/Interp_Exec.thy ===== *)
theory Interp_Exec
  imports Interp_Basic Interp_Memory Interp_Special
begin

section \<open>The hand-written instructions, and what an invariant of them needs\<close>

text \<open>
  \<open>insn\<close> lists the calls that the decoder can make to the hand-written methods of
  \<open>PPCInterpreter\<close>, with their decoded operands; \<open>exec_insn\<close> makes the call.

  Every method is built from a few helpers.  The locale \<open>sys_invariant\<close> says what the
  helpers must keep for a predicate to be an invariant of the instructions; theory
  Interp\_Inv proves once, inside it, that every instruction then keeps the predicate.
  The helpers are grouped by the inductive predicates \<open>cpu_set\<close> (writes to the
  CPU state other than MSR), \<open>mmu_set\<close> (register operations of the MMU) and
  \<open>interp_set\<close> (writes to the interpreter's own fields).
\<close>

subsection \<open>Dispatch\<close>

datatype basic_insn =
    I_divw nat nat nat bool bool | I_divwu nat nat nat bool bool | I_b u32 bool bool | I_bc u32 nat u32 bool bool
  | I_bclr u32 nat u32 bool | I_bcctr u32 nat u32 bool | I_mcrf nat nat | I_mcrxr nat
  | I_mfcr nat | I_mtcrf u32 nat | I_cntlzw nat nat bool | I_rlwimi nat nat nat nat nat bool
  | I_rlwinm nat nat nat nat nat bool | I_rlwnm nat nat nat nat nat bool | I_sraw nat nat nat bool | I_srawi nat nat nat bool
  | I_sc u8 | I_tw u32 nat nat | I_twi u32 nat u16

primrec exec_basic :: "basic_insn \<Rightarrow> sys \<Rightarrow> sys option" where
  "exec_basic (I_divw ra rb rt rc oe) s = op_divw ra rb rt rc oe s"
| "exec_basic (I_divwu ra rb rt rc oe) s = op_divwu ra rb rt rc oe s"
| "exec_basic (I_b li aa lk) s = op_b li aa lk s"
| "exec_basic (I_bc bo bi bd aa lk) s = op_bc bo bi bd aa lk s"
| "exec_basic (I_bclr bo bi bh lk) s = op_bclr bo bi bh lk s"
| "exec_basic (I_bcctr bo bi bh lk) s = op_bcctr bo bi bh lk s"
| "exec_basic (I_mcrf bf bfa) s = op_mcrf bf bfa s"
| "exec_basic (I_mcrxr bf) s = op_mcrxr bf s"
| "exec_basic (I_mfcr rt) s = op_mfcr rt s"
| "exec_basic (I_mtcrf fxm rs) s = op_mtcrf fxm rs s"
| "exec_basic (I_cntlzw rs ra rc) s = op_cntlzw rs ra rc s"
| "exec_basic (I_rlwimi ra rs sh mb me rc) s = op_rlwimi ra rs sh mb me rc s"
| "exec_basic (I_rlwinm rs sh mb me ra rc) s = op_rlwinm rs sh mb me ra rc s"
| "exec_basic (I_rlwnm rb rs mb me ra rc) s = op_rlwnm rb rs mb me ra rc s"
| "exec_basic (I_sraw rs rb ra rc) s = op_sraw rs rb ra rc s"
| "exec_basic (I_srawi rs sh ra rc) s = op_srawi rs sh ra rc s"
| "exec_basic (I_sc lev) s = op_sc lev s"
| "exec_basic (I_tw to ra rb) s = op_tw to ra rb s"
| "exec_basic (I_twi to ra si) s = op_twi to ra si s"

datatype memory_insn =
    I_lmw nat u16 nat | I_stmw nat u16 nat | I_lwarx nat nat nat nat | I_stwcx nat nat nat
  | I_lswi nat nat nat | I_lswx nat nat nat | I_stswi nat nat nat | I_stswx nat nat nat

primrec exec_memory :: "memory_insn \<Rightarrow> sys \<Rightarrow> sys option" where
  "exec_memory (I_lmw rt d ra) s = op_lmw rt d ra s"
| "exec_memory (I_stmw rs d ra) s = op_stmw rs d ra s"
| "exec_memory (I_lwarx ra rb eh rt) s = op_lwarx ra rb eh rt s"
| "exec_memory (I_stwcx rs ra rb) s = op_stwcx rs ra rb s"
| "exec_memory (I_lswi rt ra nb) s = op_lswi rt ra nb s"
| "exec_memory (I_lswx rt ra rb) s = op_lswx rt ra rb s"
| "exec_memory (I_stswi rs ra nb) s = op_stswi rs ra nb s"
| "exec_memory (I_stswx rs ra rb) s = op_stswx rs ra rb s"

datatype special_insn =
    I_eieio | I_isync | I_sync nat nat | I_mfspr nat nat
  | I_mftb nat nat | I_mtspr nat nat | I_rfi | I_mfsr nat nat
  | I_mfsrin nat nat | I_mtsr nat nat | I_mtsrin nat nat | I_tlbie nat nat
  | I_tlbiel nat nat | I_DEBUG nat | I_icbi nat nat | I_unk u32

primrec exec_special :: "special_insn \<Rightarrow> sys \<Rightarrow> sys option" where
  "exec_special I_eieio s = op_eieio s"
| "exec_special I_isync s = op_isync s"
| "exec_special (I_sync l e) s = op_sync l e s"
| "exec_special (I_mfspr spr rt) s = op_mfspr spr rt s"
| "exec_special (I_mftb spr rt) s = op_mftb spr rt s"
| "exec_special (I_mtspr spr rs) s = op_mtspr spr rs s"
| "exec_special I_rfi s = op_rfi s"
| "exec_special (I_mfsr sr rt) s = op_mfsr sr rt s"
| "exec_special (I_mfsrin rb rt) s = op_mfsrin rb rt s"
| "exec_special (I_mtsr sr rs) s = op_mtsr sr rs s"
| "exec_special (I_mtsrin rs rb) s = op_mtsrin rs rb s"
| "exec_special (I_tlbie rb l) s = op_tlbie rb l s"
| "exec_special (I_tlbiel rb l) s = op_tlbiel rb l s"
| "exec_special (I_DEBUG ra) s = op_DEBUG ra s"
| "exec_special (I_icbi ra rb) s = op_icbi ra rb s"
| "exec_special (I_unk inst) s = Some (op_unk inst s)"

datatype insn = Basic basic_insn | Memory memory_insn | Special special_insn

primrec exec_insn :: "insn \<Rightarrow> sys \<Rightarrow> sys option" where
  "exec_insn (Basic i) s = exec_basic i s"
| "exec_insn (Memory i) s = exec_memory i s"
| "exec_insn (Special i) s = exec_special i s"

subsection \<open>The writes that instructions make\<close>

inductive cpu_set :: "(cpu \<Rightarrow> cpu) \<Rightarrow> bool" where
  "cpu_set (\<lambda>c. c\<lparr>c_gprs := (c_gprs c)(r := v)\<rparr>)"
| "cpu_set (\<lambda>c. c\<lparr>c_pc := v\<rparr>)"
| "cpu_set (\<lambda>c. c\<lparr>c_lr := v\<rparr>)"
| "cpu_set (\<lambda>c. c\<lparr>c_ctr := v\<rparr>)"
| "cpu_set (\<lambda>c. c\<lparr>c_cr := v\<rparr>)"
| "cpu_set (setXER v)"
| "cpu_set (setXER_CA b)"
| "cpu_set (\<lambda>c. setXER_OV b (setXER_SO (g c) c))"
| "cpu_set (\<lambda>c. setTB (h c) c)"
| "cpu_set (\<lambda>c. c\<lparr>c_sprg0 := v\<rparr>)"
| "cpu_set (\<lambda>c. c\<lparr>c_sprg1 := v\<rparr>)"
| "cpu_set (\<lambda>c. c\<lparr>c_sprg2 := v\<rparr>)"
| "cpu_set (\<lambda>c. c\<lparr>c_sprg3 := v\<rparr>)"
| "cpu_set (\<lambda>c. c\<lparr>c_srr0 := v\<rparr>)"
| "cpu_set (\<lambda>c. c\<lparr>c_srr1 := v\<rparr>)"
| "cpu_set (\<lambda>c. c\<lparr>c_dar := v\<rparr>)"
| "cpu_set (\<lambda>c. c\<lparr>c_dsisr := v\<rparr>)"
| "cpu_set (\<lambda>c. c\<lparr>c_sdr1 := v\<rparr>)"
| "cpu_set (\<lambda>c. c\<lparr>c_dec := v\<rparr>)"
| "cpu_set (\<lambda>c. c\<lparr>c_hid0 := v\<rparr>)"
| "cpu_set (\<lambda>c. c\<lparr>c_hid1 := v\<rparr>)"

inductive mmu_set :: "(mmu \<Rightarrow> mmu option) \<Rightarrow> bool" where
  "mmu_set (setIBATupper i v)"
| "mmu_set (setIBATlower i v)"
| "mmu_set (setDBATupper i v)"
| "mmu_set (setDBATlower i v)"
| "mmu_set (setSegmentReg i v)"
| "mmu_set (\<lambda>m. Some (mmu_setSDR1 v m))"
| "mmu_set (\<lambda>m. Some (tlbie m))"

inductive interp_set :: "(sys \<Rightarrow> sys) \<Rightarrow> bool" where
  "interp_set (\<lambda>s. s\<lparr>s_want_break := True\<rparr>)"
| "interp_set (\<lambda>s. s\<lparr>s_exc_generation_count := s_exc_generation_count s + 1\<rparr>)"
| "interp_set (\<lambda>s. s\<lparr>s_reservation_address := a, s_reservation_gencount := g\<rparr>)"
| "interp_set (\<lambda>s. s\<lparr>s_stdout := s_stdout s @ [b]\<rparr>)"

locale sys_invariant =
  fixes I :: "sys \<Rightarrow> bool"
  assumes cpu_step: "cpu_set f \<Longrightarrow> I s \<Longrightarrow> I (upd_cpu f s)"
    and mmu_reg_step: "mmu_set g \<Longrightarrow> g (s_mmu s) = Some m \<Longrightarrow> I s \<Longrightarrow> I (s\<lparr>s_mmu := m\<rparr>)"
    and interp_step: "interp_set h \<Longrightarrow> I s \<Longrightarrow> I (h s)"
    and load_step: "LOAD32 a s = Some (v, s') \<Longrightarrow> I s \<Longrightarrow> I s'"
    and store_step: "STORE32 a w s = Some s' \<Longrightarrow> I s \<Longrightarrow> I s'"
    and translate_step: "translateAddr a False True p 0 (s_mmu s, s_io s) = Some (r, (m, io)) \<Longrightarrow>
      I s \<Longrightarrow> I (s\<lparr>s_mmu := m, s_io := io\<rparr>)"
    and exception_step: "(c, m) = takeException e srr1 ((s_cpu s)\<lparr>c_dar := dar, c_dsisr := dsisr\<rparr>, s_mmu s) \<Longrightarrow>
      I s \<Longrightarrow> I (s\<lparr>s_cpu := c, s_mmu := m\<rparr>)"
    and msr_step: "I s \<Longrightarrow> I (WRITE_MSR msr s)"

end
