(* ===== verification/Interp_Inv.thy ===== *)
theory Interp_Inv
  imports Interp_Exec
begin

section \<open>Every hand-written instruction keeps an invariant of the helpers\<close>

text \<open>
  \<open>keeps I x\<close>: a partial computation whose result, if any, satisfies \<open>I\<close>.  Inside
  \<open>sys_invariant\<close> the rules follow the statements of a method from left to right:
  \<open>wp\<close> collects them, the rules for the helpers before the one for an arbitrary
  statement, and each method is proved by applying them as long as one fits.  The last
  lemma covers all the instructions.
\<close>

definition keeps :: "(sys \<Rightarrow> bool) \<Rightarrow> sys option \<Rightarrow> bool" where
  "keeps I x \<longleftrightarrow> (\<forall>s. x = Some s \<longrightarrow> I s)"

lemma keepsD: "keeps I x \<Longrightarrow> x = Some s \<Longrightarrow> I s"
  by (simp add: keeps_def)

lemma keeps_base:
  "I s \<Longrightarrow> keeps I (Some s)"
  "keeps I None"
  "(\<And>v. m = Some v \<Longrightarrow> keeps I (f v)) \<Longrightarrow> keeps I (Option.bind m f)"
  "(b \<Longrightarrow> keeps I x) \<Longrightarrow> (\<not> b \<Longrightarrow> keeps I y) \<Longrightarrow> keeps I (if b then x else y)"
  by (auto simp: keeps_def elim!: bind_SomeE)

lemma keeps_bind:
  assumes "keeps I m" and "\<And>s. I s \<Longrightarrow> keeps I (f s)"
  shows "keeps I (Option.bind m f)"
  using assms by (auto simp: keeps_def elim!: bind_SomeE)

lemma inv_if: "(b \<Longrightarrow> I s) \<Longrightarrow> (\<not> b \<Longrightarrow> I t) \<Longrightarrow> I (if b then s else t)" for I :: "sys \<Rightarrow> bool"
  by simp

text \<open>The writes of the interpreter as the primitives of the locale.\<close>

lemma WRITE_GPR_upd: "WRITE_GPR r v s = Some s' \<Longrightarrow> s' = upd_cpu (\<lambda>c. c\<lparr>c_gprs := (c_gprs c)(r := v)\<rparr>) s"
  by (auto simp: WRITE_GPR_def upd_cpu_def dest!: setGPR_SomeD elim!: bind_SomeE)

context sys_invariant begin

lemma keeps_WRITE_GPR: "I s \<Longrightarrow> keeps I (WRITE_GPR r v s)"
  unfolding keeps_def using cpu_step [OF cpu_set.intros(1)] WRITE_GPR_upd by blast

lemma inv_cpu:
  assumes "I s"
  shows "I (setPC v s)" "I (incPC s)" "I (setLR v s)" "I (WRITE_CR v s)" "I (WRITE_CA b s)"
    "I (SET_CR0 v s)" "I (SET_SO_OV b s)"
    "I (upd_cpu (\<lambda>c. c\<lparr>c_ctr := v\<rparr>) s)" "I (upd_cpu (setXER v) s)"
  using assms
  by (simp_all add: setPC_def incPC_def setLR_def WRITE_CR_def WRITE_CA_def SET_CR0_def SET_SO_OV_def
      cpu_step cpu_set.intros)

lemma inv_cpu_SPR:
  assumes "I s"
  shows "I (upd_cpu (\<lambda>c. setTB (g c) c) s)"
    "I (upd_cpu (\<lambda>c. c\<lparr>c_sprg0 := v\<rparr>) s)" "I (upd_cpu (\<lambda>c. c\<lparr>c_sprg1 := v\<rparr>) s)"
    "I (upd_cpu (\<lambda>c. c\<lparr>c_sprg2 := v\<rparr>) s)" "I (upd_cpu (\<lambda>c. c\<lparr>c_sprg3 := v\<rparr>) s)"
    "I (upd_cpu (\<lambda>c. c\<lparr>c_srr0 := v\<rparr>) s)" "I (upd_cpu (\<lambda>c. c\<lparr>c_srr1 := v\<rparr>) s)"
    "I (upd_cpu (\<lambda>c. c\<lparr>c_dar := v\<rparr>) s)" "I (upd_cpu (\<lambda>c. c\<lparr>c_dsisr := v\<rparr>) s)"
    "I (upd_cpu (\<lambda>c. c\<lparr>c_sdr1 := v\<rparr>) s)" "I (upd_cpu (\<lambda>c. c\<lparr>c_dec := v\<rparr>) s)"
    "I (upd_cpu (\<lambda>c. c\<lparr>c_hid0 := v\<rparr>) s)" "I (upd_cpu (\<lambda>c. c\<lparr>c_hid1 := v\<rparr>) s)"
  using assms by (simp_all add: cpu_step cpu_set.intros)

lemma inv_interp:
  assumes "I s"
  shows "I (SIM_QUIT v s)" "I (blow_reservation s)" "I (putchar v s)"
    "I (s\<lparr>s_reservation_address := a, s_reservation_gencount := g\<rparr>)"
  using assms interp_set.intros [THEN interp_step]
  by (simp_all add: SIM_QUIT_def blow_reservation_def putchar_def)

lemma inv_takeException:
  assumes "I s" and "takeException e v (s_cpu s, s_mmu s) = (c, m)"
  shows "I (s\<lparr>s_cpu := c, s_mmu := m\<rparr>)"
  using assms exception_step [where dar = "c_dar (s_cpu s)" and dsisr = "c_dsisr (s_cpu s)" and s = s] by (simp add: eq_commute)

lemma inv_raise:
  assumes "I s"
  shows "I (upd_cpu_mmu raiseIRQException s)" "I (upd_cpu_mmu raiseDECException s)"
    "I (upd_cpu_mmu (raisePROGException r) s)" "I (upd_cpu_mmu raiseSCException s)"
    "I (op_unk i s)"
  using inv_takeException [OF assms]
  by (simp_all add: upd_cpu_mmu_def raise_defs op_unk_def case_prod_beta)

lemma keeps_raiseMem:
  assumes "I s"
  shows "keeps I (sys_raiseMem RnW InD a f i s)"
  unfolding keeps_def
proof (intro allI impI)
  fix s'
  assume "sys_raiseMem RnW InD a f i s = Some s'"
  then obtain c m where r: "raiseMemException RnW InD a f i (s_cpu s, s_mmu s) = Some (c, m)"
    and s': "s' = s\<lparr>s_cpu := c, s_mmu := m\<rparr>"
    by (auto simp: sys_raiseMem_def elim!: bind_SomeE)
  obtain e v dar dsisr where "(c, m) = takeException e v ((s_cpu s)\<lparr>c_dar := dar, c_dsisr := dsisr\<rparr>, s_mmu s)"
    using r by (rule raiseMem_SomeD)
  then show "I s'" unfolding s' using assms by (rule exception_step)
qed

lemma keeps_STORE32: "I s \<Longrightarrow> keeps I (STORE32 a v s)"
  unfolding keeps_def using store_step by blast

lemma keeps_LOAD32:
  assumes "I s" and "\<And>v s. I s \<Longrightarrow> keeps I (f v s)"
  shows "keeps I (Option.bind (LOAD32 a s) (\<lambda>(v, s). f v s))"
proof (rule keeps_base(3))
  fix p assume "LOAD32 a s = Some p"
  then show "keeps I (case p of (v, s) \<Rightarrow> f v s)"
    using load_step [of a s "fst p" "snd p"] assms by (cases p) simp
qed

lemma keeps_MFCHECK:
  assumes "I s" and "\<And>s. I s \<Longrightarrow> keeps I (rest s)"
  shows "keeps I (MFCHECK RnW rest s)"
  using assms keeps_raiseMem by (simp add: MFCHECK_def)

lemma keeps_upd_mmu: "I s \<Longrightarrow> mmu_set g \<Longrightarrow> keeps I (upd_mmu g s)"
  by (auto simp: keeps_def upd_mmu_def mmu_reg_step elim!: bind_SomeE)

lemma inv_bc_branch: "I s \<Longrightarrow> I (snd (bc_branch BO BI s))"
  by (simp add: bc_branch_def Let_def inv_cpu)

lemmas wp = keeps_LOAD32 keeps_bind [OF keeps_WRITE_GPR] keeps_bind [OF keeps_STORE32] keeps_STORE32
  keeps_WRITE_GPR keeps_raiseMem keeps_MFCHECK keeps_base
  inv_if [where I = I] inv_cpu inv_interp inv_raise msr_step

lemmas wp_mmu = keeps_upd_mmu keeps_bind [OF keeps_upd_mmu] mmu_set.intros

subsection \<open>Arithmetic, branches, condition register, logic and traps\<close>

lemma keeps_basic:
  assumes "I s"
  shows "keeps I (exec_basic i s)"
  by (cases i; simp only: exec_basic.simps basic_ops Let_def case_prod_beta;
      (rule wp inv_bc_branch assms | assumption)+)

subsection \<open>Memory instructions\<close>

lemma keeps_lmw_loop: "I s \<Longrightarrow> keeps I (lmw_loop ns base s)"
proof (induction ns arbitrary: base s)
  case (Cons n ns)
  show ?case unfolding lmw_loop.simps by (rule wp Cons.prems Cons.IH | assumption)+
qed (simp add: keeps_base inv_cpu)

lemma keeps_stmw_loop: "I s \<Longrightarrow> keeps I (stmw_loop ns base s)"
proof (induction ns arbitrary: base s)
  case (Cons n ns)
  show ?case unfolding stmw_loop.simps by (rule wp Cons.prems Cons.IH | assumption)+
qed (simp add: keeps_base inv_cpu)

lemma keeps_lsw_loop: "I s \<Longrightarrow> keeps I (lsw_loop ns nb base reg s)"
proof (induction ns arbitrary: reg s)
  case (Cons n ns)
  show ?case unfolding lsw_loop.simps by (rule wp Cons.prems Cons.IH | assumption)+
qed (simp add: keeps_base inv_cpu)

lemma keeps_stsw_bytes:
  assumes "\<And>s. I s \<Longrightarrow> keeps I (rest s)"
  shows "I s \<Longrightarrow> keeps I (stsw_bytes is base v rest s)"
proof (induction "is" arbitrary: s)
  case (Cons i "is")
  show ?case unfolding stsw_bytes.simps by (rule wp Cons.prems Cons.IH | assumption)+
qed (simp add: assms)

lemma keeps_stsw_loop: "I s \<Longrightarrow> keeps I (stsw_loop ns nb base reg s)"
proof (induction ns arbitrary: reg s)
  case (Cons n ns)
  show ?case unfolding stsw_loop.simps Let_def
    by (rule wp keeps_stsw_bytes Cons.prems Cons.IH | assumption)+
qed (simp add: keeps_base inv_cpu)

lemma keeps_stwcx_done: "I s \<Longrightarrow> keeps I (stwcx_done v s)"
  unfolding stwcx_done_def Let_def by (rule wp | assumption)+

lemma keeps_memory:
  assumes "I s"
  shows "keeps I (exec_memory i s)"
  by (cases i; simp only: exec_memory.simps op_lmw_def op_stmw_def op_lwarx_def op_stwcx_def
        op_lswi_def op_lswx_def op_stswi_def op_stswx_def Let_def;
      (rule keeps_lmw_loop keeps_stmw_loop keeps_lsw_loop keeps_stsw_loop keeps_stwcx_done wp
        assms | assumption)+)

subsection \<open>Special instructions\<close>

lemma keeps_mtspr_body: "I s \<Longrightarrow> keeps I (mtspr_body spr v s)"
  unfolding mtspr_body_def helper_DEBUG_def
  by (rule wp_mmu inv_cpu_SPR wp | assumption)+

lemma keeps_DEBUG: "I s \<Longrightarrow> keeps I (op_DEBUG n s)"
  unfolding op_DEBUG_def
  by (rule keeps_base(3), rule keeps_base(3), rule keeps_bind, (rule wp | assumption)+)

lemma keeps_icbi:
  assumes "I s"
  shows "keeps I (op_icbi n1 n2 s)"
proof -
  have "keeps I (case r of Inl f \<Rightarrow> sys_raiseMem True False va f 0 (s\<lparr>s_mmu := m, s_io := io\<rparr>)
      | Inr pa \<Rightarrow> Some (incPC (s\<lparr>s_mmu := m, s_io := io\<rparr>)))"
    if "translateAddr va False True (isPrivileged (s_cpu s)) 0 (s_mmu s, s_io s) = Some (r, (m, io))"
    for va r m io
    using translate_step [OF that assms] by (cases r) (simp_all add: keeps_raiseMem keeps_base inv_cpu)
  then show ?thesis
    unfolding op_icbi_def Let_def by (intro keeps_base(3)) (auto split: prod.split)
qed

lemma keeps_special:
  assumes "I s"
  shows "keeps I (exec_special i s)"
  by (cases i; simp only: exec_special.simps special_ops(1-13) Let_def;
      (rule keeps_icbi keeps_DEBUG keeps_bind [OF keeps_mtspr_body] wp_mmu wp assms | assumption)+)

theorem exec_insn_keeps: "I s \<Longrightarrow> keeps I (exec_insn i s)"
  by (cases i) (simp_all add: keeps_basic keeps_memory keeps_special)

end

end
