(* ===== verification/Sys_Inv.thy ===== *)
theory Sys_Inv
  imports Interp_Inv
begin

section \<open>The system invariant\<close>

text \<open>
  \<open>sys_ok\<close>: the MMU's uTLB is coherent and the bus table sound (\<open>mmu_good\<close>), the MMU's
  mode bits are those of the MSR (\<open>mmu_sync\<close>: the two copies are kept by
  \<open>WRITE_MSR\<close> and \<open>takeException\<close>), and XER has no reserved bit.  Interpreting
  \<open>sys_invariant\<close> on it, and on two frame properties (the address map of the bus and
  the count of executed instructions do not change), gives that every instruction keeps
  them.  The theory also has what translation and accesses leave alone, and which faults
  they can report.
\<close>

definition sys_ok :: "sys \<Rightarrow> bool" where
  "sys_ok s \<longleftrightarrow> mmu_good (s_mmu s, s_io s) \<and> mmu_sync (s_cpu s, s_mmu s) \<and> xer_wf (s_cpu s)"

subsection \<open>Translation changes no register of the MMU\<close>

definition mmu_regs :: "mmu \<Rightarrow> mmu" where
  "mmu_regs m = dutlbInv (iutlbInv m)"

lemma mmu_regs_write [simp]: "mmu_regs (write_utlb d p i t m) = mmu_regs m"
  by (simp add: mmu_regs_def write_utlb_def dutlbInv_def iutlbInv_def)

lemma mmu_regs_enabled:
  "mmu_regs m = mmu_regs m' \<Longrightarrow> m_enabled_i m = m_enabled_i m' \<and> m_enabled_d m = m_enabled_d m'"
  by (drule arg_cong [where f = "\<lambda>m. (m_enabled_i m, m_enabled_d m)"]) (simp add: mmu_regs_def)

lemma utlbInsert_regs: "utlbInsert InD priv a out pf (m, io) = Some (m', io') \<Longrightarrow> mmu_regs m' = mmu_regs m"
  by (erule utlbInsert_SomeD) simp

lemma translateEA_regs:
  assumes "translateEA addr InD RnW priv x (m, io) = Some (r, (m', io'))"
  shows "mmu_regs m' = mmu_regs m"
  using assms
  by (cases rule: translateEA_cases) (auto dest: utlbInsert_regs elim!: use_pte_SomeD)

lemma translateAddr_regs:
  assumes "translateAddr addr InD RnW priv x (m, io) = Some (r, (m', io'))"
  shows "mmu_regs m' = mmu_regs m"
  using assms
proof (cases rule: translateAddr_cases)
  case walk
  then show ?thesis by (rule do_lookup_SomeD) (rule translateEA_regs)
qed simp

text \<open>The faults translation can report: a data access never reports the two that
  \<open>raiseMemException\<close> rejects.\<close>

lemma translateAddr_fault:
  assumes "translateAddr addr InD RnW priv x (m, io) = Some (Inl f, s')"
  shows "fault_expected InD f"
  using assms
proof (cases rule: translateAddr_cases)
  case hit
  then show ?thesis by (auto simp: fault_expected_def split: if_splits)
next
  case walk
  then obtain r where r: "translateEA addr InD RnW priv x (m, io) = Some (r, s')"
    and a: "answered addr InD RnW priv (fst s') r (Inl f)"
    by (rule do_lookup_SomeD)
  obtain m' io' where s': "s' = (m', io')" by (cases s')
  have "r = Inl f \<Longrightarrow> fault_expected InD f"
    using r unfolding s' by (cases rule: translateEA_cases) (auto simp: fault_expected_def)
  with answered_fault [OF a] show ?thesis by (auto simp: fault_expected_def)
qed

text \<open>The shape of the accessors again: registers kept, faults expected.\<close>

lemma access_frame:
  assumes "do { (r, m, io) \<leftarrow> translateAddr addr InD RnW priv x (m0, io0);
      case r of Inl f \<Rightarrow> Some (Inl f, (m, io)) | Inr pa \<Rightarrow> acc pa m io } = Some (res, mi)"
    and acc: "\<And>pa m io res s'. acc pa m io = Some (res, s') \<Longrightarrow>
      fst s' = m \<and> (\<forall>f. res = Inl f \<longrightarrow> fault_expected InD f)"
  shows "mmu_regs (fst mi) = mmu_regs m0 \<and> (\<forall>f. res = Inl f \<longrightarrow> fault_expected InD f)"
proof -
  obtain r m io where t: "translateAddr addr InD RnW priv x (m0, io0) = Some (r, (m, io))"
    and rest: "(case r of Inl f \<Rightarrow> Some (Inl f, (m, io)) | Inr pa \<Rightarrow> acc pa m io) = Some (res, mi)"
    using assms(1) by (auto elim!: bind_SomeE)
  show ?thesis
  proof (cases r)
    case (Inl f)
    with rest t translateAddr_fault translateAddr_regs [OF t] show ?thesis by auto
  next
    case (Inr pa)
    with rest acc [of pa m io res mi] translateAddr_regs [OF t] show ?thesis by auto
  qed
qed

lemma access_frames:
  "loadInst32 a priv (m, io) = Some (r32, mi) \<Longrightarrow> mmu_regs (fst mi) = mmu_regs m \<and> (\<forall>f. r32 = Inl f \<longrightarrow> fault_expected True f)"
  "load32 a priv (m, io) = Some (r32, mi) \<Longrightarrow> mmu_regs (fst mi) = mmu_regs m \<and> (\<forall>f. r32 = Inl f \<longrightarrow> fault_expected False f)"
  "load16 a priv (m, io) = Some (r16, mi) \<Longrightarrow> mmu_regs (fst mi) = mmu_regs m \<and> (\<forall>f. r16 = Inl f \<longrightarrow> fault_expected False f)"
  "load8 a priv (m, io) = Some (r8, mi) \<Longrightarrow> mmu_regs (fst mi) = mmu_regs m \<and> (\<forall>f. r8 = Inl f \<longrightarrow> fault_expected False f)"
  "store32 a v32 priv (m, io) = Some (r, mi) \<Longrightarrow> mmu_regs (fst mi) = mmu_regs m \<and> (\<forall>f. r = Inl f \<longrightarrow> fault_expected False f)"
  "store16 a v16 priv (m, io) = Some (r, mi) \<Longrightarrow> mmu_regs (fst mi) = mmu_regs m \<and> (\<forall>f. r = Inl f \<longrightarrow> fault_expected False f)"
  "store8 a v8 priv (m, io) = Some (r, mi) \<Longrightarrow> mmu_regs (fst mi) = mmu_regs m \<and> (\<forall>f. r = Inl f \<longrightarrow> fault_expected False f)"
  unfolding mmu_access_defs
  by (erule access_frame; auto simp: fault_expected_def split: if_splits elim!: bind_SomeE)+

subsection \<open>The helpers keep the invariant\<close>

lemma sys_okD:
  assumes "sys_ok s"
  shows "mmu_good (s_mmu s, s_io s)" and "mmu_sync (s_cpu s, s_mmu s)" and "xer_wf (s_cpu s)"
    and "coherent (s_mmu s) (s_io s)" and "io_ok (s_io s)"
  using assms by (simp_all add: sys_ok_def mmu_good_def)

lemma ok_fields [simp]:
  "sys_ok (s\<lparr>s_want_break := b\<rparr>) = sys_ok s" "sys_ok (s\<lparr>s_pc := p\<rparr>) = sys_ok s"
  "sys_ok (s\<lparr>s_inst := i\<rparr>) = sys_ok s"
  by (simp_all add: sys_ok_def)

lemma xer_wf_simps [simp]:
  "xer_wf (c\<lparr>c_pc := v\<rparr>) = xer_wf c" "xer_wf (c\<lparr>c_lr := v\<rparr>) = xer_wf c"
  "xer_wf (c\<lparr>c_ctr := v\<rparr>) = xer_wf c" "xer_wf (c\<lparr>c_cr := v\<rparr>) = xer_wf c"
  "xer_wf (c\<lparr>c_msr := v\<rparr>) = xer_wf c" "xer_wf (c\<lparr>c_gprs := g\<rparr>) = xer_wf c"
  "xer_wf (c\<lparr>c_sprg0 := v\<rparr>) = xer_wf c" "xer_wf (c\<lparr>c_sprg1 := v\<rparr>) = xer_wf c"
  "xer_wf (c\<lparr>c_sprg2 := v\<rparr>) = xer_wf c" "xer_wf (c\<lparr>c_sprg3 := v\<rparr>) = xer_wf c"
  "xer_wf (c\<lparr>c_srr0 := v\<rparr>) = xer_wf c" "xer_wf (c\<lparr>c_srr1 := v\<rparr>) = xer_wf c"
  "xer_wf (c\<lparr>c_dar := v\<rparr>) = xer_wf c" "xer_wf (c\<lparr>c_dsisr := v\<rparr>) = xer_wf c"
  "xer_wf (c\<lparr>c_dec := v\<rparr>) = xer_wf c" "xer_wf (c\<lparr>c_sdr1 := v\<rparr>) = xer_wf c"
  "xer_wf (c\<lparr>c_hid0 := v\<rparr>) = xer_wf c" "xer_wf (c\<lparr>c_hid1 := v\<rparr>) = xer_wf c"
  "xer_wf (setTB t c) = xer_wf c" "xer_wf (CPUTick n c) = xer_wf c"
  by (simp_all add: xer_wf_def setTB_def CPUTick_def Let_def)

lemma set_keeps [simp]:
  "c_msr (setXER v c) = c_msr c" "c_msr (setXER_SO b c) = c_msr c" "c_msr (setXER_OV b c) = c_msr c"
  "c_msr (setXER_CA b c) = c_msr c" "c_msr (setTB t c) = c_msr c" "c_msr (CPUTick n c) = c_msr c"
  "c_inst_count (setXER v c) = c_inst_count c" "c_inst_count (setXER_SO b c) = c_inst_count c"
  "c_inst_count (setXER_OV b c) = c_inst_count c" "c_inst_count (setXER_CA b c) = c_inst_count c"
  "c_inst_count (setTB t c) = c_inst_count c"
  by (simp_all add: setXER_def setXER_SO_def setXER_OV_def setXER_CA_def setTB_def CPUTick_def Let_def)

lemma cpu_set_frame:
  assumes "cpu_set f"
  shows "c_msr (f c) = c_msr c" and "c_inst_count (f c) = c_inst_count c"
    and "xer_wf c \<Longrightarrow> xer_wf (f c)"
  using assms by (induction rule: cpu_set.induct) (auto intro: xer_wf_setters)

lemmas mmu_reg_defs = setIBATupper_def setIBATlower_def setDBATupper_def setDBATlower_def
  setSegmentReg_def mmu_setSDR1_def tlbie_def tlbia_def

lemma mmu_set_enabled:
  assumes "mmu_set g" and "g m = Some m'"
  shows "m_enabled_i m' = m_enabled_i m \<and> m_enabled_d m' = m_enabled_d m"
  using assms
  by (cases rule: mmu_set.cases)
    (auto simp: mmu_reg_defs Let_def iutlbInv_def dutlbInv_def elim!: bind_SomeE)

lemma mmu_set_coherent:
  assumes "mmu_set g" and "g m = Some m'" and "coherent m io"
  shows "coherent m' io"
  using assms(1)
  by (cases rule: mmu_set.cases)
    (use assms(2,3) coherent_setIBAT [OF assms(3)] coherent_setDBAT [OF assms(3)]
      coherent_setSegmentReg coherent_inv_ops in blast)+

lemma mmu_good_setIRDR: "mmu_good (m, io) \<Longrightarrow> mmu_good (setIRDR i d m, io)"
  by (simp add: mmu_good_def coherent_setIRDR)

lemma mmu_sync_setIRDR:
  "c_msr c = v \<Longrightarrow> mmu_sync (c, setIRDR (v AND MSR_IR \<noteq> 0) (v AND MSR_DR \<noteq> 0) m)"
  by (simp add: mmu_sync_def setIRDR_def mask_simps)

lemma ok_WRITE_MSR: "sys_ok s \<Longrightarrow> sys_ok (WRITE_MSR v s)"
  by (simp add: sys_ok_def WRITE_MSR_def mmu_good_setIRDR mmu_sync_setIRDR)

lemma ok_exception:
  assumes "sys_ok s" and "(c', m') = takeException e v (c, s_mmu s)" and "xer_wf c"
  shows "sys_ok (s\<lparr>s_cpu := c', s_mmu := m'\<rparr>)"
  using assms takeException_sync [of e v "(c, s_mmu s)"]
  by (simp add: sys_ok_def takeException_eq mmu_good_setIRDR)

lemma ok_note_access:
  assumes "sys_ok s" and "mmu_good mi" and "mmu_regs (fst mi) = mmu_regs (s_mmu s)"
  shows "sys_ok (note_access a r mi s)"
  using assms mmu_regs_enabled [OF assms(3)]
  by (simp add: note_access_def Let_def) (simp add: sys_ok_def mmu_sync_def)

lemma ok_mmu_io:
  assumes "sys_ok s" and "mmu_good (m, io)" and "mmu_regs m = mmu_regs (s_mmu s)"
  shows "sys_ok (s\<lparr>s_mmu := m, s_io := io\<rparr>)"
  using assms mmu_regs_enabled [OF assms(3)] by (simp add: sys_ok_def mmu_sync_def)

lemma ok_access:
  "LOAD8 a s = Some (v, s') \<Longrightarrow> sys_ok s \<Longrightarrow> sys_ok s'"
  "LOAD16 a s = Some (v, s') \<Longrightarrow> sys_ok s \<Longrightarrow> sys_ok s'"
  "LOAD32 a s = Some (v, s') \<Longrightarrow> sys_ok s \<Longrightarrow> sys_ok s'"
  "STORE8 a v8 s = Some s' \<Longrightarrow> sys_ok s \<Longrightarrow> sys_ok s'"
  "STORE16 a v16 s = Some s' \<Longrightarrow> sys_ok s \<Longrightarrow> sys_ok s'"
  "STORE32 a v s = Some s' \<Longrightarrow> sys_ok s \<Longrightarrow> sys_ok s'"
  by (unfold LOAD8_def LOAD16_def LOAD32_def STORE8_def STORE16_def STORE32_def)
    (erule bind_SomeE; clarsimp; rule ok_note_access, assumption,
      blast dest: sys_okD(1) load_good store_good, fastforce dest: access_frames)+

interpretation ok: sys_invariant sys_ok
proof unfold_locales
  fix s :: sys and f
  assume "cpu_set f" and "sys_ok s"
  then show "sys_ok (upd_cpu f s)"
    by (simp add: sys_ok_def upd_cpu_def mmu_sync_def cpu_set_frame)
next
  fix s :: sys and g m
  assume "mmu_set g" and "g (s_mmu s) = Some m" and "sys_ok s"
  then show "sys_ok (s\<lparr>s_mmu := m\<rparr>)"
    using mmu_set_enabled [of g "s_mmu s" m] mmu_set_coherent [of g "s_mmu s" m "s_io s"]
    by (simp add: sys_ok_def mmu_good_def mmu_sync_def)
next
  fix s :: sys and h
  assume "interp_set h" and "sys_ok s"
  then show "sys_ok (h s)" by (cases rule: interp_set.cases) (simp_all add: sys_ok_def)
next
  fix s :: sys and a p r m io
  assume t: "translateAddr a False True p 0 (s_mmu s, s_io s) = Some (r, (m, io))" and ok: "sys_ok s"
  have "mmu_good (m, io)"
    using mmu_step_good [OF mmu_step.translate [OF t] sys_okD(1) [OF ok]] by simp
  then show "sys_ok (s\<lparr>s_mmu := m, s_io := io\<rparr>)"
    using ok_mmu_io [OF ok] translateAddr_regs [OF t] by blast
next
  fix s :: sys and c m e srr1 dar dsisr
  assume "(c, m) = takeException e srr1 ((s_cpu s)\<lparr>c_dar := dar, c_dsisr := dsisr\<rparr>, s_mmu s)" and "sys_ok s"
  then show "sys_ok (s\<lparr>s_cpu := c, s_mmu := m\<rparr>)" by (auto intro!: ok_exception dest: sys_okD)
qed (auto intro: ok_access ok_WRITE_MSR)

subsection \<open>The address map and the instruction count\<close>

definition map_kept :: "io \<Rightarrow> sys \<Rightarrow> bool" where
  "map_kept io0 s \<longleftrightarrow> sys_ok s \<and> same_map io0 (s_io s)"

lemma access_same_map:
  assumes "sys_ok s"
  shows "LOAD32 a s = Some (v, s') \<Longrightarrow> same_map (s_io s) (s_io s')"
    and "STORE32 a w s = Some s' \<Longrightarrow> same_map (s_io s) (s_io s')"
  using load_good(2) [OF _ sys_okD(1) [OF assms]] store_good(1) [OF _ sys_okD(1) [OF assms]]
  by (auto simp: LOAD32_def STORE32_def note_access_def Let_def elim!: bind_SomeE)

interpretation amap: sys_invariant "map_kept io0" for io0
proof unfold_locales
  fix s :: sys and a p r m io
  assume t: "translateAddr a False True p 0 (s_mmu s, s_io s) = Some (r, (m, io))" and k: "map_kept io0 s"
  then have "same_map (s_io s) io"
    using mmu_step_good [OF mmu_step.translate [OF t] sys_okD(1)] by (simp add: map_kept_def)
  with t k show "map_kept io0 (s\<lparr>s_mmu := m, s_io := io\<rparr>)"
    by (auto simp: map_kept_def intro: ok.translate_step same_map_trans)
next
  fix s s' :: sys and a v
  assume "LOAD32 a s = Some (v, s')" and "map_kept io0 s"
  then show "map_kept io0 s'"
    using access_same_map(1) ok.load_step by (auto simp: map_kept_def intro: same_map_trans)
next
  fix s s' :: sys and a w
  assume "STORE32 a w s = Some s'" and "map_kept io0 s"
  then show "map_kept io0 s'"
    using access_same_map(2) ok.store_step by (auto simp: map_kept_def intro: same_map_trans)
next
  fix s :: sys and h
  assume "interp_set h" and "map_kept io0 s"
  then show "map_kept io0 (h s)"
    using ok.interp_step by (auto simp: map_kept_def elim!: interp_set.cases)
qed (auto simp: map_kept_def upd_cpu_def WRITE_MSR_def dest: ok.cpu_step ok.mmu_reg_step ok.exception_step ok.msr_step)

definition count_kept :: "u64 \<Rightarrow> sys \<Rightarrow> bool" where
  "count_kept n s \<longleftrightarrow> c_inst_count (s_cpu s) = n"

interpretation icount: sys_invariant "count_kept n" for n
  by unfold_locales
    (auto simp: count_kept_def upd_cpu_def cpu_set_frame takeException_eq WRITE_MSR_def LOAD32_def
      STORE32_def note_access_def Let_def elim!: interp_set.cases bind_SomeE)

end
