(* ===== verification/Run_Loop.thy ===== *)
theory Run_Loop
  imports Sys_Inv
begin

section \<open>Fetch, execute and the main loop\<close>

text \<open>
  \<open>PPCInterpreter::execute\<close> and the loop of \<open>main\<close> (\<open>main.cc\<close>, built without
  the JIT).  The decoder is generated from \<open>tools/PPC.csv\<close> by the build: it is the
  argument \<open>decode\<close>, which takes the instruction word to the effect of the \<open>op\_\<close>
  method that it calls.  What a decoder must satisfy for the loop to keep the invariant is
  \<open>decoder_keeps\<close>; calls to the hand-written methods satisfy it
  (\<open>exec_insn_keeps\<close> of theory Interp\_Inv).

  \<open>goto fetch\<close> is a recursion of a partial function.  \<open>main_loop\<close> is partial too:
  without an instruction limit the guest decides whether it ends.  \<open>platform_poll_periodic\<close>
  redraws the display; it aborts when the window is closed or the framebuffer is not in RAM.  The periodic
  \<open>dump\<close> only prints and is left out.
\<close>

definition fetch :: "sys \<Rightarrow> ((fault_t + u32) \<times> sys) option" where
  "fetch s =
     (let s = s\<lparr>s_pc := getPC s\<rparr>
      in do {
        (r, m, io) \<leftarrow> loadInst32 (s_pc s) (isPrivileged (s_cpu s)) (s_mmu s, s_io s);
        Some (r, s\<lparr>s_mmu := m, s_io := io\<rparr>) })"

partial_function (option) execute :: "(u32 \<Rightarrow> sys \<Rightarrow> sys option) \<Rightarrow> sys \<Rightarrow> sys option" where
  "execute decode s = do {
     (r, s) \<leftarrow> fetch s;
     case r of
       Inl fault \<Rightarrow> do { s \<leftarrow> sys_raiseMem True True (s_pc s) fault 0 s; execute decode s }
     | Inr inst \<Rightarrow> decode inst (s\<lparr>s_inst := inst\<rparr>) }"

definition deliver_pending :: "sys \<Rightarrow> sys" where
  "deliver_pending s =
     (if isIRQPending (s_cpu s) (io_irqFlag (s_io s)) then upd_cpu_mmu raiseIRQException s
      else if isDecrementerPending (s_cpu s) then upd_cpu_mmu raiseDECException s
      else s)"

definition check_limit :: "u32 \<Rightarrow> sys \<Rightarrow> sys" where
  "check_limit instr_limit s =
     (if instr_limit \<noteq> 0 \<and> c_inst_count (s_cpu s) > ucast instr_limit
      then s\<lparr>s_want_break := True\<rparr> else s)"

definition main_step :: "(u32 \<Rightarrow> sys \<Rightarrow> sys option) \<Rightarrow> u32 \<Rightarrow> sys \<Rightarrow> sys option" where
  "main_step decode instr_limit s = do {
     s \<leftarrow> execute decode s;
     let s = upd_cpu (CPUTick 1) s;
     let s = deliver_pending s;
     let s = check_limit instr_limit s;
     io \<leftarrow> platform_poll_periodic (c_inst_count (s_cpu s)) (s_io s);
     Some (s\<lparr>s_io := io\<rparr>) }"

partial_function (option) main_loop :: "(u32 \<Rightarrow> sys \<Rightarrow> sys option) \<Rightarrow> u32 \<Rightarrow> sys \<Rightarrow> sys option" where
  "main_loop decode instr_limit s =
     (if s_want_break s then Some s
      else do { s \<leftarrow> main_step decode instr_limit s; main_loop decode instr_limit s })"

text \<open>The loop with a bound on its rounds: \<open>None\<close> when the rounds run out, otherwise what
  the loop itself yields.\<close>

primrec main_fuel :: "nat \<Rightarrow> (u32 \<Rightarrow> sys \<Rightarrow> sys option) \<Rightarrow> u32 \<Rightarrow> sys \<Rightarrow> sys option option" where
  "main_fuel 0 decode l s = (if s_want_break s then Some (Some s) else None)"
| "main_fuel (Suc n) decode l s =
     (if s_want_break s then Some (Some s)
      else case main_step decode l s of None \<Rightarrow> Some None | Some s' \<Rightarrow> main_fuel n decode l s')"

subsection \<open>Fetching\<close>

lemma fetch_ok:
  assumes "fetch s = Some (r, s')" and "sys_ok s"
  shows "sys_ok s'" and "s_pc s' = getPC s" and "s_cpu s' = s_cpu s"
    and "same_map (s_io s) (s_io s')" and "r = Inl f \<Longrightarrow> fault_expected True f"
proof -
  obtain m io where l: "loadInst32 (getPC s) (isPrivileged (s_cpu s)) (s_mmu s, s_io s) = Some (r, (m, io))"
    and s': "s' = s\<lparr>s_pc := getPC s, s_mmu := m, s_io := io\<rparr>"
    using assms(1) by (auto simp: fetch_def Let_def elim!: bind_SomeE)
  have "sys_ok (s\<lparr>s_pc := getPC s\<rparr>)" using assms(2) by simp
  then show "sys_ok s'"
    using ok_mmu_io load_good(1) [OF l sys_okD(1) [OF assms(2)]] access_frames(1) [OF l] s' by simp
  show "s_pc s' = getPC s" "s_cpu s' = s_cpu s" by (simp_all add: s')
  show "same_map (s_io s) (s_io s')"
    using load_good(1) [OF l sys_okD(1) [OF assms(2)]] by (simp add: s')
  show "r = Inl f \<Longrightarrow> fault_expected True f" using access_frames(1) [OF l] by simp
qed

text \<open>With instruction translation off a fetch does not fault.\<close>

lemma fetch_real:
  assumes "fetch s = Some (r, s')" and "sys_ok s" and "\<not> bit (c_msr (s_cpu s)) 5"
  obtains inst where "r = Inr inst"
proof -
  obtain m io where l: "loadInst32 (getPC s) (isPrivileged (s_cpu s)) (s_mmu s, s_io s) = Some (r, (m, io))"
    using assms(1) by (auto simp: fetch_def Let_def elim!: bind_SomeE)
  have "\<not> enabled True (s_mmu s)"
    using sys_okD(2) [OF assms(2)] assms(3) by (simp add: mmu_sync_def enabled_def)
  then have "\<exists>pa. res = Inr pa"
    if "translateAddr a True True p x (s_mmu s, s_io s) = Some (res, t)" for a p x res t
    using real_mode_result [OF that sys_okD(4) [OF assms(2)]] by blast
  then show thesis using l that
    by (fastforce simp: loadInst32_def elim!: bind_SomeE)
qed

text \<open>Delivering the fault of a fetch always succeeds and turns translation off.\<close>

lemma raise_fetch_fault:
  assumes "fault_expected True f" and "sys_ok s"
  obtains s' where "sys_raiseMem True True a f 0 s = Some s'" and "sys_ok s'"
    and "\<not> bit (c_msr (s_cpu s')) 5" and "s_io s' = s_io s"
proof -
  obtain c m where r: "raiseMemException True True a f 0 (s_cpu s, s_mmu s) = Some (c, m)"
    using raiseMem_defined [OF assms(1), of True a 0 "(s_cpu s, s_mmu s)"] by auto
  then have s': "sys_raiseMem True True a f 0 s = Some (s\<lparr>s_cpu := c, s_mmu := m\<rparr>)"
    by (simp add: sys_raiseMem_def)
  obtain e v dar dsisr where "(c, m) = takeException e v ((s_cpu s)\<lparr>c_dar := dar, c_dsisr := dsisr\<rparr>, s_mmu s)"
    using r by (rule raiseMem_SomeD)
  then have "\<not> bit (c_msr c) 5" by (simp add: takeException_eq bit_simps MSR_IP_def)
  then show thesis
    using that [OF s'] keepsD [OF ok.keeps_raiseMem [OF assms(2)] s'] by simp
qed

text \<open>The retry in closed form: after one fault the next fetch succeeds.\<close>

lemma execute_fetched:
  "fetch s = Some (Inr inst, s') \<Longrightarrow> execute decode s = decode inst (s'\<lparr>s_inst := inst\<rparr>)"
  by (subst execute.simps) simp

lemma execute_aborts: "fetch s = None \<Longrightarrow> execute decode s = None"
  by (subst execute.simps) simp

lemma execute_faulted:
  assumes "fetch s = Some (Inl f, s1)" and "sys_ok s"
  obtains s2 where "sys_raiseMem True True (getPC s) f 0 s1 = Some s2"
    and "sys_ok s2" and "\<not> bit (c_msr (s_cpu s2)) 5" and "s_io s2 = s_io s1"
    and "execute decode s = execute decode s2"
    and "fetch s2 = None \<or> (\<exists>inst s3. fetch s2 = Some (Inr inst, s3))"
proof -
  note f = fetch_ok [OF assms]
  obtain s2 where s2: "sys_raiseMem True True (getPC s) f 0 s1 = Some s2" "sys_ok s2"
    "\<not> bit (c_msr (s_cpu s2)) 5" "s_io s2 = s_io s1"
    using raise_fetch_fault [OF f(5) f(1)] by blast
  have "execute decode s = execute decode s2"
    using assms(1) s2(1) f(2) by (subst execute.simps) simp
  moreover have "fetch s2 = None \<or> (\<exists>inst s3. fetch s2 = Some (Inr inst, s3))"
  proof (rule disjCI)
    assume "\<nexists>inst s3. fetch s2 = Some (Inr inst, s3)"
    then show "fetch s2 = None"
      using fetch_real [OF _ s2(2,3)] by (metis not_None_eq surj_pair)
  qed
  ultimately show thesis using s2 that by blast
qed

text \<open>Whatever \<open>execute\<close> does, it ends in one call of the decoder.\<close>

lemma execute_SomeD:
  assumes "execute decode s = Some s'" and "sys_ok s"
  obtains inst t where "decode inst (t\<lparr>s_inst := inst\<rparr>) = Some s'" and "sys_ok t"
    and "same_map (s_io s) (s_io t)" and "c_inst_count (s_cpu t) = c_inst_count (s_cpu s)"
    and "s_want_break t = s_want_break s"
proof -
  note found = that
  have once: thesis if "execute decode t = Some s'" "fetch t = Some (Inr inst, u)" "sys_ok t"
    "same_map (s_io s) (s_io t)" "c_inst_count (s_cpu t) = c_inst_count (s_cpu s)"
    "s_want_break t = s_want_break s" for t inst u
  proof -
    note f = fetch_ok [OF that(2,3)]
    have "s_want_break u = s_want_break t"
      using that(2) by (auto simp: fetch_def Let_def elim!: bind_SomeE)
    show thesis
    proof (rule found [of inst u])
      show "decode inst (u\<lparr>s_inst := inst\<rparr>) = Some s'"
        using that(1) execute_fetched [OF that(2), of decode] by simp
      show "same_map (s_io s) (s_io u)" using that(4) f(4) by (rule same_map_trans)
      show "c_inst_count (s_cpu u) = c_inst_count (s_cpu s)" using that(5) f(3) by simp
      show "s_want_break u = s_want_break s" using \<open>s_want_break u = _\<close> that(6) by simp
    qed (rule f(1))
  qed
  obtain r s1 where f1: "fetch s = Some (r, s1)"
    using assms(1) execute_aborts by (cases "fetch s") auto
  show thesis
  proof (cases r)
    case (Inr inst)
    show thesis
      by (rule once [OF assms(1) f1 [unfolded Inr] assms(2) same_map_refl [OF sys_okD(5) [OF assms(2)]]])
        (rule refl)+
  next
    case (Inl f)
    then have f1': "fetch s = Some (Inl f, s1)" using f1 by simp
    obtain s2 where s2: "sys_raiseMem True True (getPC s) f 0 s1 = Some s2" "sys_ok s2"
      "\<not> bit (c_msr (s_cpu s2)) 5" "s_io s2 = s_io s1" "execute decode s = execute decode s2"
      "fetch s2 = None \<or> (\<exists>inst s3. fetch s2 = Some (Inr inst, s3))"
      using f1' assms(2) by (rule execute_faulted)
    then obtain inst s3 where f2: "fetch s2 = Some (Inr inst, s3)"
      using assms(1) execute_aborts [of s2 decode] by auto
    note g = fetch_ok [OF f1' assms(2)]
    have "c_inst_count (s_cpu s2) = c_inst_count (s_cpu s)"
      using keepsD [OF icount.keeps_raiseMem s2(1)] g(3) by (simp add: count_kept_def)
    moreover have "s_want_break s2 = s_want_break s"
      using s2(1) f1' by (auto simp: fetch_def sys_raiseMem_def Let_def elim!: bind_SomeE)
    moreover have "execute decode s2 = Some s'" using assms(1) s2(5) by simp
    moreover have "same_map (s_io s) (s_io s2)" using g(4) s2(4) by simp
    ultimately show thesis using once [OF _ f2 s2(2)] by blast
  qed
qed

subsection \<open>One round keeps the invariant\<close>

text \<open>What is asked of the decoder: the calls it makes keep the invariant, the bus map and
  the instruction count.\<close>

definition decoder_keeps :: "(u32 \<Rightarrow> sys \<Rightarrow> sys option) \<Rightarrow> bool" where
  "decoder_keeps decode \<longleftrightarrow> (\<forall>inst s s'. decode inst s = Some s' \<longrightarrow> sys_ok s \<longrightarrow>
     sys_ok s' \<and> same_map (s_io s) (s_io s') \<and> c_inst_count (s_cpu s') = c_inst_count (s_cpu s))"

lemma decoder_keepsD:
  assumes "decoder_keeps decode" and "decode inst s = Some s'" and "sys_ok s"
  shows "sys_ok s'" and "same_map (s_io s) (s_io s')" and "c_inst_count (s_cpu s') = c_inst_count (s_cpu s)"
  using assms unfolding decoder_keeps_def by blast+

lemma decoder_keeps_exec: "decoder_keeps (\<lambda>i. exec_insn (f i))"
  unfolding decoder_keeps_def
proof (intro allI impI)
  fix inst s s'
  assume e: "exec_insn (f inst) s = Some s'" and ok: "sys_ok s"
  have "map_kept (s_io s) s" using ok sys_okD(5) [OF ok] by (simp add: map_kept_def same_map_refl)
  from keepsD [OF amap.exec_insn_keeps [OF this] e]
    keepsD [OF icount.exec_insn_keeps [of "c_inst_count (s_cpu s)"] e]
  show "sys_ok s' \<and> same_map (s_io s) (s_io s') \<and> c_inst_count (s_cpu s') = c_inst_count (s_cpu s)"
    by (simp add: map_kept_def count_kept_def)
qed

lemma CPUTick_ok [simp]: "sys_ok (upd_cpu (CPUTick n) s) = sys_ok s"
  by (simp add: sys_ok_def upd_cpu_def mmu_sync_def)

lemma upd_exception_frame:
  "s_io (upd_cpu_mmu f s) = s_io s" "s_want_break (upd_cpu_mmu f s) = s_want_break s"
  "c_inst_count (s_cpu (upd_cpu_mmu raiseIRQException s)) = c_inst_count (s_cpu s)"
  "c_inst_count (s_cpu (upd_cpu_mmu raiseDECException s)) = c_inst_count (s_cpu s)"
  by (simp_all add: upd_cpu_mmu_def raise_defs takeException_eq case_prod_beta)

lemma deliver_pending_ok:
  assumes "sys_ok s"
  shows "sys_ok (deliver_pending s)" and "s_io (deliver_pending s) = s_io s"
    and "c_inst_count (s_cpu (deliver_pending s)) = c_inst_count (s_cpu s)"
    and "s_want_break (deliver_pending s) = s_want_break s"
proof -
  show "sys_ok (deliver_pending s)"
    unfolding deliver_pending_def by (intro inv_if [where I = sys_ok] ok.inv_raise(1,2) assms)
qed (simp_all add: deliver_pending_def upd_exception_frame)

lemma check_limit_ok [simp]:
  "sys_ok (check_limit l s) = sys_ok s" "s_io (check_limit l s) = s_io s"
  "s_cpu (check_limit l s) = s_cpu s"
  by (simp_all add: check_limit_def)

text \<open>What keeps the address map keeps the invariant.\<close>

lemma sys_ok_same_map:
  assumes "same_map (s_io s) io" and "sys_ok s"
  shows "sys_ok (s\<lparr>s_io := io\<rparr>)"
  using assms by (auto simp: sys_ok_def mmu_good_def coherent_same_map intro: same_map_ok)

lemma main_step_SomeD:
  assumes "main_step decode l s = Some s'" and "decoder_keeps decode" and "sys_ok s"
  shows "sys_ok s'" and "same_map (s_io s) (s_io s')"
    and "c_inst_count (s_cpu s') = c_inst_count (s_cpu s) + 1"
    and "l \<noteq> 0 \<Longrightarrow> c_inst_count (s_cpu s') > ucast l \<Longrightarrow> s_want_break s'"
proof -
  obtain t io s1 where e: "execute decode s = Some t"
    and s1: "s1 = check_limit l (deliver_pending (upd_cpu (CPUTick 1) t))"
    and poll: "platform_poll_periodic (c_inst_count (s_cpu s1)) (s_io s1) = Some io"
    and s': "s' = s1\<lparr>s_io := io\<rparr>"
    using assms(1) by (auto simp: main_step_def Let_def elim!: bind_SomeE)
  obtain inst u where d: "decode inst (u\<lparr>s_inst := inst\<rparr>) = Some t" "sys_ok u"
    "same_map (s_io s) (s_io u)" "c_inst_count (s_cpu u) = c_inst_count (s_cpu s)"
    using e assms(3) by (rule execute_SomeD)
  have u: "sys_ok (u\<lparr>s_inst := inst\<rparr>)" using d(2) by simp
  note k = decoder_keepsD [OF assms(2) d(1) u]
  then have ok: "sys_ok (upd_cpu (CPUTick 1) t)" by simp
  note p = deliver_pending_ok [OF ok]
  have count: "c_inst_count (CPUTick 1 c) = c_inst_count c + 1" for c
    by (simp add: CPUTick_def Let_def)
  have ok1: "sys_ok s1" using p(1) by (simp add: s1)
  have map1: "same_map (s_io s) (s_io s1)"
    using k(2) d(3) p(2) by (auto simp: s1 upd_cpu_def intro: same_map_trans)
  have io: "same_map (s_io s1) io" using poll sys_okD(5) [OF ok1] by (rule poll_same_map)
  show "sys_ok s'" unfolding s' using io ok1 by (rule sys_ok_same_map)
  show "same_map (s_io s) (s_io s')" using map1 io by (auto simp: s' intro: same_map_trans)
  show c: "c_inst_count (s_cpu s') = c_inst_count (s_cpu s) + 1"
    using k(3) d(4) p(3) by (simp add: s' s1 upd_cpu_def count)
  show "l \<noteq> 0 \<Longrightarrow> c_inst_count (s_cpu s') > ucast l \<Longrightarrow> s_want_break s'"
    by (simp add: s' s1 check_limit_def split: if_splits)
qed

subsection \<open>The loop\<close>

lemma main_fuel_loop: "main_fuel n decode l s = Some r \<Longrightarrow> main_loop decode l s = r"
proof (induction n arbitrary: s)
  case 0
  then show ?case by (subst main_loop.simps) (simp split: if_splits)
next
  case (Suc n)
  then show ?case
    by (subst main_loop.simps) (auto split: if_splits option.splits)
qed

text \<open>With a limit the rounds run out only after the count has passed it.\<close>

lemma main_fuel_enough:
  assumes "decoder_keeps decode" and "l \<noteq> 0"
  shows "sys_ok s \<Longrightarrow> unat (c_inst_count (s_cpu s)) + n > unat l \<Longrightarrow>
    unat (c_inst_count (s_cpu s)) \<le> unat l \<Longrightarrow> main_fuel n decode l s \<noteq> None"
proof (induction n arbitrary: s)
  case (Suc n)
  show ?case
  proof (cases "s_want_break s \<or> main_step decode l s = None")
    case False
    then obtain s' where st: "main_step decode l s = Some s'" by auto
    note k = main_step_SomeD [OF st assms(1) Suc.prems(1)]
    have small: "unat l < 2 ^ 32" using unsigned_less [of l] by simp
    then have l: "unat (ucast l :: u64) = unat l"
      by (simp add: unsigned_ucast_eq take_bit_nat_eq_self)
    from small have count: "unat (c_inst_count (s_cpu s')) = unat (c_inst_count (s_cpu s)) + 1"
      using Suc.prems(3) k(3) by (simp add: unat_word_ariths)
    show ?thesis
    proof (cases "unat (c_inst_count (s_cpu s')) \<le> unat l")
      case True
      with Suc.IH [OF k(1)] count Suc.prems(2) have "main_fuel n decode l s' \<noteq> None" by simp
      with False st show ?thesis by simp
    next
      case over: False
      then have "s_want_break s'" using k(4) assms(2) l by (simp add: word_less_nat_alt)
      with False st show ?thesis by (cases n) simp_all
    qed
  qed auto
qed simp

end
