(* ===== verification/Access_Props.thy ===== *)
theory Access_Props
  imports MMU_Access
begin

section \<open>Properties of loads and stores\<close>

text \<open>
  A store followed by a load returns the stored value, most significant byte first in
  memory; the host pointers cached in the uTLB are those of the RAM device, so an access
  that bypasses the bus reads what the bus would; and a misaligned store that faults has
  written memory all the same.
\<close>

subsection \<open>Page arithmetic on host addresses\<close>

lemma take_bit_word_add:
  fixes x y :: "'a::len word"
  assumes "n \<le> LENGTH('a)"
  shows "take_bit n (x + y) = take_bit n (take_bit n x + take_bit n y)"
proof (rule word_uint_eqI)
  have "take_bit n (uint (u + w)) = take_bit n (uint u + uint w)" for u w :: "'a word"
    using assms by (simp add: take_bit_eq_mod uint_word_ariths mod_mod_cancel le_imp_power_dvd)
  then show "uint (take_bit n (x + y)) = uint (take_bit n (take_bit n x + take_bit n y))"
    by (simp add: unsigned_take_bit_eq take_bit_add)
qed

lemma take_bit_word_diff:
  fixes x y :: "'a::len word"
  assumes "n \<le> LENGTH('a)" and "take_bit n y = 0"
  shows "take_bit n (x - y) = take_bit n x"
proof -
  have "take_bit n x = take_bit n (take_bit n (x - y) + take_bit n y)"
    using take_bit_word_add [OF assms(1), of "x - y" y] by simp
  with assms(2) show ?thesis by simp
qed

lemma page_take: "x = page_of x + take_bit 12 x"
proof -
  have "page_of x AND take_bit 12 x = 0"
    by (rule bit_word_eqI) (auto simp: page_of_def bit_simps)
  then have "page_of x + take_bit 12 x = page_of x OR take_bit 12 x"
    by (simp add: disjunctive_add_eq_or)
  also have "\<dots> = x" by (rule bit_word_eqI) (auto simp: page_of_def bit_simps)
  finally show ?thesis by simp
qed

lemma page_of_add:
  assumes "take_bit 12 x = 0"
  shows "page_of (x + y) = x + page_of y"
proof -
  have t: "take_bit 12 (x + y) = take_bit 12 y"
    using assms take_bit_word_add [of 12 x y] by simp
  have "page_of (x + y) = x + y - take_bit 12 (x + y)"
    using page_take [of "x + y"] by (metis add_diff_cancel)
  also have "\<dots> = x + (y - take_bit 12 y)" unfolding t by simp
  also have "y - take_bit 12 y = page_of y"
    using page_take [of y] by (metis add_diff_cancel)
  finally show ?thesis .
qed

lemma page_of_or: "page_of x OR take_bit 12 y = page_of x + take_bit 12 y"
proof -
  have "page_of x AND take_bit 12 y = 0"
    by (rule bit_word_eqI) (auto simp: page_of_def bit_simps)
  then show ?thesis by (simp add: disjunctive_add_eq_or)
qed

lemma offset_take: "ucast (a :: u32) AND 0xfff = (take_bit 12 (ucast a) :: u64)"
  by (rule bit_word_eqI) (auto simp: bit_simps)

lemma page32_take: "a = page a + take_bit 12 a"
proof -
  have "page a AND take_bit 12 a = 0" by (rule bit_word_eqI) (auto simp: bit_page bit_simps)
  then have "page a + take_bit 12 a = page a OR take_bit 12 a" by (simp add: disjunctive_add_eq_or)
  also have "\<dots> = a" by (rule bit_word_eqI) (auto simp: bit_page bit_simps)
  finally show ?thesis by simp
qed

text \<open>The cached host page of a RAM whose mapping and window are page-aligned, with the offset
  of the access, is the host address of the access.\<close>

lemma page_host:
  assumes host: "take_bit 12 (r_mmap_base d) = 0" and base: "take_bit 12 (r_base_address d) = 0"
    and pg: "page b = page a"
  shows "page_of (ram_direct_map d b) OR (ucast a AND 0xfff) = ram_direct_map d a"
proof -
  let ?x = "b - r_base_address d" and ?y = "a - r_base_address d"
  have tk: "take_bit 12 (c - r_base_address d) = take_bit 12 c" for c
    using base by (intro take_bit_word_diff) simp_all
  have pd: "page c - r_base_address d = page (c - r_base_address d)" for c
  proof -
    have c: "page c = c - take_bit 12 c" using page32_take [of c] by (metis add_diff_cancel)
    have "page (c - r_base_address d) = c - r_base_address d - take_bit 12 (c - r_base_address d)"
      using page32_take [of "c - r_base_address d"] by (metis add_diff_cancel)
    also have "\<dots> = page c - r_base_address d" unfolding tk c by simp
    finally show ?thesis by simp
  qed
  have "page ?x = page ?y" using pd [of b] pd [of a] pg by simp
  moreover have "page_of (ucast z) = ucast (page z)" for z :: u32
    by (rule bit_word_eqI) (auto simp: page_of_def bit_page bit_simps)
  ultimately have same: "page_of (ucast ?x) = (page_of (ucast ?y) :: u64)" by simp
  have "take_bit 12 (ucast a :: u64) = take_bit 12 (ucast ?y)"
  proof -
    have "take_bit 12 (ucast z :: u64) = ucast (take_bit 12 z)" for z :: u32
      by (rule bit_word_eqI) (auto simp: bit_simps)
    then show ?thesis by (simp only: tk)
  qed
  then have "page_of (ram_direct_map d b) OR (ucast a AND 0xfff) =
      r_mmap_base d + page_of (ucast ?x) + take_bit 12 (ucast ?y)"
    unfolding offset_take page_of_or
    by (simp only: ram_direct_map_def offset_from_PA_def page_of_add [OF host])
  also have "\<dots> = r_mmap_base d + ucast ?y"
    unfolding same using page_take [of "ucast ?y"] by (simp add: add.assoc)
  finally show ?thesis by (simp add: ram_direct_map_def offset_from_PA_def)
qed

lemma resolve_RAM:
  assumes "ram_at io a d" and "io_ok io"
  shows "resolve a io = Some (ram_direct_map d a)"
  using ram_get_direct_map [of io a d] assms
  by (auto simp: resolve_def io_ok_def)

subsection \<open>Properties\<close>

text \<open>C10: Memory is big-endian and stores are read back. After a store of a word that did not
  fault, to memory that is mapped directly, a load of the word at the same address returns it,
  a load of the byte there returns its most significant byte, and neither changes anything.\<close>

theorem store_load:
  assumes st: "store32 a v priv s = Some (Inr (), s')"
    and good: "mmu_good s"
    and direct: "utlbLookup False priv a (fst s') = Some (pa, p)" "IS_DIRECT pa"
  shows "load32 a priv s' = Some (Inr v, s') \<and>
    load8 a priv s' = Some (Inr (ucast (drop_bit 24 v)), s')"
proof -
  obtain r m io where t: "translateAddr a False False priv 0 s = Some (r, (m, io))"
    and rest: "(case r of Inl f \<Rightarrow> Some (Inl f, (m, io))
     | Inr pa \<Rightarrow> do {
         io \<leftarrow> (if IS_DIRECT pa then Some (io\<lparr>io_hmem := hstore32 pa (BS32 v) (io_hmem io)\<rparr>)
               else bus_write32 (ucast pa) (BS32 v) io);
         Some (if crosses8_32 pa then Inl FAULT_ALIGN else Inr (), (m, io)) }) = Some (Inr (), s')"
    using st by (auto simp: store32_def elim!: bind_SomeE)
  obtain pa0 where r: "r = Inr pa0" using rest by (cases r) auto
  have m: "fst s' = m" using rest r by (auto elim!: bind_SomeE)
  obtain p0 where l: "utlbLookup False priv a m = Some (pa0, p0)" "checkPerms p0 False False"
    using t unfolding r by (rule granted) auto
  have pa: "pa0 = pa" "p0 = p" using l(1) direct(1) m by simp_all
  have s': "s' = (m, io\<lparr>io_hmem := hstore32 pa (BS32 v) (io_hmem io)\<rparr>)" and al: "\<not> crosses8_32 pa"
    using rest direct(2) unfolding r pa by (auto split: if_splits)
  have "mmu_good (m, io)" using translateAddr_good(1) [OF t good] .
  then have "perm_r p" using lookup_readable l unfolding pa mmu_good_def by (auto simp: checkPerms_def)
  then have tr: "translateAddr a False True priv 0 s' = Some (Inr pa, s')"
    using l(1) unfolding pa s' by (simp add: translateAddr_def checkPerms_def)
  show ?thesis
    using tr direct(2) al unfolding s' by (simp add: load32_def load8_def hload8_def hstore32_BS32(1))
qed

text \<open>With translation off, a load goes to RAM. For a page of a RAM device whose window
  and host mapping are page-aligned, the word loaded (past the bus, by the host pointer in the
  uTLB) is the device's own word in big-endian order, memory is unchanged, and the only fault
  is an access across an eight-byte boundary.\<close>

theorem real_load_RAM:
  assumes ld: "load32 a priv (m, io) = Some (res, s')"
    and good: "mmu_good (m, io)" and off: "\<not> enabled False m"
    and ram: "\<forall>b. page b = page a \<longrightarrow> ram_at io b d"
    and al: "take_bit 12 (r_mmap_base d) = 0" "take_bit 12 (r_base_address d) = 0"
    and direct: "IS_DIRECT (ram_direct_map d a)"
  shows "res = (if crosses8_32 (ram_direct_map d a) then Inl FAULT_ALIGN
                else Inr (BS32 (ram_read32 d a (io_hmem io)))) \<and> io_hmem (snd s') = io_hmem io"
proof -
  obtain r m1 io1 where t: "translateAddr a False True priv 0 (m, io) = Some (r, (m1, io1))"
    and rest: "(case r of Inl f \<Rightarrow> Some (Inl f, (m1, io1))
     | Inr pa \<Rightarrow> do {
         (v, io) \<leftarrow> (if IS_DIRECT pa then Some (hload32 (io_hmem io1) pa, io1) else bus_read32 (ucast pa) io1);
         Some (if crosses8_32 pa then Inl FAULT_ALIGN else Inr (BS32 v), (m1, io)) }) = Some (res, s')"
    using ld by (auto simp: load32_def elim!: bind_SomeE)
  have coh: "coherent m io" and ok: "io_ok io" using good by (simp_all add: mmu_good_def)
  obtain b h where b: "page b = page a" "resolve b io = Some h"
    and r: "r = Inr (page_of h OR (ucast a AND 0xfff))"
    using real_mode_result [OF t coh off] by blast
  have "h = ram_direct_map d b" using resolve_RAM [of io b d] ram b ok by simp
  then have "r = Inr (ram_direct_map d a)" using r page_host [OF al b(1)] by simp
  moreover have "io_hmem io1 = io_hmem io" using real_mode_memory [OF t off] by simp
  ultimately show ?thesis using rest direct by (auto simp: ram_direct_read)
qed

text \<open>An alignment fault comes too late. A word store whose address is granted and
  directly mapped, and which crosses an eight-byte boundary, reports \<open>FAULT_ALIGN\<close>
  but has already written the four bytes.\<close>

lemma store_align_writes:
  assumes "translateAddr a False False priv 0 s = Some (Inr pa, (m, io))"
    and "IS_DIRECT pa" and "4 < uint pa mod 8"
  shows "\<exists>s'. store32 a v priv s = Some (Inl FAULT_ALIGN, s') \<and>
    BS32 (hload32 (io_hmem (snd s')) pa) = v"
  using assms by (simp add: store32_def crosses8_32_iff)

subsection \<open>Witnesses\<close>

lemma demo_aligned:
  "take_bit 12 (r_mmap_base demo_ram) = 0" "take_bit 12 (r_base_address demo_ram) = 0"
  by (simp_all add: demo_ram_def)

lemma demo_host: "ram_direct_map demo_ram a = 0x10000000 + ucast a"
  by (simp add: ram_direct_map_def offset_from_PA_def demo_ram_def)

lemma demo_translate_pa:
  assumes "a < 0x10000"
  obtains m' where "translateAddr a InD RnW priv 0 (demo_mmu, demo_io mem) =
      Some (Inr (ram_direct_map demo_ram a), (m', demo_io mem))"
proof -
  obtain m' where w: "translateEA a InD RnW priv 0 (demo_mmu, demo_io mem) =
      Some (Inr (a, PPCMMU_PERMS_ANY), (m', demo_io mem))"
    using assms by (rule demo_walk)
  obtain res where d: "do_lookup a InD RnW priv 0 (demo_mmu, demo_io mem) = Some (res, (m', demo_io mem))"
    using do_lookup_unfold [OF w] by auto
  obtain h where h: "resolve a (demo_io mem) = Some h" "res = Inr (page_of h OR (ucast a AND 0xfff))"
    using d demo_enabled by (rule walk_real)
  have "h = ram_direct_map demo_ram a"
    using h(1) resolve_RAM [OF demo_ram_at [OF assms] demo_io_ok] by simp
  then have res: "res = Inr (ram_direct_map demo_ram a)"
    using h(2) page_host [OF demo_aligned refl, of a] by simp
  have "utlbLookup InD priv a demo_mmu = None" by (rule utlb_empty_lookup [OF demo_empty])
  then have "translateAddr a InD RnW priv 0 (demo_mmu, demo_io mem) =
      Some (Inr (ram_direct_map demo_ram a), (m', demo_io mem))"
    using d by (simp add: translateAddr_def res)
  then show thesis by (rule that)
qed

lemma demo_direct: "IS_DIRECT (ram_direct_map demo_ram 0x1234)" "IS_DIRECT (ram_direct_map demo_ram 0x1235)"
  by (simp_all add: demo_host IS_DIRECT_def PPCMMU_HVA_IO_BIT_def B_def)

theorem store_load_witness:
  "\<exists>s'. store32 0x1234 0xdeadbeef True (demo_mmu, demo_io (\<lambda>_. 0)) = Some (Inr (), s') \<and>
    load32 0x1234 True s' = Some (Inr 0xdeadbeef, s') \<and>
    load8 0x1234 True s' = Some (Inr 0xde, s')"
proof -
  have "(0x1234 :: u32) < 0x10000" by simp
  then obtain m' where t: "translateAddr 0x1234 False False True 0 (demo_mmu, demo_io (\<lambda>_. 0)) =
      Some (Inr (ram_direct_map demo_ram 0x1234), (m', demo_io (\<lambda>_. 0)))"
    by (rule demo_translate_pa)
  obtain p where p: "utlbLookup False True 0x1234 m' = Some (ram_direct_map demo_ram 0x1234, p)"
    using t by (rule granted) auto
  have al: "\<not> crosses8_32 (ram_direct_map demo_ram 0x1234)"
    by (simp add: crosses8_32_def demo_host)
  obtain s' where st: "store32 0x1234 0xdeadbeef True (demo_mmu, demo_io (\<lambda>_. 0)) = Some (Inr (), s')"
    and m: "fst s' = m'"
    using t al demo_direct(1) by (simp add: store32_def)
  have "utlbLookup False True 0x1234 (fst s') = Some (ram_direct_map demo_ram 0x1234, p)"
    using p m by simp
  from st store_load [OF st demo_good this demo_direct(1)] show ?thesis by simp
qed

theorem real_load_RAM_witness:
  "\<exists>s'. load32 0x1234 True (demo_mmu, demo_io (\<lambda>_. 7)) = Some (Inr 0x07070707, s')"
proof -
  have "(0x1234 :: u32) < 0x10000" by simp
  then obtain m' where t: "translateAddr 0x1234 False True True 0 (demo_mmu, demo_io (\<lambda>_. 7)) =
      Some (Inr (ram_direct_map demo_ram 0x1234), (m', demo_io (\<lambda>_. 7)))"
    by (rule demo_translate_pa)
  obtain res s' where ld: "load32 0x1234 True (demo_mmu, demo_io (\<lambda>_. 7)) = Some (res, s')"
    using t demo_direct(1) by (simp add: load32_def)
  have ram: "\<forall>b. page b = page 0x1234 \<longrightarrow> ram_at (demo_io (\<lambda>_. 7)) b demo_ram"
  proof (intro allI impI)
    fix b assume "page b = page 0x1234"
    then have "drop_bit 12 b = drop_bit 12 0x1234"
      by (simp only: page_eq_iff drop_bit_eq_iff)
    then have "uint (drop_bit 12 b) = uint (1 :: u32)" by simp
    then have "uint b div 4096 = 1" by (simp add: drop_bit_eq_div uint_div)
    then have "b < 0x10000" by (simp add: word_less_def)
    then show "ram_at (demo_io (\<lambda>_. 7)) b demo_ram" by (rule demo_ram_at)
  qed
  have "BS32 (ram_read32 demo_ram 0x1234 (\<lambda>_. 7)) = 0x07070707" "\<not> crosses8_32 (ram_direct_map demo_ram 0x1234)"
    by (simp_all add: ram_read32_def hload32_def BS32_def BSWAP32_def crosses8_32_def demo_host)
  with real_load_RAM [OF ld demo_good demo_enabled ram demo_aligned demo_direct(1)] ld
  show ?thesis by (auto simp: demo_devs)
qed

lemma store_align_writes_witness:
  "\<exists>s'. store32 0x1235 0xdeadbeef True (demo_mmu, demo_io (\<lambda>_. 0)) = Some (Inl FAULT_ALIGN, s') \<and>
    BS32 (hload32 (io_hmem (snd s')) 0x10001235) = 0xdeadbeef"
proof -
  have "(0x1235 :: u32) < 0x10000" by simp
  then obtain m' where t: "translateAddr 0x1235 False False True 0 (demo_mmu, demo_io (\<lambda>_. 0)) =
      Some (Inr (ram_direct_map demo_ram 0x1235), (m', demo_io (\<lambda>_. 0)))"
    by (rule demo_translate_pa)
  have "4 < uint (ram_direct_map demo_ram 0x1235) mod 8" by (simp add: demo_host)
  from store_align_writes [OF t demo_direct(2) this] show ?thesis by (simp add: demo_host)
qed

end
