(* ===== verification/Interp_Props.thy ===== *)
theory Interp_Props
  imports Run_Loop Access_Props
begin

section \<open>Properties of the instructions\<close>

text \<open>
  What the hand-written instructions compute, on words and on the integers they stand
  for, and what exceptions, \<open>rfi\<close> and reservations leave behind.
\<close>

abbreviation gpr :: "sys \<Rightarrow> nat \<Rightarrow> u32" where
  "gpr s r \<equiv> c_gprs (s_cpu s) r"

subsection \<open>A state for the witnesses\<close>

definition zero_cpu :: cpu where
  "zero_cpu = PPCCPUState_init \<lparr>c_gprs = (\<lambda>_. 0), c_pc = 0, c_ctr = 0, c_lr = 0, c_xer = 0, c_cr = 0,
     c_msr = 0, c_sprg0 = 0, c_sprg1 = 0, c_sprg2 = 0, c_sprg3 = 0, c_srr0 = 0, c_srr1 = 0,
     c_dar = 0, c_dsisr = 0, c_dec = 0, c_sdr1 = 0, c_hid0 = 0, c_hid1 = 0, c_pir = 0, c_tb = 0,
     c_inst_count = 0\<rparr>"

definition demo_sys :: "hmem \<Rightarrow> sys" where
  "demo_sys mem = \<lparr>s_cpu = zero_cpu, s_mmu = demo_mmu, s_io = demo_io mem, s_pc = 0, s_inst = 0,
     s_want_break = False, s_mem_access_fault = FAULT_NONE, s_mem_access_addr = 0,
     s_exc_generation_count = 0, s_reservation_address = 0, s_reservation_gencount = 0,
     s_stdout = []\<rparr>"

lemma demo_cpu [simp]:
  "gpr (demo_sys mem) r = 0" "c_msr (s_cpu (demo_sys mem)) = 0" "c_pc (s_cpu (demo_sys mem)) = 0"
  "s_mmu (demo_sys mem) = demo_mmu" "s_io (demo_sys mem) = demo_io mem"
  "c_xer (s_cpu (demo_sys mem)) = 0" "c_inst_count (s_cpu (demo_sys mem)) = 0"
  "s_want_break (demo_sys mem) = False"
  by (simp_all add: demo_sys_def zero_cpu_def PPCCPUState_init_def)

lemma demo_sys_ok: "sys_ok (demo_sys mem)"
  using demo_good [of mem] demo_enabled [of True] demo_enabled [of False]
  by (simp add: sys_ok_def mmu_sync_def xer_wf_def enabled_def)

subsection \<open>Reading the state after a helper\<close>

lemma READ_GPR_some [simp]: "r < 32 \<Longrightarrow> READ_GPR s r = Some (gpr s r)"
  by (simp add: READ_GPR_def)

lemma READ_GPR_OZ_some [simp]: "r < 32 \<Longrightarrow> READ_GPR_OZ s r = Some (if r = 0 then 0 else gpr s r)"
  by (simp add: READ_GPR_OZ_def)

lemma WRITE_GPR_some [simp]:
  "r < 32 \<Longrightarrow> WRITE_GPR r v s = Some (upd_cpu (\<lambda>c. c\<lparr>c_gprs := (c_gprs c)(r := v)\<rparr>) s)"
  by (simp add: WRITE_GPR_def upd_cpu_def)

lemma upd_cpu_fields [simp]:
  "s_cpu (upd_cpu f s) = f (s_cpu s)" "s_mmu (upd_cpu f s) = s_mmu s" "s_io (upd_cpu f s) = s_io s"
  by (simp_all add: upd_cpu_def)

lemma helper_cpu [simp]:
  "s_cpu (incPC s) = (s_cpu s)\<lparr>c_pc := c_pc (s_cpu s) + 4\<rparr>"
  "s_cpu (setPC v s) = (s_cpu s)\<lparr>c_pc := v\<rparr>" "s_cpu (setLR v s) = (s_cpu s)\<lparr>c_lr := v\<rparr>"
  "s_cpu (WRITE_CR v s) = (s_cpu s)\<lparr>c_cr := v\<rparr>" "s_cpu (WRITE_CA b s) = setXER_CA b (s_cpu s)"
  "s_cpu (SET_SO_OV b s) = setXER_OV b (setXER_SO (b \<or> getXER_SO (s_cpu s) \<noteq> 0) (s_cpu s))"
  "s_cpu (SET_CR0 v s) = (s_cpu s)\<lparr>c_cr :=
     WRITE_CR_FIELD (c_cr (s_cpu s)) 0 (CMP v 0 (getXER_SO (s_cpu s)))\<rparr>"
  "s_mmu (incPC s) = s_mmu s" "s_io (incPC s) = s_io s"
  "s_mmu (WRITE_CR v s) = s_mmu s" "s_io (WRITE_CR v s) = s_io s"
  "s_exc_generation_count (incPC s) = s_exc_generation_count s"
  "s_exc_generation_count (WRITE_CR v s) = s_exc_generation_count s"
  by (simp_all add: upd_cpu_def incPC_def setPC_def getPC_def setLR_def WRITE_CR_def READ_CR_def WRITE_CA_def SET_SO_OV_def SET_CR0_def)

lemma xer_regs [simp]:
  "c_gprs (setXER_SO b c) = c_gprs c" "c_gprs (setXER_OV b c) = c_gprs c" "c_gprs (setXER_CA b c) = c_gprs c"
  "c_pc (setXER_SO b c) = c_pc c" "c_pc (setXER_OV b c) = c_pc c" "c_pc (setXER_CA b c) = c_pc c"
  "c_cr (setXER_SO b c) = c_cr c" "c_cr (setXER_OV b c) = c_cr c" "c_cr (setXER_CA b c) = c_cr c"
  by (simp_all add: setXER_SO_def setXER_OV_def setXER_CA_def)

lemma getXER_frame [simp]:
  "getXER_SO (c\<lparr>c_cr := v\<rparr>) = getXER_SO c" "getXER_OV (c\<lparr>c_cr := v\<rparr>) = getXER_OV c"
  "getXER_CA (c\<lparr>c_cr := v\<rparr>) = getXER_CA c"
  "getXER_SO (c\<lparr>c_pc := v\<rparr>) = getXER_SO c" "getXER_OV (c\<lparr>c_pc := v\<rparr>) = getXER_OV c"
  "getXER_CA (c\<lparr>c_pc := v\<rparr>) = getXER_CA c"
  "getXER_SO (c\<lparr>c_gprs := g\<rparr>) = getXER_SO c" "getXER_OV (c\<lparr>c_gprs := g\<rparr>) = getXER_OV c"
  "getXER_CA (c\<lparr>c_gprs := g\<rparr>) = getXER_CA c"
  by (simp_all add: getXER_SO_def getXER_OV_def getXER_CA_def)

lemma CR0_CMP:
  "READ_CR_FIELD (WRITE_CR_FIELD x 0 (CMP v 0 (getXER_SO c))) 0 = CMP v 0 (getXER_SO c)"
  "READ_CR_FIELD (WRITE_CR_FIELD x 0 (CMP v 0 1)) 0 = CMP v 0 1"
  by (rule READ_WRITE_CR_FIELD [THEN trans]; simp add: CMP_def getXER_SO_def)+

subsection \<open>Division\<close>

lemma sdiv_fits:
  fixes a b :: u32
  assumes "b \<noteq> 0" and "\<not> (a = 0x80000000 \<and> b = 0xffffffff)"
  shows "sint (word_of_int (sint a sdiv sint b) :: u32) = sint a sdiv sint b"
proof -
  have bounds: "- (2 ^ 31) \<le> sint a" "sint a < 2 ^ 31"
    using sint_ge [of a] sint_lt [of a] by simp_all
  have range: "- \<bar>sint a\<bar> \<le> sint a sdiv sint b" "sint a sdiv sint b \<le> \<bar>sint a\<bar>"
    using sdiv_int_range [of "sint a" "sint b"] by simp_all
  have "sint a sdiv sint b \<noteq> 2 ^ 31"
  proof
    assume q: "sint a sdiv sint b = 2 ^ 31"
    then have a: "sint a = - (2 ^ 31)" using range bounds by linarith
    then have "sint b = - 1" using q int_sdiv_negated_is_minus1 [of "sint a" "sint b"] by simp
    then have "b = - 1" by (metis sint_n1 signed_word_eqI)
    moreover have "a = - (2 ^ 31)"
    proof (rule signed_word_eqI)
      show "sint a = sint (- (2 ^ 31) :: u32)" using a by simp
    qed
    ultimately show False using assms(2) by simp
  qed
  then show ?thesis using range bounds by (simp add: sint_sbintrunc' signed_take_bit_int_eq_self)
qed

text \<open>C16: Signed division. Unless the divisor is zero or the quotient overflows,
  \<open>divw\<close> writes the quotient truncated towards zero; in those two cases it writes a
  saturated value.  OE sets OV to exactly those cases and SO stickily; Rc compares the
  result with zero in CR field 0; no other general register changes.\<close>

theorem divw_spec:
  assumes "RA < 32" and "RB < 32" and "RT < 32"
  defines "bad s \<equiv> gpr s RB = 0 \<or> gpr s RA = 0x80000000 \<and> gpr s RB = 0xffffffff"
  shows "\<exists>s'. op_divw RA RB RT Rc OE s = Some s' \<and>
    (\<not> bad s \<longrightarrow> sint (gpr s' RT) = sint (gpr s RA) sdiv sint (gpr s RB)) \<and>
    (bad s \<longrightarrow> gpr s' RT = (if gpr s RB = 0 \<and> sint (gpr s RA) < 0 then 0x80000000 else 0x7fffffff)) \<and>
    getXER_OV (s_cpu s') = (if OE then of_bool (bad s) else getXER_OV (s_cpu s)) \<and>
    getXER_SO (s_cpu s') = (if OE \<and> bad s then 1 else getXER_SO (s_cpu s)) \<and>
    (Rc \<longrightarrow> READ_CR_FIELD (c_cr (s_cpu s')) 0 = CMP (gpr s' RT) 0 (getXER_SO (s_cpu s'))) \<and>
    (\<forall>r. r \<noteq> RT \<longrightarrow> gpr s' r = gpr s r) \<and> c_pc (s_cpu s') = c_pc (s_cpu s) + 4"
proof -
  have neg: "x \<ge> 0x80000000 \<longleftrightarrow> sint x < 0" for x :: u32
    by (simp only: bit31_ge [symmetric] bit31_sint)
  have so: "of_bool (getXER_SO c \<noteq> 0) = getXER_SO c" for c by (simp add: getXER_SO_def)
  show ?thesis
    using assms(1-3) sdiv_fits [of "gpr s RB" "gpr s RA"]
    by (cases "bad s")
      (auto simp: op_divw_def bad_def Let_def neg CR0_CMP so READ_CR_def)
qed

theorem divw_spec_witness:
  "\<exists>s'. op_divw 1 2 3 True True (demo_sys (\<lambda>_. 0)) = Some s' \<and> getXER_OV (s_cpu s') = 1 \<and>
     gpr s' 3 = 0x7fffffff"
  using divw_spec [of 1 2 3 True True "demo_sys (\<lambda>_. 0)"] by auto

subsection \<open>Arithmetic shift\<close>

lemma sint_div_big:
  assumes "31 < n"
  shows "sint (x :: u32) div 2 ^ n = (if sint x < 0 then - 1 else 0)"
    and "sint x < 0 \<Longrightarrow> \<not> 2 ^ n dvd sint x"
proof -
  have p: "(2::int) ^ 32 \<le> 2 ^ n" using assms by (intro power_increasing) auto
  moreover have b: "- (2 ^ 31) \<le> sint x" "sint x < 2 ^ 31" using sint_ge [of x] sint_lt [of x] by simp_all
  ultimately show "sint x div 2 ^ n = (if sint x < 0 then - 1 else 0)"
    using int_div_pos_eq [of "sint x" "2 ^ n" "- 1" "sint x + 2 ^ n"] by auto
  show "\<not> 2 ^ n dvd sint x" if "sint x < 0"
    using p b that zdvd_imp_le [of "2 ^ n" "- sint x"] by auto
qed

lemma low_bits_dvd: "n \<le> 32 \<Longrightarrow> x AND (push_bit n 1 - 1) = 0 \<longleftrightarrow> 2 ^ n dvd sint x" for x :: u32
proof -
  assume n: "n \<le> 32"
  have "x AND (push_bit n 1 - 1) = take_bit n x" by (simp add: take_bit_eq_mask mask_eq_exp_minus_1 push_bit_of_1)
  then have "x AND (push_bit n 1 - 1) = 0 \<longleftrightarrow> uint x mod 2 ^ n = 0"
    by (metis take_bit_eq_mod uint_0_iff unsigned_take_bit_eq)
  also have "\<dots> \<longleftrightarrow> 2 ^ n dvd uint x" by (simp add: dvd_eq_mod_eq_0)
  also have "\<dots> \<longleftrightarrow> 2 ^ n dvd sint x"
  proof (cases "bit x 31")
    case True
    have "(2::int) ^ n dvd 2 ^ 32" using n by (rule le_imp_power_dvd)
    then show ?thesis using True by (simp add: sint_uint32 dvd_diff_left_iff dvd_diff_right_iff)
  qed (simp add: sint_uint32)
  finally show ?thesis .
qed

text \<open>C35: Arithmetic shift right. For every shift count from 0 to 63 \<open>sraw\<close> writes the
  floor of the signed operand divided by the power of two, and CA says whether a negative
  operand lost a one bit; so the result plus CA, what a following \<open>addze\<close> computes, is
  the quotient truncated towards zero.\<close>

theorem sraw_spec:
  assumes "RS < 32" and "RB < 32" and "RA < 32"
  defines "sh s \<equiv> unat (gpr s RB) mod 64"
  shows "\<exists>s'. op_sraw RS RB RA Rc s = Some s' \<and>
    sint (gpr s' RA) = sint (gpr s RS) div 2 ^ sh s \<and>
    getXER_CA (s_cpu s') = of_bool (sint (gpr s RS) < 0 \<and> \<not> 2 ^ sh s dvd sint (gpr s RS)) \<and>
    sint (gpr s' RA) + uint (getXER_CA (s_cpu s')) = sint (gpr s RS) sdiv 2 ^ sh s"
proof -
  let ?v = "gpr s RS"
  let ?n = "unat (gpr s RB AND 0x3f)"
  have "gpr s RB AND 0x3f = take_bit 6 (gpr s RB)"
    by (simp add: take_bit_eq_mask mask_eq_exp_minus_1)
  then have n: "?n = sh s" by (simp add: sh_def take_bit_eq_mod unat_mod)
  let ?res = "if ?n > 31 then signed_drop_bit 31 ?v else signed_drop_bit ?n ?v"
  let ?ca = "sint ?v < 0 \<and> \<not> 2 ^ sh s dvd sint ?v"
  have floor: "sint ?res = sint ?v div 2 ^ sh s"
    using sint_div_big [of "sh s" ?v] sint_div_big(1) [of 32 ?v] n
      sint_ge [of ?v] sint_lt [of ?v] int_div_pos_eq [of "sint ?v" "2 ^ 31" "- 1" "sint ?v + 2 ^ 31"]
    by (auto simp: sint_signed_drop_bit_eq drop_bit_eq_div)
  have sd: "sint ?v sdiv 2 ^ sh s = sint ?v div 2 ^ sh s + of_bool ?ca"
    by (auto simp: signed_divide_int_eq_divide_int sgn_if)
  have ca: "(if ?n > 31 then ?v AND 0x80000000 \<noteq> 0
      else ?v AND 0x80000000 \<noteq> 0 \<and> ?v AND (push_bit ?n 1 - 1) \<noteq> 0) = ?ca"
    using low_bits_dvd [of ?n ?v] sint_div_big(2) [of "sh s" ?v] n by (auto simp: msb32 bit31_sint)
  have pair: "(if ?n > 31 then (signed_drop_bit 31 ?v, ?v AND 0x80000000 \<noteq> 0)
      else (signed_drop_bit ?n ?v, ?v AND 0x80000000 \<noteq> 0 \<and> ?v AND (push_bit ?n 1 - 1) \<noteq> 0)) = (?res, ?ca)"
    using ca by (simp split: if_splits)
  let ?u = "WRITE_CA ?ca (upd_cpu (\<lambda>c. c\<lparr>c_gprs := (c_gprs c)(RA := ?res)\<rparr>) s)"
  have "op_sraw RS RB RA Rc s = Some (incPC (if Rc then SET_CR0 ?res ?u else ?u))"
    unfolding op_sraw_def Let_def READ_GPR_some [OF assms(1)] READ_GPR_some [OF assms(2)]
      WRITE_GPR_some [OF assms(3)] Option.bind.simps pair prod.case by (rule refl)
  moreover have "gpr (incPC (if Rc then SET_CR0 ?res ?u else ?u)) RA = ?res"
    "getXER_CA (s_cpu (incPC (if Rc then SET_CR0 ?res ?u else ?u))) = of_bool ?ca"
    by (simp_all only: helper_cpu upd_cpu_fields xer_flags getXER_frame xer_regs cpu.simps
        fun_upd_same split: if_split) simp_all
  ultimately obtain s' where "op_sraw RS RB RA Rc s = Some s'" and "gpr s' RA = ?res"
    and "getXER_CA (s_cpu s') = of_bool ?ca"
    by blast
  then show ?thesis using floor sd by auto
qed

theorem sraw_spec_witness:
  "\<exists>s'. op_sraw 1 2 3 True (demo_sys (\<lambda>_. 0)) = Some s' \<and> sint (gpr s' 3) = 0"
  using sraw_spec [of 1 2 3 True "demo_sys (\<lambda>_. 0)"] by auto

subsection \<open>Rotate and mask\<close>

text \<open>C36: Rotate and mask. Bit by bit in the architecture's numbering (0 is the most
  significant), \<open>rlwinm\<close> writes the source rotated left by SH under the mask from MB to
  ME, which wraps around when MB is greater than ME; \<open>rlwimi\<close> keeps the old bit of the
  target outside the mask.\<close>

theorem rlwinm_bits:
  assumes "RS < 32" and "RA < 32" and "SH < 32" and "MB < 32" and "ME < 32" and "n < 32"
  defines "inmask \<equiv> (if MB \<le> ME then MB \<le> n \<and> n \<le> ME else n \<le> ME \<or> MB \<le> n)"
  shows "(\<exists>s'. op_rlwinm RS SH MB ME RA Rc s = Some s' \<and>
      (bit (gpr s' RA) (31 - n) \<longleftrightarrow> inmask \<and> bit (gpr s RS) (31 - (n + SH) mod 32))) \<and>
    (\<exists>s'. op_rlwimi RA RS SH MB ME Rc s = Some s' \<and>
      (bit (gpr s' RA) (31 - n) \<longleftrightarrow>
        (if inmask then bit (gpr s RS) (31 - (n + SH) mod 32) else bit (gpr s RA) (31 - n))))"
proof -
  have m: "bit (mkmask MB ME) (31 - n) \<longleftrightarrow> inmask"
    using bit_mkmask [OF assms(4,5,6)] by (simp add: inmask_def)
  have idx: "(31 - n + 32 - SH) mod 32 = 31 - (n + SH) mod 32"
    using assms(3,6) by (cases "n + SH < 32") (auto simp: mod_if le_mod_geq)
  have r: "bit (ROTL32 v SH) (31 - n) \<longleftrightarrow> bit v (31 - (n + SH) mod 32)" for v
  proof -
    have "31 - n < LENGTH(32)" by simp
    with assms(3,6) idx show ?thesis by (simp only: ROTL32_rotl bit_word_rotl_iff) simp
  qed
  show ?thesis
    using assms(1,2,6) m r by (auto simp: op_rlwinm_def op_rlwimi_def Let_def bit_simps)
qed

theorem rlwinm_bits_witness:
  "\<exists>s'. op_rlwinm 1 8 24 7 2 False (demo_sys (\<lambda>_. 0)) = Some s' \<and> \<not> bit (gpr s' 2) 31"
  using rlwinm_bits [where RS = 1 and RA = 2 and SH = 8 and MB = 24 and ME = 7 and n = 0 and
      Rc = False and s = "demo_sys (\<lambda>_. 0)"] by auto

subsection \<open>Condition register\<close>

text \<open>\<open>mtcrf\<close> writes exactly the CR fields that its mask selects (bit 0 of FXM, the
  most significant, selects field 0) and leaves every other bit of CR alone.\<close>

theorem mtcrf_fields:
  assumes "RS < 32" and "field < 8"
  shows "\<exists>s'. op_mtcrf FXM RS s = Some s' \<and>
    READ_CR_FIELD (c_cr (s_cpu s')) field =
      (if bit FXM (7 - field) then READ_CR_FIELD (gpr s RS) field
       else READ_CR_FIELD (c_cr (s_cpu s)) field)"
proof -
  have fx: "FXM AND 0x80 \<noteq> 0 \<longleftrightarrow> bit FXM 7" "FXM AND 0x40 \<noteq> 0 \<longleftrightarrow> bit FXM 6"
    "FXM AND 0x20 \<noteq> 0 \<longleftrightarrow> bit FXM 5" "FXM AND 0x10 \<noteq> 0 \<longleftrightarrow> bit FXM 4"
    "FXM AND 0x08 \<noteq> 0 \<longleftrightarrow> bit FXM 3" "FXM AND 0x04 \<noteq> 0 \<longleftrightarrow> bit FXM 2"
    "FXM AND 0x02 \<noteq> 0 \<longleftrightarrow> bit FXM 1" "FXM AND 0x01 \<noteq> 0 \<longleftrightarrow> bit FXM 0"
    by (simp_all add: blast32)
  have "\<forall>n<32. bit (mtcrf_mask FXM) n \<longleftrightarrow> bit FXM (n div 4)"
    unfolding mtcrf_mask_def fx all_less_32 by (simp add: bit_simps)
  then have m: "bit (mtcrf_mask FXM) ((7 - field) * 4 + k) \<longleftrightarrow> bit FXM (7 - field)" if "k < 4" for k
    using that assms(2) by auto
  have "READ_CR_FIELD ((c AND NOT (mtcrf_mask FXM)) OR (v AND mtcrf_mask FXM)) field =
      (if bit FXM (7 - field) then READ_CR_FIELD v field else READ_CR_FIELD c field)" for c v
    using m by (intro bit_word_eqI) (auto simp: bit_READ_CR_FIELD bit_simps)
  then show ?thesis using assms(1) by (simp add: op_mtcrf_def Let_def READ_CR_def)
qed

theorem mtcrf_fields_witness:
  "\<exists>s'. op_mtcrf 0x80 1 (demo_sys (\<lambda>_. 0)) = Some s' \<and> READ_CR_FIELD (c_cr (s_cpu s')) 0 = 0"
  using mtcrf_fields [of 1 0 "0x80 :: u32" "demo_sys (\<lambda>_. 0)"] by (simp add: READ_CR_FIELD_def)

subsection \<open>Exceptions and return\<close>

text \<open>C12: An interrupt is undone by \<open>rfi\<close>. Delivering an external interrupt and then
  executing \<open>rfi\<close> gives back the whole machine state, the MMU's translation mode and
  every register included, but for three things: SRR0 and SRR1 hold the interrupted PC and
  MSR, the PC loses its two lowest bits, and the reservation generation has moved on, so a
  reservation taken before is lost.\<close>

theorem irq_rfi_roundtrip:
  assumes "sys_ok s"
  shows "op_rfi (upd_cpu_mmu raiseIRQException s) =
    Some (s\<lparr>s_cpu := (s_cpu s)\<lparr>c_pc := c_pc (s_cpu s) AND NOT 3, c_srr0 := c_pc (s_cpu s) AND NOT 3,
        c_srr1 := c_msr (s_cpu s)\<rparr>,
      s_exc_generation_count := s_exc_generation_count s + 1\<rparr>)"
proof -
  have m: "setIRDR (bit (c_msr (s_cpu s)) 5) (bit (c_msr (s_cpu s)) 4) (s_mmu s) = s_mmu s"
    using sys_okD(2) [OF assms] by (simp add: mmu_sync_def setIRDR_def)
  have twice: "setIRDR a b (setIRDR c d m) = setIRDR a b m" for a b c d m
    by (simp add: setIRDR_def)
  have m': "setIRDR (bit (c_msr (s_cpu s)) 5) (bit (c_msr (s_cpu s)) 4) (setIRDR c d (s_mmu s)) = s_mmu s" for c d
    by (simp only: twice m)
  show ?thesis
    by (simp add: op_rfi_def Let_def upd_cpu_mmu_def raiseIRQException_def takeException_eq
        blow_reservation_def setPC_def upd_cpu_def WRITE_MSR_def mask_simps m' and.assoc)
qed

theorem irq_rfi_roundtrip_witness:
  "op_rfi (upd_cpu_mmu raiseIRQException (demo_sys (\<lambda>_. 0))) \<noteq> None"
  using irq_rfi_roundtrip [OF demo_sys_ok, of "\<lambda>_. 0"] by simp

text \<open>C26: A faulting data access becomes an exception. When a word store faults, the rest of
  the instruction is not executed and delivering the exception cannot abort the simulator:
  DAR holds the address, SRR0 and SRR1 the address of the instruction and the MSR, the PC is the DSI or
  alignment vector, the machine is in supervisor real mode with interrupts off, and no
  general register has changed.\<close>

theorem store_fault_delivered:
  assumes "STORE32 a v s = Some t" and "s_mem_access_fault t \<noteq> FAULT_NONE"
  shows "\<exists>s'. MFCHECK False rest t = Some s' \<and> c_dar (s_cpu s') = a \<and>
    c_srr0 (s_cpu s') = c_pc (s_cpu s) AND NOT 3 \<and> c_srr1 (s_cpu s') = c_msr (s_cpu s) \<and>
    c_pc (s_cpu s') = (if bit (c_msr (s_cpu s)) 6 then 0xfff00000 else 0) +
      (if s_mem_access_fault t = FAULT_ALIGN then 0x600 else 0x300) \<and>
    c_msr (s_cpu s') = c_msr (s_cpu s) AND MSR_IP \<and> c_gprs (s_cpu s') = c_gprs (s_cpu s) \<and>
    \<not> m_enabled_i (s_mmu s') \<and> \<not> m_enabled_d (s_mmu s')"
proof -
  obtain r mi where st: "store32 a v (isPrivileged (s_cpu s)) (s_mmu s, s_io s) = Some (r, mi)"
    and t: "t = note_access a r mi s"
    using assms(1) by (auto simp: STORE32_def elim!: bind_SomeE)
  obtain f where r: "r = Inl f" using assms(2) by (cases r) (auto simp: t note_access_def Let_def)
  have f: "f = FAULT_NO_PAGE \<or> f = FAULT_PERMS \<or> f = FAULT_ALIGN"
    using access_frames(5) [OF st] r by (auto simp: fault_expected_def)
  have t': "s_mem_access_fault t = f" "s_mem_access_addr t = a" "s_cpu t = s_cpu s"
    using assms(2) by (auto simp: t r note_access_def Let_def)
  obtain c m where p: "(c, m) = (s_cpu s, s_mmu t)" by simp
  show ?thesis
    using f assms(2)
    by (elim disjE)
      (auto simp: MFCHECK_def sys_raiseMem_def raiseMemException_def t' takeException_eq Let_def setIRDR_def)
qed

lemma demo_cross_store:
  "\<exists>s'. store32 0x1235 v True (demo_mmu, demo_io mem) = Some (Inl FAULT_ALIGN, s')"
proof -
  have "(0x1235 :: u32) < 0x10000" by simp
  then obtain m' where "translateAddr 0x1235 False False True 0 (demo_mmu, demo_io mem) =
      Some (Inr (ram_direct_map demo_ram 0x1235), (m', demo_io mem))"
    by (rule demo_translate_pa)
  then show ?thesis using demo_direct(2) by (simp add: store32_def crosses8_32_def demo_host)
qed

lemma cross_store_demo:
  "\<exists>t. STORE32 0x1235 0xdeadbeef (demo_sys (\<lambda>_. 0)) = Some t \<and> s_mem_access_fault t = FAULT_ALIGN"
proof -
  obtain s' where "store32 0x1235 0xdeadbeef True (demo_mmu, demo_io (\<lambda>_. 0)) = Some (Inl FAULT_ALIGN, s')"
    using demo_cross_store [of "0xdeadbeef"] by blast
  then show ?thesis by (simp add: STORE32_def isPrivileged_def note_access_def)
qed

theorem store_fault_delivered_witness:
  "\<exists>t s'. STORE32 0x1235 0xdeadbeef (demo_sys (\<lambda>_. 0)) = Some t \<and>
     MFCHECK False Some t = Some s' \<and> c_dar (s_cpu s') = 0x1235 \<and> c_pc (s_cpu s') = 0x600"
proof -
  obtain t where t: "STORE32 0x1235 0xdeadbeef (demo_sys (\<lambda>_. 0)) = Some t" "s_mem_access_fault t = FAULT_ALIGN"
    using cross_store_demo by blast
  have "s_mem_access_fault t \<noteq> FAULT_NONE" using t(2) by simp
  from store_fault_delivered [OF t(1) this, of Some] t show ?thesis by auto
qed

subsection \<open>Reservations\<close>

text \<open>A lost reservation. After any exception return, any \<open>stwcx.\<close> or an \<open>lwarx\<close> of
  another address, \<open>stwcx.\<close> touches neither memory nor the MMU nor a general register
  and reports failure (CR field 0 is SO alone), and the generation count moves on.\<close>

theorem stwcx_fails:
  assumes "RS < 32" and "RA0 < 32" and "RB < 32"
  defines "ea s \<equiv> (if RA0 = 0 then 0 else gpr s RA0) + gpr s RB"
  assumes "s_reservation_gencount s \<noteq> s_exc_generation_count s \<or> s_reservation_address s \<noteq> ea s"
  shows "\<exists>s'. op_stwcx RS RA0 RB s = Some s' \<and> s_io s' = s_io s \<and> s_mmu s' = s_mmu s \<and>
    READ_CR_FIELD (c_cr (s_cpu s')) 0 = getXER_SO (s_cpu s) \<and>
    c_gprs (s_cpu s') = c_gprs (s_cpu s) \<and> c_pc (s_cpu s') = c_pc (s_cpu s) + 4 \<and>
    s_exc_generation_count s' = s_exc_generation_count s + 1"
proof -
  have "getXER_SO c AND 0xf = getXER_SO c" for c by (simp add: getXER_SO_def)
  then show ?thesis
    using assms
    by (auto simp: op_stwcx_def Let_def stwcx_done_def blow_reservation_def READ_CR_def
        READ_WRITE_CR_FIELD)
qed

theorem stwcx_fails_witness:
  "\<exists>s'. op_stwcx 1 0 2 ((demo_sys (\<lambda>_. 0))\<lparr>s_exc_generation_count := 1\<rparr>) = Some s' \<and>
     s_io s' = demo_io (\<lambda>_. 0)"
  using stwcx_fails [of 1 0 2 "(demo_sys (\<lambda>_. 0))\<lparr>s_exc_generation_count := 1\<rparr>"]
  by (auto simp: demo_sys_def)

text \<open>C27: A reservation that holds. \<open>lwarx\<close> of an address followed at once by \<open>stwcx.\<close> to
  it performs the store: the pair is the load, then the plain store of the register, with
  CR field 0 set to EQ and SO, unless one of the two accesses faults.\<close>

theorem lwarx_stwcx:
  assumes "op_lwarx RA0 RB EH RT s = Some t" and "s_mem_access_fault t = FAULT_NONE"
    and "RT \<noteq> RB" and "RA0 = 0 \<or> RT \<noteq> RA0" and "RS < 32"
  shows "op_stwcx RS RA0 RB t =
    Option.bind (STORE32 ((if RA0 = 0 then 0 else gpr s RA0) + gpr s RB) (gpr t RS) t)
      (MFCHECK False (stwcx_done (getXER_SO (s_cpu t) OR 2)))"
proof -
  let ?ea = "(if RA0 = 0 then 0 else gpr s RA0) + gpr s RB"
  let ?res = "\<lambda>u. u\<lparr>s_reservation_address := ?ea, s_reservation_gencount := s_exc_generation_count u\<rparr>"
  have ra: "RA0 < 32" and rb: "RB < 32"
    using assms(1) by (auto simp: op_lwarx_def READ_GPR_def READ_GPR_OZ_def getGPR_def
        split: if_splits elim!: bind_SomeE)
  then obtain v u where l: "LOAD32 ?ea s = Some (v, u)"
    and chk: "MFCHECK True (\<lambda>s. do { s \<leftarrow> WRITE_GPR RT v s; Some (incPC s) }) (?res u) = Some t"
    using assms(1) by (auto simp: op_lwarx_def Let_def elim!: bind_SomeE)
  have u: "s_cpu u = s_cpu s"
    using l by (auto simp: LOAD32_def note_access_def Let_def elim!: bind_SomeE)
  have "s_mem_access_fault u = FAULT_NONE"
  proof (rule ccontr)
    assume f: "s_mem_access_fault u \<noteq> FAULT_NONE"
    then have "s_mem_access_fault t = s_mem_access_fault u"
      using chk by (auto simp: MFCHECK_def sys_raiseMem_def elim!: bind_SomeE)
    with f assms(2) show False by simp
  qed
  then have "RT < 32" and "t = incPC (upd_cpu (\<lambda>c. c\<lparr>c_gprs := (c_gprs c)(RT := v)\<rparr>) (?res u))"
    using chk by (auto simp: MFCHECK_def WRITE_GPR_def upd_cpu_def dest!: setGPR_SomeD elim!: bind_SomeE)
  then have t: "s_cpu t = (s_cpu s)\<lparr>c_gprs := (c_gprs (s_cpu s))(RT := v), c_pc := c_pc (s_cpu s) + 4\<rparr>"
    "s_reservation_address t = ?ea" "s_reservation_gencount t = s_exc_generation_count t"
    using u by (simp_all add: upd_cpu_def incPC_def setPC_def getPC_def)
  have "READ_GPR t RB = Some (gpr s RB)" and "READ_GPR_OZ t RA0 = Some (if RA0 = 0 then 0 else gpr s RA0)"
    using ra rb assms(3,4) by (auto simp: t(1))
  then show ?thesis
    using assms(5) t(2,3) by (simp add: op_stwcx_def Let_def)
qed

theorem lwarx_stwcx_witness:
  "\<exists>t. op_lwarx 0 2 0 3 (demo_sys (\<lambda>_. 0)) = Some t \<and>
     op_stwcx 3 0 2 t = Option.bind (STORE32 0 (gpr t 3) t)
       (MFCHECK False (stwcx_done (getXER_SO (s_cpu t) OR 2)))"
proof -
  have "(0 :: u32) < 0x10000" by simp
  then obtain m' where "translateAddr 0 False True True 0 (demo_mmu, demo_io (\<lambda>_. 0)) =
      Some (Inr (ram_direct_map demo_ram 0), (m', demo_io (\<lambda>_. 0)))"
    by (rule demo_translate_pa)
  moreover have "IS_DIRECT (ram_direct_map demo_ram 0)" "\<not> crosses8_32 (ram_direct_map demo_ram 0)"
    by (simp_all add: demo_host IS_DIRECT_def PPCMMU_HVA_IO_BIT_def crosses8_32_def B_def)
  ultimately obtain t where t: "op_lwarx 0 2 0 3 (demo_sys (\<lambda>_. 0)) = Some t" "s_mem_access_fault t = FAULT_NONE"
    by (auto simp: op_lwarx_def LOAD32_def load32_def isPrivileged_def note_access_def MFCHECK_def Let_def incPC_def
        setPC_def upd_cpu_def)
  from lwarx_stwcx [OF t, of 3] t(1) show ?thesis by auto
qed

subsection \<open>Behaviour at odds with the architecture\<close>

text \<open>BAT registers 4 to 7. The register numbers of the upper four BAT pairs are
  decoded, but every \<open>mtspr\<close> to one of them aborts the simulator: the MMU has four
  pairs and asserts.\<close>

theorem mtspr_high_bats_abort:
  assumes "RS < 32"
    and "spr \<in> {SPR_IBAT4L, SPR_IBAT4U, SPR_IBAT5L, SPR_IBAT5U, SPR_IBAT6L, SPR_IBAT6U,
      SPR_IBAT7L, SPR_IBAT7U, SPR_DBAT4L, SPR_DBAT4U, SPR_DBAT5L, SPR_DBAT5U, SPR_DBAT6L,
      SPR_DBAT6U, SPR_DBAT7L, SPR_DBAT7U}"
  shows "op_mtspr spr RS s = None"
  using assms
  by (auto simp: op_mtspr_def mtspr_body_def upd_mmu_def setIBATlower_def setIBATupper_def
      setDBATlower_def setDBATupper_def)

theorem mtspr_high_bats_abort_witness: "op_mtspr SPR_DBAT5U 3 (demo_sys (\<lambda>_. 0)) = None"
  using mtspr_high_bats_abort [of 3 SPR_DBAT5U] by simp




end
