(* ===== verification/Run_Props.thy ===== *)
theory Run_Props
  imports Interp_Props
begin

section \<open>Properties of the instruction loop\<close>

text \<open>
  Each round of the main loop keeps the system invariant, retries a faulting fetch at most
  once, delivers the right interrupt, and with an instruction limit the loop ends.
\<close>

lemma demo_fetch: "\<exists>inst t. fetch (demo_sys mem) = Some (Inr inst, t)"
proof -
  have "(0 :: u32) < 0x10000" by simp
  then obtain m' where "translateAddr 0 True True True 0 (demo_mmu, demo_io mem) =
      Some (Inr (ram_direct_map demo_ram 0), (m', demo_io mem))"
    by (rule demo_translate_pa)
  moreover have "IS_DIRECT (ram_direct_map demo_ram 0)"
    by (simp add: demo_host IS_DIRECT_def PPCMMU_HVA_IO_BIT_def B_def)
  ultimately show ?thesis by (simp add: fetch_def loadInst32_def isPrivileged_def getPC_def)
qed

text \<open>The demo system fetches and, with every word decoded as \<open>isync\<close>, goes on.\<close>

lemma demo_main_step: "\<exists>s'. main_step (\<lambda>w. exec_insn (Special I_isync)) limit (demo_sys mem) = Some s'"
proof -
  obtain inst t where f: "fetch (demo_sys mem) = Some (Inr inst, t)" using demo_fetch by blast
  define u where "u = upd_cpu (CPUTick 1) (incPC (t\<lparr>s_inst := inst\<rparr>))"
  have cpu: "s_cpu t = s_cpu (demo_sys mem)" "sys_ok t" using fetch_ok [OF f demo_sys_ok] by simp_all
  have "sys_ok u" using cpu(2) by (simp add: u_def incPC_def setPC_def upd_cpu_def sys_ok_def mmu_sync_def)
  then have "c_inst_count (s_cpu (deliver_pending u)) = 1"
    using deliver_pending_ok(3) cpu(1)
    by (simp add: u_def upd_cpu_def CPUTick_def Let_def incPC_def setPC_def getPC_def zero_cpu_def)
  then have "platform_poll_periodic (c_inst_count (s_cpu (deliver_pending u))) io = Some io" for io
    by (simp add: platform_poll_periodic_def LCDC0_POLL_PERIOD_MASK_def)
  then show ?thesis using f by (simp add: main_step_def execute_fetched op_isync_def Let_def u_def)
qed

text \<open>C4: The system invariant holds along every run. From a state in which the uTLB is
  coherent, the bus table sound, the MMU's mode that of the MSR and XER without reserved
  bits, each round of the loop whose decoder calls the hand-written instructions leads to
  such a state again, without changing the bus's address map, and counts one instruction.\<close>

theorem main_step_invariant:
  assumes "sys_ok s" and "main_step (\<lambda>w. exec_insn (dec w)) limit s = Some s'"
  shows "sys_ok s' \<and> same_map (s_io s) (s_io s') \<and>
    c_inst_count (s_cpu s') = c_inst_count (s_cpu s) + 1"
  using main_step_SomeD [OF assms(2) decoder_keeps_exec assms(1)] by blast

theorem main_step_invariant_witness:
  "\<exists>s'. main_step (\<lambda>w. exec_insn (Special I_isync)) 0 (demo_sys (\<lambda>_. 0)) = Some s' \<and> sys_ok s' \<and>
     c_inst_count (s_cpu s') = 1"
proof -
  obtain s' where st: "main_step (\<lambda>w. exec_insn (Special I_isync)) 0 (demo_sys (\<lambda>_. 0)) = Some s'"
    using demo_main_step by blast
  from main_step_invariant [OF demo_sys_ok st] st show ?thesis by simp
qed

text \<open>A faulting fetch is retried once. When the fetch faults, delivering the fault
  cannot abort, translation is off afterwards, and \<open>execute\<close> goes on as it would from the exception
  vector, where the fetch cannot fault again: the \<open>goto fetch\<close> loop runs at most twice.\<close>

theorem execute_retries_once:
  assumes "fetch s = Some (Inl f, s1)" and "sys_ok s"
  shows "\<exists>s2. sys_raiseMem True True (c_pc (s_cpu s)) f 0 s1 = Some s2 \<and> sys_ok s2 \<and>
    (fetch s2 = None \<and> execute decode s = None \<or>
     (\<exists>inst s3. fetch s2 = Some (Inr inst, s3) \<and>
       execute decode s = decode inst (s3\<lparr>s_inst := inst\<rparr>)))"
proof -
  obtain s2 where s2: "sys_raiseMem True True (getPC s) f 0 s1 = Some s2" "sys_ok s2"
    and ex: "execute decode s = execute decode s2"
    and f2: "fetch s2 = None \<or> (\<exists>inst s3. fetch s2 = Some (Inr inst, s3))"
    using assms by (rule execute_faulted)
  from f2 show ?thesis
  proof
    assume "fetch s2 = None"
    then show ?thesis using s2 ex execute_aborts [of s2 decode] by (auto simp: getPC_def)
  next
    assume "\<exists>inst s3. fetch s2 = Some (Inr inst, s3)"
    then obtain inst s3 where "fetch s2 = Some (Inr inst, s3)" by blast
    then show ?thesis using s2 ex execute_fetched [of s2 inst s3 decode] by (auto simp: getPC_def)
  qed
qed

definition nx_sys :: sys where
  "nx_sys = (demo_sys (\<lambda>_. 0))\<lparr>s_cpu := zero_cpu\<lparr>c_msr := 0x30, c_pc := 0x1234\<rparr>, s_mmu := nx_mmu\<rparr>"

lemma nx_enabled: "enabled InD nx_mmu"
  by (simp add: nx_mmu_def setIRDR_def enabled_def)

lemma nx_sys_ok: "sys_ok nx_sys"
  using nx_mmu_good [of "\<lambda>_. 0"] nx_enabled [of True] nx_enabled [of False]
  by (simp add: nx_sys_def sys_ok_def mmu_sync_def enabled_def xer_wf_def zero_cpu_def PPCCPUState_init_def)

lemma select_setIRDR: "select_utlb InD priv (setIRDR i d m) = select_utlb InD priv m"
  by (simp add: select_utlb_def setIRDR_def)

lemma nx_lookup: "utlbLookup InD priv a nx_mmu = None"
proof -
  have "utlb_empty InD (the (setSegmentReg 0 0x10000000 demo_mmu))"
    using setSegmentReg_empty [OF nx_mmu_step] .
  then have "utlb_empty InD nx_mmu"
    by (simp add: nx_mmu_def utlb_empty_def select_setIRDR)
  then show ?thesis by (rule utlb_empty_lookup)
qed

lemma nx_fetch: "\<exists>s1. fetch nx_sys = Some (Inl FAULT_PERMS_NX, s1)"
proof -
  have "translateEA 0x1234 True True True 0 (nx_mmu, demo_io (\<lambda>_. 0)) = Some (Inl FAULT_PERMS_NX, (nx_mmu, demo_io (\<lambda>_. 0)))"
    by (simp add: translateEA_eq nx_enabled nx_mmu_no_bat nx_mmu_segment)
  from do_lookup_unfold [OF this] show ?thesis
    by (auto simp: fetch_def loadInst32_def translateAddr_def nx_lookup nx_sys_def getPC_def
        isPrivileged_def zero_cpu_def MSR_PR_def B_def answered_def)
qed

theorem execute_retries_once_witness:
  "\<exists>s1 s2. fetch nx_sys = Some (Inl FAULT_PERMS_NX, s1) \<and>
     sys_raiseMem True True 0x1234 FAULT_PERMS_NX 0 s1 = Some s2 \<and> sys_ok s2"
proof -
  obtain s1 where f: "fetch nx_sys = Some (Inl FAULT_PERMS_NX, s1)" using nx_fetch by blast
  have "c_pc (s_cpu nx_sys) = 0x1234" by (simp add: nx_sys_def)
  with execute_retries_once [OF f nx_sys_ok, of "\<lambda>_. Some"] f show ?thesis by auto
qed

lemma main_fuel_stopped: "main_fuel n decode l s = Some (Some s') \<Longrightarrow> s_want_break s'"
  by (induction n arbitrary: s) (auto split: if_splits option.splits)

text \<open>A limited run ends. With an instruction limit the loop of \<open>main\<close> leaves after at
  most as many rounds as are missing to the limit, plus one: it either stops (the limit, or an earlier
  request to stop) or the simulator aborts, and never runs on.\<close>

lemma main_loop_ends:
  assumes "sys_ok s" and "limit \<noteq> 0" and "unat (c_inst_count (s_cpu s)) \<le> unat limit"
  shows "\<exists>r. main_fuel (unat limit + 1 - unat (c_inst_count (s_cpu s))) (\<lambda>w. exec_insn (dec w)) limit s = Some r \<and>
    main_loop (\<lambda>w. exec_insn (dec w)) limit s = r \<and> (\<forall>s'. r = Some s' \<longrightarrow> s_want_break s')"
proof -
  let ?n = "unat limit + 1 - unat (c_inst_count (s_cpu s))"
  have "main_fuel ?n (\<lambda>w. exec_insn (dec w)) limit s \<noteq> None"
    using assms by (intro main_fuel_enough decoder_keeps_exec) auto
  then obtain r where r: "main_fuel ?n (\<lambda>w. exec_insn (dec w)) limit s = Some r" by blast
  then have "r = Some s' \<Longrightarrow> s_want_break s'" for s'
    by (auto dest: main_fuel_stopped)
  with r main_fuel_loop show ?thesis by blast
qed

lemma main_loop_ends_witness:
  "\<exists>r. main_loop (\<lambda>w. exec_insn (Special I_isync)) 5 (demo_sys (\<lambda>_. 0)) = r \<and>
     (\<forall>s'. r = Some s' \<longrightarrow> s_want_break s')"
  using main_loop_ends [OF demo_sys_ok, of 5 "\<lambda>_. 0" "\<lambda>_. Special I_isync"] by auto

lemma deliver_pending_eq:
  "deliver_pending s =
     (if bit (c_msr (s_cpu s)) 15 \<and> (io_irqFlag (s_io s) \<or> bit (c_dec (s_cpu s)) 31) then
        s\<lparr>s_cpu := (s_cpu s)\<lparr>c_srr0 := c_pc (s_cpu s) AND NOT 3, c_srr1 := c_msr (s_cpu s),
            c_msr := c_msr (s_cpu s) AND MSR_IP,
            c_pc := (if bit (c_msr (s_cpu s)) 6 then 0xfff00000 else 0) +
              (if io_irqFlag (s_io s) then 0x500 else 0x900)\<rparr>,
          s_mmu := setIRDR False False (s_mmu s)\<rparr>
      else s)"
  by (simp add: deliver_pending_def isIRQPending_def isDecrementerPending_def upd_cpu_mmu_def
      raise_defs takeException_eq mask_simps msb32)
    blast

text \<open>C17: Interrupt priority. With interrupts enabled a pending external interrupt is
  delivered, also when the decrementer has expired; an expired decrementer is delivered
  otherwise; with interrupts disabled nothing happens. Delivery saves PC and MSR, goes to
  the vector in supervisor real mode, and disables interrupts, so that a second delivery in a
  row never happens.\<close>

theorem interrupts_delivered:
  fixes s :: sys
  defines "c \<equiv> s_cpu s"
  defines "irq \<equiv> io_irqFlag (s_io s)" and "expired \<equiv> bit (c_dec c) 31"
  shows "deliver_pending s =
      (if bit (c_msr c) 15 \<and> (irq \<or> expired) then
         s\<lparr>s_cpu := c\<lparr>c_srr0 := c_pc c AND NOT 3, c_srr1 := c_msr c, c_msr := c_msr c AND MSR_IP,
             c_pc := (if bit (c_msr c) 6 then 0xfff00000 else 0) + (if irq then 0x500 else 0x900)\<rparr>,
           s_mmu := setIRDR False False (s_mmu s)\<rparr>
       else s) \<and>
    deliver_pending (deliver_pending s) = deliver_pending s"
  unfolding c_def irq_def expired_def by (simp only: deliver_pending_eq) auto

end
