(* ===== verification/Multi_Props.thy ===== *)
theory Multi_Props
  imports Interp_Props
begin

section \<open>Load and store multiple\<close>

text \<open>
  \<open>stmw\<close> followed by \<open>lmw\<close> restores the registers.  The proof goes through one rule
  for a store and one for a load with data translation off and directly mapped memory
  (\<open>maps_direct\<close>: every page-mate of the address resolves to the host page of
  \<open>pa\<close>), and an induction over the registers for each loop.
\<close>

definition maps_direct :: "io \<Rightarrow> u32 \<Rightarrow> u64 \<Rightarrow> bool" where
  "maps_direct io a pa \<longleftrightarrow> IS_DIRECT pa \<and>
     (\<forall>b. page b = page a \<longrightarrow> (\<exists>h. resolve b io = Some h \<and> page_of h OR (ucast a AND 0xfff) = pa))"

lemma maps_direct_same_map: "same_map io io' \<Longrightarrow> io_ok io \<Longrightarrow> maps_direct io' a pa = maps_direct io a pa"
  by (simp add: maps_direct_def resolve_same_map)

lemma real_translate:
  assumes good: "mmu_good (m, io)" and off: "\<not> enabled False m" and md: "maps_direct io a pa"
  obtains m' io' where "translateAddr a False RnW priv 0 (m, io) = Some (Inr pa, (m', io'))"
    and "io_hmem io' = io_hmem io" and "same_map io io'" and "mmu_good (m', io')"
    and "mmu_regs m' = mmu_regs m"
proof -
  obtain h where "resolve a io = Some h" using md by (auto simp: maps_direct_def)
  then obtain g where g: "get_direct_map a io = Some g" by (auto simp: resolve_def)
  then obtain m1 io1 where "utlbInsert False priv a a (perms_field PPCMMU_PERMS_ANY) (m, io) = Some (m1, io1)"
    by (cases g) (simp add: utlbInsert_def Let_def)
  then have "translateEA a False RnW priv 0 (m, io) = Some (Inr (a, PPCMMU_PERMS_ANY), (m1, io1))"
    using off by (simp add: translateEA_eq)
  then obtain res m' io' where t: "translateAddr a False RnW priv 0 (m, io) = Some (res, (m', io'))"
    using translateAddr_defined [of a False RnW priv 0 "(m, io)"] by fastforce
  have "coherent m io" using good by (simp add: mmu_good_def)
  then have "res = Inr pa"
    using real_mode_result [OF t _ off] md by (auto simp: maps_direct_def)
  then show thesis
    using that t real_mode_memory [OF t off] translateAddr_good [OF t good] translateAddr_regs [OF t]
    by simp
qed

text \<open>What a sequence of accesses keeps, seen from the state \<open>s\<close>.\<close>

definition after_access :: "sys \<Rightarrow> sys \<Rightarrow> bool" where
  "after_access s t \<longleftrightarrow> sys_ok t \<and> same_map (s_io s) (s_io t) \<and> s_cpu t = s_cpu s \<and>
     s_mem_access_fault t = FAULT_NONE"

lemma real_off: "sys_ok s \<Longrightarrow> \<not> bit (c_msr (s_cpu s)) 4 \<Longrightarrow> \<not> enabled False (s_mmu s)"
  using sys_okD(2) [of s] by (simp add: mmu_sync_def enabled_def)

lemma real_STORE32:
  assumes ok: "sys_ok s" and off: "\<not> bit (c_msr (s_cpu s)) 4"
    and md: "maps_direct (s_io s) a pa" and al: "\<not> crosses8_32 pa"
  obtains t where "STORE32 a v s = Some t" and "after_access s t"
    and "io_hmem (s_io t) = hstore32 pa (BS32 v) (io_hmem (s_io s))"
proof -
  let ?p = "isPrivileged (s_cpu s)"
  obtain m io where t: "translateAddr a False False ?p 0 (s_mmu s, s_io s) = Some (Inr pa, (m, io))"
    "io_hmem io = io_hmem (s_io s)" "same_map (s_io s) io" "mmu_good (m, io)" "mmu_regs m = mmu_regs (s_mmu s)"
    using sys_okD(1) [OF ok] real_off [OF ok off] md by (rule real_translate)
  let ?io = "io\<lparr>io_hmem := hstore32 pa (BS32 v) (io_hmem io)\<rparr>"
  have st: "store32 a v ?p (s_mmu s, s_io s) = Some (Inr (), (m, ?io))"
    using t(1) md al by (simp add: store32_def maps_direct_def)
  then have S: "STORE32 a v s = Some (note_access a (Inr () :: fault_t + unit) (m, ?io) s)"
    by (simp add: STORE32_def)
  have "same_map (s_io s) ?io"
    using t(3) by (simp add: same_map_def io_shape_def)
  then have "after_access s (note_access a (Inr () :: fault_t + unit) (m, ?io) s)"
    using ok_access(6) [OF S ok] by (simp add: after_access_def) (simp add: note_access_def Let_def)
  with S show thesis using that t(2) by (simp add: note_access_def Let_def)
qed

lemma real_LOAD32:
  assumes ok: "sys_ok s" and off: "\<not> bit (c_msr (s_cpu s)) 4"
    and md: "maps_direct (s_io s) a pa" and al: "\<not> crosses8_32 pa"
  obtains t where "LOAD32 a s = Some (BS32 (hload32 (io_hmem (s_io s)) pa), t)" and "after_access s t"
    and "io_hmem (s_io t) = io_hmem (s_io s)"
proof -
  let ?p = "isPrivileged (s_cpu s)" and ?v = "BS32 (hload32 (io_hmem (s_io s)) pa)"
  obtain m io where t: "translateAddr a False True ?p 0 (s_mmu s, s_io s) = Some (Inr pa, (m, io))"
    "io_hmem io = io_hmem (s_io s)" "same_map (s_io s) io" "mmu_good (m, io)" "mmu_regs m = mmu_regs (s_mmu s)"
    using sys_okD(1) [OF ok] real_off [OF ok off] md by (rule real_translate)
  have "load32 a ?p (s_mmu s, s_io s) = Some (Inr ?v, (m, io))"
    using t(1,2) md al by (simp add: load32_def maps_direct_def)
  then have S: "LOAD32 a s = Some (?v, note_access a (Inr ?v :: fault_t + u32) (m, io) s)"
    by (simp add: LOAD32_def)
  have "after_access s (note_access a (Inr ?v :: fault_t + u32) (m, io) s)"
    using ok_access(3) [OF S ok] t(3) by (simp add: after_access_def) (simp add: note_access_def Let_def)
  with S show thesis using that t(2) by (simp add: note_access_def Let_def)
qed

subsection \<open>The two loops\<close>

text \<open>Consecutive words from \<open>base\<close>, mapped to consecutive host words from \<open>pa\<close>.\<close>

definition words_direct :: "io \<Rightarrow> nat \<Rightarrow> u32 \<Rightarrow> u64 \<Rightarrow> bool" where
  "words_direct io n base pa \<longleftrightarrow> n \<le> 32 \<and>
     (\<forall>k<n. maps_direct io (base + of_nat (4 * k)) (pa + of_nat (4 * k)) \<and>
       \<not> crosses8_32 (pa + of_nat (4 * k)))"

lemma words_direct_Suc:
  assumes "words_direct io (Suc n) base pa"
  shows "maps_direct io base pa" and "\<not> crosses8_32 pa" and "words_direct io n (base + 4) (pa + 4)"
proof -
  have w: "maps_direct io (base + of_nat (4 * k)) (pa + of_nat (4 * k))"
    "\<not> crosses8_32 (pa + of_nat (4 * k))" if "k < Suc n" for k
    using assms that by (auto simp: words_direct_def)
  show "maps_direct io base pa" "\<not> crosses8_32 pa" using w [of 0] by simp_all
  have "maps_direct io (base + 4 + of_nat (4 * k)) (pa + 4 + of_nat (4 * k)) \<and>
      \<not> crosses8_32 (pa + 4 + of_nat (4 * k))" if "k < n" for k
    using w [of "Suc k"] that by (simp add: algebra_simps)
  then show "words_direct io n (base + 4) (pa + 4)" using assms by (simp add: words_direct_def)
qed

lemma words_direct_same_map:
  "same_map io io' \<Longrightarrow> io_ok io \<Longrightarrow> words_direct io' n base pa = words_direct io n base pa"
  by (simp add: words_direct_def maps_direct_same_map)

lemma small_add_neq:
  fixes a :: u64
  assumes "i < j" and "j < 1000"
  shows "a + of_nat i \<noteq> a + of_nat j"
proof
  assume "a + of_nat i = a + of_nat j"
  then have "unat (of_nat i :: u64) = unat (of_nat j :: u64)" by simp
  then show False using assms by (simp add: unsigned_of_nat take_bit_nat_eq_self)
qed

definition untouched :: "nat \<Rightarrow> u64 \<Rightarrow> hmem \<Rightarrow> hmem \<Rightarrow> bool" where
  "untouched n pa m m' \<longleftrightarrow> (\<forall>x. (\<forall>j<4 * n. x \<noteq> pa + of_nat j) \<longrightarrow> m' x = m x)"

lemma untouched_step:
  assumes "untouched n (pa + 4) (hstore32 pa w m) m'"
  shows "untouched (Suc n) pa m m'" and "n < 32 \<Longrightarrow> hload32 m' pa = w"
proof -
  have u: "m' x = hstore32 pa w m x" if "\<forall>j<4 * n. x \<noteq> pa + 4 + of_nat j" for x
    using assms that by (simp add: untouched_def)
  have shift: "pa + 4 + of_nat j = pa + of_nat (4 + j)" for j by (simp add: add.assoc)
  show "untouched (Suc n) pa m m'" unfolding untouched_def
  proof (intro allI impI)
    fix x assume x: "\<forall>j<4 * Suc n. x \<noteq> pa + of_nat j"
    have "x \<noteq> pa + 4 + of_nat j" if "j < 4 * n" for j
      unfolding shift using x [rule_format, of "4 + j"] that by simp
    then have "\<forall>j<4 * n. x \<noteq> pa + 4 + of_nat j" by blast
    moreover have "x \<notin> {pa, pa + 1, pa + 2, pa + 3}"
      using x [rule_format, of 0] x [rule_format, of 1] x [rule_format, of 2] x [rule_format, of 3] by simp
    ultimately show "m' x = m x" using u [of x] hstore32_other [of x pa w m] by simp
  qed
  show "hload32 m' pa = w" if n: "n < 32"
  proof -
    have same: "m' (pa + of_nat i) = hstore32 pa w m (pa + of_nat i)" if "i < 4" for i
      using n that small_add_neq [of i "4 + j" pa for j] by (intro u) (auto simp: shift)
    have "hload32 m' pa = hload32 (hstore32 pa w m) pa"
      using same [of 0] same [of 1] same [of 2] same [of 3] by (simp add: hload32_def)
    then show ?thesis by simp
  qed
qed

lemma stmw_loop_stores:
  assumes "sys_ok s" and "\<not> bit (c_msr (s_cpu s)) 4" and "words_direct (s_io s) (length ns) base pa"
    and "\<forall>n\<in>set ns. n < 32"
  shows "\<exists>t. stmw_loop ns base s = Some t \<and> sys_ok t \<and> same_map (s_io s) (s_io t) \<and>
    s_cpu t = (s_cpu s)\<lparr>c_pc := c_pc (s_cpu s) + 4\<rparr> \<and>
    untouched (length ns) pa (io_hmem (s_io s)) (io_hmem (s_io t)) \<and>
    (\<forall>k<length ns. hload32 (io_hmem (s_io t)) (pa + of_nat (4 * k)) = BS32 (gpr s (ns ! k)))"
  using assms
proof (induction ns arbitrary: base pa s)
  case Nil
  then show ?case using ok.inv_cpu(2) [OF Nil.prems(1)]
    by (simp add: untouched_def same_map_refl sys_okD(5))
next
  case (Cons n ns)
  note w = words_direct_Suc [OF Cons.prems(3) [unfolded list.size add_Suc_right add_0_right]]
  obtain t where st: "STORE32 base (gpr s n) s = Some t" "after_access s t"
    and mem: "io_hmem (s_io t) = hstore32 pa (BS32 (gpr s n)) (io_hmem (s_io s))"
    using Cons.prems(1,2) w(1,2) by (rule real_STORE32)
  have t: "sys_ok t" "same_map (s_io s) (s_io t)" "s_cpu t = s_cpu s" "s_mem_access_fault t = FAULT_NONE"
    using st(2) by (simp_all add: after_access_def)
  have "words_direct (s_io t) (length ns) (base + 4) (pa + 4)"
    using w(3) words_direct_same_map [OF t(2) sys_okD(5) [OF Cons.prems(1)]] by simp
  then obtain u where u: "stmw_loop ns (base + 4) t = Some u" "sys_ok u" "same_map (s_io t) (s_io u)"
    "s_cpu u = (s_cpu t)\<lparr>c_pc := c_pc (s_cpu t) + 4\<rparr>"
    "untouched (length ns) (pa + 4) (io_hmem (s_io t)) (io_hmem (s_io u))"
    "\<forall>k<length ns. hload32 (io_hmem (s_io u)) (pa + 4 + of_nat (4 * k)) = BS32 (gpr t (ns ! k))"
    using Cons.IH [of t "base + 4" "pa + 4"] Cons.prems(2,4) t(1,3) by auto
  have run: "stmw_loop (n # ns) base s = Some u"
    using Cons.prems(4) st(1) t(4) u(1) by (simp add: MFCHECK_def)
  note un = untouched_step [OF u(5) [unfolded mem]]
  have "length ns < 32" using Cons.prems(3) by (simp add: words_direct_def)
  then have "hload32 (io_hmem (s_io u)) (pa + of_nat (4 * k)) = BS32 (gpr s ((n # ns) ! k))"
    if "k < length (n # ns)" for k
    using that un(2) u(6) t(3) by (cases k) (auto simp: algebra_simps)
  with run u(2-4) t(2,3) un(1) show ?case by (auto intro: same_map_trans)
qed

lemma lmw_loop_loads:
  assumes "sys_ok s" and "\<not> bit (c_msr (s_cpu s)) 4" and "words_direct (s_io s) (length ns) base pa"
    and "\<forall>n\<in>set ns. n < 32" and "distinct ns"
  shows "\<exists>t. lmw_loop ns base s = Some t \<and> sys_ok t \<and> same_map (s_io s) (s_io t) \<and>
    io_hmem (s_io t) = io_hmem (s_io s) \<and> c_pc (s_cpu t) = c_pc (s_cpu s) + 4 \<and>
    (\<forall>r. r \<notin> set ns \<longrightarrow> gpr t r = gpr s r) \<and>
    (\<forall>k<length ns. gpr t (ns ! k) = BS32 (hload32 (io_hmem (s_io s)) (pa + of_nat (4 * k))))"
  using assms
proof (induction ns arbitrary: base pa s)
  case Nil
  then show ?case using ok.inv_cpu(2) [OF Nil.prems(1)] by (simp add: same_map_refl sys_okD(5))
next
  case (Cons n ns)
  note w = words_direct_Suc [OF Cons.prems(3) [unfolded list.size add_Suc_right add_0_right]]
  let ?v = "BS32 (hload32 (io_hmem (s_io s)) pa)"
  obtain t where ld: "LOAD32 base s = Some (?v, t)" "after_access s t"
    and mem: "io_hmem (s_io t) = io_hmem (s_io s)"
    using Cons.prems(1,2) w(1,2) by (rule real_LOAD32)
  have t: "sys_ok t" "same_map (s_io s) (s_io t)" "s_cpu t = s_cpu s" "s_mem_access_fault t = FAULT_NONE"
    using ld(2) by (simp_all add: after_access_def)
  let ?t = "upd_cpu (\<lambda>c. c\<lparr>c_gprs := (c_gprs c)(n := ?v)\<rparr>) t"
  have "sys_ok ?t" using ok.cpu_step [OF cpu_set.intros(1) t(1)] .
  moreover have "words_direct (s_io ?t) (length ns) (base + 4) (pa + 4)"
    using w(3) words_direct_same_map [OF t(2) sys_okD(5) [OF Cons.prems(1)]] by simp
  ultimately obtain u where u: "lmw_loop ns (base + 4) ?t = Some u" "sys_ok u" "same_map (s_io ?t) (s_io u)"
    "io_hmem (s_io u) = io_hmem (s_io ?t)" "c_pc (s_cpu u) = c_pc (s_cpu ?t) + 4"
    "\<forall>r. r \<notin> set ns \<longrightarrow> gpr u r = gpr ?t r"
    "\<forall>k<length ns. gpr u (ns ! k) = BS32 (hload32 (io_hmem (s_io ?t)) (pa + 4 + of_nat (4 * k)))"
    using Cons.IH [of ?t "base + 4" "pa + 4"] Cons.prems(2,4,5) t(3) by auto
  have run: "lmw_loop (n # ns) base s = Some u"
    using Cons.prems(4) ld(1) t(4) u(1) by (simp add: MFCHECK_def)
  have "gpr u ((n # ns) ! k) = BS32 (hload32 (io_hmem (s_io s)) (pa + of_nat (4 * k)))"
    if "k < length (n # ns)" for k
    using that u(6,7) mem Cons.prems(5) by (cases k) (auto simp: algebra_simps)
  with run u(2-6) t(2,3) mem show ?case by (auto intro: same_map_trans)
qed

text \<open>C25: Load multiple undoes store multiple. With data translation off and the words
  aligned in directly mapped memory, \<open>stmw\<close> completes without a fault; whatever the
  other code then does to the general registers, an \<open>lmw\<close> at the same address also
  completes, gives every register from RS on its old value, leaves the others alone and
  changes no memory.\<close>

theorem stmw_lmw_roundtrip:
  assumes ok: "sys_ok s" and off: "\<not> bit (c_msr (s_cpu s)) 4" and regs: "RS < 32" "RA0 < 32"
    and ea: "ea = (if RA0 = 0 then 0 else gpr s RA0) + scast D"
    and mapped: "words_direct (s_io s) (32 - RS) ea pa"
    and base: "RA0 = 0 \<or> g RA0 = gpr s RA0"
  shows "\<exists>t u. op_stmw RS D RA0 s = Some t \<and>
    op_lmw RS D RA0 (upd_cpu (\<lambda>c. c\<lparr>c_gprs := g\<rparr>) t) = Some u \<and>
    (\<forall>r. gpr u r = (if RS \<le> r \<and> r < 32 then gpr s r else g r)) \<and>
    io_hmem (s_io u) = io_hmem (s_io t)"
proof -
  obtain t where t: "stmw_loop [RS..<32] ea s = Some t" "sys_ok t" "same_map (s_io s) (s_io t)"
    "s_cpu t = (s_cpu s)\<lparr>c_pc := c_pc (s_cpu s) + 4\<rparr>"
    "\<forall>k<32 - RS. hload32 (io_hmem (s_io t)) (pa + of_nat (4 * k)) = BS32 (gpr s (RS + k))"
    using stmw_loop_stores [OF ok off, of "[RS..<32]" ea pa] mapped by auto
  let ?t = "upd_cpu (\<lambda>c. c\<lparr>c_gprs := g\<rparr>) t"
  have "sys_ok ?t" using t(2) by (simp add: sys_ok_def mmu_sync_def xer_wf_def)
  moreover have "words_direct (s_io ?t) (length [RS..<32]) ea pa"
    using mapped words_direct_same_map [OF t(3) sys_okD(5) [OF ok]] by simp
  ultimately obtain u where u: "lmw_loop [RS..<32] ea ?t = Some u"
    "io_hmem (s_io u) = io_hmem (s_io ?t)" "\<forall>r. r \<notin> set [RS..<32] \<longrightarrow> gpr u r = gpr ?t r"
    "\<forall>k<32 - RS. gpr u ([RS..<32] ! k) = BS32 (hload32 (io_hmem (s_io ?t)) (pa + of_nat (4 * k)))"
    using lmw_loop_loads [of ?t "[RS..<32]" ea pa] off t(4) by auto
  have "gpr u r = gpr s r" if "RS \<le> r" "r < 32" for r
    using u(4) [rule_format, of "r - RS"] t(5) [rule_format, of "r - RS"] that by simp
  with u(3) have all: "gpr u r = (if RS \<le> r \<and> r < 32 then gpr s r else g r)" for r by simp
  have "op_stmw RS D RA0 s = Some t" using regs ea t(1) by (simp add: op_stmw_def)
  moreover have "op_lmw RS D RA0 ?t = Some u"
    using regs base ea u(1) by (simp add: op_lmw_def split: if_splits)
  ultimately show ?thesis using all u(2) by auto
qed

lemma demo_maps_direct:
  assumes "a < 0x10000"
  shows "maps_direct (demo_io mem) a (ram_direct_map demo_ram a)"
proof -
  have ua: "uint a < 0x10000" using assms by (simp add: word_less_def)
  then have "uint (0x10000000 + ucast a :: u64) = 0x10000000 + uint a"
    by (simp add: uint_word_ariths unsigned_ucast_eq take_bit_int_eq_self)
  then have "uint (0x10000000 + ucast a :: u64) div 2 ^ 63 = 0" using ua by simp
  then have "\<not> bit (uint (0x10000000 + ucast a :: u64)) 63" by (simp only: bit_iff_odd) simp
  then have "\<not> bit (0x10000000 + ucast a :: u64) 63" by (simp add: bit_uint_iff)
  then have d: "IS_DIRECT (ram_direct_map demo_ram a)"
    using and_exp_nonzero [of "0x10000000 + ucast a :: u64" 63]
    by (simp add: demo_host IS_DIRECT_def PPCMMU_HVA_IO_BIT_def B_def)
  have "\<exists>h. resolve b (demo_io mem) = Some h \<and> page_of h OR (ucast a AND 0xfff) = ram_direct_map demo_ram a"
    if "page b = page a" for b
  proof -
    have "drop_bit 12 b = drop_bit 12 a" using that by (simp only: page_eq_iff drop_bit_eq_iff)
    then have "unat (drop_bit 12 b) = unat (drop_bit 12 a)" by (simp only:)
    then have "unat b div 4096 = unat a div 4096" by (simp add: drop_bit_eq_div unat_div)
    moreover have "unat a div 4096 < 16"
      using assms by (simp add: word_less_nat_alt div_less_iff_less_mult)
    ultimately have "unat b div 4096 < 16" by simp
    then have "b < 0x10000" by (simp add: word_less_nat_alt div_less_iff_less_mult)
    then show ?thesis
      using resolve_RAM [OF demo_ram_at demo_io_ok] page_host [OF demo_aligned that] by blast
  qed
  with d show ?thesis by (simp add: maps_direct_def)
qed

theorem stmw_lmw_roundtrip_witness:
  "\<exists>t u. op_stmw 31 0x1000 0 (demo_sys (\<lambda>_. 0)) = Some t \<and>
    op_lmw 31 0x1000 0 (upd_cpu (\<lambda>c. c\<lparr>c_gprs := (\<lambda>_. 7)\<rparr>) t) = Some u \<and> gpr u 31 = 0 \<and> gpr u 30 = 7"
proof -
  have "words_direct (demo_io (\<lambda>_. 0)) 1 0x1000 (ram_direct_map demo_ram 0x1000)"
    using demo_maps_direct [of "0x1000" "\<lambda>_. 0"] by (simp add: words_direct_def crosses8_32_def demo_host)
  then show ?thesis
    using stmw_lmw_roundtrip [OF demo_sys_ok, of "\<lambda>_. 0" 31 0 "0x1000" "0x1000"
        "ram_direct_map demo_ram 0x1000" "\<lambda>_. 7"] by auto
qed

end
