(* ===== verification/SD_Props.thy ===== *)
theory SD_Props
  imports Dev_SD MMU_Machine
begin

section \<open>Properties of the SD card\<close>

lemma bit0_crc7_shift [simp]: "\<not> bit (crc7_shift c) 0"
  by (auto simp: crc7_shift_def bit_0 even_xor_iff)

lemma bit0_fold_crc7: "bs \<noteq> [] \<Longrightarrow> \<not> bit (fold crc7_bit bs c) 0"
  by (induction bs rule: rev_induct) (simp_all add: crc7_bit_def)

lemma crc7_residue: "\<not> bit c 0 \<Longrightarrow> fold crc7_bit (map (\<lambda>k. bit c (7 - k)) [0..<7]) c = 0"
proof -
  assume "\<not> bit c 0"
  then have "c XOR (c AND NOT (mask 1)) = 0"
    by (auto simp: word8_eq_bits bit_simps intro: gr0I)
  then show ?thesis
    using crc7_bits_prefix [of 7 c c] by (simp add: crc7_pow_zero del: funpow.simps)
qed

lemma crc7_receiver:
  "crc7_of_bits (concat (map bits_msb (command_bytes v)) @ map (\<lambda>k. bit (sd_crc7 v) (7 - k)) [0..<7]) = 0"
proof -
  have "concat (map bits_msb (command_bytes v)) \<noteq> []"
    by (simp add: command_bytes_def bits_msb_def upt_rec)
  then have "\<not> bit (sd_crc7 v) 0"
    unfolding sd_crc7_bits crc7_of_bits_def by (rule bit0_fold_crc7)
  then show ?thesis
    using crc7_residue [of "sd_crc7 v"] by (simp add: crc7_of_bits_def sd_crc7_bits)
qed

text \<open>C28: The CRC-7 table. The table-driven CRC of a 40-bit command is that of the generator
  polynomial \<open>x^7 + x^3 + 1\<close> computed bit by bit, most significant bit first, and so is that
  of a 15-byte register; a receiver that runs the seven CRC bits through the
  generator after the message is left with zero.\<close>

theorem sd_crc7_reference:
  "sd_crc7 v = crc7_of_bits (concat (map bits_msb (command_bytes v))) \<and>
   sd_crc7_120 (rev [b0, b1, b2, b3, b4, b5, b6, b7, b8, b9, b10, b11, b12, b13, b14]) =
     crc7_of_bits (concat (map bits_msb [b0, b1, b2, b3, b4, b5, b6, b7, b8, b9, b10, b11, b12, b13, b14])) \<and>
   crc7_of_bits (concat (map bits_msb (command_bytes v)) @
     map (\<lambda>k. bit (sd_crc7 v) (7 - k)) [0..<7]) = 0"
proof (intro conjI)
  show v: "sd_crc7 v = crc7_of_bits (concat (map bits_msb (command_bytes v)))"
    by (rule sd_crc7_bits)
  show "sd_crc7_120 (rev [b0, b1, b2, b3, b4, b5, b6, b7, b8, b9, b10, b11, b12, b13, b14]) =
     crc7_of_bits (concat (map bits_msb [b0, b1, b2, b3, b4, b5, b6, b7, b8, b9, b10, b11, b12, b13, b14]))"
    by (subst sd_crc7_120_bits) (simp_all only: rev_rev_ident length_rev, simp)
  show "crc7_of_bits (concat (map bits_msb (command_bytes v)) @
     map (\<lambda>k. bit (sd_crc7 v) (7 - k)) [0..<7]) = 0"
    by (rule crc7_receiver)
qed

definition response_frame :: "u32 list \<Rightarrow> u64" where
  "response_frame r = push_bit 32 (ucast (r ! 1)) OR ucast (r ! 0)"

lemma makeResponse_bit:
  fixes cmd payload :: u32
  assumes "length r = 4" and "n < 48"
  defines "content \<equiv> push_bit 32 (ucast cmd AND 0x3f) OR ucast payload :: u64"
  shows "bit (response_frame (makeResponse cmd r payload)) n \<longleftrightarrow>
    (if n < 8 then n = 0 \<or> bit (sd_crc7 content) n else bit content (n - 8))"
proof -
  have frame: "response_frame (makeResponse cmd r payload) =
      push_bit 8 content OR ucast (sd_crc7 content) OR 1"
  proof (rule bit_word_eqI)
    fix k assume "k < LENGTH(64)"
    then show "bit (response_frame (makeResponse cmd r payload)) k =
        bit (push_bit 8 content OR ucast (sd_crc7 content) OR 1) k"
      using assms(1) unfolding response_frame_def makeResponse_def Let_def content_def [symmetric]
      by (cases "k < 32") (auto simp: bit_simps bit_1_iff)
  qed
  show ?thesis
    unfolding frame using assms(2) by (auto simp: bit_simps bit_1_iff)
qed

text \<open>Response frames. The two words of a 48-bit response hold, from the top: start bit
  0, transmission bit 0, the command index, the 32-bit payload, seven CRC bits that a receiver
  accepts (the residue of everything before the end bit is zero), and end bit 1; the other two words are
  left alone.\<close>

theorem response_frame_ok:
  fixes cmd payload :: u32
  assumes "length r = 4"
  defines "frame \<equiv> response_frame (makeResponse cmd r payload)"
  shows "\<not> bit frame 47 \<and> \<not> bit frame 46 \<and> bit frame 0 \<and>
    (\<forall>n<6. bit frame (40 + n) = bit cmd n) \<and> (\<forall>n<32. bit frame (8 + n) = bit payload n) \<and>
    crc7_of_bits (map (\<lambda>k. bit frame (47 - k)) [0..<47]) = 0 \<and>
    drop 2 (makeResponse cmd r payload) = drop 2 r"
proof -
  let ?content = "push_bit 32 (ucast cmd AND 0x3f) OR ucast payload :: u64"
  have mask6: "(0x3f :: u64) = mask 6" by (simp add: mask_eq_exp_minus_1)
  note b = makeResponse_bit [OF assms(1), of _ cmd payload, folded frame_def]
  have "map (\<lambda>k. bit frame (47 - k)) [0..<47] = concat (map bits_msb (command_bytes ?content)) @
     map (\<lambda>k. bit (sd_crc7 ?content) (7 - k)) [0..<7]"
    by (simp add: b upt_rec bits_msb_def command_bytes_def bit_simps)
  moreover have "bit frame (8 + n) = bit payload n" if "n < 32" for n
    using that by (simp add: b bit_simps)
  moreover have "bit frame (40 + n) = bit cmd n" if "n < 6" for n
    using that b [of "40 + n"] unfolding mask6 by (simp add: bit_simps)
  moreover have "drop 2 (makeResponse cmd r payload) = drop 2 r"
    by (simp add: makeResponse_def Let_def)
  ultimately show ?thesis using crc7_receiver [of ?content] by (simp add: b bit_simps)
qed

theorem response_frame_ok_witness: "\<not> bit (response_frame (makeResponse 17 [0, 0, 0, 0] 0x900)) 47"
  using response_frame_ok [of "[0, 0, 0, 0]" 17 "0x900"] by simp

subsection \<open>The host controller\<close>

lemma getAddrDMA_frame:
  "DevSD_getAddrDMA a s = Some (p, s') \<Longrightarrow> ss_hc s' = ss_hc s \<and> ss_card s' = ss_card s \<and> ss_file s' = ss_file s"
  by (auto simp: DevSD_getAddrDMA_def elim!: bind_SomeE)

lemma sd_respond_length: "sd_respond r_type subtype cmd arg r c = Some r' \<Longrightarrow> length r = 4 \<Longrightarrow> length r' = 4"
  by (auto simp: sd_respond_def makeCID_def makeCSD_def words_of_bytes_def makeResponse_def Let_def
      split: if_splits)

lemma sd_command_length: "sd_command cmd arg r c = Some (ok, r', c') \<Longrightarrow> length r = 4 \<Longrightarrow> length r' = 4"
  by (auto simp: sd_command_def Let_def case_prod_beta split: if_splits elim!: bind_SomeE
      intro: sd_respond_length)

lemma DevSD_rx_frame:
  assumes "DevSD_rx pread s = Some s'"
  shows "hc_regs (ss_hc s') = hc_regs (ss_hc s) \<and> hc_cmd_ack (ss_hc s') = hc_cmd_ack (ss_hc s) \<and>
    hc_tx_ack (ss_hc s') = hc_tx_ack (ss_hc s)"
  using assms
  by (auto simp: DevSD_rx_def Let_def case_prod_beta split: if_splits elim!: bind_SomeE dest!: getAddrDMA_frame)

lemma DevSD_cmd_done:
  assumes "DevSD_cmd pread s = Some s'" and "length (hc_regs (ss_hc s)) = DEVSD_REG_END"
  shows "\<not> cmdPending (ss_hc s')" "length (hc_regs (ss_hc s')) = DEVSD_REG_END"
proof -
  show "\<not> cmdPending (ss_hc s')" "length (hc_regs (ss_hc s')) = DEVSD_REG_END"
    using assms
    by (auto simp: DevSD_cmd_def cmdPending_def Let_def case_prod_beta nth_append split: if_splits
        elim!: bind_SomeE dest!: DevSD_rx_frame sd_command_length)
qed

lemma DevSD_tx_done:
  assumes "DevSD_tx pwrite s = Some s'"
  shows "\<not> txPending (ss_hc s')" "cmdPending (ss_hc s') = cmdPending (ss_hc s)"
    "rxPending (ss_hc s') = rxPending (ss_hc s)" "hc_regs (ss_hc s') = hc_regs (ss_hc s)"
  using assms
  by (auto simp: DevSD_tx_def txPending_def cmdPending_def rxPending_def Let_def case_prod_beta split: if_splits
      elim!: bind_SomeE dest!: getAddrDMA_frame)

text \<open>C38: Every request is answered. After any write to the controller that does not stop the simulator, no command and no
  transmission is pending, the register file keeps its size, and whenever an enabled completion is
  signalled the interrupt has been raised.\<close>

theorem sd_host_settles:
  assumes "DevSD_write32 pread pwrite addr data s = Some s'" and "length (hc_regs (ss_hc s)) = DEVSD_REG_END"
  shows "\<not> cmdPending (ss_hc s') \<and> \<not> txPending (ss_hc s') \<and> length (hc_regs (ss_hc s')) = DEVSD_REG_END \<and>
    (\<exists>io. ss_io s' = (if hc_intc (ss_hc s') \<and> sd_irq_wanted (ss_hc s')
                     then io_triggerIRQ (hc_irq_number (ss_hc s')) io else io))"
proof -
  obtain s0 where w: "DevSD_checkForWork pread pwrite s0 = Some s'" and l: "length (hc_regs (ss_hc s0)) = DEVSD_REG_END"
    using assms by (auto simp: DevSD_write32_def Let_def split: if_splits)
  then obtain s1 s2 where s1: "DevSD_cmd pread s0 = Some s1" and s2: "DevSD_tx pwrite s1 = Some s2"
    and s': "s' = (if hc_intc (ss_hc s2) \<and> sd_irq_wanted (ss_hc s2)
                then s2\<lparr>ss_io := io_triggerIRQ (hc_irq_number (ss_hc s2)) (ss_io s2)\<rparr> else s2)"
    by (auto simp: DevSD_checkForWork_def elim!: bind_SomeE)
  then show ?thesis
    using DevSD_cmd_done [OF s1 l] DevSD_tx_done [OF s2] by auto
qed


lemma dma_out_trigger [simp]: "dma_out p (io_triggerIRQ n io) k = dma_out p io k"
  by (simp add: dma_out_def io_triggerIRQ_def case_prod_beta io_set_dev_def split: option.split device.split)

definition demo_sd :: "unit sd_sys" where
  "demo_sd = \<lparr>ss_hc = (DevSD_init \<lparr>hc_regs = [], hc_bus = True, hc_intc = True, hc_irq_number = 3,
       hc_irq_tx_triggered = False, hc_irq_tx_enabled = False, hc_irq_rx_triggered = False,
       hc_irq_rx_enabled = False, hc_txblocks = 0, hc_cmd_ack = False, hc_tx_ack = False, hc_rx_ack = False,
       hc_cmd_status = 0, hc_tx_status = 0, hc_rx_status = 0, hc_dma_status = 0\<rparr>)
       \<lparr>hc_regs := [0, 0, 0, 0, 0x700, 0x1100, 0, 0, 0, 0, 0, 0, 128, 0, 0x100, 0]\<rparr>,
     ss_card = \<lparr>sd_fd = True, sd_image_blocks = 100, sd_acmd_pending = False, sd_state = SD_STATE_TRAN,
       sd_width = 1, sd_last_cmd = 0, sd_last_arg = 0, sd_last_acmd = False, sd_offset = 0, sd_block_count = 0\<rparr>,
     ss_io = demo_io (\<lambda>_. 0), ss_file = ()\<rparr>"

theorem sd_host_settles_witness:
  "\<exists>s'. DevSD_write32 (\<lambda>_ n off. None) (\<lambda>bs off f. (0, f)) 0x18 0x1 demo_sd = Some s' \<and>
     \<not> cmdPending (ss_hc s')"
proof -
  have "\<exists>s'. DevSD_write32 (\<lambda>_ n off. None) (\<lambda>bs off f. (0, f)) 0x18 0x1 demo_sd = Some s'"
    by (simp add: demo_sd_def DevSD_init_def sd_reg_of_def DevSD_write32_def DevSD_checkForWork_def Let_def
        DevSD_cmd_def cmdPending_def DevSD_tx_def txPending_def DevSD_rx_def rxPending_def
        sd_command_def sd_cmd_def RCMD_def RRESP_def sd_respond_def makeResponse_def)
  then obtain s' where w: "DevSD_write32 (\<lambda>_ n off. None) (\<lambda>bs off f. (0, f)) 0x18 0x1 demo_sd = Some s'" ..
  have "length (hc_regs (ss_hc demo_sd)) = DEVSD_REG_END" by (simp add: demo_sd_def)
  with w sd_host_settles [OF w] show ?thesis by blast
qed

text \<open>C11: A single block is read by DMA. With a read command (CMD17) in the command registers, a DMA
  address in RAM and a transfer of 128 words configured, one write to the control register that
  requests a command and a reception puts the 512 bytes that the image file holds at the
  block's offset (a 32-bit product, so block numbers are taken modulo 2 to the 23) into RAM at the DMA address; afterwards nothing is
  pending, both status fields say OK, the reception is signalled, and the card is back in the
  transfer state.\<close>

theorem sd_dma_read:
  fixes s :: "'f sd_sys" and data :: u32
  defines "regs \<equiv> hc_regs (ss_hc s)"
  defines "block \<equiv> push_bit 24 (regs ! SD_REG_CB1) OR drop_bit 8 (regs ! SD_REG_CB0)"
  assumes addr: "sd_reg_of addr = SD_REG_CTRL" and len: "length regs = DEVSD_REG_END"
    and cmd: "drop_bit 8 (regs ! SD_REG_CB1) AND 0x3f = 17"
    and cfg: "rx_length (regs ! SD_REG_DATACFG) = 512"
    and req: "(data AND SD_CTRL_CMDREQ \<noteq> 0) \<noteq> hc_cmd_ack (ss_hc s)"
      "(data AND SD_CTRL_RXREQ \<noteq> 0) \<noteq> hc_rx_ack (ss_hc s)" "(data AND SD_CTRL_TXREQ \<noteq> 0) = hc_tx_ack (ss_hc s)"
    and card: "sd_fd (ss_card s)" "\<not> sd_acmd_pending (ss_card s)"
    and image: "pread (ss_file s) 512 (block * 512) = Some bs" "length bs = 512"
    and bus: "hc_bus (ss_hc s)" "io_ok (ss_io s)" "ram_at (ss_io s) (regs ! SD_REG_DMA_ADDR) d"
      "uint (ram_direct_map d (regs ! SD_REG_DMA_ADDR)) + 512 \<le> 2 ^ 64"
  shows "\<exists>s'. DevSD_write32 pread pwrite addr data s = Some s' \<and>
    dma_out (ram_direct_map d (regs ! SD_REG_DMA_ADDR)) (ss_io s') 512 = bs \<and>
    \<not> cmdPending (ss_hc s') \<and> \<not> rxPending (ss_hc s') \<and> \<not> txPending (ss_hc s') \<and>
    hc_cmd_status (ss_hc s') = SD_STATUS_CMD_OK \<and> hc_rx_status (ss_hc s') = SD_STATUS_RX_OK \<and>
    hc_irq_rx_triggered (ss_hc s') \<and> sd_state (ss_card s') = SD_STATE_TRAN \<and> ss_file s' = ss_file s"
proof -
  define r where "r = regs[SD_REG_CTRL := data]"
  have r: "r ! 6 = data" "r ! 5 = regs ! 5" "r ! 4 = regs ! 4" "r ! 12 = regs ! 12" "r ! 14 = regs ! 14" "length r = 16"
    using len by (simp_all add: r_def)
  obtain i where dma: "getAddrDMA True (regs ! 14) (ss_io s) =
      Some (ram_direct_map d (regs ! 14), ss_io s\<lparr>io_bus := io_bus (ss_io s)\<lparr>bus_last_dev := i\<rparr>\<rparr>)"
    using getAddrDMA_ram [OF bus(3)] bus(2) by (auto simp: io_ok_def)
  let ?s0 = "s\<lparr>ss_hc := ss_hc s\<lparr>hc_regs := r\<rparr>\<rparr>"
  obtain resp c where c: "sd_command 17 block (take 4 r) (ss_card s) = Some (True, resp, c)" "length resp = 4"
      "sd_state c = SD_STATE_DATA" "\<not> sd_last_acmd c" "sd_last_cmd c = 17" "sd_offset c = block * 512"
    using card r(6)
    by (simp add: sd_command_def sd_cmd_def RCMD_def RRESP_def sd_respond_def Let_def makeResponse_def)
  have rd: "sd_read (pread (ss_file s)) 512 0 c = (True, 0, bs, c\<lparr>sd_state := SD_STATE_TRAN\<rparr>)"
    using c image by (simp add: sd_read_def RCMD_def)
  let ?regs = "resp @ drop 4 r" and ?p = "ram_direct_map d (regs ! 14)"
  have regs': "?regs ! 6 = data" "?regs ! 12 = regs ! 12" "?regs ! 14 = regs ! 14"
    using r c(2) by (simp_all add: nth_append)
  define s2 where "s2 = s\<lparr>ss_card := c\<lparr>sd_state := SD_STATE_TRAN\<rparr>,
    ss_io := dma_in ?p bs (ss_io s\<lparr>io_bus := io_bus (ss_io s)\<lparr>bus_last_dev := i\<rparr>\<rparr>),
    ss_hc := (ss_hc s)\<lparr>hc_regs := ?regs, hc_cmd_status := 0, hc_cmd_ack := \<not> hc_cmd_ack (ss_hc s),
      hc_rx_status := 0, hc_rx_ack := \<not> hc_rx_ack (ss_hc s), hc_irq_rx_triggered := True\<rparr>\<rparr>"
  have rx: "DevSD_rx pread (s\<lparr>ss_card := c, ss_hc := (ss_hc s)\<lparr>hc_regs := ?regs,
      hc_cmd_status := 0, hc_cmd_ack := \<not> hc_cmd_ack (ss_hc s)\<rparr>\<rparr>) = Some s2"
    using req(2) cfg rd dma bus(1)
    by (simp add: DevSD_rx_def rxPending_def regs' DevSD_getAddrDMA_def s2_def)
  have cmd1: "DevSD_cmd pread ?s0 = Some s2"
    using req(1) cmd c(1) rx by (simp add: DevSD_cmd_def cmdPending_def r block_def)
  have tx1: "DevSD_tx pwrite s2 = Some s2"
    using req(3) by (simp add: DevSD_tx_def txPending_def s2_def regs')
  have "DevSD_write32 pread pwrite addr data s = DevSD_checkForWork pread pwrite ?s0"
    by (simp add: DevSD_write32_def addr r_def regs_def Let_def)
  also have "\<dots> = Some (if hc_intc (ss_hc s2) \<and> sd_irq_wanted (ss_hc s2)
      then s2\<lparr>ss_io := io_triggerIRQ (hc_irq_number (ss_hc s2)) (ss_io s2)\<rparr> else s2)"
    by (simp only: DevSD_checkForWork_def cmd1 tx1 Option.bind.simps)
  finally have w: "DevSD_write32 pread pwrite addr data s = \<dots>" .
  have "dma_out ?p (ss_io s2) 512 = bs" "dma_out ?p (io_triggerIRQ n (ss_io s2)) 512 = bs" for n
    using dma_out_in [of bs 512 ?p "ss_io s\<lparr>io_bus := io_bus (ss_io s)\<lparr>bus_last_dev := i\<rparr>\<rparr>"] image(2) bus(4)
    by (simp_all add: s2_def dma_out_trigger)
  then show ?thesis
    unfolding w using req by (auto simp: s2_def cmdPending_def rxPending_def txPending_def regs')
qed

lemma dma_out_first: "dma_out p io 512 = replicate 512 x \<Longrightarrow> io_hmem io p = x"
  by (drule arg_cong [where f = "\<lambda>bs. bs ! 0"]) (simp add: dma_out_def)

theorem sd_dma_read_witness:
  "\<exists>s'. DevSD_write32 (\<lambda>_ n off. Some (replicate (unat n) (ucast (drop_bit 9 off)))) (\<lambda>bs off f. (int (length bs), f))
      0x18 0x11 demo_sd = Some s' \<and> io_hmem (ss_io s') 0x10000100 = 7"
proof -
  have pa: "ram_direct_map demo_ram 0x100 = 0x10000100"
    by (simp add: ram_direct_map_def offset_from_PA_def demo_ram_def)
  obtain s' where "DevSD_write32 (\<lambda>_ n off. Some (replicate (unat n) (ucast (drop_bit 9 off))))
      (\<lambda>bs off f. (int (length bs), f)) 0x18 0x11 demo_sd = Some s'"
    and "dma_out 0x10000100 (ss_io s') 512 = replicate 512 7"
    using sd_dma_read [where s = demo_sd and addr = "0x18" and data = "0x11" and d = demo_ram
        and bs = "replicate 512 7" and pread = "\<lambda>_ n off. Some (replicate (unat n) (ucast (drop_bit 9 off)))"
        and pwrite = "\<lambda>bs off f. (int (length bs), f)"] pa demo_ram_at [of "0x100"] demo_io_ok
    by (simp add: demo_sd_def DevSD_init_def sd_reg_of_def rx_length_def SD_DATACFG_NRBLK_def SD_DATACFG_WIB_def)
      blast
  then show ?thesis using dma_out_first by blast
qed

end
