(* ===== verification/Dev_Props.thy ===== *)
theory Dev_Props
  imports Dev_SPI Dev_SBD Dev_LCDC MMU_Machine
begin

section \<open>Properties of the SPI, block and display devices\<close>

subsection \<open>SPI\<close>

lemma doTransfer_spec:
  assumes "sp_spidev d = Some g" and "len \<le> 3"
  shows "\<exists>g'. snd (doTransfer din txd len d) = d\<lparr>sp_spidev := Some g'\<rparr> \<and>
    sends (word_bytes txd (unat len + 1)) g g' \<and>
    fst (doTransfer loopback txd len d) = take_bit (8 * (unat len + 1)) txd"
proof -
  have "unat (len + 1) = unat len + 1"
    using assms(2) by (simp add: word_le_nat_alt unat_word_ariths)
  then show ?thesis
    using spi_bytes_sends [of txd "unat len + 1" g din 0] spi_bytes_loopback [of txd "unat len + 1" g]
    by (auto simp: doTransfer_def assms(1) case_prod_beta simp del: upt_Suc)
qed

text \<open>C39: SPI transfers. In each of the four clock modes, a write to the control register that
  starts channel A sends exactly the configured number of bytes, the least significant first
  and each with its most significant bit first: a peripheral that samples the data pin at
  the sampling edges of the mode sees these bits and no others, and the clock ends at its
  idle level.  With the output wired to the input, the received word is the sent one, cut to
  the transfer's length.\<close>

theorem spi_transfer:
  assumes "sp_spidev d = Some g" and "data AND DEVSPI_REG_CTRL_RUN_A \<noteq> 0" and "data AND DEVSPI_REG_CTRL_RUN_B = 0"
  defines "len \<equiv> unat (drop_bit 8 data AND 3) + 1"
  shows "\<exists>d' g' g''. DevSPI_write32 loopback DEVSPI_REG_CTRL data d = Some d' \<and>
    g' = spi_setConfig (bit data 0) (bit data 1) (sp_clkdiv d) g \<and>
    sp_spidev d' = Some g'' \<and> sends (word_bytes (sp_txd_a d) len) g' g'' \<and>
    sp_rxd_a d' = take_bit (8 * len) (sp_txd_a d) \<and> sp_rxd_b d' = sp_rxd_b d"
proof -
  have le: "drop_bit 8 data AND 3 \<le> 3" 
    by (simp add: word_and_le1)
  let ?g = "spi_setConfig (bit data 0) (bit data 1) (sp_clkdiv d) g"
  have cfg: "data AND 1 \<noteq> 0 \<longleftrightarrow> bit data 0" "data AND 2 \<noteq> 0 \<longleftrightarrow> bit data 1"
    using and_exp_nonzero [of data 0] and_exp_nonzero [of data 1] by simp_all
  let ?d = "d\<lparr>sp_config := data AND 3, sp_len_a := drop_bit 8 data AND 3,
     sp_len_b := drop_bit 11 data AND 3, sp_spidev := Some ?g\<rparr>"
  have conf: "spi_configure (d\<lparr>sp_config := data AND 3, sp_len_a := drop_bit 8 data AND 3,
     sp_len_b := drop_bit 11 data AND 3\<rparr>) = ?d"
    using assms(1) by (simp add: spi_configure_def and.assoc cfg)
  obtain g' where "snd (doTransfer loopback (sp_txd_a d) (drop_bit 8 data AND 3) ?d) = ?d\<lparr>sp_spidev := Some g'\<rparr>"
    and "sends (word_bytes (sp_txd_a d) len) ?g g'"
    and "fst (doTransfer loopback (sp_txd_a d) (drop_bit 8 data AND 3) ?d) = take_bit (8 * len) (sp_txd_a d)"
    using doTransfer_spec [of ?d ?g "drop_bit 8 data AND 3" loopback "sp_txd_a d"] le
    unfolding len_def by auto
  then show ?thesis
    using assms(2,3) by (simp add: DevSPI_write32_def conf case_prod_beta Let_def)
qed

subsection \<open>The block device\<close>

text \<open>C37: Bounds of the block device. A request whose last block number is below 2 to the 32 is carried out
  exactly when all its blocks are on the device.  But the test is made in 32-bit
  arithmetic: a request so long that the sum wraps around is carried out although it leaves the
  device, whenever its first block and the wrapped sum are within the device.\<close>

theorem sbd_bounds:
  assumes "num \<noteq> 0" and "0 \<le> sb_fd d" and "getAddrDMA (sb_bus d) to io = Some (ha, io1)"
    and "pread f (num * 512) (start * 512) = Some bs"
  defines "block_end \<equiv> unat start + unat num" and "n \<equiv> unat (sb_nr_blocks d)"
  shows "doRead pread start num to d io f =
    Some (if (if block_end < 2 ^ 32 then block_end \<le> n else unat start < n \<and> block_end - 2 ^ 32 \<le> n)
          then dma_in ha bs io1 else io1)"
proof -
  have "\<not> off_end start num d \<longleftrightarrow> (if block_end < 2 ^ 32 then block_end \<le> n else unat start < n \<and> block_end - 2 ^ 32 \<le> n)"
    using off_end_exact [of start num d] off_end_wrapped [of start num d] assms(1)
    unfolding block_end_def n_def by auto
  then show ?thesis using assms(1-4) by (cases "off_end start num d") (auto simp: doRead_def split: if_splits)
qed

theorem sbd_bounds_witness:
  "\<exists>io1. doRead (\<lambda>_ n off. Some [0xab]) 1 0xffffffff 0x100 (sbd_new\<lparr>sb_bus := True, sb_fd := 3, sb_nr_blocks := 2\<rparr>)
     (demo_io (\<lambda>_. 0)) () = Some (dma_in 0x10000100 [0xab] io1)"
proof -
  have pa: "ram_direct_map demo_ram 0x100 = 0x10000100"
    by (simp add: ram_direct_map_def offset_from_PA_def demo_ram_def)
  obtain i where "getAddrDMA True 0x100 (demo_io (\<lambda>_. 0)) =
      Some (0x10000100, demo_io (\<lambda>_. 0)\<lparr>io_bus := io_bus (demo_io (\<lambda>_. 0))\<lparr>bus_last_dev := i\<rparr>\<rparr>)"
    using getAddrDMA_ram [OF demo_ram_at [of "0x100" "\<lambda>_. 0"]] demo_io_ok [of "\<lambda>_. 0"]
    by (auto simp: io_ok_def pa)
  then show ?thesis
    using sbd_bounds [where num = "0xffffffff" and start = 1 and pread = "\<lambda>_ n off. Some [0xab]"
        and d = "sbd_new\<lparr>sb_bus := True, sb_fd := 3, sb_nr_blocks := 2\<rparr>" and to = "0x100" and io = "demo_io (\<lambda>_. 0)"
        and ha = "0x10000100" and f = "()" and bs = "[0xab]"]
    by auto
qed

theorem spi_transfer_witness:
  "\<exists>d'. DevSPI_write32 loopback DEVSPI_REG_CTRL 0x181 \<lparr>sp_config = 0, sp_len_a = 0, sp_len_b = 0, sp_cs = 0,
      sp_txd_a = 0x12345678, sp_rxd_a = 0, sp_txd_b = 0, sp_rxd_b = 0, sp_clkdiv = 0,
      sp_spidev = Some \<lparr>sg_cpol = False, sg_cpha = False, sg_clkdiv = 0, sg_pins = []\<rparr>\<rparr> = Some d' \<and>
    sp_rxd_a d' = 0x5678"
  using spi_transfer [of "\<lparr>sp_config = 0, sp_len_a = 0, sp_len_b = 0, sp_cs = 0,
      sp_txd_a = 0x12345678, sp_rxd_a = 0, sp_txd_b = 0, sp_rxd_b = 0, sp_clkdiv = 0,
      sp_spidev = Some \<lparr>sg_cpol = False, sg_cpha = False, sg_clkdiv = 0, sg_pins = []\<rparr>\<rparr>" _ "0x181"]
  by auto

subsection \<open>The display\<close>





end
