(* ===== verification/Platform.thy ===== *)
theory Platform
  imports Bus Dev_RAM
begin

section \<open>The MR3 platform: its memory map and its boot image\<close>

text \<open>
  \<open>platform_init\<close> of \<open>platform.cc\<close> for \<open>PLATFORM == 3\<close> and the addresses of
  \<open>platform.h\<close>: which device is attached where and in which order, and where the boot image is
  loaded.  A device is its name here: what it does is in its own theory.
\<close>

definition RAM_BASE_ADDR :: u32 where [simp]: "RAM_BASE_ADDR = 0x00000000"
definition RAM_SIZE :: u32 where [simp]: "RAM_SIZE = 32 * 1024 * 1024"
definition BOOT_RAM_BASE_ADDR :: u32 where [simp]: "BOOT_RAM_BASE_ADDR = 0xfff00000"
definition BOOT_RAM_SIZE :: u32 where [simp]: "BOOT_RAM_SIZE = 64 * 1024"
definition IO_BASE :: u32 where [simp]: "IO_BASE = 0x82000000"
definition UART_BASE_ADDR :: u32 where [simp]: "UART_BASE_ADDR = IO_BASE + 0x00000"
definition UART_SIZE :: u32 where [simp]: "UART_SIZE = 0x200"
definition KBD_UART_BASE_ADDR :: u32 where [simp]: "KBD_UART_BASE_ADDR = IO_BASE + 0x10000"
definition KBD_UART_SIZE :: u32 where [simp]: "KBD_UART_SIZE = 0x200"
definition MSE_UART_BASE_ADDR :: u32 where [simp]: "MSE_UART_BASE_ADDR = IO_BASE + 0x20000"
definition MSE_UART_SIZE :: u32 where [simp]: "MSE_UART_SIZE = 0x200"
definition LCDC0_BASE_ADDR :: u32 where [simp]: "LCDC0_BASE_ADDR = IO_BASE + 0x40000"
definition LCDC0_SIZE :: u32 where [simp]: "LCDC0_SIZE = 0x200"
definition GPIO_BASE_ADDR :: u32 where [simp]: "GPIO_BASE_ADDR = IO_BASE + 0x60000"
definition GPIO_SIZE :: u32 where [simp]: "GPIO_SIZE = 0x200"
definition INTC_BASE_ADDR :: u32 where [simp]: "INTC_BASE_ADDR = IO_BASE + 0x70000"
definition INTC_SIZE :: u32 where [simp]: "INTC_SIZE = 0x200"
definition SPI0_BASE_ADDR :: u32 where [simp]: "SPI0_BASE_ADDR = IO_BASE + 0x80000"
definition SPI0_SIZE :: u32 where [simp]: "SPI0_SIZE = 0x200"
definition SPI1_BASE_ADDR :: u32 where [simp]: "SPI1_BASE_ADDR = IO_BASE + 0x90000"
definition SPI1_SIZE :: u32 where [simp]: "SPI1_SIZE = 0x200"
definition I2S_BASE_ADDR :: u32 where [simp]: "I2S_BASE_ADDR = IO_BASE + 0xa0000"
definition I2S_SIZE :: u32 where [simp]: "I2S_SIZE = 0x200"
definition SDH_BASE_ADDR :: u32 where [simp]: "SDH_BASE_ADDR = IO_BASE + 0xb0000"
definition SDH_SIZE :: u32 where [simp]: "SDH_SIZE = 0x200"
definition SBD0_BASE_ADDR :: u32 where [simp]: "SBD0_BASE_ADDR = IO_BASE + 0xf0000"
definition SBD_SIZE :: u32 where [simp]: "SBD_SIZE = 0x00000020"
definition SBD_NUM :: nat where [simp]: "SBD_NUM = 4"
definition SBD_STRIDE :: u32 where [simp]: "SBD_STRIDE = 0x100"

datatype plat_device =
    P_devram | P_devbootram | P_devuart | P_devkbd | P_devmse | P_devintc | P_devlcdc_pdp
  | P_devgpio | P_devi2s | P_devsd | P_devsbd nat | P_devspi0 | P_devspi1

type_synonym 'd window = "'d \<times> u32 \<times> u32"

text \<open>The \<open>attach\<close> calls, in order.\<close>

definition platform_attach :: "plat_device window list" where
  "platform_attach =
     [(P_devram, RAM_BASE_ADDR, RAM_SIZE),
      (P_devbootram, BOOT_RAM_BASE_ADDR, BOOT_RAM_SIZE),
      (P_devuart, UART_BASE_ADDR, UART_SIZE),
      (P_devkbd, KBD_UART_BASE_ADDR, KBD_UART_SIZE),
      (P_devmse, MSE_UART_BASE_ADDR, MSE_UART_SIZE),
      (P_devintc, INTC_BASE_ADDR, INTC_SIZE),
      (P_devlcdc_pdp, LCDC0_BASE_ADDR, LCDC0_SIZE),
      (P_devgpio, GPIO_BASE_ADDR, GPIO_SIZE),
      (P_devi2s, I2S_BASE_ADDR, I2S_SIZE),
      (P_devsd, SDH_BASE_ADDR, SDH_SIZE)] @
     map (\<lambda>i. (P_devsbd i, SBD0_BASE_ADDR + of_nat i * SBD_STRIDE, SBD_SIZE)) [0..<SBD_NUM] @
     [(P_devspi0, SPI0_BASE_ADDR, SPI0_SIZE),
      (P_devspi1, SPI1_BASE_ADDR, SPI1_SIZE)]"

fun attach_all :: "(u32 \<Rightarrow> u32 \<Rightarrow> 'd \<Rightarrow> 'd) \<Rightarrow> 'd window list \<Rightarrow> 'd bus \<Rightarrow> 'd bus option" where
  "attach_all setProps [] b = Some b"
| "attach_all setProps ((d, base, sz) # ws) b = do { b \<leftarrow> attach setProps d base sz b; attach_all setProps ws b }"

abbreviation attach_names :: "plat_device window list \<Rightarrow> plat_device bus \<Rightarrow> plat_device bus option" where
  "attach_names \<equiv> attach_all (\<lambda>_ _ d. d)"

definition platform_init :: "plat_device bus \<Rightarrow> plat_device bus option" where
  "platform_init b = attach_names platform_attach b"

text \<open>Where the image at \<open>CFG(load_addr)\<close> goes.\<close>

definition platform_load :: "u8 list option \<Rightarrow> u32 \<Rightarrow> ram \<Rightarrow> ram \<Rightarrow> hmem \<Rightarrow> hmem option" where
  "platform_load rom load_addr devram devbootram m =
     (if load_addr \<ge> BOOT_RAM_BASE_ADDR then loadAtOffset rom (load_addr - BOOT_RAM_BASE_ADDR) devbootram m
      else if load_addr \<ge> RAM_BASE_ADDR then loadAtOffset rom (load_addr - RAM_BASE_ADDR) devram m
      else Some m)"

subsection \<open>Attaching to an empty bus\<close>

abbreviation in_window :: "u32 \<Rightarrow> 'd window \<Rightarrow> bool" where
  "in_window a w \<equiv> fst (snd w) \<le> a \<and> a < fst (snd w) + snd (snd w)"

definition window_slot :: "(u32 \<Rightarrow> u32 \<Rightarrow> 'd \<Rightarrow> 'd) \<Rightarrow> 'd window \<Rightarrow> 'd busdev" where
  "window_slot sp w = \<lparr>bd_addr = fst (snd w), bd_size = snd (snd w), bd_dev = Some (sp (fst (snd w)) (snd (snd w)) (fst w))\<rparr>"

definition bus_of :: "(u32 \<Rightarrow> u32 \<Rightarrow> 'd \<Rightarrow> 'd) \<Rightarrow> 'd window list \<Rightarrow> 'd bus" where
  "bus_of sp ws = \<lparr>bus_devs = map (window_slot sp) ws @
     replicate (bus_entries - length ws) \<lparr>bd_addr = 0, bd_size = 0, bd_dev = None\<rparr>, bus_last_dev = 0\<rparr>"

lemma find_upt_first: "k < n \<Longrightarrow> P k \<Longrightarrow> \<forall>i<k. \<not> P i \<Longrightarrow> find P [0..<n] = Some k"
  by (auto simp: find_Some_iff)

lemma attach_bus_of:
  assumes "length ws < bus_entries"
  shows "attach sp d base sz (bus_of sp ws) = Some (bus_of sp (ws @ [(d, base, sz)]))"
proof -
  have "find (\<lambda>i. bd_dev (bus_devs (bus_of sp ws) ! i) = None) [0..<bus_entries] = Some (length ws)"
    using assms by (intro find_upt_first) (auto simp: bus_of_def nth_append window_slot_def)
  moreover obtain k where k: "bus_entries - length ws = Suc k"
    using assms by (cases "bus_entries - length ws") auto
  moreover have "bus_entries - Suc (length ws) = k" using k by simp
  ultimately show ?thesis
    by (simp add: attach_def bus_of_def list_update_append window_slot_def)
qed

lemma attach_all_bus_of:
  "length ws + length vs \<le> bus_entries \<Longrightarrow> attach_all sp vs (bus_of sp ws) = Some (bus_of sp (ws @ vs))"
proof (induction vs arbitrary: ws)
  case (Cons v vs)
  obtain d base sz where "v = (d, base, sz)" by (cases v)
  with Cons show ?case by (simp add: attach_bus_of)
qed simp

lemma bus_of_Nil: "bus_of sp [] = bus_init"
  by (simp add: bus_of_def bus_init_def)

lemma bus_of_matches:
  assumes "length ws \<le> bus_entries" and "i < bus_entries"
  shows "dev_matches_addr (bus_of sp ws) i a \<longleftrightarrow> i < length ws \<and> in_window a (ws ! i)"
  using assms by (auto simp: dev_matches_addr_def bus_of_def nth_append window_slot_def)

text \<open>Two windows that do not wrap around and lie one after the other share no address.\<close>

definition window_apart :: "'d window \<Rightarrow> 'd window \<Rightarrow> bool" where
  "window_apart v w \<longleftrightarrow>
     fst (snd v) + snd (snd v) \<le> fst (snd w) \<or> fst (snd w) + snd (snd w) \<le> fst (snd v)"

lemma window_apartD: "window_apart v w \<Longrightarrow> in_window a v \<Longrightarrow> \<not> in_window a w"
  by (auto simp: window_apart_def)

lemma bus_of_disjoint:
  assumes "length ws \<le> bus_entries" and "sorted_wrt window_apart ws"
  shows "bus_disjoint (bus_of sp ws)"
  unfolding bus_disjoint_def
proof (intro allI impI)
  fix i j a
  assume "i < bus_entries" "j < bus_entries" "dev_matches_addr (bus_of sp ws) i a" "dev_matches_addr (bus_of sp ws) j a"
  then have m: "i < length ws" "j < length ws" "in_window a (ws ! i)" "in_window a (ws ! j)"
    using bus_of_matches [OF assms(1), of _ sp] by auto
  have "window_apart (ws ! k) (ws ! l)" if "k < l" "l < length ws" for k l
    using assms(2) that by (simp add: sorted_wrt_iff_nth_less)
  then show "i = j"
    using m window_apartD by (metis linorder_neqE_nat)
qed

lemma platform_windows_apart: "sorted_wrt window_apart platform_attach"
  by code_simp

lemma platform_attach_length: "length platform_attach = 16"
  by (simp add: platform_attach_def)

lemma find_map_nth: "find P (map f xs) = map_option f (find (\<lambda>x. P (f x)) xs)"
  by (induction xs) simp_all

lemma find_append: "find P (xs @ ys) = (case find P xs of None \<Rightarrow> find P ys | Some x \<Rightarrow> Some x)"
  by (induction xs) simp_all

lemma find_dev_upt:
  assumes "length ws \<le> bus_entries"
  shows "find_dev_for_addr (bus_of sp ws) a = find (\<lambda>i. in_window a (ws ! i)) [0..<length ws]"
proof -
  have cut: "find (\<lambda>i. dev_matches_addr (bus_of sp ws) i a) [length ws..<bus_entries] = None"
    using assms by (auto simp: find_None_iff bus_of_matches)
  have "[0..<bus_entries] = [0..<length ws] @ [length ws..<bus_entries]"
    using assms upt_add_eq_append [of 0 "length ws" "bus_entries - length ws"] by simp
  then have "find_dev_for_addr (bus_of sp ws) a = find (\<lambda>i. dev_matches_addr (bus_of sp ws) i a) [0..<length ws]"
    unfolding find_dev_for_addr_def by (simp add: find_append cut split: option.split)
  also have "\<dots> = find (\<lambda>i. in_window a (ws ! i)) [0..<length ws]"
    using assms by (intro find_cong) (auto simp: bus_of_matches)
  finally show ?thesis .
qed

lemma find_dev_bus_of:
  assumes "length ws \<le> bus_entries"
  shows "map_option (\<lambda>i. ws ! i) (find_dev_for_addr (bus_of sp ws) a) = find (in_window a) ws"
  using find_map_nth [of "in_window a" "\<lambda>i. ws ! i" "[0..<length ws]"]
  by (simp add: map_nth find_dev_upt [OF assms])

text \<open>Windows that do not overlap make a bus on which every access, whatever was accessed before it,
  reaches the one device whose window contains the address.\<close>

lemma attach_map_sound:
  assumes "length ws \<le> bus_entries" and "sorted_wrt window_apart ws"
  shows "attach_all sp ws bus_init = Some (bus_of sp ws)" and "bus_wf (bus_of sp ws)" and "bus_disjoint (bus_of sp ws)"
proof -
  show "attach_all sp ws bus_init = Some (bus_of sp ws)"
    using attach_all_bus_of [of "[]" ws sp] assms(1) by (simp add: bus_of_Nil)
  show "bus_wf (bus_of sp ws)" unfolding bus_wf_def
    using assms(1) by (auto simp: bus_of_def bus_entries_def nth_append window_slot_def)
  show "bus_disjoint (bus_of sp ws)" using assms(1,2) by (rule bus_of_disjoint)
qed

lemma attach_map_routes:
  assumes "length ws \<le> bus_entries" and "sorted_wrt window_apart ws" and "prev < bus_entries"
  shows "map_option (\<lambda>(i, b'). bd_dev (bus_devs b' ! i)) (get_dev a (bus_of sp ws\<lparr>bus_last_dev := prev\<rparr>)) =
      map_option (\<lambda>w. Some (sp (fst (snd w)) (snd (snd w)) (fst w))) (find (in_window a) ws)"
proof -
  note wf = attach_map_sound(2,3) [OF assms(1,2), of sp]
  have "map_option (\<lambda>(i, b'). bd_dev (bus_devs b' ! i)) (get_dev a (bus_of sp ws)) =
      map_option (\<lambda>w. Some (sp (fst (snd w)) (snd (snd w)) (fst w))) (find (in_window a) ws)"
    unfolding get_dev_find [OF wf] find_dev_bus_of [OF assms(1), of sp a, symmetric]
    using find_dev_SomeD [of "bus_of sp ws" a] bus_of_matches [OF assms(1), of _ sp a]
    by (auto simp: bus_of_def nth_append window_slot_def case_prod_beta split: option.split)
  then show ?thesis
    using get_dev_cache_irrelevant [OF wf assms(3)] by auto
qed

text \<open>The memory map. Attaching the devices of the MR3 platform to an empty bus succeeds, no
  two windows share an address, and every access, whatever was accessed before it, reaches the
  one device whose window contains the address; outside all windows there is none.\<close>

theorem platform_map_sound:
  assumes "prev < bus_entries"
  shows "\<exists>b. platform_init bus_init = Some b \<and> bus_wf b \<and> bus_disjoint b \<and>
     map_option (\<lambda>(i, b'). bd_dev (bus_devs b' ! i)) (get_dev a (b\<lparr>bus_last_dev := prev\<rparr>)) =
     map_option (\<lambda>w. Some (fst w)) (find (in_window a) platform_attach)"
proof -
  have "length platform_attach \<le> bus_entries" by (simp add: platform_attach_length bus_entries_def)
  note sound = attach_map_sound [OF this platform_windows_apart] attach_map_routes [OF this platform_windows_apart assms]
  then show ?thesis unfolding platform_init_def by auto
qed

theorem platform_map_sound_witness:
  "\<exists>b. platform_init bus_init = Some b \<and>
     map_option (\<lambda>(i, b'). bd_dev (bus_devs b' ! i)) (get_dev 0x82070010 (b\<lparr>bus_last_dev := 3\<rparr>)) =
     Some (Some P_devintc)"
proof -
  have "find (in_window 0x82070010) platform_attach = Some (P_devintc, 0x82070000, 0x200)"
    by code_simp
  then show ?thesis
    using platform_map_sound [of 3 "0x82070010"] by (auto simp: bus_entries_def)
qed

end
