(* ===== verification/IO_Props.thy ===== *)
theory IO_Props
  imports CPU_State Dev_XpsIntc Dev_SimpleUart Platform
begin

section \<open>Properties of time, interrupts and the boot image\<close>

subsection \<open>Time base and decrementer\<close>

text \<open>The decrementer counts time base ticks. After any number of instructions the
  decrementer has gone down by exactly as much as the low word of the time base has gone up, modulo
  2 to the 32, the instruction count has gone up by their number, and nothing else of the
  CPU has changed; four instructions are one tick.\<close>

theorem ticks_dec_TB:
  defines "run n c \<equiv> (CPUTick 1 ^^ n) c"
  shows "c_dec (run n c) + ucast (getTB (run n c)) = c_dec c + ucast (getTB c) \<and>
    c_inst_count (run n c) = c_inst_count c + of_nat n \<and> getTB (run n c) = drop_bit 2 (c_tb c + of_nat n) \<and>
    (\<exists>count tb dec. run n c = c\<lparr>c_inst_count := count, c_tb := tb, c_dec := dec\<rparr>)"
proof -
  have "c_dec (run n c) + ucast (getTB (run n c)) = c_dec c + ucast (getTB c)"
    unfolding run_def by (induction n) (simp_all add: CPUTick_dec_TB)
  moreover have "c_inst_count (run n c) = c_inst_count c + of_nat n \<and> c_tb (run n c) = c_tb c + of_nat n"
    unfolding run_def by (induction n) (simp_all add: CPUTick_def Let_def)
  moreover have "\<exists>count tb dec. run n c = c\<lparr>c_inst_count := count, c_tb := tb, c_dec := dec\<rparr>"
    unfolding run_def
  proof (induction n)
    case 0
    have "c = c\<lparr>c_inst_count := c_inst_count c, c_tb := c_tb c, c_dec := c_dec c\<rparr>" by simp
    then show ?case unfolding funpow_0 by blast
  next
    case (Suc n)
    then obtain k tb dec where "(CPUTick 1 ^^ n) c = c\<lparr>c_inst_count := k, c_tb := tb, c_dec := dec\<rparr>"
      by blast
    then have "(CPUTick 1 ^^ Suc n) c = CPUTick 1 (c\<lparr>c_inst_count := k, c_tb := tb, c_dec := dec\<rparr>)" by simp
    also have "\<exists>k' tb' dec'. \<dots> = c\<lparr>c_inst_count := k', c_tb := tb', c_dec := dec'\<rparr>"
      unfolding CPUTick_def Let_def by (intro exI) simp
    finally show ?case .
  qed
  ultimately show ?thesis by (simp add: getTB_def TB_SHIFT_def)
qed

subsection \<open>The interrupt controller\<close>

text \<open>The states an initialised controller, attached to the CPU with the line low, can reach.\<close>

inductive intc_reach :: "intc \<times> bool \<Rightarrow> bool" where
  I_start: "ic_cpus d \<Longrightarrow> intc_reach (intc_init d, False)"
| I_write: "intc_reach di \<Longrightarrow> intc_write32 addr data di = Some di' \<Longrightarrow> intc_reach di'"
| I_raise: "intc_reach di \<Longrightarrow> intc_reach (triggerIRQ n di)"

lemma intc_reach_inv: "intc_reach di \<Longrightarrow> intc_inv di \<and> ic_cpus (fst di)"
proof (induction rule: intc_reach.induct)
  case (I_start d)
  then show ?case by (simp add: intc_inv_def intc_init_def getActive_def)
next
  case (I_write di addr data di')
  then show ?case using intc_write32_inv intc_cpus_kept(1) by blast
next
  case (I_raise di n)
  then show ?case using triggerIRQ_inv intc_cpus_kept(2) by blast
qed

text \<open>The interrupt line. Whatever is written to the controller and whichever lines the devices
  raise, the CPU's interrupt flag is set exactly when a raised interrupt is enabled; IVR then reads
  the number of the lowest such line, and all ones otherwise; and acknowledging a set of
  lines clears exactly those.\<close>

lemma intc_line:
  assumes "intc_reach (d, irqFlag)"
  shows "(irqFlag \<longleftrightarrow> (\<exists>n<32. bit (getActive d) n)) \<and>
    intc_read32 d XPSINTC_REG_IVR =
      Some (if irqFlag then of_nat (LEAST n. bit (getActive d) n) else 0xffffffff) \<and>
    (\<exists>d' f'. intc_write32 XPSINTC_REG_IAR data (d, irqFlag) = Some (d', f') \<and>
       getActive d' = getActive d AND NOT data)"
proof -
  have inv: "irqFlag \<longleftrightarrow> getActive d \<noteq> 0"
    using intc_reach_inv [OF assms] by (simp add: intc_inv_def)
  have nz: "getActive d \<noteq> 0 \<longleftrightarrow> (\<exists>n<32. bit (getActive d) n)"
    by (auto simp: word32_eq_bits)
  have least: "(LEAST n. n \<in> set [0..<32] \<and> bit (getActive d) n) = (LEAST n. bit (getActive d) n)"
    by (rule arg_cong [where f = Least]) (auto simp: fun_eq_iff dest: bit_imp_le_length)
  have "ivr_scan (getActive d) [0..<32] =
      (if irqFlag then of_nat (LEAST n. bit (getActive d) n) else 0xffffffff)"
    using ivr_scan_lowest [of "[0..<32]" "getActive d"] inv nz unfolding least
    by (auto simp: sorted_wrt_upt)
  then have ivr: "intc_read32 d XPSINTC_REG_IVR =
      Some (if irqFlag then of_nat (LEAST n. bit (getActive d) n) else 0xffffffff)"
    by (simp add: intc_read32_def Let_def)
  have "\<exists>d' f'. intc_write32 XPSINTC_REG_IAR data (d, irqFlag) = Some (d', f') \<and>
       getActive d' = getActive d AND NOT data"
  proof -
    let ?d = "d\<lparr>ic_regs := (ic_regs d)(0 := ic_regs d 0 AND NOT data)\<rparr>"
    have "intc_write32 XPSINTC_REG_IAR data (d, irqFlag) = Some (reassessOutput (?d, irqFlag))"
      by (simp add: intc_write32_def Let_def)
    moreover have "getActive (fst (reassessOutput (?d, irqFlag))) = getActive d AND NOT data"
      by (simp add: getActive_def Let_def and.assoc and.commute and.left_commute)
    ultimately show ?thesis by (metis prod.collapse)
  qed
  with inv nz ivr show ?thesis by blast
qed

subsection \<open>The UART's interrupt\<close>

text \<open>A UART raises its interrupt on rising edges only. Between operations its remembered
  level is the wanted one (a pending interrupt that is enabled); each received byte, read or
  write keeps this, and calls the interrupt controller exactly when the wanted level goes from
  low to high.\<close>

lemma suart_edges:
  assumes "suart_inv d"
  shows "(let (d', raised) = suart_asyncRxCB d in suart_inv d' \<and> (raised \<longleftrightarrow> suart_want d' \<and> \<not> suart_want d)) \<and>
    (\<forall>v d' raised. suart_read8 addr d = Some (v, d', raised) \<longrightarrow>
       suart_inv d' \<and> (raised \<longleftrightarrow> suart_want d' \<and> \<not> suart_want d)) \<and>
    (\<forall>d' raised. suart_write8 addr data d = Some (d', raised) \<longrightarrow>
       suart_inv d' \<and> (raised \<longleftrightarrow> suart_want d' \<and> \<not> suart_want d))"
proof -
  have edge: "snd (suart_assessIRQstatus e) \<longleftrightarrow> suart_want (fst (suart_assessIRQstatus e)) \<and> \<not> suart_want d"
    if "su_irq_active e = su_irq_active d" for e
  proof -
    have "suart_want (fst (suart_assessIRQstatus e)) = suart_want e"
      by (simp add: suart_assessIRQstatus_def Let_def)
    with that assms show ?thesis by (simp add: su.raised_iff suart_inv_def)
  qed
  have assess: "suart_inv d' \<and> (raised \<longleftrightarrow> suart_want d' \<and> \<not> suart_want d)"
    if "suart_assessIRQstatus e = (d', raised)" "su_irq_active e = su_irq_active d" for e d' raised
    using edge [OF that(2)] that(1) suart_assess_inv [of e] by simp
  have "let (d', raised) = suart_asyncRxCB d in suart_inv d' \<and> (raised \<longleftrightarrow> suart_want d' \<and> \<not> suart_want d)"
    using assess [of "suart_rx_flags d"]
    by (cases "suart_asyncRxCB d") (simp add: suart_asyncRxCB_def suart_rx_flags_def)
  then show ?thesis by (auto elim!: suart_read8_assess suart_write8_assess dest!: assess)
qed

lemma suart_edges_witness:
  "\<exists>d'. suart_asyncRxCB \<lparr>su_base_address = 0, su_address_span = 0, su_regs = (\<lambda>_. 0)(3 := 1), su_intc = True,
      su_irq_number = 0, su_irq_active = False, su_serio = None\<rparr> = (d', True)"
  using suart_edges [of "\<lparr>su_base_address = 0, su_address_span = 0, su_regs = (\<lambda>_. 0)(3 := 1), su_intc = True,
      su_irq_number = 0, su_irq_active = False, su_serio = None\<rparr>"]
  by (simp add: suart_inv_def suart_want_def suart_asyncRxCB_def suart_rx_flags_def suart_assessIRQstatus_def)

lemma intc_line_witness:
  "\<exists>d. intc_reach (d, True) \<and> intc_read32 d XPSINTC_REG_IVR = Some 3"
proof -
  let ?d0 = "\<lparr>ic_base_address = 0, ic_address_span = 0, ic_regs = \<lambda>_. 0, ic_triggeredCPU = False, ic_cpus = True\<rparr>"
  obtain di where w: "intc_write32 XPSINTC_REG_IER 0xff (intc_init ?d0, False) = Some di" and
    di: "triggerIRQ 3 di = (fst (triggerIRQ 3 di), True)" "getActive (fst (triggerIRQ 3 di)) = 8"
    by (simp add: intc_write32_def intc_init_def reassessOutput_def getActive_def triggerIRQ_def)
  have "intc_reach (fst (triggerIRQ 3 di), True)"
    unfolding di(1) [symmetric] by (rule intc_reach.I_raise, rule intc_reach.I_write [OF intc_reach.I_start w]) simp
  moreover have "Least (bit (8 :: u32)) = 3"
    using bit_exp_iff [of 3 _, where 'a = u32] by (intro Least_equality) auto
  ultimately show ?thesis
    using intc_line [of "fst (triggerIRQ 3 di)" True] di(2) by auto
qed

subsection \<open>The boot image\<close>

lemma load_word:
  assumes l: "loadAtOffset (Some bs) off d m = Some m'" and i: "i + 4 \<le> length bs"
    and span: "uint (r_mmap_base d) + uint (r_address_span d) \<le> 2 ^ 64"
    and a: "offset_from_PA d a = off + of_nat i"
  shows "BS32 (ram_read32 d a m') = be32 (bs ! i) (bs ! (i + 1)) (bs ! (i + 2)) (bs ! (i + 3))"
proof -
  have m': "m' = hwrite_bytes (r_mmap_base d + ucast off) bs m"
    and fit: "length bs + unat off \<le> unat (r_address_span d)"
    using l by (auto simp: loadAtOffset_def split: if_splits)
  have fit': "int (length bs) + uint off \<le> uint (r_address_span d)"
    using fit unfolding uint_nat by linarith
  have uc: "uint (ucast off :: u64) = uint off"
    by (rule uint_up_ucast) (simp add: is_up)
  have small: "uint (r_mmap_base d) + uint off < 2 ^ 64"
    using fit' span i by linarith
  have base: "uint (r_mmap_base d + ucast off) = uint (r_mmap_base d) + uint off"
    using small by (simp add: uint_word_ariths uc)
  have nth: "m' (r_mmap_base d + ucast off + of_nat k) = bs ! k" if "k < length bs" for k
    unfolding m' using that base span fit' by (intro hwrite_bytes_nth) linarith+
  have host: "ram_host d a = r_mmap_base d + ucast off + of_nat i"
  proof -
    have lt: "uint off + int i < 4294967296"
      using fit' i uint_lt2p [of "r_address_span d"] by simp
    moreover have "int i < 4294967296" using lt uint_ge_0 [of off] by linarith
    ultimately have "uint (off + of_nat i) = uint off + int i"
      by (simp add: uint_word_ariths unsigned_of_nat take_bit_eq_mod)
    moreover have "(ucast (off + of_nat i) :: u64) = of_int (uint (off + of_nat i))" by (simp only: ucast_eq)
    ultimately have "(ucast (off + of_nat i) :: u64) = of_int (uint off + int i)" by (simp only:)
    also have "\<dots> = ucast off + of_nat i" by (simp only: of_int_add of_int_of_nat_eq ucast_eq [of off])
    finally show ?thesis by (simp add: ram_host_def a)
  qed
  have step: "r_mmap_base d + ucast off + of_nat i + of_nat k = r_mmap_base d + ucast off + of_nat (i + k)" for k
    by simp
  show ?thesis
    unfolding ram_read32_def BS32_hload32 host
    using nth [of i] nth [of "i + 1"] nth [of "i + 2"] nth [of "i + 3"] i by (simp add: ac_simps)
qed

text \<open>The boot image. When loading succeeds, every word of the image file is read back through the
  RAM it was loaded into (the boot RAM for a load address in its range, the main RAM otherwise) at the load
  address plus its offset, most significant byte first, and the image lies inside that RAM.\<close>

theorem boot_image_loaded:
  assumes "platform_load (Some bs) load_addr devram devbootram m = Some m'"
    and "r_base_address devram = RAM_BASE_ADDR" and "r_base_address devbootram = BOOT_RAM_BASE_ADDR"
    and "i + 4 \<le> length bs"
  defines "d \<equiv> (if BOOT_RAM_BASE_ADDR \<le> load_addr then devbootram else devram)"
  assumes "uint (r_mmap_base d) + uint (r_address_span d) \<le> 2 ^ 64"
  shows "BS32 (ram_read32 d (load_addr + of_nat i) m') = be32 (bs ! i) (bs ! (i + 1)) (bs ! (i + 2)) (bs ! (i + 3)) \<and>
    unat (load_addr - r_base_address d) + length bs \<le> unat (r_address_span d)"
proof -
  have l: "loadAtOffset (Some bs) (load_addr - r_base_address d) d m = Some m'"
    using assms(1-3) by (simp add: platform_load_def d_def split: if_splits)
  have "offset_from_PA d (load_addr + of_nat i) = load_addr - r_base_address d + of_nat i"
    by (simp add: offset_from_PA_def)
  from load_word [OF l assms(4) assms(6) this] l show ?thesis
    by (simp add: loadAtOffset_def split: if_splits)
qed

theorem boot_image_loaded_witness:
  "BS32 (ram_read32 \<lparr>r_isROM = False, r_mmap_base = 0x10000000, r_base_address = 0, r_address_span = 0x10000\<rparr> 0x100
     (the (platform_load (Some [0x12, 0x34, 0x56, 0x78]) 0x100
        \<lparr>r_isROM = False, r_mmap_base = 0x10000000, r_base_address = 0, r_address_span = 0x10000\<rparr>
        \<lparr>r_isROM = False, r_mmap_base = 0x20000000, r_base_address = 0xfff00000, r_address_span = 0x10000\<rparr> (\<lambda>_. 0))))
   = 0x12345678"
  using boot_image_loaded [of "[0x12, 0x34, 0x56, 0x78]" "0x100"
     "\<lparr>r_isROM = False, r_mmap_base = 0x10000000, r_base_address = 0, r_address_span = 0x10000\<rparr>"
     "\<lparr>r_isROM = False, r_mmap_base = 0x20000000, r_base_address = 0xfff00000, r_address_span = 0x10000\<rparr>"
     "\<lambda>_. 0" _ 0]
  by (simp add: platform_load_def loadAtOffset_def be32_def)

end
