(* ===== verification/Blockstore.thy ===== *)
theory Blockstore
  imports MMU_Translate CPU_State
begin

section \<open>The store of translated blocks: \<open>blockstore.cc\<close>\<close>

text \<open>
  The code buffer of the JIT with its bump allocator, and the hash table over physical address and
  MSR that finds the block for the current PC.  \<open>block_buffer\<close> is page-aligned and fixed, so
  pointers into it are offsets: \<open>bs_last\<close> is \<open>block_buffer_last - block_buffer\<close>, and
  \<open>bs_mem\<close> gives the block header at an offset.  A null pointer is \<open>None\<close>, as is
  \<open>last_block\<close> when it points at \<open>dummy_block\<close>.  The chains of the table are linked through the
  headers; walking one is \<open>partial_function\<close>, because it would not end on a cyclic chain.
\<close>

definition BS_CODE_SIZE :: nat where [simp]: "BS_CODE_SIZE = 4 * 1024 * 1024"
definition BS_FUMES :: nat where [simp]: "BS_FUMES = 1024"
definition BS_GRACE :: nat where [simp]: "BS_GRACE = 100"
definition HTAB_ENTRIES :: u32 where [simp]: "HTAB_ENTRIES = 32768"

definition ALIGN_TO :: "nat \<Rightarrow> nat \<Rightarrow> nat" where
  "ALIGN_TO x y = (x + (y - 1)) div y * y"

text \<open>\<open>sizeof(block_t)\<close> is 24 on a 64-bit host.\<close>

definition headerlen :: nat where
  "headerlen = ALIGN_TO 24 64"

record block_t =
  b_next :: "nat option"
  b_pc :: u32
  b_pc_pa :: u32
  b_msr :: u32
  b_codelen :: nat

record blockstore =
  bs_mem :: "nat \<Rightarrow> block_t"
  bs_hashmap :: "nat \<Rightarrow> nat option"
  bs_last :: nat
  bs_last_block :: "nat option"
  bs_gencount :: u32

definition dummy_block :: block_t where
  "dummy_block = \<lparr>b_next = None, b_pc = NOT 0, b_pc_pa = 0, b_msr = NOT 0, b_codelen = 0\<rparr>"

definition HASH_IDX :: "u32 \<Rightarrow> u32 \<Rightarrow> nat" where
  "HASH_IDX va msr = unat ((drop_bit 2 va XOR drop_bit 13 va XOR msr) AND (HTAB_ENTRIES - 1))"

definition bs_hm_insert :: "u32 \<Rightarrow> u32 \<Rightarrow> nat \<Rightarrow> blockstore \<Rightarrow> blockstore" where
  "bs_hm_insert pc_pa msr block s =
     (let i = HASH_IDX pc_pa msr;
          s = (case bs_hashmap s i of
                 None \<Rightarrow> s
               | Some b \<Rightarrow> s\<lparr>bs_mem := (bs_mem s)(block := (bs_mem s block)\<lparr>b_next := Some b\<rparr>)\<rparr>)
      in s\<lparr>bs_hashmap := (bs_hashmap s)(i := Some block)\<rparr>)"

partial_function (option) bs_walk :: "(nat \<Rightarrow> block_t) \<Rightarrow> u32 \<Rightarrow> u32 \<Rightarrow> nat option \<Rightarrow> nat option option" where
  "bs_walk mem pc_pa msr b =
     (if b = None then Some None
      else if b_pc_pa (mem (the b)) = pc_pa \<and> b_msr (mem (the b)) = msr then Some b
      else bs_walk mem pc_pa msr (b_next (mem (the b))))"

definition bs_hm_lookup :: "u32 \<Rightarrow> u32 \<Rightarrow> blockstore \<Rightarrow> (nat option \<times> blockstore) option" where
  "bs_hm_lookup pc_pa msr s =
     do { b \<leftarrow> bs_walk (bs_mem s) pc_pa msr (bs_hashmap s (HASH_IDX pc_pa msr));
          Some (b, case b of None \<Rightarrow> s | Some p \<Rightarrow> s\<lparr>bs_last_block := Some p\<rparr>) }"

definition resetBlockstore :: "blockstore \<Rightarrow> blockstore" where
  "resetBlockstore s = s\<lparr>bs_last := 0, bs_last_block := None, bs_hashmap := \<lambda>_. None\<rparr>"

text \<open>\<open>allocBlock\<close>: the block and \<open>bytes_avail\<close>.  After the reset the test fails, so
  \<open>goto retry\<close> happens at most once.\<close>

definition allocBlock :: "u32 \<Rightarrow> u32 \<Rightarrow> u32 \<Rightarrow> blockstore \<Rightarrow> nat \<times> nat \<times> blockstore" where
  "allocBlock pc pc_pa msr s =
     (let s = (if bs_last s > BS_CODE_SIZE - BS_FUMES then resetBlockstore s else s);
          b = bs_last s;
          s = s\<lparr>bs_mem := (bs_mem s)(b :=
                \<lparr>b_next = None, b_pc = pc, b_pc_pa = pc_pa, b_msr = msr, b_codelen = 0\<rparr>)\<rparr>
      in (b, BS_CODE_SIZE - BS_GRACE - bs_last s - headerlen, bs_hm_insert pc_pa msr b s))"

definition amendBlockSize :: "nat \<Rightarrow> nat \<Rightarrow> blockstore \<Rightarrow> blockstore" where
  "amendBlockSize b real_size s =
     s\<lparr>bs_last := ALIGN_TO (bs_last s + headerlen + real_size) 64,
       bs_mem := (bs_mem s)(b := (bs_mem s b)\<lparr>b_codelen := real_size\<rparr>)\<rparr>"

definition findBlock_slow :: "u32 \<Rightarrow> cpu \<Rightarrow> blockstore \<Rightarrow> mmu \<times> io \<Rightarrow>
    (nat option \<times> fault_t \<times> blockstore \<times> mmu \<times> io) option" where
  "findBlock_slow scratch c s mio =
     do { (r, mio) \<leftarrow> translateAddr (c_pc c) True True (isPrivileged c) scratch mio;
          (case r of
             Inl fault \<Rightarrow> Some (None, fault, s, mio)
           | Inr pa \<Rightarrow> do { (b, s) \<leftarrow> bs_hm_lookup (ucast pa) (c_msr c) s; Some (b, FAULT_NONE, s, mio) }) }"

text \<open>\<open>findBlock\<close>: the shortcut leaves \<open>*fault\<close> as it was.  \<open>scratch\<close> is the argument of
  \<open>translateAddr\<close>.\<close>

definition findBlock :: "u32 \<Rightarrow> cpu \<Rightarrow> fault_t \<Rightarrow> blockstore \<Rightarrow> mmu \<times> io \<Rightarrow>
    (nat option \<times> fault_t \<times> blockstore \<times> mmu \<times> io) option" where
  "findBlock scratch c fault s mio =
     (let lb = (case bs_last_block s of None \<Rightarrow> dummy_block | Some p \<Rightarrow> bs_mem s p)
      in if m_generation_count (fst mio) = bs_gencount s \<and> b_pc lb = c_pc c \<and> b_msr lb = c_msr c
         then Some (bs_last_block s, fault, s, mio)
         else findBlock_slow scratch c s mio)"

text \<open>\<open>initBlockStore\<close>, after the buffer has been aligned and made executable: \<open>FATAL\<close> when the
  interpreter is out of reach of the buffer.\<close>

definition initBlockStore :: "u64 \<Rightarrow> u64 \<Rightarrow> blockstore \<Rightarrow> blockstore option" where
  "initBlockStore op_unk block_buffer s =
     (if \<bar>sint op_unk - sint block_buffer\<bar> > 0x80000000 then None else Some (resetBlockstore s))"

subsection \<open>Chains and the map they represent\<close>

fun chain :: "(nat \<Rightarrow> block_t) \<Rightarrow> nat option \<Rightarrow> nat list \<Rightarrow> bool" where
  "chain mem b [] \<longleftrightarrow> b = None"
| "chain mem b (p # ps) \<longleftrightarrow> b = Some p \<and> chain mem (b_next (mem p)) ps"

text \<open>The store represents an association list of keys and blocks, the latest first: each bucket's chain
  holds the blocks whose keys hash to it, in that order; the blocks lie in the allocated part of the
  buffer, each above those before it.\<close>

type_synonym bs_spec = "((u32 \<times> u32) \<times> nat) list"

definition bucket :: "nat \<Rightarrow> bs_spec \<Rightarrow> nat list" where
  "bucket i ks = map snd (filter (\<lambda>((pa, msr), p). HASH_IDX pa msr = i) ks)"

definition represents :: "blockstore \<Rightarrow> bs_spec \<Rightarrow> bool" where
  "represents s ks \<longleftrightarrow>
     (\<forall>i. chain (bs_mem s) (bs_hashmap s i) (bucket i ks)) \<and>
     (\<forall>x \<in> set ks. snd x < bs_last s \<and> b_pc_pa (bs_mem s (snd x)) = fst (fst x) \<and>
        b_msr (bs_mem s (snd x)) = snd (fst x)) \<and>
     sorted_wrt (>) (map snd ks) \<and> bs_last s \<le> BS_CODE_SIZE"

lemma bs_walk_None: "bs_walk mem pa msr None = Some None"
  unfolding bs_walk.simps [of mem pa msr None] by simp

lemma bs_walk_Some:
  "bs_walk mem pa msr (Some p) =
     (if b_pc_pa (mem p) = pa \<and> b_msr (mem p) = msr then Some (Some p)
      else bs_walk mem pa msr (b_next (mem p)))"
  unfolding bs_walk.simps [of mem pa msr "Some p"] by simp

lemma bs_walk_chain:
  "chain mem b ps \<Longrightarrow> bs_walk mem pa msr b = Some (find (\<lambda>p. b_pc_pa (mem p) = pa \<and> b_msr (mem p) = msr) ps)"
  by (induction ps arbitrary: b) (auto simp: bs_walk_None bs_walk_Some)

lemma find_bucket:
  assumes "\<forall>x \<in> set ks. b_pc_pa (mem (snd x)) = fst (fst x) \<and> b_msr (mem (snd x)) = snd (fst x)"
  shows "find (\<lambda>p. b_pc_pa (mem p) = pa \<and> b_msr (mem p) = msr) (bucket (HASH_IDX pa msr) ks) = map_of ks (pa, msr)"
  using assms
proof (induction ks)
  case Nil
  then show ?case by (simp add: bucket_def)
next
  case (Cons x ks)
  obtain pa' msr' p where x: "x = ((pa', msr'), p)" by (metis prod.collapse)
  with Cons.prems have "b_pc_pa (mem p) = pa'" "b_msr (mem p) = msr'" by simp_all
  with Cons x show ?case by (auto simp: bucket_def)
qed

lemma chain_update: "p \<notin> set ps \<Longrightarrow> chain (mem(p := x)) b ps = chain mem b ps"
  by (induction ps arbitrary: b) auto

lemma represents_lookup:
  assumes "represents s ks"
  shows "\<exists>s'. bs_hm_lookup pa msr s = Some (map_of ks (pa, msr), s') \<and> represents s' ks"
proof -
  have "find (\<lambda>p. b_pc_pa (bs_mem s p) = pa \<and> b_msr (bs_mem s p) = msr) (bucket (HASH_IDX pa msr) ks) = map_of ks (pa, msr)"
    using assms by (intro find_bucket) (auto simp: represents_def)
  moreover have "chain (bs_mem s) (bs_hashmap s (HASH_IDX pa msr)) (bucket (HASH_IDX pa msr) ks)"
    using assms by (simp add: represents_def)
  ultimately have "bs_walk (bs_mem s) pa msr (bs_hashmap s (HASH_IDX pa msr)) = Some (map_of ks (pa, msr))"
    by (simp add: bs_walk_chain)
  then show ?thesis
    using assms by (auto simp: bs_hm_lookup_def represents_def split: option.split)
qed

lemma represents_reset: "represents (resetBlockstore s) []"
  by (simp add: represents_def resetBlockstore_def bucket_def)

lemma bucket_Cons: "bucket i (((pa, msr), p) # ks) = (if HASH_IDX pa msr = i then p # bucket i ks else bucket i ks)"
  by (simp add: bucket_def)

lemma set_bucket: "set (bucket i ks) \<subseteq> snd ` set ks"
  by (auto simp: bucket_def)

lemma ALIGN_64: "ALIGN_TO x 64 \<le> x + 63" "x \<le> ALIGN_TO x 64" "ALIGN_TO x 64 mod 64 = 0"
  by (simp_all add: ALIGN_TO_def)

lemma headerlen_64 [simp]: "headerlen = 64"
  by (simp add: headerlen_def ALIGN_TO_def)

lemma represents_insert:
  fixes pc pa msr :: u32
  assumes r: "represents s ks" and room: "bs_last s \<le> BS_CODE_SIZE - BS_FUMES"
    and sz: "real_size \<le> BS_CODE_SIZE - BS_GRACE - bs_last s - headerlen"
  defines "b \<equiv> bs_last s"
  defines "s1 \<equiv> s\<lparr>bs_mem := (bs_mem s)(b :=
    \<lparr>b_next = None, b_pc = pc, b_pc_pa = pa, b_msr = msr, b_codelen = 0\<rparr>)\<rparr>"
  shows "represents (amendBlockSize b real_size (bs_hm_insert pa msr b s1)) (((pa, msr), b) # ks)"
proof -
  let ?s = "amendBlockSize b real_size (bs_hm_insert pa msr b s1)"
  have fresh: "p < b" if "(k, p) \<in> set ks" for k p
    using r that unfolding represents_def b_def by force
  have notin: "b \<notin> set (bucket i ks)" for i
    using set_bucket [of i ks] fresh by fastforce
  have mem: "bs_mem ?s p = (if p = b then
      \<lparr>b_next = bs_hashmap s (HASH_IDX pa msr), b_pc = pc, b_pc_pa = pa, b_msr = msr, b_codelen = real_size\<rparr>
      else bs_mem s p)" for p
    by (auto simp: amendBlockSize_def bs_hm_insert_def s1_def Let_def split: option.split)
  then have memf: "bs_mem ?s = (bs_mem s)(b :=
      \<lparr>b_next = bs_hashmap s (HASH_IDX pa msr), b_pc = pc, b_pc_pa = pa, b_msr = msr, b_codelen = real_size\<rparr>)"
    by (auto simp: fun_eq_iff)
  have tab: "bs_hashmap ?s = (bs_hashmap s)(HASH_IDX pa msr := Some b)"
    by (auto simp: amendBlockSize_def bs_hm_insert_def s1_def Let_def split: option.split)
  have last: "bs_last ?s = ALIGN_TO (b + 64 + real_size) 64"
    by (auto simp: amendBlockSize_def bs_hm_insert_def s1_def Let_def b_def split: option.split)
  have le: "b + 64 + real_size \<le> BS_CODE_SIZE - BS_GRACE" using room sz by (simp add: b_def)
  have bound: "bs_last ?s \<le> BS_CODE_SIZE" "b < bs_last ?s"
    unfolding last using ALIGN_64(1,2) [of "b + 64 + real_size"] le by simp_all
  have "chain (bs_mem ?s) (bs_hashmap ?s i) (bucket i (((pa, msr), b) # ks))" for i
    using r notin unfolding memf tab by (simp add: represents_def bucket_Cons chain_update)
  moreover have "sorted_wrt (>) (map snd (((pa, msr), b) # ks))"
    using r fresh by (auto simp: represents_def)
  moreover have "\<forall>x \<in> set (((pa, msr), b) # ks). snd x < bs_last ?s \<and> b_pc_pa (bs_mem ?s (snd x)) = fst (fst x) \<and>
      b_msr (bs_mem ?s (snd x)) = snd (fst x)"
  proof
    fix x assume "x \<in> set (((pa, msr), b) # ks)"
    then consider "x = ((pa, msr), b)" | "x \<in> set ks" by auto
    then show "snd x < bs_last ?s \<and> b_pc_pa (bs_mem ?s (snd x)) = fst (fst x) \<and>
      b_msr (bs_mem ?s (snd x)) = snd (fst x)"
    proof cases
      case 1
      with bound show ?thesis by (simp add: mem)
    next
      case 2
      then have "snd x < b" using fresh [of "fst x" "snd x"] by simp
      with 2 r bound(2) show ?thesis by (auto simp: represents_def mem)
    qed
  qed
  ultimately show ?thesis
    using bound(1) by (simp add: represents_def case_prod_beta del: list.set BS_CODE_SIZE_def)
qed

lemma allocBlock_eq:
  "allocBlock pc pa msr s =
     (let s0 = (if bs_last s > BS_CODE_SIZE - BS_FUMES then resetBlockstore s else s)
      in (bs_last s0, BS_CODE_SIZE - BS_GRACE - bs_last s0 - headerlen,
        bs_hm_insert pa msr (bs_last s0) (s0\<lparr>bs_mem := (bs_mem s0)(bs_last s0 :=
          \<lparr>b_next = None, b_pc = pc, b_pc_pa = pa, b_msr = msr, b_codelen = 0\<rparr>)\<rparr>)))"
  by (simp add: allocBlock_def Let_def)

text \<open>What the generator gets from an allocation, and leaves when it sets the size.\<close>

lemma allocBlock_represents:
  assumes "represents s ks" and "allocBlock pc pa msr s = (b, avail, s1)"
  shows "860 \<le> avail" and "b + headerlen + avail = BS_CODE_SIZE - BS_GRACE"
    and "n \<le> avail \<Longrightarrow> represents (amendBlockSize b n s1)
          (((pa, msr), b) # (if bs_last s > BS_CODE_SIZE - BS_FUMES then [] else ks))"
proof -
  define s0 where "s0 = (if bs_last s > BS_CODE_SIZE - BS_FUMES then resetBlockstore s else s)"
  define ks0 where "ks0 = (if bs_last s > BS_CODE_SIZE - BS_FUMES then [] else ks)"
  have r: "represents s0 ks0"
    using assms(1) represents_reset by (simp add: s0_def ks0_def)
  have room: "bs_last s0 \<le> BS_CODE_SIZE - BS_FUMES"
    by (simp add: s0_def resetBlockstore_def)
  have eq: "b = bs_last s0" "avail = BS_CODE_SIZE - BS_GRACE - bs_last s0 - headerlen"
    "s1 = bs_hm_insert pa msr (bs_last s0) (s0\<lparr>bs_mem := (bs_mem s0)(bs_last s0 :=
        \<lparr>b_next = None, b_pc = pc, b_pc_pa = pa, b_msr = msr, b_codelen = 0\<rparr>)\<rparr>)"
    using assms(2) by (auto simp: allocBlock_eq Let_def s0_def)
  show "860 \<le> avail" "b + headerlen + avail = BS_CODE_SIZE - BS_GRACE"
    using room by (simp_all add: eq)
  show "n \<le> avail \<Longrightarrow> represents (amendBlockSize b n s1)
          (((pa, msr), b) # (if bs_last s > BS_CODE_SIZE - BS_FUMES then [] else ks))"
    using represents_insert [OF r room] by (simp add: eq ks0_def)
qed

text \<open>C13: The block store is a map. In every store reached by allocating blocks and setting
  their sizes, a lookup returns, and returns the latest block allocated for the same
  physical address and MSR since the last reset, or none; allocation hands out at least 860
  bytes, all inside the code buffer, resets a store that is nearly full, and with any size
  of generated code up to what was handed out it adds exactly the new block to the map.\<close>

theorem blockstore_refines:
  assumes "represents s ks"
  shows "(\<exists>s'. bs_hm_lookup pa' msr' s = Some (map_of ks (pa', msr'), s') \<and> represents s' ks) \<and>
    (\<exists>b avail s1. allocBlock pc pa msr s = (b, avail, s1) \<and> 860 \<le> avail \<and>
       b + headerlen + avail = BS_CODE_SIZE - BS_GRACE \<and>
       (\<forall>n\<le>avail. represents (amendBlockSize b n s1)
          (((pa, msr), b) # (if bs_last s > BS_CODE_SIZE - BS_FUMES then [] else ks))))"
proof (rule conjI)
  show "\<exists>s'. bs_hm_lookup pa' msr' s = Some (map_of ks (pa', msr'), s') \<and> represents s' ks"
    using assms by (rule represents_lookup)
  obtain b avail s1 where "allocBlock pc pa msr s = (b, avail, s1)" by (metis prod.exhaust)
  with allocBlock_represents [OF assms this]
  show "\<exists>b avail s1. allocBlock pc pa msr s = (b, avail, s1) \<and> 860 \<le> avail \<and>
       b + headerlen + avail = BS_CODE_SIZE - BS_GRACE \<and>
       (\<forall>n\<le>avail. represents (amendBlockSize b n s1)
          (((pa, msr), b) # (if bs_last s > BS_CODE_SIZE - BS_FUMES then [] else ks)))"
    by blast
qed

theorem blockstore_refines_witness:
  "\<forall>s. \<exists>s' b avail s1. allocBlock 0x1000 0x2000 0x30 (resetBlockstore s) = (b, avail, s1) \<and> 860 \<le> avail \<and>
     bs_hm_lookup 0x2000 0x30 (resetBlockstore s) = Some (None, s')"
proof
  fix s
  show "\<exists>s' b avail s1. allocBlock 0x1000 0x2000 0x30 (resetBlockstore s) = (b, avail, s1) \<and> 860 \<le> avail \<and>
      bs_hm_lookup 0x2000 0x30 (resetBlockstore s) = Some (None, s')"
    using blockstore_refines [OF represents_reset [of s], of "0x2000" "0x30" "0x1000" "0x2000" "0x30"] by auto
qed

end
