(* ===== verification/Host_X86.thy ===== *)
theory Host_X86
  imports Dev_RAM
begin

section \<open>The host instructions that the JIT emits\<close>

text \<open>
  A reference semantics of the few x86-64 instructions that \<open>blockgen.cc\<close> writes into the code
  buffer: what the bytes mean, taken from the comments beside them and the host's manual.  It is
  a specification, not a translation of the program.

  The machine has the registers the emitted code uses and a stack of 64-bit slots, the top first.
  A call goes to a compiled method: it is recorded as an event with the registers and the stack
  that the callee sees, and returns with the callee-saved registers kept and the others arbitrary
  (\<open>havoc\<close>, a function of the number of calls so far).  The calling convention wants the stack
  aligned to 16 bytes at a call; slots are 8 bytes, so a call is only defined when their number
  is even.  An unknown instruction is undefined.
\<close>

datatype reg = RAX | RBX | RCX | RDX | RSI | RDI | RBP | R8 | R9 | R12

datatype x86_insn =
    MOVQ reg reg
  | MOVQ_RSP reg
  | MOVL reg u32
  | MOVQ_TOS u32
  | SUB16_RSP
  | ADD16_RSP
  | PUSH reg
  | POP reg
  | CALL u32
  | RET

record call_event =
  ce_dest :: u64
  ce_regs :: "reg \<Rightarrow> u64"
  ce_stack :: "u64 list"

record x86 =
  x_rip :: u64
  x_reg :: "reg \<Rightarrow> u64"
  x_stack :: "u64 list"
  x_stack_base :: u64
  x_calls :: "call_event list"

definition callee_saved :: "reg \<Rightarrow> bool" where
  "callee_saved r \<longleftrightarrow> r \<in> {RBX, RBP, R12}"

subsection \<open>Instructions and their bytes\<close>

definition INST32 :: "u32 \<Rightarrow> u8 list" where
  "INST32 v = [ucast v, ucast (drop_bit 8 v), ucast (drop_bit 16 v), ucast (drop_bit 24 v)]"

definition imm32 :: "nat \<Rightarrow> u8 list \<Rightarrow> u32" where
  "imm32 k bs = ucast (bs ! k) OR push_bit 8 (ucast (bs ! (k + 1))) OR
     push_bit 16 (ucast (bs ! (k + 2))) OR push_bit 24 (ucast (bs ! (k + 3)))"

definition x86_decode :: "u8 list \<Rightarrow> (x86_insn \<times> nat) option" where
  "x86_decode bs =
     (if take 3 bs = [0x48, 0x89, 0xdf] then Some (MOVQ RDI RBX, 3)
      else if take 3 bs = [0x48, 0x89, 0xfb] then Some (MOVQ RBX RDI, 3)
      else if take 3 bs = [0x48, 0x89, 0xe5] then Some (MOVQ_RSP RBP, 3)
      else if take 4 bs = [0x48, 0x83, 0xec, 0x10] then Some (SUB16_RSP, 4)
      else if take 4 bs = [0x48, 0x83, 0xc4, 0x10] then Some (ADD16_RSP, 4)
      else if take 4 bs = [0x48, 0xc7, 0x04, 0x24] then Some (MOVQ_TOS (imm32 4 bs), 8)
      else if take 2 bs = [0x41, 0xb8] then Some (MOVL R8 (imm32 2 bs), 6)
      else if take 2 bs = [0x41, 0xb9] then Some (MOVL R9 (imm32 2 bs), 6)
      else if take 2 bs = [0x41, 0x54] then Some (PUSH R12, 2)
      else if take 2 bs = [0x41, 0x5c] then Some (POP R12, 2)
      else if take 1 bs = [0xb8] then Some (MOVL RAX (imm32 1 bs), 5)
      else if take 1 bs = [0xb9] then Some (MOVL RCX (imm32 1 bs), 5)
      else if take 1 bs = [0xba] then Some (MOVL RDX (imm32 1 bs), 5)
      else if take 1 bs = [0xbe] then Some (MOVL RSI (imm32 1 bs), 5)
      else if take 1 bs = [0xe8] then Some (CALL (imm32 1 bs), 5)
      else if take 1 bs = [0x53] then Some (PUSH RBX, 1)
      else if take 1 bs = [0x55] then Some (PUSH RBP, 1)
      else if take 1 bs = [0x5b] then Some (POP RBX, 1)
      else if take 1 bs = [0x5d] then Some (POP RBP, 1)
      else if take 1 bs = [0xc3] then Some (RET, 1)
      else None)"

text \<open>The instructions that are emitted, and their bytes.\<close>

fun x86_encode :: "x86_insn \<Rightarrow> u8 list" where
  "x86_encode (MOVQ RDI RBX) = [0x48, 0x89, 0xdf]"
| "x86_encode (MOVQ RBX RDI) = [0x48, 0x89, 0xfb]"
| "x86_encode (MOVQ_RSP RBP) = [0x48, 0x89, 0xe5]"
| "x86_encode SUB16_RSP = [0x48, 0x83, 0xec, 0x10]"
| "x86_encode ADD16_RSP = [0x48, 0x83, 0xc4, 0x10]"
| "x86_encode (MOVQ_TOS v) = [0x48, 0xc7, 0x04, 0x24] @ INST32 v"
| "x86_encode (MOVL R8 v) = [0x41, 0xb8] @ INST32 v"
| "x86_encode (MOVL R9 v) = [0x41, 0xb9] @ INST32 v"
| "x86_encode (PUSH R12) = [0x41, 0x54]"
| "x86_encode (POP R12) = [0x41, 0x5c]"
| "x86_encode (MOVL RAX v) = 0xb8 # INST32 v"
| "x86_encode (MOVL RCX v) = 0xb9 # INST32 v"
| "x86_encode (MOVL RDX v) = 0xba # INST32 v"
| "x86_encode (MOVL RSI v) = 0xbe # INST32 v"
| "x86_encode (CALL v) = 0xe8 # INST32 v"
| "x86_encode (PUSH RBX) = [0x53]"
| "x86_encode (PUSH RBP) = [0x55]"
| "x86_encode (POP RBX) = [0x5b]"
| "x86_encode (POP RBP) = [0x5d]"
| "x86_encode RET = [0xc3]"
| "x86_encode _ = []"

lemma length_INST32 [simp]: "length (INST32 v) = 4"
  by (simp add: INST32_def)

lemma imm32_INST32:
  "imm32 (length bs) (bs @ INST32 v @ rest) = v" "imm32 (length bs) (bs @ INST32 v) = v"
  by (simp_all add: imm32_def INST32_def nth_append blast32)

lemma length_encode: "length (x86_encode i) \<le> 8"
  by (cases i rule: x86_encode.cases) simp_all

lemma encode_imm [simp]:
  "imm32 (Suc 0) (b # INST32 v @ rest) = v" "imm32 2 (b # b' # INST32 v @ rest) = v"
  "imm32 4 (b # b' # c # d # INST32 v @ rest) = v"
  using imm32_INST32(1) [of "[b]" v rest] imm32_INST32(1) [of "[b, b']" v rest]
    imm32_INST32(1) [of "[b, b', c, d]" v rest]
  by (simp_all add: numeral_eq_Suc)

lemma decode_encode:
  "x86_encode i \<noteq> [] \<Longrightarrow> x86_decode (x86_encode i @ rest) = Some (i, length (x86_encode i))"
  by (cases i rule: x86_encode.cases) (simp_all add: x86_decode_def take_Cons')

subsection \<open>Execution\<close>

definition set_reg :: "reg \<Rightarrow> u64 \<Rightarrow> x86 \<Rightarrow> x86" where
  "set_reg r v s = s\<lparr>x_reg := (x_reg s)(r := v)\<rparr>"

definition x_rsp :: "x86 \<Rightarrow> u64" where
  "x_rsp s = x_stack_base s - 8 * of_nat (length (x_stack s))"

fun x86_exec :: "(nat \<Rightarrow> reg \<Rightarrow> u64) \<Rightarrow> x86_insn \<Rightarrow> x86 \<Rightarrow> x86 option" where
  "x86_exec havoc (MOVQ d r) s = Some (set_reg d (x_reg s r) s)"
| "x86_exec havoc (MOVQ_RSP d) s = Some (set_reg d (x_rsp s) s)"
| "x86_exec havoc (MOVL d v) s = Some (set_reg d (ucast v) s)"
| "x86_exec havoc (MOVQ_TOS v) s =
     (case x_stack s of [] \<Rightarrow> None | _ # st \<Rightarrow> Some (s\<lparr>x_stack := scast v # st\<rparr>))"
| "x86_exec havoc SUB16_RSP s = Some (s\<lparr>x_stack := 0 # 0 # x_stack s\<rparr>)"
| "x86_exec havoc ADD16_RSP s =
     (case x_stack s of _ # _ # st \<Rightarrow> Some (s\<lparr>x_stack := st\<rparr>) | _ \<Rightarrow> None)"
| "x86_exec havoc (PUSH r) s = Some (s\<lparr>x_stack := x_reg s r # x_stack s\<rparr>)"
| "x86_exec havoc (POP r) s =
     (case x_stack s of [] \<Rightarrow> None | v # st \<Rightarrow> Some (set_reg r v (s\<lparr>x_stack := st\<rparr>)))"
| "x86_exec havoc (CALL rel) s =
     (if odd (length (x_stack s)) then None
      else Some (s\<lparr>x_calls := x_calls s @
             [\<lparr>ce_dest = x_rip s + scast rel, ce_regs = x_reg s, ce_stack = x_stack s\<rparr>],
           x_reg := \<lambda>r. if callee_saved r then x_reg s r else havoc (length (x_calls s)) r\<rparr>))"
| "x86_exec havoc RET s =
     (case x_stack s of [] \<Rightarrow> None | v # st \<Rightarrow> Some (s\<lparr>x_rip := v, x_stack := st\<rparr>))"

text \<open>One step: fetch (the longest instruction has 8 bytes), decode, move past the instruction,
  execute.\<close>

definition x86_step :: "(nat \<Rightarrow> reg \<Rightarrow> u64) \<Rightarrow> hmem \<Rightarrow> x86 \<Rightarrow> x86 option" where
  "x86_step havoc mem s =
     (case x86_decode (map (\<lambda>i. mem (x_rip s + of_nat i)) [0..<8]) of
        None \<Rightarrow> None
      | Some (i, l) \<Rightarrow> x86_exec havoc i (s\<lparr>x_rip := x_rip s + of_nat l\<rparr>))"

primrec x86_run :: "nat \<Rightarrow> (nat \<Rightarrow> reg \<Rightarrow> u64) \<Rightarrow> hmem \<Rightarrow> x86 \<Rightarrow> x86 option" where
  "x86_run 0 havoc mem s = Some s"
| "x86_run (Suc n) havoc mem s =
     (case x86_step havoc mem s of None \<Rightarrow> None | Some s' \<Rightarrow> x86_run n havoc mem s')"

lemma x86_run_add:
  "x86_run (m + n) havoc mem s =
     (case x86_run m havoc mem s of None \<Rightarrow> None | Some s' \<Rightarrow> x86_run n havoc mem s')"
  by (induction m arbitrary: s) (auto split: option.split)

text \<open>Code in memory.\<close>

definition code_at :: "hmem \<Rightarrow> u64 \<Rightarrow> u8 list \<Rightarrow> bool" where
  "code_at mem p bs \<longleftrightarrow> (\<forall>i<length bs. mem (p + of_nat i) = bs ! i)"

lemma all_less_add: "(\<forall>i<m + n. P i) \<longleftrightarrow> (\<forall>i<m. P i) \<and> (\<forall>i<n. P (m + i))" for m n :: nat
  by (induction n) (auto simp: less_Suc_eq)

lemma code_at_append:
  "code_at mem p (bs @ cs) \<longleftrightarrow> code_at mem p bs \<and> code_at mem (p + of_nat (length bs)) cs"
  by (auto simp: code_at_def all_less_add nth_append add.assoc)

lemma code_at_Nil [simp]: "code_at mem p []"
  by (simp add: code_at_def)

lemma code_at_fetch:
  assumes "code_at mem p bs" and "length bs \<le> 8"
  shows "\<exists>rest. map (\<lambda>i. mem (p + of_nat i)) [0..<8] = bs @ rest"
proof
  show "map (\<lambda>i. mem (p + of_nat i)) [0..<8] = bs @ map (\<lambda>i. mem (p + of_nat i)) [length bs..<8]"
    using assms upt_add_eq_append [of 0 "length bs" "8 - length bs"]
    by (auto simp: code_at_def intro!: nth_equalityI simp: nth_append)
qed

lemma x86_step_at:
  assumes "code_at mem (x_rip s) (x86_encode i)" and "x86_encode i \<noteq> []"
  shows "x86_step havoc mem s = x86_exec havoc i (s\<lparr>x_rip := x_rip s + of_nat (length (x86_encode i))\<rparr>)"
  using code_at_fetch [OF assms(1) length_encode] assms(2)
  by (auto simp: x86_step_def decode_encode)

text \<open>Running straight-line code.\<close>

primrec x86_execs :: "(nat \<Rightarrow> reg \<Rightarrow> u64) \<Rightarrow> x86_insn list \<Rightarrow> x86 \<Rightarrow> x86 option" where
  "x86_execs havoc [] s = Some s"
| "x86_execs havoc (i # is) s =
     (case x86_exec havoc i (s\<lparr>x_rip := x_rip s + of_nat (length (x86_encode i))\<rparr>) of
        None \<Rightarrow> None | Some s' \<Rightarrow> x86_execs havoc is s')"

lemma exec_rip: "x86_exec havoc i s = Some s' \<Longrightarrow> i \<noteq> RET \<Longrightarrow> x_rip s' = x_rip s"
  by (cases "(havoc, i, s)" rule: x86_exec.cases)
    (auto simp: set_reg_def split: list.splits if_splits)

definition assemble :: "x86_insn list \<Rightarrow> u8 list" where
  "assemble is = concat (map x86_encode is)"

lemma assemble_simps [simp]:
  "assemble [] = []" "assemble (i # is) = x86_encode i @ assemble is"
  "assemble (is @ js) = assemble is @ assemble js"
  by (simp_all add: assemble_def)

lemma x86_run_straight:
  assumes "code_at mem (x_rip s) (assemble is)" and "\<forall>i\<in>set is. x86_encode i \<noteq> []"
    and "RET \<notin> set (butlast is)"
  shows "x86_run (length is) havoc mem s = x86_execs havoc is s"
  using assms
proof (induction "is" arbitrary: s)
  case (Cons i "is")
  have step: "x86_step havoc mem s = x86_exec havoc i (s\<lparr>x_rip := x_rip s + of_nat (length (x86_encode i))\<rparr>)"
    using Cons.prems by (intro x86_step_at) (auto simp: code_at_append)
  have "x86_run (length is) havoc mem s' = x86_execs havoc is s'"
    if e: "x86_exec havoc i (s\<lparr>x_rip := x_rip s + of_nat (length (x86_encode i))\<rparr>) = Some s'" for s'
  proof (cases "is")
    case (Cons j js)
    then have "x_rip s' = x_rip s + of_nat (length (x86_encode i))"
      using exec_rip [OF e] Cons.prems(3) by (auto split: if_splits)
    then show ?thesis using Cons.prems Cons.IH [of s'] by (auto simp: code_at_append split: if_splits)
  qed simp
  then show ?case by (simp add: step split: option.split)
qed simp

lemma x86_execs_append:
  "x86_execs havoc (is @ js) s =
     (case x86_execs havoc is s of None \<Rightarrow> None | Some s' \<Rightarrow> x86_execs havoc js s')"
  by (induction "is" arbitrary: s) (auto split: option.split)

end
