(* ===== verification/Blockgen.thy ===== *)
theory Blockgen
  imports Blockstore Host_X86 MMU_Access Inst_Fields
begin

section \<open>JIT code generation: \<open>blockgen.cc\<close>\<close>

text \<open>
  A block of guest instructions becomes a list of calls of interpreter methods, written as host
  code into the code buffer: \<open>startBlock\<close>, a call sequence for each instruction, \<open>finaliseBlock\<close>.
  The generation context (the pointers \<open>codeptr\<close> and \<open>codelen\<close> that every function takes, and the
  flag \<open>oom_abort\<close>) is the record \<open>codegen\<close>.  The code buffer is a static array, apart from guest
  RAM; \<open>cg_mem\<close> holds its bytes.

  The macros \<open>INST8\<close> and \<open>INST32\<close> write the bytes of a sequence first; \<open>CODE_FINAL\<close>
  then checks that there was room, and moves the pointer only if there was.  The buffer ends
  \<open>BS_GRACE\<close> bytes after the room given out, so the write itself stays inside.

  The switch in \<open>decodeInstrGenerateCall\<close> is generated at build time: for an instruction word it
  gives the address of a method, which \<open>generate_call\<close> function to use with which arguments, and
  the number to return; it is the parameter \<open>gens\<close>.  The address \<open>get_op_unk()\<close> and the
  address of the buffer are parameters too.
\<close>

record codegen =
  cg_mem :: hmem
  cg_ptr :: u64
  cg_len :: u32
  cg_oom :: bool

definition CODE_FINAL :: "u8 list \<Rightarrow> codegen \<Rightarrow> codegen" where
  "CODE_FINAL bs g =
     (let used = of_nat (length bs);
          g = g\<lparr>cg_mem := hwrite_bytes (cg_ptr g) bs (cg_mem g)\<rparr>
      in if cg_len g < used then g\<lparr>cg_oom := True\<rparr>
         else g\<lparr>cg_len := cg_len g - used, cg_ptr := cg_ptr g + of_nat (length bs)\<rparr>)"

definition get_rel_addr :: "u64 \<Rightarrow> u64 \<Rightarrow> u32" where
  "get_rel_addr here dest = ucast (dest - here - 5)"

subsection \<open>Call sequences\<close>

text \<open>The last part of every call sequence, after the bytes \<open>bs\<close> written at \<open>ptr\<close>.\<close>

definition callq :: "u64 \<Rightarrow> u64 \<Rightarrow> u8 list \<Rightarrow> u8 list" where
  "callq ptr addr bs = bs @ 0xe8 # INST32 (get_rel_addr (ptr + of_nat (length bs)) addr)"

definition generate_call :: "u64 \<Rightarrow> codegen \<Rightarrow> codegen" where
  "generate_call addr g = CODE_FINAL (callq (cg_ptr g) addr [0x48, 0x89, 0xdf]) g"

definition generate_call_int :: "u64 \<Rightarrow> u32 \<Rightarrow> codegen \<Rightarrow> codegen" where
  "generate_call_int addr arg1 g =
     CODE_FINAL (callq (cg_ptr g) addr ([0x48, 0x89, 0xdf] @ 0xbe # INST32 arg1)) g"

definition generate_call_int_int :: "u64 \<Rightarrow> u32 \<Rightarrow> u32 \<Rightarrow> codegen \<Rightarrow> codegen" where
  "generate_call_int_int addr arg1 arg2 g =
     CODE_FINAL (callq (cg_ptr g) addr ([0x48, 0x89, 0xdf] @ 0xbe # INST32 arg1 @ 0xba # INST32 arg2)) g"

definition generate_call_int_int_int :: "u64 \<Rightarrow> u32 \<Rightarrow> u32 \<Rightarrow> u32 \<Rightarrow> codegen \<Rightarrow> codegen" where
  "generate_call_int_int_int addr arg1 arg2 arg3 g =
     CODE_FINAL (callq (cg_ptr g) addr
       ([0x48, 0x89, 0xdf] @ 0xbe # INST32 arg1 @ 0xba # INST32 arg2 @ 0xb9 # INST32 arg3)) g"

definition generate_call_int_int_int_int :: "u64 \<Rightarrow> u32 \<Rightarrow> u32 \<Rightarrow> u32 \<Rightarrow> u32 \<Rightarrow> codegen \<Rightarrow> codegen" where
  "generate_call_int_int_int_int addr arg1 arg2 arg3 arg4 g =
     CODE_FINAL (callq (cg_ptr g) addr
       ([0x48, 0x89, 0xdf] @ 0xbe # INST32 arg1 @ 0xba # INST32 arg2 @ 0xb9 # INST32 arg3 @
        [0x41, 0xb8] @ INST32 arg4)) g"

definition generate_call_int_int_int_int_int ::
    "u64 \<Rightarrow> u32 \<Rightarrow> u32 \<Rightarrow> u32 \<Rightarrow> u32 \<Rightarrow> u32 \<Rightarrow> codegen \<Rightarrow> codegen" where
  "generate_call_int_int_int_int_int addr arg1 arg2 arg3 arg4 arg5 g =
     CODE_FINAL (callq (cg_ptr g) addr
       ([0x48, 0x89, 0xdf] @ 0xbe # INST32 arg1 @ 0xba # INST32 arg2 @ 0xb9 # INST32 arg3 @
        [0x41, 0xb8] @ INST32 arg4 @ [0x41, 0xb9] @ INST32 arg5)) g"

definition generate_call_int_int_int_int_int_int ::
    "u64 \<Rightarrow> u32 \<Rightarrow> u32 \<Rightarrow> u32 \<Rightarrow> u32 \<Rightarrow> u32 \<Rightarrow> u32 \<Rightarrow> codegen \<Rightarrow> codegen" where
  "generate_call_int_int_int_int_int_int addr arg1 arg2 arg3 arg4 arg5 arg6 g =
     CODE_FINAL (callq (cg_ptr g) addr
       (INST32 0x10ec8348 @ INST32 0x2404c748 @ INST32 arg6 @
        [0x48, 0x89, 0xdf] @ 0xbe # INST32 arg1 @ 0xba # INST32 arg2 @ 0xb9 # INST32 arg3 @
        [0x41, 0xb8] @ INST32 arg4 @ [0x41, 0xb9] @ INST32 arg5) @ INST32 0x10c48348) g"

definition generate_call_int_int_s16 :: "u64 \<Rightarrow> u32 \<Rightarrow> u32 \<Rightarrow> u16 \<Rightarrow> codegen \<Rightarrow> codegen" where
  "generate_call_int_int_s16 addr arg1 arg2 arg3 = generate_call_int_int_int addr arg1 arg2 (ucast arg3)"

definition generate_call_int_int_u16 :: "u64 \<Rightarrow> u32 \<Rightarrow> u32 \<Rightarrow> u16 \<Rightarrow> codegen \<Rightarrow> codegen" where
  "generate_call_int_int_u16 addr arg1 arg2 arg3 = generate_call_int_int_int addr arg1 arg2 (ucast arg3)"

definition generate_call_int_s16_int :: "u64 \<Rightarrow> u32 \<Rightarrow> u16 \<Rightarrow> u32 \<Rightarrow> codegen \<Rightarrow> codegen" where
  "generate_call_int_s16_int addr arg1 arg2 arg3 = generate_call_int_int_int addr arg1 (ucast arg2) arg3"

definition generate_call_int_u16_int :: "u64 \<Rightarrow> u32 \<Rightarrow> u16 \<Rightarrow> u32 \<Rightarrow> codegen \<Rightarrow> codegen" where
  "generate_call_int_u16_int addr arg1 arg2 arg3 = generate_call_int_int_int addr arg1 (ucast arg2) arg3"

definition generate_call_u32_int_int :: "u64 \<Rightarrow> u32 \<Rightarrow> u32 \<Rightarrow> u32 \<Rightarrow> codegen \<Rightarrow> codegen" where
  "generate_call_u32_int_int addr arg1 arg2 arg3 = generate_call_int_int_int addr arg1 arg2 arg3"

definition generate_call_u8 :: "u64 \<Rightarrow> u8 \<Rightarrow> codegen \<Rightarrow> codegen" where
  "generate_call_u8 addr arg1 = generate_call_int addr (ucast arg1)"

definition generate_call_u32 :: "u64 \<Rightarrow> u32 \<Rightarrow> codegen \<Rightarrow> codegen" where
  "generate_call_u32 addr arg1 = generate_call_int addr arg1"

text \<open>What the generated switch chooses: one of these functions with its arguments.\<close>

datatype call_args =
    C_none
  | C_int u32
  | C_int_int u32 u32
  | C_int_int_int u32 u32 u32
  | C_int_int_int_int u32 u32 u32 u32
  | C_int_int_int_int_int u32 u32 u32 u32 u32
  | C_int_int_int_int_int_int u32 u32 u32 u32 u32 u32
  | C_int_int_s16 u32 u32 u16
  | C_int_int_u16 u32 u32 u16
  | C_int_s16_int u32 u16 u32
  | C_int_u16_int u32 u16 u32
  | C_u32_int_int u32 u32 u32
  | C_u8 u8
  | C_u32 u32

primrec generate :: "u64 \<Rightarrow> call_args \<Rightarrow> codegen \<Rightarrow> codegen" where
  "generate addr C_none = generate_call addr"
| "generate addr (C_int a) = generate_call_int addr a"
| "generate addr (C_int_int a b) = generate_call_int_int addr a b"
| "generate addr (C_int_int_int a b c) = generate_call_int_int_int addr a b c"
| "generate addr (C_int_int_int_int a b c d) = generate_call_int_int_int_int addr a b c d"
| "generate addr (C_int_int_int_int_int a b c d e) = generate_call_int_int_int_int_int addr a b c d e"
| "generate addr (C_int_int_int_int_int_int a b c d e f) = generate_call_int_int_int_int_int_int addr a b c d e f"
| "generate addr (C_int_int_s16 a b c) = generate_call_int_int_s16 addr a b c"
| "generate addr (C_int_int_u16 a b c) = generate_call_int_int_u16 addr a b c"
| "generate addr (C_int_s16_int a b c) = generate_call_int_s16_int addr a b c"
| "generate addr (C_int_u16_int a b c) = generate_call_int_u16_int addr a b c"
| "generate addr (C_u32_int_int a b c) = generate_call_u32_int_int addr a b c"
| "generate addr (C_u8 a) = generate_call_u8 addr a"
| "generate addr (C_u32 a) = generate_call_u32 addr a"

type_synonym generators = "u32 \<Rightarrow> (u64 \<times> call_args \<times> nat) option"

definition decodeInstrGenerateCall :: "generators \<Rightarrow> u64 \<Rightarrow> u32 \<Rightarrow> codegen \<Rightarrow> nat \<times> codegen" where
  "decodeInstrGenerateCall gens op_unk inst g =
     (case gens inst of
        Some (addr, args, ends) \<Rightarrow> (ends, generate addr args g)
      | None \<Rightarrow> (2, generate_call_u32 op_unk inst g))"

subsection \<open>Blocks\<close>

definition startBlock :: "codegen \<Rightarrow> codegen" where
  "startBlock = CODE_FINAL [0x55, 0x48, 0x89, 0xe5, 0x41, 0x54, 0x53, 0x48, 0x89, 0xfb]"

definition finaliseBlock :: "u32 \<Rightarrow> codegen \<Rightarrow> codegen" where
  "finaliseBlock nr_instrs = CODE_FINAL (0xb8 # INST32 nr_instrs @ [0x5b, 0x41, 0x5c, 0x5d, 0xc3])"

text \<open>The loop over the instructions: at most \<open>limit\<close> rounds; \<open>inst\<close> is the word loaded from
  \<open>pc\<close>.  The result is \<open>cur_blk_nr_instrs\<close> and the context, in which \<open>cg_oom\<close> tells that the
  room ran out.\<close>

primrec gen_loop :: "nat \<Rightarrow> generators \<Rightarrow> u64 \<Rightarrow> bool \<Rightarrow> u32 \<Rightarrow> u32 \<Rightarrow> u32 \<Rightarrow> codegen \<Rightarrow> mmu_io \<Rightarrow>
    (u32 \<times> codegen \<times> mmu_io) option" where
  "gen_loop 0 gens op_unk priv inst pc nr g mio = Some (nr, g, mio)"
| "gen_loop (Suc limit) gens op_unk priv inst pc nr g mio =
     (let (must_end_block, g) = decodeInstrGenerateCall gens op_unk inst g;
          nr = nr + 1
      in if cg_oom g then Some (nr, g, mio)
         else let pc = pc + 4
              in if must_end_block \<noteq> 0 \<or> pc AND 0xfff = 0 then Some (nr, g, mio)
                 else do {
                   (r, mio) \<leftarrow> loadInst32 pc priv mio;
                   case r of
                     Inl fault \<Rightarrow> Some (nr, g, mio)
                   | Inr inst \<Rightarrow> gen_loop limit gens op_unk priv inst pc nr g mio })"

type_synonym jit = "blockstore \<times> hmem \<times> mmu_io"

text \<open>One attempt of \<open>createBlock\<close>: a left result asks for another (\<open>goto retry\<close>), a right one is
  returned, \<open>None\<close> being the null pointer.  \<open>scratch\<close> is the uninitialised \<open>pc_pa\<close>.  The physical
  address is cut to 32 bits when it is passed on.\<close>

definition createBlock_try :: "generators \<Rightarrow> u64 \<Rightarrow> u64 \<Rightarrow> u32 \<Rightarrow> cpu \<Rightarrow> jit \<Rightarrow> ((unit + nat option) \<times> jit) option" where
  "createBlock_try gens op_unk base scratch c s =
     (let (bs, mem, mio) = s; pc = c_pc c
      in do {
        (r, mio) \<leftarrow> loadInst32 pc (isPrivileged c) mio;
        case r of
          Inl fault \<Rightarrow> Some (Inr None, (bs, mem, mio))
        | Inr inst \<Rightarrow> do {
            (t, mio) \<leftarrow> translateAddr pc True True (isPrivileged c) scratch mio;
            case t of
              Inl fault \<Rightarrow> Some (Inr None, (bs, mem, mio))
            | Inr pc_pa \<Rightarrow>
                let (new_block, codelen, bs) = allocBlock pc (ucast pc_pa) (c_msr c) bs;
                    g = startBlock \<lparr>cg_mem = mem, cg_ptr = base + of_nat (new_block + headerlen),
                                     cg_len = of_nat codelen, cg_oom = False\<rparr>
                in do {
                  (nr, g, mio) \<leftarrow> gen_loop 1000 gens op_unk (isPrivileged c) inst pc 0 g mio;
                  if cg_oom g then Some (Inl (), (resetBlockstore bs, cg_mem g, mio))
                  else let g = finaliseBlock nr g
                       in Some (Inr (Some new_block),
                            (amendBlockSize new_block (unat (of_nat codelen - cg_len g)) bs, cg_mem g, mio)) } } })"

partial_function (option) createBlock ::
    "generators \<Rightarrow> u64 \<Rightarrow> u64 \<Rightarrow> u32 \<Rightarrow> cpu \<Rightarrow> jit \<Rightarrow> (nat option \<times> jit) option" where
  "createBlock gens op_unk base scratch c s = do {
     (r, s) \<leftarrow> createBlock_try gens op_unk base scratch c s;
     case r of
       Inl _ \<Rightarrow> createBlock gens op_unk base scratch c s
     | Inr block \<Rightarrow> Some (block, s) }"

end
