(* ===== verification/Blockgen_Props.thy ===== *)
theory Blockgen_Props
  imports Blockgen Access_Props
begin

section \<open>What a generated block does\<close>

text \<open>
  The bytes that the generator writes, run by the reference semantics of theory Host_X86, call the
  interpreter methods that the decoder chose for the instructions of the block, in order and with
  their arguments, and return to the caller as the calling convention wants.  The proof goes from
  bytes to instructions (every sequence assembles from a list of host instructions), then from one
  call sequence to the loop, then to the whole block.
\<close>

subsection \<open>Emitting\<close>

lemma uint_add_nat:
  fixes p :: u64
  assumes "uint p + int n < 2 ^ 64"
  shows "uint (p + of_nat n) = uint p + int n"
proof -
  have "uint (p + of_nat n) = (uint p + int n) mod 2 ^ 64"
    by (simp add: uint_word_ariths(1) unsigned_of_nat take_bit_nat_eq_self take_bit_eq_mod of_nat_mod mod_simps)
  then show ?thesis using assms by simp
qed

lemma CODE_FINAL_code:
  assumes "code_at (cg_mem g) p pre" and "cg_ptr g = p + of_nat (length pre)"
    and "uint p + int (length pre + length bs) \<le> 2 ^ 64"
  shows "code_at (cg_mem (CODE_FINAL bs g)) p (pre @ bs)"
proof (cases "bs = []")
  case True
  then show ?thesis using assms(1) by (simp add: CODE_FINAL_def Let_def)
next
  case False
  let ?q = "p + of_nat (length pre)"
  have len: "length bs > 0" using False by simp
  have q: "uint ?q = uint p + int (length pre)"
    using assms(3) len by (intro uint_add_nat) linarith
  have "hwrite_bytes ?q bs (cg_mem g) (p + of_nat i) = pre ! i" if "i < length pre" for i
  proof -
    have "uint (p + of_nat i) = uint p + int i"
      using assms(3) len that by (intro uint_add_nat) linarith
    then show ?thesis
      using assms(1,3) that q by (subst hwrite_bytes_below) (auto simp: code_at_def)
  qed
  moreover have "hwrite_bytes ?q bs (cg_mem g) (?q + of_nat i) = bs ! i" if "i < length bs" for i
    using assms(3) q that by (subst hwrite_bytes_nth) auto
  ultimately show ?thesis
    using assms(2) by (auto simp: CODE_FINAL_def Let_def code_at_append) (auto simp: code_at_def)
qed

lemma CODE_FINAL_room:
  assumes "\<not> cg_oom (CODE_FINAL bs g)" and "length bs < 2 ^ 32"
  shows "length bs \<le> unat (cg_len g)" and "\<not> cg_oom g"
    and "unat (cg_len (CODE_FINAL bs g)) = unat (cg_len g) - length bs"
    and "cg_ptr (CODE_FINAL bs g) = cg_ptr g + of_nat (length bs)"
proof -
  have le: "\<not> cg_len g < of_nat (length bs)"
    using assms(1) by (auto simp: CODE_FINAL_def Let_def split: if_splits)
  then show "length bs \<le> unat (cg_len g)" using assms(2)
    by (simp add: word_less_nat_alt unat_of_nat)
  show "\<not> cg_oom g" using assms(1) by (auto simp: CODE_FINAL_def Let_def split: if_splits)
  show "unat (cg_len (CODE_FINAL bs g)) = unat (cg_len g) - length bs"
    using le assms(2) unat_sub [of "of_nat (length bs)" "cg_len g"]
    by (simp add: CODE_FINAL_def Let_def unat_of_nat not_less [symmetric])
  show "cg_ptr (CODE_FINAL bs g) = cg_ptr g + of_nat (length bs)"
    using le by (simp add: CODE_FINAL_def Let_def)
qed

lemma CODE_FINAL_len: "unat (cg_len (CODE_FINAL bs g)) \<le> unat (cg_len g)"
  by (auto simp: CODE_FINAL_def Let_def not_less word_sub_le simp flip: word_le_nat_alt)

lemma CODE_FINAL_fits:
  assumes "\<not> cg_oom g" and "length bs \<le> unat (cg_len g)"
  shows "\<not> cg_oom (CODE_FINAL bs g)"
proof -
  have "unat (cg_len g) < 2 ^ 32" by (rule order.strict_trans2 [OF unsigned_less]) simp
  then have "length bs < 2 ^ 32" using assms(2) by simp
  then show ?thesis using assms by (simp add: CODE_FINAL_def Let_def word_less_nat_alt unat_of_nat)
qed

subsection \<open>A call sequence\<close>

text \<open>The arguments that a call sequence passes, and its host instructions.\<close>

fun arg_list :: "call_args \<Rightarrow> u32 list" where
  "arg_list C_none = []"
| "arg_list (C_int a) = [a]"
| "arg_list (C_int_int a b) = [a, b]"
| "arg_list (C_int_int_int a b c) = [a, b, c]"
| "arg_list (C_int_int_int_int a b c d) = [a, b, c, d]"
| "arg_list (C_int_int_int_int_int a b c d e) = [a, b, c, d, e]"
| "arg_list (C_int_int_int_int_int_int a b c d e f) = [a, b, c, d, e, f]"
| "arg_list (C_int_int_s16 a b c) = [a, b, ucast c]"
| "arg_list (C_int_int_u16 a b c) = [a, b, ucast c]"
| "arg_list (C_int_s16_int a b c) = [a, ucast b, c]"
| "arg_list (C_int_u16_int a b c) = [a, ucast b, c]"
| "arg_list (C_u32_int_int a b c) = [a, b, c]"
| "arg_list (C_u8 a) = [ucast a]"
| "arg_list (C_u32 a) = [a]"

definition arg_moves :: "u32 list \<Rightarrow> x86_insn list" where
  "arg_moves args = (if length args = 6 then [SUB16_RSP, MOVQ_TOS (args ! 5)] else []) @
     MOVQ RDI RBX # map2 MOVL [RSI, RDX, RCX, R8, R9] args"

definition call_insns :: "u32 \<Rightarrow> u32 list \<Rightarrow> x86_insn list" where
  "call_insns rel args = arg_moves args @ CALL rel # (if length args = 6 then [ADD16_RSP] else [])"

definition call_bytes :: "u64 \<Rightarrow> u64 \<Rightarrow> u32 list \<Rightarrow> x86_insn list" where
  "call_bytes p addr args = call_insns (get_rel_addr (p + of_nat (length (assemble (arg_moves args)))) addr) args"

lemmas generate_defs =
  generate_call_def generate_call_int_def generate_call_int_int_def generate_call_int_int_int_def
  generate_call_int_int_int_int_def generate_call_int_int_int_int_int_def
  generate_call_int_int_int_int_int_int_def generate_call_int_int_s16_def generate_call_int_int_u16_def
  generate_call_int_s16_int_def generate_call_int_u16_int_def generate_call_u32_int_int_def
  generate_call_u8_def generate_call_u32_def

lemma stack_consts:
  "INST32 0x10ec8348 = [0x48, 0x83, 0xec, 0x10]" "INST32 0x2404c748 = [0x48, 0xc7, 0x04, 0x24]"
  "INST32 0x10c48348 = [0x48, 0x83, 0xc4, 0x10]"
  by (simp_all add: INST32_def)

lemma generate_assembles: "generate addr args g = CODE_FINAL (assemble (call_bytes (cg_ptr g) addr (arg_list args))) g"
  by (cases args) (simp_all add: generate_defs callq_def call_bytes_def call_insns_def arg_moves_def stack_consts)

lemma arg_list_length: "length (arg_list args) \<le> 6"
  by (cases args) simp_all

lemma call_bytes_length: "length (assemble (call_bytes p addr (arg_list args))) \<le> 51"
  by (cases args) (simp_all add: call_bytes_def call_insns_def arg_moves_def)

text \<open>What the callee sees: the interpreter in its first argument and the arguments in order, the
  sixth on the stack.\<close>

definition passed_args :: "call_event \<Rightarrow> u32 list" where
  "passed_args ev = map (\<lambda>r. ucast (ce_regs ev r)) [RSI, RDX, RCX, R8, R9] @ map ucast (take 1 (ce_stack ev))"

definition delivers :: "u64 \<Rightarrow> call_event \<Rightarrow> u64 \<times> u32 list \<Rightarrow> bool" where
  "delivers this ev call \<longleftrightarrow> ce_dest ev = fst call \<and> ce_regs ev RDI = this \<and>
     take (length (snd call)) (passed_args ev) = snd call"

definition runs_calls :: "x86_insn list \<Rightarrow> (u64 \<times> u32 list) list \<Rightarrow> u64 \<Rightarrow> bool" where
  "runs_calls body calls p \<longleftrightarrow> (\<forall>havoc s. x_rip s = p \<longrightarrow> even (length (x_stack s)) \<longrightarrow>
     (\<exists>s' evs. x86_execs havoc body s = Some s' \<and> x_rip s' = p + of_nat (length (assemble body)) \<and>
        x_stack s' = x_stack s \<and> (\<forall>r. callee_saved r \<longrightarrow> x_reg s' r = x_reg s r) \<and>
        x_calls s' = x_calls s @ evs \<and> list_all2 (delivers (x_reg s RBX)) evs calls))"

definition reaches :: "u64 \<Rightarrow> u64 \<Rightarrow> bool" where
  "reaches here dest \<longleftrightarrow> scast (get_rel_addr here dest) = dest - here - 5"

lemma cast_u32 [simp]: "ucast (scast v :: u64) = v" "ucast (ucast v :: u64) = v" for v :: u32
  by (simp_all add: word32_eq_bits bit_simps)

lemma call_runs:
  assumes "reaches (p + of_nat (length (assemble (arg_moves (arg_list args))))) addr"
  shows "runs_calls (call_bytes p addr (arg_list args)) [(addr, arg_list args)] p"
  using assms
  by (cases args) (auto simp: runs_calls_def reaches_def call_bytes_def call_insns_def arg_moves_def set_reg_def
      delivers_def passed_args_def callee_saved_def add.assoc)

text \<open>What the block should do: the methods for the instructions that the loop reads.\<close>

definition target :: "generators \<Rightarrow> u64 \<Rightarrow> u32 \<Rightarrow> u64 \<times> u32 list" where
  "target gens op_unk inst =
     (case gens inst of Some (addr, args, _) \<Rightarrow> (addr, arg_list args) | None \<Rightarrow> (op_unk, [inst]))"

definition ends_block :: "generators \<Rightarrow> u32 \<Rightarrow> bool" where
  "ends_block gens inst \<longleftrightarrow> (case gens inst of Some (_, _, ends) \<Rightarrow> ends \<noteq> 0 | None \<Rightarrow> True)"

primrec block_insns :: "nat \<Rightarrow> generators \<Rightarrow> bool \<Rightarrow> u32 \<Rightarrow> u32 \<Rightarrow> mmu_io \<Rightarrow> (u32 list \<times> mmu_io) option" where
  "block_insns 0 gens priv inst pc mio = Some ([], mio)"
| "block_insns (Suc limit) gens priv inst pc mio =
     (if ends_block gens inst \<or> (pc + 4) AND 0xfff = 0 then Some ([inst], mio)
      else do {
        (r, mio) \<leftarrow> loadInst32 (pc + 4) priv mio;
        case r of
          Inl _ \<Rightarrow> Some ([inst], mio)
        | Inr inst' \<Rightarrow> do { (is, mio) \<leftarrow> block_insns limit gens priv inst' (pc + 4) mio; Some (inst # is, mio) } })"

lemma decode_eq:
  "decodeInstrGenerateCall gens op_unk inst g =
     (case gens inst of Some (_, _, e) \<Rightarrow> e | None \<Rightarrow> 2,
      CODE_FINAL (assemble (call_bytes (cg_ptr g) (fst (target gens op_unk inst)) (snd (target gens op_unk inst)))) g)"
  using generate_assembles [of _ "C_u32 inst" g]
  by (auto simp: decodeInstrGenerateCall_def target_def generate_assembles split: option.split)

lemma target_runs:
  assumes "reaches (p + of_nat (length (assemble (arg_moves (snd (target gens op_unk inst)))))) (fst (target gens op_unk inst))"
  shows "runs_calls (call_bytes p (fst (target gens op_unk inst)) (snd (target gens op_unk inst))) [target gens op_unk inst] p"
  using assms call_runs [of p "C_u32 inst" op_unk] call_runs [of p]
  by (auto simp: target_def split: option.splits)

lemma target_length:
  "length (assemble (call_bytes p a (snd (target gens op_unk inst)))) \<le> 51"
  using call_bytes_length [of p a "C_u32 inst"]
  by (auto simp: target_def call_bytes_length split: option.split)

lemma runs_calls_Nil: "runs_calls [] [] p"
  by (simp add: runs_calls_def)

lemma runs_calls_append:
  assumes "runs_calls b1 c1 p" and "runs_calls b2 c2 (p + of_nat (length (assemble b1)))"
  shows "runs_calls (b1 @ b2) (c1 @ c2) p"
  unfolding runs_calls_def
proof (intro allI impI)
  fix havoc and s :: x86 assume s: "x_rip s = p" "even (length (x_stack s))"
  obtain s1 e1 where 1: "x86_execs havoc b1 s = Some s1" "x_rip s1 = p + of_nat (length (assemble b1))"
      "x_stack s1 = x_stack s" "\<forall>r. callee_saved r \<longrightarrow> x_reg s1 r = x_reg s r"
      "x_calls s1 = x_calls s @ e1" "list_all2 (delivers (x_reg s RBX)) e1 c1"
    using assms(1) s unfolding runs_calls_def by blast
  have ev: "even (length (x_stack s1))" using 1(3) s(2) by simp
  obtain s2 e2 where 2: "x86_execs havoc b2 s1 = Some s2"
      "x_rip s2 = p + of_nat (length (assemble b1)) + of_nat (length (assemble b2))"
      "x_stack s2 = x_stack s1" "\<forall>r. callee_saved r \<longrightarrow> x_reg s2 r = x_reg s1 r"
      "x_calls s2 = x_calls s1 @ e2" "list_all2 (delivers (x_reg s1 RBX)) e2 c2"
    using assms(2) 1(2) ev unfolding runs_calls_def by blast
  have "x_reg s1 RBX = x_reg s RBX" using 1(4) by (simp add: callee_saved_def)
  then show "\<exists>s' evs. x86_execs havoc (b1 @ b2) s = Some s' \<and>
      x_rip s' = p + of_nat (length (assemble (b1 @ b2))) \<and> x_stack s' = x_stack s \<and>
      (\<forall>r. callee_saved r \<longrightarrow> x_reg s' r = x_reg s r) \<and> x_calls s' = x_calls s @ evs \<and>
      list_all2 (delivers (x_reg s RBX)) evs (c1 @ c2)"
    using 1 2 by (intro exI [of _ s2] exI [of _ "e1 @ e2"])
      (auto simp: x86_execs_append add.assoc intro: list_all2_appendI)
qed

lemma call_bytes_ok: "i \<in> set (call_bytes p a args) \<Longrightarrow> x86_encode i \<noteq> [] \<and> i \<noteq> RET"
  by (auto simp: call_bytes_def call_insns_def arg_moves_def INST32_def split: if_splits dest!: set_zip_leftD)

lemma ends_block_iff: "(case gens inst of Some (_, _, e) \<Rightarrow> e | None \<Rightarrow> 2) = (0 :: nat) \<longleftrightarrow> \<not> ends_block gens inst"
  by (simp add: ends_block_def split: option.split prod.split)

text \<open>Code that has been emitted from \<open>p\<close> on, with \<open>n\<close> bytes in all, used and left.\<close>

definition emitted :: "u64 \<Rightarrow> nat \<Rightarrow> x86_insn list \<Rightarrow> codegen \<Rightarrow> bool" where
  "emitted p n is g \<longleftrightarrow> code_at (cg_mem g) p (assemble is) \<and> cg_ptr g = p + of_nat (length (assemble is)) \<and>
     length (assemble is) + unat (cg_len g) = n \<and> (\<forall>i\<in>set is. x86_encode i \<noteq> [] \<and> i \<noteq> RET)"

lemma emitted_more:
  assumes "emitted p n is g" and "\<not> cg_oom (CODE_FINAL (assemble js) g)" and "uint p + int n \<le> 2 ^ 64"
    and "length (assemble js) < 2 ^ 32" and "\<forall>i\<in>set js. x86_encode i \<noteq> [] \<and> i \<noteq> RET"
  shows "emitted p n (is @ js) (CODE_FINAL (assemble js) g)"
  using assms CODE_FINAL_code [of g p "assemble is" "assemble js"] CODE_FINAL_room [OF assms(2,4)]
  by (auto simp: emitted_def add.assoc)

lemma gen_loop_runs:
  assumes "gen_loop limit gens op_unk priv inst pc nr g mio = Some (nr', g', mio')" and "\<not> cg_oom g'"
    and "emitted p n pre g" and "uint p + int n \<le> 2 ^ 64"
    and "\<And>inst k. k < n \<Longrightarrow> reaches (p + of_nat k) (fst (target gens op_unk inst))"
  shows "\<exists>body insts. emitted p n (pre @ body) g' \<and>
     runs_calls body (map (target gens op_unk) insts) (p + of_nat (length (assemble pre))) \<and>
     block_insns limit gens priv inst pc mio = Some (insts, mio') \<and> nr' = nr + of_nat (length insts)"
  using assms(1-3)
proof (induction limit arbitrary: inst pc nr g mio pre)
  case 0
  then show ?case by (intro exI [of _ "[]"]) (auto simp: runs_calls_Nil)
next
  case (Suc limit)
  define t where "t = target gens op_unk inst"
  define cb where "cb = call_bytes (cg_ptr g) (fst t) (snd t)"
  define g1 where "g1 = CODE_FINAL (assemble cb) g"
  have len: "length (assemble cb) \<le> 51"
    unfolding cb_def t_def by (rule target_length)
  have dec: "decodeInstrGenerateCall gens op_unk inst g = (case gens inst of Some (_, _, e) \<Rightarrow> e | None \<Rightarrow> 2, g1)"
    by (simp add: decode_eq g1_def cb_def t_def)
  have oom: "\<not> cg_oom g1"
    using Suc.prems(1,2) by (auto simp: dec split: if_splits)
  have em: "emitted p n (pre @ cb) g1"
    using emitted_more [OF Suc.prems(3) oom [unfolded g1_def] assms(4)] len call_bytes_ok
    unfolding g1_def cb_def by force
  have ptr: "cg_ptr g = p + of_nat (length (assemble pre))"
    using Suc.prems(3) by (simp add: emitted_def)
  have "length (assemble pre) + length (assemble (arg_moves (snd t))) < n"
    using em by (simp add: emitted_def cb_def call_bytes_def call_insns_def)
  then have run: "runs_calls cb [t] (p + of_nat (length (assemble pre)))"
    using target_runs [of "cg_ptr g" gens op_unk inst] assms(5)
    unfolding cb_def t_def ptr by (simp add: add.assoc flip: of_nat_add)
  show ?case
  proof (cases "ends_block gens inst \<or> (pc + 4) AND 0xfff = 0")
    case True
    then have "nr' = nr + 1" "g' = g1" "mio' = mio"
      using Suc.prems(1) oom by (auto simp: dec ends_block_iff Let_def)
    with True em run show ?thesis
      by (intro exI [of _ cb] exI [of _ "[inst]"]) (simp add: t_def)
  next
    case False
    then obtain r mio1 where l: "loadInst32 (pc + 4) priv mio = Some (r, mio1)" and
      rest: "(case r of Inl _ \<Rightarrow> Some (nr + 1, g1, mio1) | Inr inst' \<Rightarrow>
        gen_loop limit gens op_unk priv inst' (pc + 4) (nr + 1) g1 mio1) = Some (nr', g', mio')"
      using Suc.prems(1) oom
      by (auto simp: dec ends_block_iff Let_def elim!: bind_SomeE)
    show ?thesis
    proof (cases r)
      case (Inl f)
      with rest False l em run show ?thesis
        by (intro exI [of _ cb] exI [of _ "[inst]"]) (simp add: t_def)
    next
      case (Inr inst')
      then have "gen_loop limit gens op_unk priv inst' (pc + 4) (nr + 1) g1 mio1 = Some (nr', g', mio')"
        using rest by simp
      from Suc.IH [OF this Suc.prems(2) em] obtain body insts where 1: "emitted p n ((pre @ cb) @ body) g'"
        "runs_calls body (map (target gens op_unk) insts) (p + of_nat (length (assemble (pre @ cb))))"
        "block_insns limit gens priv inst' (pc + 4) mio1 = Some (insts, mio')" "nr' = nr + 1 + of_nat (length insts)"
        by blast
      then have "runs_calls (cb @ body) ([t] @ map (target gens op_unk) insts) (p + of_nat (length (assemble pre)))"
        using run by (intro runs_calls_append) (simp_all add: add.assoc)
      with 1 False l Inr show ?thesis
        by (intro exI [of _ "cb @ body"] exI [of _ "inst # insts"]) (simp add: t_def)
    qed
  qed
qed

subsection \<open>A block\<close>

definition entry :: "x86_insn list" where
  "entry = [PUSH RBP, MOVQ_RSP RBP, PUSH R12, PUSH RBX, MOVQ RBX RDI]"

definition leave :: "u32 \<Rightarrow> x86_insn list" where
  "leave nr = [MOVL RAX nr, POP RBX, POP R12, POP RBP, RET]"

lemma startBlock_assembles: "startBlock = CODE_FINAL (assemble entry)"
  by (simp add: startBlock_def entry_def)

lemma finaliseBlock_assembles: "finaliseBlock nr = CODE_FINAL (assemble (leave nr))"
  by (simp add: finaliseBlock_def leave_def fun_eq_iff)

lemma entry_length [simp]: "length (assemble entry) = 10" "length (assemble (leave nr)) = 10"
  by (simp_all add: entry_def leave_def)

text \<open>What calling the code at \<open>p\<close> does, whatever the called methods leave in the registers that
  are theirs to change.  The caller has pushed its return address on an aligned stack.\<close>

definition runs_block :: "hmem \<Rightarrow> u64 \<Rightarrow> nat \<Rightarrow> (u64 \<times> u32 list) list \<Rightarrow> bool" where
  "runs_block mem p nr calls \<longleftrightarrow> (\<forall>havoc s ret st. x_rip s = p \<longrightarrow> x_stack s = ret # st \<longrightarrow> even (length st) \<longrightarrow>
     (\<exists>k s' evs. x86_run k havoc mem s = Some s' \<and> x_rip s' = ret \<and> x_stack s' = st \<and>
        x_reg s' RAX = of_nat nr \<and> (\<forall>r. callee_saved r \<longrightarrow> x_reg s' r = x_reg s r) \<and>
        x_calls s' = x_calls s @ evs \<and> list_all2 (delivers (x_reg s RDI)) evs calls))"

lemma butlast_RET: "(\<And>i. i \<in> set body \<Longrightarrow> i \<noteq> RET) \<Longrightarrow> RET \<notin> set (butlast (entry @ body @ leave nr))"
  by (auto simp: butlast_append entry_def leave_def dest: in_set_butlastD)

lemma block_runs:
  assumes code: "code_at mem p (assemble (entry @ body @ leave nr))"
    and ok: "\<forall>i\<in>set body. x86_encode i \<noteq> [] \<and> i \<noteq> RET"
    and calls: "runs_calls body calls (p + 10)" and nr: "nr = of_nat k" and small: "k < 2 ^ 32"
  shows "runs_block mem p k calls"
  unfolding runs_block_def
proof (intro allI impI)
  fix havoc and s :: x86 and ret st
  assume s: "x_rip s = p" "x_stack s = ret # st" "even (length st)"
  let ?all = "entry @ body @ leave nr"
  have run: "x86_run (length ?all) havoc mem s = x86_execs havoc ?all s"
    using code s(1) ok butlast_RET [of body nr]
    by (intro x86_run_straight) (auto simp: entry_def leave_def INST32_def)
  obtain s1 where 1: "x86_execs havoc entry s = Some s1" "x_rip s1 = p + 10"
      "x_stack s1 = x_reg s RBX # x_reg s R12 # x_reg s RBP # ret # st" "x_reg s1 RBX = x_reg s RDI"
      "x_calls s1 = x_calls s"
    using s(1,2) by (simp add: entry_def set_reg_def add.assoc)
  have ev: "even (length (x_stack s1))" using 1(3) s(3) by simp
  obtain s2 evs where 2: "x86_execs havoc body s1 = Some s2" "x_stack s2 = x_stack s1"
      "x_calls s2 = x_calls s1 @ evs" "list_all2 (delivers (x_reg s1 RBX)) evs calls"
    using calls 1(2) ev unfolding runs_calls_def by blast
  have "(ucast (word_of_nat k :: u32) :: u64) = of_nat k"
    using small by (simp add: unsigned_of_nat take_bit_nat_eq_self)
  then obtain s3 where "x86_execs havoc (leave nr) s2 = Some s3" "x_rip s3 = ret" "x_stack s3 = st"
      "x_reg s3 RAX = of_nat k" "\<forall>r. callee_saved r \<longrightarrow> x_reg s3 r = x_reg s r" "x_calls s3 = x_calls s2"
    using 1(3) 2(2) by (simp add: leave_def set_reg_def nr callee_saved_def)
  with 1 2 run show "\<exists>k' s' evs. x86_run k' havoc mem s = Some s' \<and> x_rip s' = ret \<and> x_stack s' = st \<and>
        x_reg s' RAX = of_nat k \<and> (\<forall>r. callee_saved r \<longrightarrow> x_reg s' r = x_reg s r) \<and>
        x_calls s' = x_calls s @ evs \<and> list_all2 (delivers (x_reg s RDI)) evs calls"
    by (intro exI [of _ "length ?all"] exI [of _ s3] exI [of _ evs]) (simp add: x86_execs_append)
qed

text \<open>Code of \<open>len\<close> bytes at \<open>p\<close> that makes these calls for \<open>nr\<close> instructions: what \<open>createBlock\<close> leaves
  in the buffer.\<close>

definition good_code :: "hmem \<Rightarrow> u64 \<Rightarrow> nat \<Rightarrow> nat \<Rightarrow> (u64 \<times> u32 list) list \<Rightarrow> bool" where
  "good_code mem p len nr calls \<longleftrightarrow> (\<exists>body. code_at mem p (assemble (entry @ body @ leave (of_nat nr))) \<and>
     len = length (assemble (entry @ body @ leave (of_nat nr))) \<and>
     (\<forall>i\<in>set body. x86_encode i \<noteq> [] \<and> i \<noteq> RET) \<and> runs_calls body calls (p + 10) \<and> nr < 2 ^ 32)"

lemma good_code_runs: "good_code mem p len nr calls \<Longrightarrow> runs_block mem p nr calls"
  by (auto simp: good_code_def intro: block_runs)

lemma good_code_frame:
  assumes "good_code mem p len nr calls" and "\<forall>i<len. mem' (p + of_nat i) = mem (p + of_nat i)"
  shows "good_code mem' p len nr calls"
proof -
  obtain body where body: "code_at mem p (assemble (entry @ body @ leave (of_nat nr)))"
    "len = length (assemble (entry @ body @ leave (of_nat nr)))"
    "\<forall>i\<in>set body. x86_encode i \<noteq> [] \<and> i \<noteq> RET" "runs_calls body calls (p + 10)" "nr < 2 ^ 32"
    using assms(1) by (auto simp: good_code_def)
  moreover have "code_at mem' p (assemble (entry @ body @ leave (of_nat nr)))"
    using body(1,2) assms(2) by (simp add: code_at_def)
  ultimately show ?thesis unfolding good_code_def by blast
qed

definition in_reach :: "u64 \<Rightarrow> u64 \<Rightarrow> bool" where
  "in_reach base addr \<longleftrightarrow> (\<forall>k<BS_CODE_SIZE. reaches (base + of_nat k) addr)"

lemma block_insns_length: "block_insns limit gens priv inst pc mio = Some (insts, mio') \<Longrightarrow> length insts \<le> limit"
  by (induction limit arbitrary: inst pc mio insts)
    (auto split: if_splits sum.splits elim!: bind_SomeE)

lemma emitted_start:
  assumes "uint p + int n \<le> 2 ^ 64" and "10 \<le> n" and "n < 2 ^ 32"
  shows "emitted p n entry (startBlock \<lparr>cg_mem = mem, cg_ptr = p, cg_len = of_nat n, cg_oom = False\<rparr>)"
proof -
  let ?g = "\<lparr>cg_mem = mem, cg_ptr = p, cg_len = of_nat n, cg_oom = False\<rparr>"
  have n: "unat (of_nat n :: u32) = n" using assms(3) by (simp add: unat_of_nat)
  have "\<not> cg_oom (CODE_FINAL (assemble entry) ?g)"
    by (rule CODE_FINAL_fits) (use assms n in simp_all)
  then have "emitted p n ([] @ entry) (CODE_FINAL (assemble entry) ?g)"
    by (rule emitted_more [rotated]) (use assms n in \<open>auto simp: emitted_def entry_def\<close>)
  then show ?thesis by (simp add: startBlock_assembles)
qed

lemma finish_runs:
  assumes g: "emitted p n (entry @ body) g" and fits: "uint p + int (n + 10) \<le> 2 ^ 64"
    and calls: "runs_calls body calls (p + 10)" and k: "k < 2 ^ 32"
  shows "good_code (cg_mem (finaliseBlock (of_nat k) g)) p (length (assemble (entry @ body @ leave (of_nat k)))) k calls"
    and "unat (cg_len (finaliseBlock (of_nat k) g)) \<le> n"
    and "10 \<le> unat (cg_len g) \<Longrightarrow>
      length (assemble (entry @ body @ leave (of_nat k))) + unat (cg_len (finaliseBlock (of_nat k) g)) = n"
    and "unat (cg_len g) < 10 \<Longrightarrow> unat (cg_len (finaliseBlock (of_nat k) g)) < 10"
proof -
  let ?f = "CODE_FINAL (assemble (leave (of_nat k))) g"
  have len: "length (assemble (entry @ body)) + unat (cg_len g) = n" using g by (simp add: emitted_def)
  have "code_at (cg_mem ?f) p (assemble (entry @ body) @ assemble (leave (of_nat k)))"
    using g fits by (intro CODE_FINAL_code) (auto simp: emitted_def)
  then show "good_code (cg_mem (finaliseBlock (of_nat k) g)) p (length (assemble (entry @ body @ leave (of_nat k)))) k calls"
    using g calls k by (auto simp: good_code_def finaliseBlock_assembles emitted_def intro!: exI [of _ body])
  have le: "unat (cg_len ?f) \<le> unat (cg_len g)"
    by (rule CODE_FINAL_len)
  then show "unat (cg_len (finaliseBlock (of_nat k) g)) \<le> n"
    using len by (simp add: finaliseBlock_assembles)
  show "unat (cg_len g) < 10 \<Longrightarrow> unat (cg_len (finaliseBlock (of_nat k) g)) < 10"
    using le by (simp add: finaliseBlock_assembles)
  assume "10 \<le> unat (cg_len g)"
  then have "unat (cg_len ?f) = unat (cg_len g) - 10"
    using unat_sub [of 10 "cg_len g"] by (auto simp: CODE_FINAL_def Let_def word_less_nat_alt word_le_nat_alt)
  then show "length (assemble (entry @ body @ leave (of_nat k))) + unat (cg_len (finaliseBlock (of_nat k) g)) = n"
    using len \<open>10 \<le> unat (cg_len g)\<close> by (simp add: finaliseBlock_assembles)
qed

subsection \<open>Creating blocks\<close>

lemma allocBlock_last:
  assumes "allocBlock pc pa msr s = (b, avail, s1)"
  shows "bs_last s1 = b" and "bs_last s \<le> BS_CODE_SIZE - BS_FUMES \<longrightarrow> b = bs_last s"
  using assms by (auto simp: allocBlock_eq Let_def bs_hm_insert_def split: option.splits)

lemma createBlock_try_runs:
  assumes att: "createBlock_try gens op_unk base scratch c (bs, mem, mio) = Some (Inr (Some b), (bs', mem', mio'))"
    and rep: "represents bs ks" and fits: "uint base + int BS_CODE_SIZE \<le> 2 ^ 64"
    and reach: "\<And>inst. in_reach base (fst (target gens op_unk inst))"
  shows "\<exists>inst pa insts mio1 mio2 ks'. loadInst32 (c_pc c) (isPrivileged c) mio = Some (Inr inst, mio1) \<and>
    translateAddr (c_pc c) True True (isPrivileged c) scratch mio1 = Some (Inr pa, mio2) \<and>
    block_insns 1000 gens (isPrivileged c) inst (c_pc c) mio2 = Some (insts, mio') \<and>
    represents bs' (((ucast pa, c_msr c), b) # ks') \<and>
    ks' = (if bs_last bs > BS_CODE_SIZE - BS_FUMES then [] else ks) \<and>
    (bs_last bs \<le> BS_CODE_SIZE - BS_FUMES \<longrightarrow> b = bs_last bs) \<and>
    (\<exists>len. good_code mem' (base + of_nat (b + headerlen)) len (length insts) (map (target gens op_unk) insts) \<and>
       b + headerlen + len \<le> BS_CODE_SIZE \<and>
       (bs_last bs' \<le> BS_CODE_SIZE - BS_FUMES \<longrightarrow> b + headerlen + len \<le> bs_last bs'))"
proof -
  obtain inst mio1 where l: "loadInst32 (c_pc c) (isPrivileged c) mio = Some (Inr inst, mio1)"
    using att by (auto simp: createBlock_try_def Let_def elim!: bind_SomeE split: sum.splits)
  obtain pa mio2 where tr: "translateAddr (c_pc c) True True (isPrivileged c) scratch mio1 = Some (Inr pa, mio2)"
    using att l by (auto simp: createBlock_try_def Let_def elim!: bind_SomeE split: sum.splits)
  obtain b0 n bs1 where al: "allocBlock (c_pc c) (ucast pa) (c_msr c) bs = (b0, n, bs1)"
    by (metis prod.exhaust)
  note room = allocBlock_represents [OF rep al]
  let ?p = "base + of_nat (b0 + headerlen)"
  let ?g0 = "startBlock \<lparr>cg_mem = mem, cg_ptr = ?p, cg_len = of_nat n, cg_oom = False\<rparr>"
  obtain nr g where gl: "gen_loop 1000 gens op_unk (isPrivileged c) inst (c_pc c) 0 ?g0 mio2 = Some (nr, g, mio')"
    and oom: "\<not> cg_oom g" and b: "b = b0" and mem': "mem' = cg_mem (finaliseBlock nr g)"
    and bs': "bs' = amendBlockSize b0 (unat (of_nat n - cg_len (finaliseBlock nr g))) bs1"
    using att l tr al by (auto simp: createBlock_try_def Let_def elim!: bind_SomeE split: if_splits)
  have p: "uint ?p = uint base + int (b0 + headerlen)"
    using fits room(1,2) by (intro uint_add_nat) simp
  have n32: "n < 2 ^ 32" using room(2) by simp
  have em: "emitted ?p n entry ?g0"
    using p fits room(1,2) n32 by (intro emitted_start) simp_all
  have "reaches (?p + of_nat k) (fst (target gens op_unk i))" if "k < n" for i k
    using reach [of i] that room(2) unfolding in_reach_def
    by (auto simp: add.assoc simp flip: of_nat_add)
  then obtain body insts where 1: "emitted ?p n (entry @ body) g"
      "runs_calls body (map (target gens op_unk) insts) (?p + 10)"
      "block_insns 1000 gens (isPrivileged c) inst (c_pc c) mio2 = Some (insts, mio')" "nr = of_nat (length insts)"
    using gen_loop_runs [OF gl oom em] p fits room(1,2) by fastforce
  have small: "length insts < 2 ^ 32" using block_insns_length [OF 1(3)] by simp
  have fin: "uint ?p + int (n + 10) \<le> 2 ^ 64" using p fits room(2) by simp
  note fr = finish_runs [OF 1(1) fin 1(2) small]
  have "unat (of_nat n - cg_len (finaliseBlock nr g)) \<le> unat (of_nat n :: u32)"
    using fr(2) n32 by (intro word_sub_le [THEN word_le_nat_alt [THEN iffD1]])
      (simp add: 1(4) word_le_nat_alt unat_of_nat)
  then have "unat (of_nat n - cg_len (finaliseBlock nr g)) \<le> n" using n32 by (simp add: unat_of_nat)
  note rep' = room(3) [OF this]
  let ?L = "length (assemble (entry @ body @ leave (of_nat (length insts))))"
  let ?f = "finaliseBlock (of_nat (length insts)) g"
  note al' = allocBlock_last [OF al]
  have used: "unat (of_nat n - cg_len ?f) = n - unat (cg_len ?f)"
    using fr(2) n32 unat_sub [of "cg_len ?f" "of_nat n"] by (simp add: word_le_nat_alt unat_of_nat)
  have last: "b + headerlen + (n - unat (cg_len ?f)) \<le> bs_last bs'"
    using ALIGN_64(2) al'(1) used by (simp add: bs' b amendBlockSize_def 1(4))
  have "?L \<le> n + 10" using 1(1) by (simp add: emitted_def)
  then have in_buffer: "b + headerlen + ?L \<le> BS_CODE_SIZE" using room(2) by (simp add: b)
  have "b + headerlen + ?L \<le> bs_last bs'" if "bs_last bs' \<le> BS_CODE_SIZE - BS_FUMES"
  proof (cases "10 \<le> unat (cg_len g)")
    case True
    then show ?thesis using fr(3) last by simp
  next
    case False
    then show ?thesis using fr(4) last that room(2) by (simp add: b)
  qed
  with fr(1) in_buffer have "\<exists>len. good_code mem' (base + of_nat (b + headerlen)) len (length insts) (map (target gens op_unk) insts) \<and>
       b + headerlen + len \<le> BS_CODE_SIZE \<and>
       (bs_last bs' \<le> BS_CODE_SIZE - BS_FUMES \<longrightarrow> b + headerlen + len \<le> bs_last bs')"
    unfolding mem' 1(4) b by blast
  moreover have "represents bs' (((ucast pa, c_msr c), b) # (if bs_last bs > BS_CODE_SIZE - BS_FUMES then [] else ks))"
    unfolding bs' b by (rule rep')
  moreover have "bs_last bs \<le> BS_CODE_SIZE - BS_FUMES \<longrightarrow> b = bs_last bs" unfolding b by (rule al'(2))
  ultimately show ?thesis using l tr 1(3) by blast
qed

text \<open>A second attempt has the whole buffer, far more than 1000 instructions need.\<close>

lemma gen_loop_fits:
  "gen_loop limit gens op_unk priv inst pc nr g mio = Some (nr', g', mio') \<Longrightarrow> \<not> cg_oom g \<Longrightarrow>
     51 * limit \<le> unat (cg_len g) \<Longrightarrow> \<not> cg_oom g'"
proof (induction limit arbitrary: inst pc nr g mio)
  case (Suc limit)
  define bs where "bs = assemble (call_bytes (cg_ptr g) (fst (target gens op_unk inst)) (snd (target gens op_unk inst)))"
  define g1 where "g1 = CODE_FINAL bs g"
  have dec: "decodeInstrGenerateCall gens op_unk inst g = (case gens inst of Some (_, _, e) \<Rightarrow> e | None \<Rightarrow> 2, g1)"
    by (simp add: decode_eq g1_def bs_def)
  have len: "length bs \<le> 51" unfolding bs_def by (rule target_length)
  then have oom: "\<not> cg_oom g1" unfolding g1_def using Suc.prems(2,3) by (intro CODE_FINAL_fits) simp_all
  have "51 * limit \<le> unat (cg_len g1)"
    using CODE_FINAL_room(3) [OF oom [unfolded g1_def]] len Suc.prems(3) by (simp add: g1_def)
  with Suc.prems(1) Suc.IH [OF _ oom] oom show ?case
    by (auto simp: dec Let_def split: if_splits sum.splits elim!: bind_SomeE)
qed simp

lemma createBlock_try_fresh:
  assumes "createBlock_try gens op_unk base scratch c (bs, mem, mio) = Some (r, s')" and "bs_last bs = 0"
  shows "r \<noteq> Inl ()"
proof
  assume r: "r = Inl ()"
  obtain inst mio1 where l: "loadInst32 (c_pc c) (isPrivileged c) mio = Some (Inr inst, mio1)"
    using assms(1) r by (auto simp: createBlock_try_def Let_def elim!: bind_SomeE split: sum.splits)
  obtain pa mio2 where tr: "translateAddr (c_pc c) True True (isPrivileged c) scratch mio1 = Some (Inr pa, mio2)"
    using assms(1) l r by (auto simp: createBlock_try_def Let_def elim!: bind_SomeE split: sum.splits)
  obtain bs1 where al: "allocBlock (c_pc c) (ucast pa) (c_msr c) bs = (0, 4194140, bs1)"
    using assms(2) by (simp add: allocBlock_def Let_def)
  let ?g0 = "startBlock \<lparr>cg_mem = mem, cg_ptr = base + of_nat headerlen, cg_len = of_nat 4194140, cg_oom = False\<rparr>"
  obtain nr g mio' where
    gl: "gen_loop 1000 gens op_unk (isPrivileged c) inst (c_pc c) 0 ?g0 mio2 = Some (nr, g, mio')" and "cg_oom g"
    using assms(1) r l tr al by (auto simp: createBlock_try_def Let_def elim!: bind_SomeE split: if_splits)
  moreover have "\<not> cg_oom ?g0" "51 * 1000 \<le> unat (cg_len ?g0)"
    by (simp_all add: startBlock_def CODE_FINAL_def)
  ultimately show False using gen_loop_fits by blast
qed

lemma createBlock_try_retry:
  "createBlock_try gens op_unk base scratch c s = Some (Inl (), (bs', mem', mio')) \<Longrightarrow>
     bs_last bs' = 0 \<and> represents bs' []"
  using represents_reset
  by (cases s) (auto simp: createBlock_try_def Let_def split_beta resetBlockstore_def
      elim!: bind_SomeE split: if_splits sum.splits)

lemma createBlock_no_third:
  assumes "createBlock_try gens op_unk base scratch c s = Some (Inl (), s')"
    and "createBlock_try gens op_unk base scratch c s' = Some (r, s'')"
  shows "r \<noteq> Inl ()"
proof -
  obtain bs mem mio where s': "s' = (bs, mem, mio)" by (metis prod.exhaust)
  show ?thesis
    using createBlock_try_fresh [OF assms(2) [unfolded s']] createBlock_try_retry [OF assms(1) [unfolded s']] by simp
qed

lemma createBlock_unfold:
  "createBlock gens op_unk base scratch c s =
     (case createBlock_try gens op_unk base scratch c s of
        None \<Rightarrow> None
      | Some (Inr b, s') \<Rightarrow> Some (b, s')
      | Some (Inl _, s') \<Rightarrow> createBlock gens op_unk base scratch c s')"
  unfolding createBlock.simps [of gens op_unk base scratch c s]
  by (auto split: option.split sum.split)

lemma createBlock_twice:
  "createBlock gens op_unk base scratch c s =
     (case createBlock_try gens op_unk base scratch c s of
        None \<Rightarrow> None
      | Some (Inr b, s') \<Rightarrow> Some (b, s')
      | Some (Inl _, s') \<Rightarrow>
          (case createBlock_try gens op_unk base scratch c s' of
             Some (Inr b, s'') \<Rightarrow> Some (b, s'')
           | _ \<Rightarrow> None))"
proof (cases "createBlock_try gens op_unk base scratch c s")
  case (Some rs)
  obtain r s' where rs: "rs = (r, s')" by (cases rs)
  show ?thesis
  proof (cases r)
    case (Inl u)
    then show ?thesis
      using Some rs createBlock_no_third [of gens op_unk base scratch c s s']
        createBlock_unfold [of gens op_unk base scratch c s]
        createBlock_unfold [of gens op_unk base scratch c s']
      by (auto split: option.splits sum.splits)
  qed (use Some rs createBlock_unfold [of gens op_unk base scratch c s] in simp)
qed (simp add: createBlock_unfold [of gens op_unk base scratch c s])

lemma createBlock_SomeD:
  assumes "createBlock gens op_unk base scratch c s = Some (b, s'')"
  shows "createBlock_try gens op_unk base scratch c s = Some (Inr b, s'') \<or>
    (\<exists>s'. createBlock_try gens op_unk base scratch c s = Some (Inl (), s') \<and>
       createBlock_try gens op_unk base scratch c s' = Some (Inr b, s''))"
  using assms unfolding createBlock_twice [of gens op_unk base scratch c s]
  by (simp split: option.splits sum.splits prod.splits del: split_paired_Ex)

text \<open>C22: Block generation ends. When the room in the code buffer runs out while a block is generated,
  the store is emptied and generation starts again, and this happens at most once: the second attempt
  has the whole buffer, where the at most 1000 instructions of a block always fit.  So whether
  \<open>createBlock\<close> returns depends only on the memory accesses of the two attempts.\<close>

theorem createBlock_retries_once:
  "createBlock gens op_unk base scratch c s =
     (case createBlock_try gens op_unk base scratch c s of
        None \<Rightarrow> None
      | Some (Inr b, s') \<Rightarrow> Some (b, s')
      | Some (Inl _, s') \<Rightarrow>
          (case createBlock_try gens op_unk base scratch c s' of
             None \<Rightarrow> None
           | Some (r, s'') \<Rightarrow> Some (projr r, s'')))"
proof (cases "\<exists>s'. createBlock_try gens op_unk base scratch c s = Some (Inl (), s')")
  case True
  then obtain s' where s': "createBlock_try gens op_unk base scratch c s = Some (Inl (), s')" by blast
  show ?thesis
    unfolding createBlock_twice [of gens op_unk base scratch c s]
    using createBlock_no_third [OF s']
    by (simp add: s' split: option.split sum.split prod.split del: split_paired_All) blast
next
  case False
  then show ?thesis
    unfolding createBlock_twice [of gens op_unk base scratch c s]
    by (simp split: option.split sum.split prod.split)
qed

text \<open>C7: Generated code is correct. When a block is generated for the current PC, there are instruction
  words that the MMU yields from the PC on (up to one that ends a block, the end of the page, a fault or
  the limit) such that calling the code calls, in order, the method that the decoder gives for each, with the
  interpreter as first argument and its operands in the argument registers and on the stack, at
  an aligned stack; returns to the caller with the number of instructions; and keeps
  the callee-saved registers and the stack, whatever the methods do with the other registers.  The block
  is then what the store finds for that physical address and MSR.  (The methods
  must be within reach of a 32-bit displacement of the whole buffer.)\<close>

theorem jit_block_correct:
  assumes "createBlock gens op_unk base scratch c (bs, mem, mio) = Some (Some b, (bs', mem', mio'))"
    and "represents bs ks" and "uint base + int BS_CODE_SIZE \<le> 2 ^ 64"
    and "\<And>inst. in_reach base (fst (target gens op_unk inst))"
  shows "\<exists>mio0 inst pa insts mio1 mio2 bs''.
    loadInst32 (c_pc c) (isPrivileged c) mio0 = Some (Inr inst, mio1) \<and>
    translateAddr (c_pc c) True True (isPrivileged c) scratch mio1 = Some (Inr pa, mio2) \<and>
    block_insns 1000 gens (isPrivileged c) inst (c_pc c) mio2 = Some (insts, mio') \<and>
    runs_block mem' (base + of_nat (b + headerlen)) (length insts) (map (target gens op_unk) insts) \<and>
    bs_hm_lookup (ucast pa) (c_msr c) bs' = Some (Some b, bs'')"
proof -
  obtain bs0 mem0 mio0 ks0 where
    att: "createBlock_try gens op_unk base scratch c (bs0, mem0, mio0) = Some (Inr (Some b), (bs', mem', mio'))"
    and rep: "represents bs0 ks0"
  proof -
    consider (first) "createBlock_try gens op_unk base scratch c (bs, mem, mio) = Some (Inr (Some b), (bs', mem', mio'))"
      | (again) s' where "createBlock_try gens op_unk base scratch c (bs, mem, mio) = Some (Inl (), s')"
          "createBlock_try gens op_unk base scratch c s' = Some (Inr (Some b), (bs', mem', mio'))"
      using createBlock_SomeD [OF assms(1)] by blast
    then show thesis
    proof cases
      case first
      then show thesis using that assms(2) by blast
    next
      case again
      obtain bs0 mem0 mio0 where "s' = (bs0, mem0, mio0)" by (metis prod.exhaust)
      with again that createBlock_try_retry show thesis by blast
    qed
  qed
  obtain inst pa insts mio1 mio2 ks' where
    1: "loadInst32 (c_pc c) (isPrivileged c) mio0 = Some (Inr inst, mio1)"
    "translateAddr (c_pc c) True True (isPrivileged c) scratch mio1 = Some (Inr pa, mio2)"
    "block_insns 1000 gens (isPrivileged c) inst (c_pc c) mio2 = Some (insts, mio')"
    "represents bs' (((ucast pa, c_msr c), b) # ks')"
    "runs_block mem' (base + of_nat (b + headerlen)) (length insts) (map (target gens op_unk) insts)"
    using createBlock_try_runs [OF att rep assms(3,4)] good_code_runs by blast
  moreover have "\<exists>bs''. bs_hm_lookup (ucast pa) (c_msr c) bs' = Some (Some b, bs'')"
    using represents_lookup [OF 1(4), of "ucast pa" "c_msr c"] by auto
  ultimately show ?thesis by blast
qed

subsection \<open>The buffer is not overrun\<close>

text \<open>A sequence has at most 51 bytes; they are written at the pointer before the check, so an
  overrun ends at most that far past the room given out.\<close>

definition framed :: "u64 \<Rightarrow> nat \<Rightarrow> hmem \<Rightarrow> codegen \<Rightarrow> bool" where
  "framed p n mem g \<longleftrightarrow> (\<exists>u. cg_ptr g = p + of_nat u \<and> u + unat (cg_len g) \<le> n) \<and>
     (\<forall>a. cg_mem g a = mem a \<or> uint p \<le> uint a \<and> uint a < uint p + int n + 51)"

lemma hwrite_bytes_outside:
  "uint p + int (length bs) \<le> 2 ^ 64 \<Longrightarrow> \<not> (uint p \<le> uint a \<and> uint a < uint p + int (length bs)) \<Longrightarrow>
     hwrite_bytes p bs mem a = mem a"
proof (induction bs arbitrary: p mem)
  case (Cons b bs)
  show ?case
  proof (cases bs)
    case Nil
    with Cons.prems show ?thesis by auto
  next
    case (Cons c cs)
    then have "uint (p + 1) = uint p + 1" using Cons.prems(1) uint_add_nat [of p 1] by simp
    then have "hwrite_bytes (p + 1) bs (mem(p := b)) a = (mem(p := b)) a"
      using Cons.prems by (intro Cons.IH) auto
    with Cons.prems show ?thesis by auto
  qed
qed simp

lemma CODE_FINAL_framed:
  assumes "framed p n mem g" and "length bs \<le> 51" and "uint p + int n + 51 \<le> 2 ^ 64"
  shows "framed p n mem (CODE_FINAL bs g)"
proof -
  obtain u where u: "cg_ptr g = p + of_nat u" "u + unat (cg_len g) \<le> n"
    using assms(1) by (auto simp: framed_def)
  have q: "uint (cg_ptr g) = uint p + int u"
    using u assms(3) by (simp add: uint_add_nat)
  have "hwrite_bytes (cg_ptr g) bs (cg_mem g) a = mem a \<or> uint p \<le> uint a \<and> uint a < uint p + int n + 51" for a
    using hwrite_bytes_outside [of "cg_ptr g" bs a "cg_mem g"] q u(2) assms by (force simp: framed_def)
  moreover have "\<exists>u'. cg_ptr (CODE_FINAL bs g) = p + of_nat u' \<and> u' + unat (cg_len (CODE_FINAL bs g)) \<le> n"
  proof (cases "cg_len g < of_nat (length bs)")
    case False
    have "length bs \<le> unat (cg_len g)"
      using False assms(2) by (simp add: word_less_nat_alt unat_of_nat)
    then show ?thesis
      using False u assms(2) unat_sub [of "of_nat (length bs)" "cg_len g"]
      by (intro exI [of _ "u + length bs"]) (simp add: CODE_FINAL_def Let_def unat_of_nat not_less [symmetric])
  qed (use u in \<open>auto simp: CODE_FINAL_def Let_def\<close>)
  ultimately show ?thesis
    by (auto simp: framed_def CODE_FINAL_def Let_def)
qed

lemma gen_loop_framed:
  "gen_loop limit gens op_unk priv inst pc nr g mio = Some (nr', g', mio') \<Longrightarrow> framed p n mem g \<Longrightarrow>
     uint p + int n + 51 \<le> 2 ^ 64 \<Longrightarrow> framed p n mem g'"
proof (induction limit arbitrary: inst pc nr g mio)
  case (Suc limit)
  define g1 where "g1 = snd (decodeInstrGenerateCall gens op_unk inst g)"
  have "framed p n mem g1"
    unfolding g1_def decode_eq snd_conv by (intro CODE_FINAL_framed Suc.prems target_length)
  with Suc.prems(1) Suc.IH [OF _ this Suc.prems(3)] show ?case
    by (auto simp: split_beta Let_def g1_def split: if_splits sum.splits elim!: bind_SomeE)
qed simp

lemma createBlock_try_framed:
  assumes "createBlock_try gens op_unk base scratch c (bs, mem, mio) = Some (r, (bs', mem', mio'))"
    and "represents bs ks" and "uint base + int BS_CODE_SIZE \<le> 2 ^ 64"
  shows "mem' a = mem a \<or> uint base \<le> uint a \<and> uint a < uint base + int BS_CODE_SIZE \<and>
    (bs_last bs \<le> BS_CODE_SIZE - BS_FUMES \<longrightarrow> uint base + int (bs_last bs) \<le> uint a)"
proof (cases "mem' = mem")
  case False
  obtain inst mio1 where l: "loadInst32 (c_pc c) (isPrivileged c) mio = Some (Inr inst, mio1)"
    using assms(1) False by (auto simp: createBlock_try_def Let_def elim!: bind_SomeE split: sum.splits)
  obtain pa mio2 where tr: "translateAddr (c_pc c) True True (isPrivileged c) scratch mio1 = Some (Inr pa, mio2)"
    using assms(1) False l by (auto simp: createBlock_try_def Let_def elim!: bind_SomeE split: sum.splits)
  obtain b n bs1 where al: "allocBlock (c_pc c) (ucast pa) (c_msr c) bs = (b, n, bs1)"
    by (metis prod.exhaust)
  note room = allocBlock_represents [OF assms(2) al]
  let ?p = "base + of_nat (b + headerlen)"
  let ?i = "\<lparr>cg_mem = mem, cg_ptr = ?p, cg_len = of_nat n, cg_oom = False\<rparr>"
  obtain nr g mio2' where gl: "gen_loop 1000 gens op_unk (isPrivileged c) inst (c_pc c) 0 (startBlock ?i) mio2 = Some (nr, g, mio2')"
    and mem': "mem' = cg_mem g \<or> mem' = cg_mem (finaliseBlock nr g)"
    using assms(1) l tr al by (auto simp: createBlock_try_def Let_def elim!: bind_SomeE split: if_splits)
  have p: "uint ?p = uint base + int (b + headerlen)"
    using assms(3) room(1,2) by (intro uint_add_nat) simp
  have fits: "uint ?p + int n + 51 \<le> 2 ^ 64" using p assms(3) room(2) by simp
  have n32: "n < 2 ^ 32" using room(2) by simp
  have "framed ?p n mem ?i"
    using n32 by (simp add: framed_def unat_of_nat exI [of _ 0])
  then have "framed ?p n mem (startBlock ?i)"
    unfolding startBlock_def by (rule CODE_FINAL_framed) (use fits in simp_all)
  from gen_loop_framed [OF gl this fits] have g: "framed ?p n mem g" .
  then have "framed ?p n mem (finaliseBlock nr g)"
    unfolding finaliseBlock_def by (rule CODE_FINAL_framed) (use fits in simp_all)
  moreover have "cg_mem x a = mem a \<or> uint base \<le> uint a \<and> uint a < uint base + int BS_CODE_SIZE \<and>
      (bs_last bs \<le> BS_CODE_SIZE - BS_FUMES \<longrightarrow> uint base + int (bs_last bs) \<le> uint a)"
    if "framed ?p n mem x" for x
  proof -
    have "cg_mem x a = mem a \<or> uint ?p \<le> uint a \<and> uint a < uint ?p + int n + 51"
      using that by (simp add: framed_def)
    then show ?thesis unfolding p using room(2) allocBlock_last(2) [OF al] by (elim disjE) auto
  qed
  ultimately show ?thesis using g mem' by metis
qed simp

text \<open>C23: Code generation stays in the code buffer. Although every sequence is written before the room is
  checked, no byte outside the buffer changes, whether or not the room runs out, for any choice of call
  sequences: what is held back at the end of the buffer is enough.\<close>

theorem jit_writes_in_buffer:
  assumes "createBlock gens op_unk base scratch c (bs, mem, mio) = Some (r, (bs', mem', mio'))"
    and "represents bs ks" and "uint base + int BS_CODE_SIZE \<le> 2 ^ 64"
  shows "mem' a = mem a \<or> uint base \<le> uint a \<and> uint a < uint base + int BS_CODE_SIZE"
proof -
  note frame = createBlock_try_framed [where gens = gens and op_unk = op_unk and base = base and scratch = scratch and c = c and a = a]
  consider (first) "createBlock_try gens op_unk base scratch c (bs, mem, mio) = Some (Inr r, (bs', mem', mio'))"
    | (again) s' where "createBlock_try gens op_unk base scratch c (bs, mem, mio) = Some (Inl (), s')"
        "createBlock_try gens op_unk base scratch c s' = Some (Inr r, (bs', mem', mio'))"
    using createBlock_SomeD [OF assms(1)] by blast
  then show ?thesis
  proof cases
    case first
    then show ?thesis using frame assms(2,3) by blast
  next
    case again
    obtain bs0 mem0 mio0 where s': "s' = (bs0, mem0, mio0)" by (metis prod.exhaust)
    have "represents bs0 []" using createBlock_try_retry again(1) s' by blast
    then show ?thesis
      using frame [OF again(1) [unfolded s'] assms(2,3)] frame [OF again(2) [unfolded s'] _ assms(3)] by metis
  qed
qed

subsection \<open>Witnesses\<close>

text \<open>A block of one instruction in the demo platform with translation off, every word decoded as
  a branch that the method at \<open>0x501000\<close> executes.\<close>

definition demo_gens :: generators where
  "demo_gens = (\<lambda>inst. Some (0x501000, C_int_int_int (I_LI inst) (I_AA inst) (I_LK inst), 1))"

definition demo_bs :: blockstore where
  "demo_bs = \<lparr>bs_mem = \<lambda>_. dummy_block, bs_hashmap = \<lambda>_. None, bs_last = 0, bs_last_block = None, bs_gencount = 0\<rparr>"

lemma demo_bs_represents: "represents demo_bs []"
  by (simp add: represents_def demo_bs_def bucket_def)

lemma scast_small:
  assumes "m < 2 ^ 31"
  shows "(scast (ucast (of_nat m :: u64) :: u32) :: u64) = of_nat m"
proof -
  have "take_bit 64 m = m" "(ucast (of_nat m :: u64) :: u32) = of_nat m"
    using assms by (simp_all add: unsigned_of_nat take_bit_nat_eq_self)
  moreover have "signed_take_bit 31 (int m) = int m"
    using assms by (intro signed_take_bit_int_eq_self) simp_all
  ultimately show ?thesis by (simp add: signed_of_nat)
qed

lemma demo_reach: "in_reach 0x100000 0x501000"
  unfolding in_reach_def reaches_def get_rel_addr_def
proof (intro allI impI)
  fix k assume "k < BS_CODE_SIZE"
  then have k: "k < 0x400000" by simp
  have eq: "(0x501000 :: u64) - (0x100000 + of_nat k) - 5 = of_nat (0x400ffb - k)"
    using k by (simp add: of_nat_diff)
  show "scast (ucast ((0x501000 :: u64) - (0x100000 + of_nat k) - 5) :: u32) = (0x501000 :: u64) - (0x100000 + of_nat k) - 5"
    unfolding eq by (rule scast_small) simp
qed

lemma demo_insn:
  obtains inst m' where "loadInst32 0 True (demo_mmu, demo_io mem) = Some (Inr inst, (m', demo_io mem))"
    and "\<exists>pa. translateAddr 0 True True True 0 (m', demo_io mem) = Some (Inr pa, (m', demo_io mem))"
proof -
  have z: "(0 :: u32) < 0x10000" by simp
  obtain m' where w: "translateEA 0 True True True 0 (demo_mmu, demo_io mem) =
      Some (Inr (0, PPCMMU_PERMS_ANY), (m', demo_io mem))"
    using z by (rule demo_walk)
  obtain m1 where m1: "translateAddr 0 True True True 0 (demo_mmu, demo_io mem) =
      Some (Inr (ram_direct_map demo_ram 0), (m1, demo_io mem))"
    using z by (rule demo_translate_pa)
  have "utlbLookup True True 0 demo_mmu = None" by (rule utlb_empty_lookup [OF demo_empty])
  then have "m1 = m'"
    using m1 do_lookup_unfold [OF w] by (auto simp: translateAddr_def)
  moreover have "\<exists>pa. utlbLookup True True 0 m' = Some (pa, PPCMMU_PERMS_ANY)"
    using do_lookup_unfold [OF w] by auto
  then have "\<exists>pa. translateAddr 0 True True True 0 (m', demo_io mem) = Some (Inr pa, (m', demo_io mem))"
    by (auto simp: translateAddr_def checkPerms_def PPCMMU_PERMS_ANY_def)
  moreover have "IS_DIRECT (ram_direct_map demo_ram 0)"
    by (simp add: demo_host IS_DIRECT_def PPCMMU_HVA_IO_BIT_def B_def)
  then have "\<exists>inst. loadInst32 0 True (demo_mmu, demo_io mem) = Some (Inr inst, (m1, demo_io mem))"
    using m1 by (simp add: loadInst32_def)
  ultimately show thesis using that by blast
qed

lemma demo_gen:
  assumes "\<not> cg_oom g" and "51 * 1000 \<le> unat (cg_len g)"
  obtains g1 where "gen_loop 1000 demo_gens op_unk priv inst pc nr g mio = Some (nr + 1, g1, mio)" and "\<not> cg_oom g1"
proof -
  have "gen_loop (Suc 999) demo_gens op_unk priv inst pc nr g mio =
      Some (nr + 1, snd (decodeInstrGenerateCall demo_gens op_unk inst g), mio)"
    unfolding gen_loop.simps(2) by (simp add: decode_eq demo_gens_def Let_def)
  then have "gen_loop 1000 demo_gens op_unk priv inst pc nr g mio =
      Some (nr + 1, snd (decodeInstrGenerateCall demo_gens op_unk inst g), mio)" by simp
  with gen_loop_fits [OF this assms] that show thesis by blast
qed

lemma demo_block:
  obtains s' where "createBlock demo_gens 0x502000 0x100000 0 (PPCCPUState_init c) (demo_bs, code, (demo_mmu, demo_io mem)) =
      Some (Some 0, s')"
proof -
  obtain inst m' pa where l: "loadInst32 0 True (demo_mmu, demo_io mem) = Some (Inr inst, (m', demo_io mem))"
    and t: "translateAddr 0 True True True 0 (m', demo_io mem) = Some (Inr pa, (m', demo_io mem))"
    using demo_insn by metis
  have c: "c_pc (PPCCPUState_init c) = 0" "isPrivileged (PPCCPUState_init c)" "c_msr (PPCCPUState_init c) = 0"
    by (simp_all add: PPCCPUState_init_def isPrivileged_def)
  obtain bs1 where al: "allocBlock 0 (ucast pa) 0 demo_bs = (0, 4194140, bs1)"
    by (simp add: allocBlock_def demo_bs_def Let_def)
  let ?g0 = "startBlock \<lparr>cg_mem = code, cg_ptr = 0x100000 + of_nat (0 + headerlen), cg_len = of_nat 4194140, cg_oom = False\<rparr>"
  have "\<not> cg_oom ?g0" "51 * 1000 \<le> unat (cg_len ?g0)"
    by (simp_all add: startBlock_def CODE_FINAL_def)
  then obtain g1 where g: "gen_loop 1000 demo_gens 0x502000 True inst 0 0 ?g0 (m', demo_io mem) =
      Some (0 + 1, g1, (m', demo_io mem))" "\<not> cg_oom g1"
    by (rule demo_gen)
  have "\<exists>s'. createBlock_try demo_gens 0x502000 0x100000 0 (PPCCPUState_init c) (demo_bs, code, (demo_mmu, demo_io mem)) =
      Some (Inr (Some 0), s')"
    using l t al g by (simp add: createBlock_try_def c Let_def)
  then show thesis using that by (auto simp: createBlock_unfold)
qed

lemma demo_in_reach: "in_reach 0x100000 (fst (target demo_gens 0x502000 inst))"
  using demo_reach by (simp add: target_def demo_gens_def)

theorem jit_block_correct_witness:
  "\<exists>bs' mem' mio' insts. createBlock demo_gens 0x502000 0x100000 0 (PPCCPUState_init undefined)
       (demo_bs, \<lambda>_. 0, (demo_mmu, demo_io (\<lambda>_. 0))) = Some (Some 0, (bs', mem', mio')) \<and>
     runs_block mem' 0x100040 (length insts) (map (target demo_gens 0x502000) insts)"
proof -
  obtain bs' mem' mio' where cb: "createBlock demo_gens 0x502000 0x100000 0 (PPCCPUState_init undefined)
       (demo_bs, \<lambda>_. 0, (demo_mmu, demo_io (\<lambda>_. 0))) = Some (Some 0, (bs', mem', mio'))"
    using demo_block [of undefined "\<lambda>_. 0" "\<lambda>_. 0"] by (metis prod.exhaust)
  show ?thesis
    using jit_block_correct [OF cb demo_bs_represents _ demo_in_reach] cb by auto
qed

theorem jit_writes_in_buffer_witness:
  "\<exists>bs' mem' mio'. createBlock demo_gens 0x502000 0x100000 0 (PPCCPUState_init undefined)
       (demo_bs, \<lambda>_. 0, (demo_mmu, demo_io (\<lambda>_. 0))) = Some (Some 0, (bs', mem', mio')) \<and> mem' 0x500000 = 0"
proof -
  obtain bs' mem' mio' where cb: "createBlock demo_gens 0x502000 0x100000 0 (PPCCPUState_init undefined)
       (demo_bs, \<lambda>_. 0, (demo_mmu, demo_io (\<lambda>_. 0))) = Some (Some 0, (bs', mem', mio'))"
    using demo_block [of undefined "\<lambda>_. 0" "\<lambda>_. 0"] by (metis prod.exhaust)
  show ?thesis
    using jit_writes_in_buffer [OF cb demo_bs_represents, of "0x500000"] cb by auto
qed

end
