(* ===== verification/Run_JIT.thy ===== *)
theory Run_JIT
  imports Blockgen_Props Run_Loop
begin

section \<open>The run loop of the JIT: \<open>runloop.cc\<close>\<close>

text \<open>
  With \<open>ENABLE_JIT\<close> the machine runs in rounds: find the block for the current PC and MSR, generate it
  when there is none, call its code, account for the instructions, deliver an interrupt.  An exception
  raised anywhere in a round (\<open>takeException\<close> with \<open>exception_jmp\<close>) jumps back to the start of the
  loop and skips the rest of the round.

  Calling the code of a block is the argument \<open>call_block\<close>: it yields the number that the code
  returns (\<open>Inr\<close>), or the state in which an instruction raised an exception (\<open>Inl\<close>).  What
  the code does is the subject of theory Blockgen\_Props.  \<open>fault0\<close> and \<open>scratch\<close> are the
  uninitialised \<open>fault\<close> and \<open>pa\<close>; the last argument of \<open>raiseMemException\<close>, which the call omits, is 0.
\<close>

datatype selection = Sel_fault fault_t | Sel_again | Sel_block nat

text \<open>\<open>find_block\<close> up to the call.  When \<open>createBlock\<close> returns null, it is repeated.\<close>

definition jit_select :: "generators \<Rightarrow> u64 \<Rightarrow> u64 \<Rightarrow> u32 \<Rightarrow> fault_t \<Rightarrow> cpu \<Rightarrow> jit \<Rightarrow> (selection \<times> jit) option" where
  "jit_select gens unk_addr base scratch fault0 c j =
     (let (bs, mem, mio) = j
      in do {
        (to, fault, bs, mio) \<leftarrow> findBlock scratch c fault0 bs mio;
        case to of
          Some b \<Rightarrow> Some (Sel_block b, (bs, mem, mio))
        | None \<Rightarrow>
            if fault \<noteq> FAULT_NONE then Some (Sel_fault fault, (bs, mem, mio))
            else do {
              (to, j) \<leftarrow> createBlock gens unk_addr base scratch c (bs, mem, mio);
              case to of None \<Rightarrow> Some (Sel_again, j) | Some b \<Rightarrow> Some (Sel_block b, j) } })"

text \<open>After the call: ticks, interrupts, the limit.\<close>

definition jit_after :: "u32 \<Rightarrow> u32 \<Rightarrow> sys \<Rightarrow> sys" where
  "jit_after instr_limit r s =
     (let s = upd_cpu (CPUTick r) s
      in if isIRQPending (s_cpu s) (io_irqFlag (s_io s)) \<or> isDecrementerPending (s_cpu s) then deliver_pending s
         else check_limit instr_limit s)"

definition jit_round :: "generators \<Rightarrow> u64 \<Rightarrow> u64 \<Rightarrow> u32 \<Rightarrow> fault_t \<Rightarrow>
    (u64 \<Rightarrow> hmem \<Rightarrow> sys \<Rightarrow> (sys + u32 \<times> sys) option) \<Rightarrow> u32 \<Rightarrow> sys \<times> blockstore \<times> hmem \<Rightarrow>
    (sys \<times> blockstore \<times> hmem) option" where
  "jit_round gens unk_addr base scratch fault0 call_block instr_limit = (\<lambda>(s, bs, mem). do {
     (sel, bs, mem, m, io) \<leftarrow> jit_select gens unk_addr base scratch fault0 (s_cpu s) (bs, mem, s_mmu s, s_io s);
     let s = s\<lparr>s_mmu := m, s_io := io\<rparr>;
     case sel of
       Sel_fault fault \<Rightarrow> do {
         s \<leftarrow> sys_raiseMem True True (c_pc (s_cpu s)) fault 0 s;
         Some (s, bs, mem) }
     | Sel_again \<Rightarrow> Some (s, bs, mem)
     | Sel_block b \<Rightarrow> do {
         result \<leftarrow> call_block (base + of_nat (b + headerlen)) mem s;
         case result of
           Inl s \<Rightarrow> Some (s, bs, mem)
         | Inr (r, s) \<Rightarrow> Some (jit_after instr_limit r s, bs, mem) } })"

partial_function (option) runloop :: "generators \<Rightarrow> u64 \<Rightarrow> u64 \<Rightarrow> u32 \<Rightarrow> fault_t \<Rightarrow>
    (u64 \<Rightarrow> hmem \<Rightarrow> sys \<Rightarrow> (sys + u32 \<times> sys) option) \<Rightarrow> u32 \<Rightarrow> sys \<times> blockstore \<times> hmem \<Rightarrow>
    (sys \<times> blockstore \<times> hmem) option" where
  "runloop gens unk_addr base scratch fault0 call_block instr_limit j =
     (if s_want_break (fst j) then Some j
      else do {
        j \<leftarrow> jit_round gens unk_addr base scratch fault0 call_block instr_limit j;
        runloop gens unk_addr base scratch fault0 call_block instr_limit j })"

subsection \<open>Every block in the store is right\<close>

















subsection \<open>Time\<close>

text \<open>The tick for a block decrements the decrementer at most once, and not at all when the time base
  does not land on a multiple of four: after two blocks of four instructions it is two lower, after one
  of eight just one.\<close>

lemma jit_decrementer_lags:
  "c_tb c = 0 \<Longrightarrow> c_dec (CPUTick 4 (CPUTick 4 c)) = c_dec c - 2 \<and> c_dec (CPUTick 8 c) = c_dec c - 1"
  by (simp add: CPUTick_def TB_SHIFT_def Let_def)

lemma jit_decrementer_stops:
  "c_tb c = 1 \<Longrightarrow> c_dec (CPUTick 6 c) = c_dec c"
  by (simp add: CPUTick_def TB_SHIFT_def Let_def)

text \<open>A round in which an instruction raises an exception accounts for no instruction at all.\<close>

lemma jit_exception_no_tick:
  assumes "jit_select gens unk_addr base scratch fault0 (s_cpu s) (bs, mem, s_mmu s, s_io s) = Some (Sel_block b, (bs', mem', m, io))"
    and "call_block (base + of_nat (b + headerlen)) mem' (s\<lparr>s_mmu := m, s_io := io\<rparr>) = Some (Inl s')"
  shows "jit_round gens unk_addr base scratch fault0 call_block limit (s, bs, mem) = Some (s', bs', mem')"
  using assms by (simp add: jit_round_def Let_def)

end
