(* ===== verification/Sim_State.thy ===== *)
theory Sim_State
  imports Sys_State
begin

section \<open>The state file: \<open>sim_state.cc\<close>\<close>

text \<open>
  On exit \<open>state_save_open\<close> writes the registers and the memory to a file of chunks: a name of eight
  bytes, a length and the data, in the host's byte order.  Nothing in the program reads the file back;
  the reader below is what the chunk header of \<open>sim_state.h\<close> prescribes, and the theorem
  of Sim\_Quit says that it recovers the machine.

  A file is its bytes, the position and the number of bytes that the medium can hold: a \<open>write\<close>
  beyond that is short, which the code takes as a failure.
\<close>

record sim_file =
  sf_data :: "u8 list"
  sf_pos :: nat
  sf_space :: nat

record meminfo =
  mi_ram_pa_base :: u32
  mi_ram_size :: u32
  mi_host_map_base :: u64

definition STS_MEM_CHUNK_SZ :: nat where "STS_MEM_CHUNK_SZ = 0x200000"

definition STS_MEM :: string where "STS_MEM = ''MEMBLK''"

text \<open>\<open>write\<close> at the file position: how much was written, and the file.\<close>

definition file_write :: "u8 list \<Rightarrow> sim_file \<Rightarrow> nat \<times> sim_file" where
  "file_write bs f =
     (let n = min (length bs) (sf_space f - sf_pos f)
      in (n, f\<lparr>sf_data := take (sf_pos f) (sf_data f) @ take n bs @ drop (sf_pos f + n) (sf_data f),
               sf_pos := sf_pos f + n\<rparr>))"

text \<open>\<open>strncpy\<close> into eight bytes, and the bytes of a 64-bit value in memory.\<close>

definition strncpy8 :: "string \<Rightarrow> u8 list" where
  "strncpy8 s = take 8 (map of_char s @ replicate 8 0)"

definition le64 :: "u64 \<Rightarrow> u8 list" where
  "le64 v = map (\<lambda>i. ucast (drop_bit (8 * i) v)) [0..<8]"

text \<open>A file or, after an error, what is left of it.\<close>

type_synonym saved = "sim_file + sim_file"

definition put :: "u8 list \<Rightarrow> sim_file \<Rightarrow> saved" where
  "put bs f = (let (r, f) = file_write bs f in if r \<noteq> length bs then Inl f else Inr f)"

definition SAVE_REG_CHUNK :: "u64 \<Rightarrow> string \<Rightarrow> sim_file \<Rightarrow> saved" where
  "SAVE_REG_CHUNK v cname f = put (strncpy8 cname @ le64 8 @ le64 v) f"

fun save_chunks :: "(string \<times> u64) list \<Rightarrow> sim_file \<Rightarrow> saved" where
  "save_chunks [] f = Inr f"
| "save_chunks ((n, v) # rs) f =
     (case SAVE_REG_CHUNK v n f of Inl f \<Rightarrow> Inl f | Inr f \<Rightarrow> save_chunks rs f)"

text \<open>The registers in the order of the code, with the names \<open>snprintf\<close> makes.\<close>

definition digit :: "nat \<Rightarrow> char" where "digit n = char_of (48 + n)"

definition STS_GPR_FMT :: "nat \<Rightarrow> string" where "STS_GPR_FMT i = ''GPR'' @ [digit (i div 10), digit (i mod 10)]"
definition STS_SR_FMT :: "nat \<Rightarrow> string" where "STS_SR_FMT i = ''SR'' @ [digit (i div 10), digit (i mod 10)]"

fun collect :: "'a option list \<Rightarrow> 'a list option" where
  "collect [] = Some []"
| "collect (x # xs) = do { x \<leftarrow> x; xs \<leftarrow> collect xs; Some (x # xs) }"

definition named :: "string \<Rightarrow> u32 option \<Rightarrow> (string \<times> u64) option" where
  "named n v = map_option (\<lambda>v. (n, ucast v)) v"

definition core_regs :: "cpu \<Rightarrow> (string \<times> u64) list" where
  "core_regs c =
     [(''PC'', ucast (c_pc c)), (''CTR'', ucast (c_ctr c)), (''LR'', ucast (c_lr c)),
      (''XER'', ucast (c_xer c)), (''CR'', ucast (c_cr c)), (''MSR'', ucast (c_msr c)),
      (''HID0'', ucast (c_hid0 c)), (''HID1'', ucast (c_hid1 c)), (''SPRG0'', ucast (c_sprg0 c)),
      (''SPRG1'', ucast (c_sprg1 c)), (''SPRG2'', ucast (c_sprg2 c)), (''SPRG3'', ucast (c_sprg3 c)),
      (''SRR0'', ucast (c_srr0 c)), (''SRR1'', ucast (c_srr1 c)), (''DAR'', ucast (c_dar c)),
      (''DSISR'', ucast (c_dsisr c)), (''DEC'', ucast (c_dec c)), (''TB'', getTB c),
      (''SDR1'', ucast (c_sdr1 c))]"

definition saved_regs :: "cpu \<Rightarrow> mmu \<Rightarrow> bool \<Rightarrow> (string \<times> u64) list option" where
  "saved_regs c m irq = do {
     gprs \<leftarrow> collect (map (\<lambda>i. named (STS_GPR_FMT i) (getGPR c i)) [0..<32]);
     srs \<leftarrow> collect (map (\<lambda>i. named (STS_SR_FMT i) (getSegmentReg i m)) [0..<16]);
     bats \<leftarrow> collect (concat (map (\<lambda>i.
        [named (''IBAT'' @ [digit i] @ ''U'') (getIBATupper i m),
         named (''IBAT'' @ [digit i] @ ''L'') (getIBATlower i m),
         named (''DBAT'' @ [digit i] @ ''U'') (getDBATupper i m),
         named (''DBAT'' @ [digit i] @ ''L'') (getDBATlower i m)]) [0..<4]));
     Some (gprs @ core_regs c @ srs @ bats @ [(''IRQ'', of_bool irq)]) }"

text \<open>Memory: the chunks of 2 MB in which something is not zero.  The counter \<open>i\<close> of the code has 32
  bits; for a bank of more than 4094 MB it would wrap, which is not considered.\<close>

definition hload64 :: "hmem \<Rightarrow> u64 \<Rightarrow> u64" where
  "hload64 m a = ucast (hload32 m a) OR push_bit 32 (ucast (hload32 m (a + 4)))"

definition chunk_or :: "hmem \<Rightarrow> u64 \<Rightarrow> u64" where
  "chunk_or m chunk_base =
     fold (\<lambda>j v. v OR hload64 m (chunk_base + 8 * of_nat j)) [0..<STS_MEM_CHUNK_SZ div 8] 0"

function save_bank :: "meminfo \<Rightarrow> hmem \<Rightarrow> nat \<Rightarrow> sim_file \<Rightarrow> saved" where
  "save_bank b m i f =
     (if i < unat (mi_ram_size b) then
        let chunk_base = mi_host_map_base b + of_nat i
        in if chunk_or m chunk_base \<noteq> 0 then
             case put (strncpy8 STS_MEM @ le64 (8 + of_nat STS_MEM_CHUNK_SZ) @
                       le64 (ucast (mi_ram_pa_base b + of_nat i))) f of
               Inl f \<Rightarrow> Inl f
             | Inr f \<Rightarrow>
                 (case put (host_bytes m chunk_base STS_MEM_CHUNK_SZ) f of
                    Inl f \<Rightarrow> Inl f
                  | Inr f \<Rightarrow> save_bank b m (i + STS_MEM_CHUNK_SZ) f)
           else save_bank b m (i + STS_MEM_CHUNK_SZ) f
      else Inr f)"
  by pat_completeness auto
termination
  by (relation "measure (\<lambda>(b, m, i, f). unat (mi_ram_size b) - i)") (auto simp: STS_MEM_CHUNK_SZ_def)

declare save_bank.simps [simp del]

fun save_banks :: "meminfo list \<Rightarrow> hmem \<Rightarrow> sim_file \<Rightarrow> saved" where
  "save_banks [] m f = Inr f"
| "save_banks (b # bs) m f = (case save_bank b m 0 f of Inl f \<Rightarrow> Inl f | Inr f \<Rightarrow> save_banks bs m f)"

text \<open>\<open>state_save_open\<close> with the file that \<open>open\<close> yields (\<open>None\<close> without a configured path, or when
  it cannot be opened).  The open does not truncate, so an old file keeps its bytes past the new ones.
  \<open>Inl\<close> is the return of -1.\<close>

definition state_save_open :: "sim_file option \<Rightarrow> cpu \<Rightarrow> mmu \<Rightarrow> bool \<Rightarrow> meminfo list \<Rightarrow> hmem \<Rightarrow>
    (sim_file option + sim_file) option" where
  "state_save_open file c m irq meminfo mem =
     (case file of
        None \<Rightarrow> Some (Inl None)
      | Some f \<Rightarrow> do {
          regs \<leftarrow> saved_regs c m irq;
          Some (case save_chunks regs (f\<lparr>sf_pos := 0\<rparr>) of
                  Inl f \<Rightarrow> Inl (Some f)
                | Inr f \<Rightarrow> (case save_banks meminfo mem f of Inl f \<Rightarrow> Inl (Some f) | Inr f \<Rightarrow> Inr f)) })"

subsection \<open>A reader\<close>

definition of_le64 :: "u8 list \<Rightarrow> u64" where
  "of_le64 bs = foldr (\<lambda>b v. push_bit 8 v OR ucast b) bs 0"

function read_chunks :: "u8 list \<Rightarrow> (u8 list \<times> u8 list) list option" where
  "read_chunks bs =
     (if bs = [] then Some []
      else if length bs < 16 then None
      else let n = unat (of_le64 (take 8 (drop 8 bs))); rest = drop 16 bs
        in if length rest < n then None
           else map_option (\<lambda>cs. (take 8 bs, take n rest) # cs) (read_chunks (drop n rest)))"
  by pat_completeness auto
termination by (relation "measure length") auto

declare read_chunks.simps [simp del]

definition read_reg :: "(u8 list \<times> u8 list) list \<Rightarrow> string \<Rightarrow> u64 option" where
  "read_reg cs n = map_option of_le64 (map_of cs (strncpy8 n))"

definition covers :: "nat \<Rightarrow> u8 list \<times> u8 list \<Rightarrow> bool" where
  "covers pa = (\<lambda>(n, d). n = strncpy8 STS_MEM \<and>
     unat (of_le64 (take 8 d)) \<le> pa \<and> pa - unat (of_le64 (take 8 d)) < length d - 8)"

definition read_mem :: "(u8 list \<times> u8 list) list \<Rightarrow> nat \<Rightarrow> u8" where
  "read_mem cs pa =
     (case find (covers pa) cs of
        None \<Rightarrow> 0
      | Some (n, d) \<Rightarrow> d ! (8 + (pa - unat (of_le64 (take 8 d)))))"

subsection \<open>Lemmas\<close>

lemma length_le64 [simp]: "length (le64 v) = 8" and length_strncpy8 [simp]: "length (strncpy8 s) = 8"
  by (simp_all add: le64_def strncpy8_def)

lemma join_byte: "push_bit 8 (drop_bit (n + 8) v) OR ucast (ucast (drop_bit n v) :: u8) = drop_bit n v"
  for v :: u64
proof (rule bit_word_eqI)
  fix i
  show "bit (push_bit 8 (drop_bit (n + 8) v) OR ucast (ucast (drop_bit n v) :: u8)) i = bit (drop_bit n v) i"
    using bit_imp_le_length [of v "n + i"] by (cases "i < 8") (auto simp: bit_simps)
qed

lemma of_le64_le64 [simp]: "of_le64 (le64 v) = v"
proof -
  have "le64 v = map (\<lambda>i. ucast (drop_bit i v)) [0, 8, 16, 24, 32, 40, 48, 56]"
    by (simp add: le64_def upt_rec)
  moreover have "drop_bit 64 v = 0" by (rule bit_word_eqI) (simp add: bit_simps)
  ultimately show ?thesis
    using join_byte [of 0 v] join_byte [of 8 v] join_byte [of 16 v] join_byte [of 24 v] join_byte [of 32 v]
      join_byte [of 40 v] join_byte [of 48 v] join_byte [of 56 v]
    by (simp add: of_le64_def)
qed

lemma read_chunk:
  assumes "length n = 8" and "length d < 2 ^ 64"
  shows "read_chunks (n @ le64 (of_nat (length d)) @ d @ rest) = map_option ((#) (n, d)) (read_chunks rest)"
proof -
  have "unat (of_nat (length d) :: u64) = length d" using assms(2) by (simp add: unsigned_of_nat take_bit_nat_eq_self)
  then show ?thesis using assms(1) by (subst read_chunks.simps) (auto simp: Let_def)
qed

definition chunk_bytes :: "u8 list \<times> u8 list \<Rightarrow> u8 list" where
  "chunk_bytes = (\<lambda>(n, d). n @ le64 (of_nat (length d)) @ d)"

lemma read_chunks_all:
  "\<forall>(n, d) \<in> set cs. length n = 8 \<and> length d < 2 ^ 64 \<Longrightarrow> read_chunks (concat (map chunk_bytes cs)) = Some cs"
proof (induction cs)
  case (Cons c cs)
  then show ?case by (cases c) (simp add: chunk_bytes_def read_chunk del: One_nat_def)
qed (simp add: read_chunks.simps)

subsection \<open>What is written\<close>

definition appended :: "u8 list \<Rightarrow> sim_file \<Rightarrow> sim_file" where
  "appended bs f = f\<lparr>sf_data := sf_data f @ bs, sf_pos := sf_pos f + length bs\<rparr>"

definition room_for :: "nat \<Rightarrow> sim_file \<Rightarrow> bool" where
  "room_for n f \<longleftrightarrow> sf_pos f = length (sf_data f) \<and> sf_pos f + n \<le> sf_space f"

lemma put_room: "room_for (length bs) f \<Longrightarrow> put bs f = Inr (appended bs f)"
  by (auto simp: put_def file_write_def room_for_def appended_def Let_def)

lemma room_appended: "room_for (length bs + n) f \<Longrightarrow> room_for n (appended bs f)"
  by (simp add: room_for_def appended_def)

lemma room_for_less: "room_for n f \<Longrightarrow> k \<le> n \<Longrightarrow> room_for k f"
  by (simp add: room_for_def)

lemma appended_appended [simp]: "appended b (appended a f) = appended (a @ b) f" "appended [] f = f"
  by (simp_all add: appended_def)

definition reg_chunks :: "(string \<times> u64) list \<Rightarrow> (u8 list \<times> u8 list) list" where
  "reg_chunks rs = map (\<lambda>(n, v). (strncpy8 n, le64 v)) rs"

abbreviation all_bytes :: "(u8 list \<times> u8 list) list \<Rightarrow> u8 list" where
  "all_bytes cs \<equiv> concat (map chunk_bytes cs)"

lemma save_chunks_room:
  "room_for (24 * length rs) f \<Longrightarrow> save_chunks rs f = Inr (appended (all_bytes (reg_chunks rs)) f)"
proof (induction rs arbitrary: f)
  case (Cons r rs)
  obtain n v where r: "r = (n, v)" by (cases r)
  define bs where "bs = strncpy8 n @ le64 8 @ le64 v"
  have len: "length bs = 24" by (simp add: bs_def)
  have "put bs f = Inr (appended bs f)" by (rule put_room, rule room_for_less [OF Cons.prems]) (simp add: len)
  moreover have "room_for (24 * length rs) (appended bs f)"
    by (rule room_appended) (use Cons.prems in \<open>simp add: len\<close>)
  ultimately show ?case
    using Cons.IH by (simp add: r SAVE_REG_CHUNK_def reg_chunks_def chunk_bytes_def flip: bs_def)
qed (simp add: reg_chunks_def)

lemma all_bytes_regs: "length (all_bytes (reg_chunks rs)) = 24 * length rs"
  by (induction rs) (auto simp: reg_chunks_def chunk_bytes_def)

definition mem_chunk :: "meminfo \<Rightarrow> hmem \<Rightarrow> nat \<Rightarrow> u8 list \<times> u8 list" where
  "mem_chunk b m i = (strncpy8 STS_MEM, le64 (ucast (mi_ram_pa_base b + of_nat i)) @
     host_bytes m (mi_host_map_base b + of_nat i) STS_MEM_CHUNK_SZ)"

definition bank_starts :: "meminfo \<Rightarrow> nat \<Rightarrow> nat list" where
  "bank_starts b n = map (\<lambda>k. k * STS_MEM_CHUNK_SZ) [n..<unat (mi_ram_size b) div STS_MEM_CHUNK_SZ]"

definition bank_chunks :: "meminfo \<Rightarrow> hmem \<Rightarrow> nat \<Rightarrow> (u8 list \<times> u8 list) list" where
  "bank_chunks b m n =
     map (mem_chunk b m) (filter (\<lambda>i. chunk_or m (mi_host_map_base b + of_nat i) \<noteq> 0) (bank_starts b n))"

lemma length_host_bytes [simp]: "length (host_bytes m p n) = n"
  by (simp add: host_bytes_def)

lemma chunk_bytes_mem:
  "chunk_bytes (mem_chunk b m i) =
     (strncpy8 STS_MEM @ le64 (8 + of_nat STS_MEM_CHUNK_SZ) @ le64 (ucast (mi_ram_pa_base b + of_nat i))) @
     host_bytes m (mi_host_map_base b + of_nat i) STS_MEM_CHUNK_SZ"
  by (simp add: chunk_bytes_def mem_chunk_def)

lemma all_bytes_bank:
  "length (all_bytes (bank_chunks b m n)) \<le>
     (unat (mi_ram_size b) div STS_MEM_CHUNK_SZ - n) * (24 + STS_MEM_CHUNK_SZ)"
proof -
  have "length (all_bytes (map (mem_chunk b m) is)) = length is * (24 + STS_MEM_CHUNK_SZ)" for "is"
    by (induction "is") (simp_all add: chunk_bytes_mem)
  then show ?thesis
    using length_filter_le [of "\<lambda>i. chunk_or m (mi_host_map_base b + of_nat i) \<noteq> 0" "bank_starts b n"]
    by (simp add: bank_chunks_def bank_starts_def)
qed

lemma save_bank_room:
  assumes "STS_MEM_CHUNK_SZ dvd unat (mi_ram_size b)" and "n \<le> unat (mi_ram_size b) div STS_MEM_CHUNK_SZ"
    and "room_for (length (all_bytes (bank_chunks b m n))) f"
  shows "save_bank b m (n * STS_MEM_CHUNK_SZ) f = Inr (appended (all_bytes (bank_chunks b m n)) f)"
  using assms
proof (induction "unat (mi_ram_size b) div STS_MEM_CHUNK_SZ - n" arbitrary: n f)
  case 0
  then have "bank_chunks b m n = []" and "\<not> n * STS_MEM_CHUNK_SZ < unat (mi_ram_size b)"
    by (auto simp: bank_chunks_def bank_starts_def)
  then show ?case by (subst save_bank.simps) simp
next
  case (Suc x)
  define i where "i = n * STS_MEM_CHUNK_SZ"
  have nxt: "Suc n * STS_MEM_CHUNK_SZ = i + STS_MEM_CHUNK_SZ" by (simp add: i_def)
  have n: "n < unat (mi_ram_size b) div STS_MEM_CHUNK_SZ" using Suc.hyps(2) by simp
  then have i: "i < unat (mi_ram_size b)"
    using Suc.prems(1) by (auto simp: i_def STS_MEM_CHUNK_SZ_def elim!: dvdE)
  have starts: "bank_starts b n = i # bank_starts b (Suc n)"
    using n by (simp add: bank_starts_def i_def upt_conv_Cons)
  have IH: "save_bank b m (i + STS_MEM_CHUNK_SZ) f = Inr (appended (all_bytes (bank_chunks b m (Suc n))) f)"
    if "room_for (length (all_bytes (bank_chunks b m (Suc n)))) f" for f
    using Suc.hyps(1) [of "Suc n" f] Suc.hyps(2) Suc.prems(1) n that unfolding nxt by simp
  show ?case
  proof (cases "chunk_or m (mi_host_map_base b + of_nat i) = 0")
    case True
    then have "bank_chunks b m n = bank_chunks b m (Suc n)" by (simp add: bank_chunks_def starts)
    then show ?thesis
      using Suc.prems(3) IH i True by (subst save_bank.simps) (simp flip: i_def)
  next
    case False
    define h where "h = strncpy8 STS_MEM @ le64 (8 + of_nat STS_MEM_CHUNK_SZ) @ le64 (ucast (mi_ram_pa_base b + of_nat i))"
    define d where "d = host_bytes m (mi_host_map_base b + of_nat i) STS_MEM_CHUNK_SZ"
    have all: "all_bytes (bank_chunks b m n) = h @ d @ all_bytes (bank_chunks b m (Suc n))"
      using False by (simp add: bank_chunks_def starts chunk_bytes_mem h_def d_def)
    have room: "room_for (length h + (length d + length (all_bytes (bank_chunks b m (Suc n))))) f"
      using Suc.prems(3) by (simp add: all)
    have "put h f = Inr (appended h f)" using room by (rule put_room [OF room_for_less]) simp
    moreover have "put d (appended h f) = Inr (appended d (appended h f))"
      using room_appended [OF room] by (rule put_room [OF room_for_less]) simp
    ultimately show ?thesis
      using IH [OF room_appended [OF room_appended [OF room]]] i False
      by (subst save_bank.simps) (simp add: all flip: i_def h_def d_def)
  qed
qed

lemma save_banks_room:
  assumes "\<forall>b \<in> set bs. STS_MEM_CHUNK_SZ dvd unat (mi_ram_size b)"
    and "room_for (length (all_bytes (concat (map (\<lambda>b. bank_chunks b m 0) bs)))) f"
  shows "save_banks bs m f = Inr (appended (all_bytes (concat (map (\<lambda>b. bank_chunks b m 0) bs))) f)"
  using assms
proof (induction bs arbitrary: f)
  case (Cons b bs)
  have room: "room_for (length (all_bytes (bank_chunks b m 0)) + length (all_bytes (concat (map (\<lambda>b. bank_chunks b m 0) bs)))) f"
    using Cons.prems(2) by simp
  have "save_bank b m 0 f = Inr (appended (all_bytes (bank_chunks b m 0)) f)"
    using save_bank_room [of b 0 m f] Cons.prems(1) room_for_less [OF room] by simp
  then show ?case using Cons.IH [OF _ room_appended [OF room]] Cons.prems(1) by simp
qed simp

subsection \<open>What is read\<close>

text \<open>The names do not depend on the machine, and are all different.\<close>

definition reg_names :: "string list" where
  "reg_names = map STS_GPR_FMT [0..<32] @
     [''PC'', ''CTR'', ''LR'', ''XER'', ''CR'', ''MSR'', ''HID0'', ''HID1'', ''SPRG0'', ''SPRG1'', ''SPRG2'',
      ''SPRG3'', ''SRR0'', ''SRR1'', ''DAR'', ''DSISR'', ''DEC'', ''TB'', ''SDR1''] @
     map STS_SR_FMT [0..<16] @
     concat (map (\<lambda>i. [''IBAT'' @ [digit i] @ ''U'', ''IBAT'' @ [digit i] @ ''L'',
                       ''DBAT'' @ [digit i] @ ''U'', ''DBAT'' @ [digit i] @ ''L'']) [0..<4]) @ [''IRQ'']"

lemma reg_names_distinct: "distinct (strncpy8 STS_MEM # map strncpy8 reg_names)"
  by code_simp

lemma collect_named:
  "(\<And>i. i \<in> set is \<Longrightarrow> \<exists>v. x i = Some v \<and> fst v = n i) \<Longrightarrow>
     \<exists>vs. collect (map x is) = Some vs \<and> map fst vs = map n is"
proof (induction "is")
  case (Cons i "is")
  obtain v where v: "x i = Some v" "fst v = n i" using Cons.prems [of i] by auto
  moreover obtain vs where "collect (map x is) = Some vs" "map fst vs = map n is"
    using Cons.IH Cons.prems by auto
  ultimately show ?case by simp
qed simp

lemma collect_append:
  "collect (xs @ ys) = do { a \<leftarrow> collect xs; b \<leftarrow> collect ys; Some (a @ b) }"
  by (induction xs) (auto split: bind_splits)

lemma reg_getters: 
  "i < 16 \<Longrightarrow> \<exists>v. getSegmentReg i m = Some v"
  "i < 4 \<Longrightarrow> \<exists>v. getIBATupper i m = Some v" "i < 4 \<Longrightarrow> \<exists>v. getIBATlower i m = Some v"
  "i < 4 \<Longrightarrow> \<exists>v. getDBATupper i m = Some v" "i < 4 \<Longrightarrow> \<exists>v. getDBATlower i m = Some v"
  by (simp_all add: getSegmentReg_def getIBATupper_def getIBATlower_def getDBATupper_def getDBATlower_def Let_def)

lemma saved_regs_some:
  obtains rs where "saved_regs c m irq = Some rs" and "map fst rs = reg_names"
proof -
  obtain gprs where g: "collect (map (\<lambda>i. named (STS_GPR_FMT i) (getGPR c i)) [0..<32]) = Some gprs"
    "map fst gprs = map STS_GPR_FMT [0..<32]"
    using collect_named [of "[0..<32]" "\<lambda>i. named (STS_GPR_FMT i) (getGPR c i)" STS_GPR_FMT]
    by (auto simp: named_def)
  obtain srs where s: "collect (map (\<lambda>i. named (STS_SR_FMT i) (getSegmentReg i m)) [0..<16]) = Some srs"
    "map fst srs = map STS_SR_FMT [0..<16]"
    using collect_named [of "[0..<16]" "\<lambda>i. named (STS_SR_FMT i) (getSegmentReg i m)" STS_SR_FMT] reg_getters(1) [of _ m]
    by (auto simp: named_def)
  have four: "\<exists>v. getIBATupper i m = Some v" "\<exists>v. getIBATlower i m = Some v"
    "\<exists>v. getDBATupper i m = Some v" "\<exists>v. getDBATlower i m = Some v" if "i < 4" for i
    using that by (rule reg_getters)+
  have four_upt: "[0..<4] = [0, 1, 2, 3 :: nat]" by (simp add: upt_rec)
  have "\<exists>bats. collect (concat (map (\<lambda>i.
        [named (''IBAT'' @ [digit i] @ ''U'') (getIBATupper i m),
         named (''IBAT'' @ [digit i] @ ''L'') (getIBATlower i m),
         named (''DBAT'' @ [digit i] @ ''U'') (getDBATupper i m),
         named (''DBAT'' @ [digit i] @ ''L'') (getDBATlower i m)]) [0..<4])) = Some bats \<and>
      map fst bats = concat (map (\<lambda>i. [''IBAT'' @ [digit i] @ ''U'', ''IBAT'' @ [digit i] @ ''L'',
                       ''DBAT'' @ [digit i] @ ''U'', ''DBAT'' @ [digit i] @ ''L'']) [0..<4])"
    unfolding four_upt using four [of 0] four [of 1] four [of 2] four [of 3] by (auto simp: named_def)
  then show thesis
    using that g s by (auto simp: saved_regs_def core_regs_def reg_names_def)
qed

lemma hload32_zero: "hload32 m a = 0 \<Longrightarrow> m a = 0 \<and> m (a + 1) = 0 \<and> m (a + 2) = 0 \<and> m (a + 3) = 0"
  by (simp add: hload32_def blast32 word8_eq_bits all_less_8)

lemma unat_ucast_64: "unat (ucast a :: u64) = unat a" for a :: u32
proof -
  have "unat a < 2 ^ 64" using unsigned_less [of a] by (rule order.strict_trans) simp
  then show ?thesis by (simp add: unsigned_ucast_eq take_bit_nat_eq_self)
qed

lemma ucast_zero64: "ucast v = (0 :: u64) \<longleftrightarrow> v = 0" for v :: u32
  by (metis unat_ucast_64 unat_eq_zero)

lemma push32_zero: "push_bit 32 (ucast v :: u64) = 0 \<longleftrightarrow> v = 0" for v :: u32
proof
  assume z: "push_bit 32 (ucast v :: u64) = 0"
  have "bit v n = bit (push_bit 32 (ucast v :: u64)) (n + 32)" for n
    by (auto simp: bit_simps dest: bit_imp_le_length)
  with z show "v = 0" by (simp add: word_eq_bits)
qed simp

lemma or_zero: "a OR b = 0 \<longleftrightarrow> a = 0 \<and> b = 0" for a b :: u64
  by (auto simp: word_eq_bits bit_simps)

lemma hload64_zero: "hload64 m a = 0 \<Longrightarrow> hload32 m a = 0 \<and> hload32 m (a + 4) = 0"
  by (simp add: hload64_def or_zero push32_zero ucast_zero64)

lemma fold_or_zero: "fold (\<lambda>j v. v OR f j) js v = 0 \<longleftrightarrow> v = 0 \<and> (\<forall>j \<in> set js. f j = 0)" for v :: u64
  by (induction js arbitrary: v) (auto simp: or_zero)

lemma chunk_or_zero:
  assumes "chunk_or m p = 0" and "k < STS_MEM_CHUNK_SZ"
  shows "m (p + of_nat k) = 0"
proof -
  define j where "j = k div 8"
  define q where "q = p + 8 * of_nat j"
  have "j < STS_MEM_CHUNK_SZ div 8" using assms(2) by (simp add: j_def STS_MEM_CHUNK_SZ_def)
  then have "hload64 m q = 0" using assms(1) by (auto simp: chunk_or_def fold_or_zero q_def)
  then have z: "m q = 0" "m (q + 1) = 0" "m (q + 2) = 0" "m (q + 3) = 0" "m (q + 4) = 0" "m (q + 5) = 0"
    "m (q + 6) = 0" "m (q + 7) = 0"
    using hload64_zero [of m q] hload32_zero [of m q] hload32_zero [of m "q + 4"] by (simp_all add: add.assoc)
  have "k = 8 * j + k mod 8" by (simp add: j_def)
  then have "p + of_nat k = q + of_nat (k mod 8)" unfolding q_def
    by (metis add.assoc of_nat_add of_nat_mult of_nat_numeral)
  moreover have "k mod 8 < 8" by simp
  then have "k mod 8 \<in> {0, 1, 2, 3, 4, 5, 6, 7}" by auto
  ultimately show ?thesis using z by auto
qed

text \<open>Banks of whole chunks, inside the 32-bit address space and apart from each other.\<close>

definition banks_ok :: "meminfo list \<Rightarrow> bool" where
  "banks_ok bs \<longleftrightarrow> list_all (\<lambda>b. STS_MEM_CHUNK_SZ dvd unat (mi_ram_size b) \<and>
       unat (mi_ram_pa_base b) + unat (mi_ram_size b) \<le> 2 ^ 32 \<and>
       list_all (\<lambda>b'. b = b' \<or> unat (mi_ram_pa_base b) + unat (mi_ram_size b) \<le> unat (mi_ram_pa_base b') \<or>
         unat (mi_ram_pa_base b') + unat (mi_ram_size b') \<le> unat (mi_ram_pa_base b)) bs) bs"

definition saved_chunks :: "(string \<times> u64) list \<Rightarrow> meminfo list \<Rightarrow> hmem \<Rightarrow> (u8 list \<times> u8 list) list" where
  "saved_chunks rs bs m = reg_chunks rs @ concat (map (\<lambda>b. bank_chunks b m 0) bs)"

lemma start_pa:
  assumes "i \<in> set (bank_starts b 0)" and "unat (mi_ram_pa_base b) + unat (mi_ram_size b) \<le> 2 ^ 32"
  shows "unat (ucast (mi_ram_pa_base b + of_nat i) :: u64) = unat (mi_ram_pa_base b) + i"
    and "i + STS_MEM_CHUNK_SZ \<le> unat (mi_ram_size b)"
proof -
  obtain k where "i = k * STS_MEM_CHUNK_SZ" "k < unat (mi_ram_size b) div STS_MEM_CHUNK_SZ"
    using assms(1) by (auto simp: bank_starts_def STS_MEM_CHUNK_SZ_def)
  then have "i + STS_MEM_CHUNK_SZ \<le> unat (mi_ram_size b) div STS_MEM_CHUNK_SZ * STS_MEM_CHUNK_SZ"
    by (metis Suc_leI add.commute mult_Suc mult_le_mono1)
  then show le: "i + STS_MEM_CHUNK_SZ \<le> unat (mi_ram_size b)"
    using div_times_less_eq_dividend order_trans by blast
  then have "unat (mi_ram_pa_base b) + i < 2 ^ 32" using assms(2) by (simp add: STS_MEM_CHUNK_SZ_def)
  then show "unat (ucast (mi_ram_pa_base b + of_nat i) :: u64) = unat (mi_ram_pa_base b) + i"
    by (simp add: unat_ucast_64 unat_word_ariths unsigned_of_nat take_bit_nat_eq_self)
qed

text \<open>A memory chunk that covers an address gives the byte there.\<close>

lemma covers_byte:
  assumes "i \<in> set (bank_starts b 0)" and "unat (mi_ram_pa_base b) + unat (mi_ram_size b) \<le> 2 ^ 32"
  shows "covers pa (mem_chunk b m i) \<longleftrightarrow>
      unat (mi_ram_pa_base b) + i \<le> pa \<and> pa - (unat (mi_ram_pa_base b) + i) < STS_MEM_CHUNK_SZ"
    and "covers pa (mem_chunk b m i) \<Longrightarrow>
      snd (mem_chunk b m i) ! (8 + (pa - unat (of_le64 (take 8 (snd (mem_chunk b m i)))))) =
      m (mi_host_map_base b + of_nat (pa - unat (mi_ram_pa_base b)))"
proof -
  show *: "covers pa (mem_chunk b m i) \<longleftrightarrow>
      unat (mi_ram_pa_base b) + i \<le> pa \<and> pa - (unat (mi_ram_pa_base b) + i) < STS_MEM_CHUNK_SZ"
    using start_pa(1) [OF assms] by (simp add: covers_def mem_chunk_def)
  assume "covers pa (mem_chunk b m i)"
  then obtain k where "pa = unat (mi_ram_pa_base b) + i + k" "k < STS_MEM_CHUNK_SZ"
    using * by (metis le_add_diff_inverse)
  then show "snd (mem_chunk b m i) ! (8 + (pa - unat (of_le64 (take 8 (snd (mem_chunk b m i)))))) =
      m (mi_host_map_base b + of_nat (pa - unat (mi_ram_pa_base b)))"
    using start_pa(1) [OF assms] by (simp add: mem_chunk_def host_bytes_def hload8_def nth_append add.assoc)
qed

lemma reg_chunk_no_cover:
  assumes "map fst rs = reg_names" and "c \<in> set (reg_chunks rs)"
  shows "\<not> covers pa c"
proof -
  have "fst c \<in> strncpy8 ` set (map fst rs)" using assms(2) by (force simp: reg_chunks_def)
  then have "fst c \<noteq> strncpy8 STS_MEM" using reg_names_distinct unfolding assms(1) by auto
  then show ?thesis by (cases c) (simp add: covers_def)
qed

lemma read_mem_saved:
  assumes rs: "map fst rs = reg_names" and ok: "banks_ok bs" and b: "b \<in> set bs"
    and i: "i < unat (mi_ram_size b)"
  shows "read_mem (saved_chunks rs bs m) (unat (mi_ram_pa_base b) + i) = m (mi_host_map_base b + of_nat i)"
proof -
  define pa where "pa = unat (mi_ram_pa_base b) + i"
  define j where "j = i div STS_MEM_CHUNK_SZ * STS_MEM_CHUNK_SZ"
  have fits: "unat (mi_ram_pa_base b') + unat (mi_ram_size b') \<le> 2 ^ 32" if "b' \<in> set bs" for b'
    using ok that by (auto simp: banks_ok_def list_all_iff)
  have split: "i = j + i mod STS_MEM_CHUNK_SZ" and mod: "i mod STS_MEM_CHUNK_SZ < STS_MEM_CHUNK_SZ"
    by (simp_all add: j_def STS_MEM_CHUNK_SZ_def)
  have start: "j \<in> set (bank_starts b 0)"
    using ok b i by (auto simp: banks_ok_def list_all_iff bank_starts_def j_def STS_MEM_CHUNK_SZ_def elim!: dvdE)
  show ?thesis
  proof (cases "find (covers pa) (saved_chunks rs bs m)")
    case None
    then have no: "\<not> covers pa c" if "c \<in> set (saved_chunks rs bs m)" for c
      using that by (metis find_None_iff)
    have "covers pa (mem_chunk b m j)"
      using covers_byte(1) [OF start fits [OF b]] split mod by (simp add: pa_def)
    then have "mem_chunk b m j \<notin> set (saved_chunks rs bs m)" using no by blast
    then have "chunk_or m (mi_host_map_base b + of_nat j) = 0"
      using b start by (auto simp: saved_chunks_def bank_chunks_def)
    from chunk_or_zero [OF this mod] have "m (mi_host_map_base b + of_nat i) = 0"
      by (subst split) (simp add: add.assoc)
    with None show ?thesis by (simp add: read_mem_def flip: pa_def)
  next
    case (Some c)
    then have c: "c \<in> set (saved_chunks rs bs m)" "covers pa c"
      by (auto simp: find_Some_iff dest: nth_mem)
    then have "c \<notin> set (reg_chunks rs)" using reg_chunk_no_cover [OF rs] by blast
    with c(1) obtain b' k where b': "b' \<in> set bs" and k: "k \<in> set (bank_starts b' 0)"
      and ck: "c = mem_chunk b' m k"
      by (auto simp: saved_chunks_def bank_chunks_def)
    have "unat (mi_ram_pa_base b') + k \<le> pa" "pa < unat (mi_ram_pa_base b') + k + STS_MEM_CHUNK_SZ"
      using covers_byte(1) [OF k fits [OF b'], of pa m] c(2) ck by auto
    then have "pa < unat (mi_ram_pa_base b') + unat (mi_ram_size b')" "unat (mi_ram_pa_base b') \<le> pa"
      using start_pa(2) [OF k fits [OF b']] by linarith+
    then have "b' = b" using ok b b' i by (force simp: banks_ok_def list_all_iff pa_def)
    then show ?thesis
      using covers_byte(2) [OF k fits [OF b'], of pa m] c(2) ck Some
      by (simp add: read_mem_def case_prod_beta pa_def)
  qed
qed

lemma read_reg_saved:
  assumes "map fst rs = reg_names" and "(n, v) \<in> set rs"
  shows "read_reg (saved_chunks rs bs m) n = Some v"
proof -
  have "distinct (map fst (reg_chunks rs))" "map fst (reg_chunks rs) = map strncpy8 reg_names"
    using reg_names_distinct unfolding assms(1) [symmetric] by (simp_all add: reg_chunks_def comp_def split_beta)
  moreover have "(strncpy8 n, le64 v) \<in> set (reg_chunks rs)" using assms(2) by (force simp: reg_chunks_def)
  ultimately have "map_of (reg_chunks rs) (strncpy8 n) = Some (le64 v)" by simp
  then show ?thesis by (simp add: read_reg_def saved_chunks_def map_add_def)
qed


text \<open>The bytes that a file for a machine of this memory can need.\<close>

definition state_size :: "meminfo list \<Rightarrow> nat" where
  "state_size bs = 24 * length reg_names +
     sum_list (map (\<lambda>b. unat (mi_ram_size b) div STS_MEM_CHUNK_SZ * (24 + STS_MEM_CHUNK_SZ)) bs)"

lemma banks_size:
  "length (all_bytes (concat (map (\<lambda>b. bank_chunks b m 0) bs))) \<le>
     sum_list (map (\<lambda>b. unat (mi_ram_size b) div STS_MEM_CHUNK_SZ * (24 + STS_MEM_CHUNK_SZ)) bs)"
proof (induction bs)
  case (Cons b bs)
  then show ?case using all_bytes_bank [of b m 0] by simp
qed simp

text \<open>With whole chunks, banks that do not overlap, and a fresh file with enough space, the registers and the
  memory chunks are written.\<close>

lemma state_saved:
  assumes "banks_ok bs" and "sf_data f = []" and "state_size bs \<le> sf_space f"
  obtains rs where "saved_regs c mm irq = Some rs" and "map fst rs = reg_names"
    and "state_save_open (Some f) c mm irq bs mem =
      Some (Inr (f\<lparr>sf_data := all_bytes (saved_chunks rs bs mem), sf_pos := length (all_bytes (saved_chunks rs bs mem))\<rparr>))"
    and "length (all_bytes (saved_chunks rs bs mem)) \<le> state_size bs"
proof -
  obtain rs where rs: "saved_regs c mm irq = Some rs" "map fst rs = reg_names" by (rule saved_regs_some)
  define cs where "cs = saved_chunks rs bs mem"
  have len: "length rs = length reg_names" using rs(2) by (metis length_map)
  have size: "length (all_bytes cs) \<le> state_size bs"
    using banks_size [of mem bs] by (simp add: all_bytes_regs len state_size_def cs_def saved_chunks_def)
  have room: "room_for (length (all_bytes (reg_chunks rs)) +
      length (all_bytes (concat (map (\<lambda>b. bank_chunks b mem 0) bs)))) (f\<lparr>sf_pos := 0\<rparr>)"
    using assms(2,3) size by (auto simp: room_for_def cs_def saved_chunks_def)
  have "save_chunks rs (f\<lparr>sf_pos := 0\<rparr>) = Inr (appended (all_bytes (reg_chunks rs)) (f\<lparr>sf_pos := 0\<rparr>))"
    using room_for_less [OF room] by (intro save_chunks_room) (simp add: all_bytes_regs)
  moreover have "save_banks bs mem (appended (all_bytes (reg_chunks rs)) (f\<lparr>sf_pos := 0\<rparr>)) =
      Inr (appended (all_bytes cs) (f\<lparr>sf_pos := 0\<rparr>))"
    using save_banks_room [OF _ room_appended [OF room]] assms(1)
    by (simp add: banks_ok_def list_all_iff cs_def saved_chunks_def)
  ultimately have "state_save_open (Some f) c mm irq bs mem = Some (Inr (appended (all_bytes cs) (f\<lparr>sf_pos := 0\<rparr>)))"
    by (simp add: state_save_open_def rs)
  then show thesis using that rs size assms(2) by (simp add: appended_def cs_def)
qed

lemma saved_chunks_wf: "\<forall>(n, d) \<in> set (saved_chunks rs bs m). length n = 8 \<and> length d < 2 ^ 64"
  by (auto simp: saved_chunks_def reg_chunks_def bank_chunks_def mem_chunk_def STS_MEM_CHUNK_SZ_def)

lemma reg_chunks_wf: "\<forall>(n, d) \<in> set (reg_chunks rs). length n = 8 \<and> length d < 2 ^ 64"
  by (auto simp: reg_chunks_def)

lemma saved_chunks_names:
  "map fst rs = reg_names \<Longrightarrow> fst ` set (saved_chunks rs bs m) \<subseteq> insert (strncpy8 STS_MEM) (strncpy8 ` set reg_names)"
  by (erule subst) (force simp: saved_chunks_def reg_chunks_def bank_chunks_def mem_chunk_def)

text \<open>A write into an old, longer file keeps its tail, and nothing cuts the file off at the end.\<close>

lemma old_tail_kept:
  "put bs f = Inr f' \<Longrightarrow> sf_pos f \<le> length (sf_data f) \<Longrightarrow>
     sf_data f' = take (sf_pos f) (sf_data f) @ bs @ drop (sf_pos f') (sf_data f)"
  by (auto simp: put_def file_write_def Let_def split: if_splits)

end
