(* ===== verification/Sim_Quit.thy ===== *)
theory Sim_Quit
  imports Sim_State Platform
begin

section \<open>Leaving the simulator: \<open>sim_quit\<close>\<close>

text \<open>
  \<open>sim_quit\<close> of \<open>main.cc\<close> with \<open>platform_meminfo\<close> and \<open>platform_state_save\<close> of \<open>platform.cc\<close>
  (platform 3): the CPU and the memory are saved, then the registers of the interrupt controller and of
  the console UART.  \<open>uart_locked\<close> says that the calling thread holds the UART's mutex; the access for
  the state file would then wait for itself, and \<open>None\<close> is that \<open>sim_quit\<close> does not return.
\<close>

definition platform_meminfo :: "ram \<Rightarrow> meminfo list" where
  "platform_meminfo devram =
     [\<lparr>mi_ram_pa_base = RAM_BASE_ADDR, mi_ram_size = RAM_SIZE, mi_host_map_base = r_mmap_base devram\<rparr>]"

definition saved_devices :: "bool \<Rightarrow> intc \<Rightarrow> suart \<Rightarrow> (string \<times> u64) list option" where
  "saved_devices uart_locked devintc devuart = do {
     isr \<leftarrow> intc_read32 devintc XPSINTC_REG_ISR;
     ier \<leftarrow> intc_read32 devintc XPSINTC_REG_IER;
     mer \<leftarrow> intc_read32 devintc XPSINTC_REG_MER;
     ASSERT (\<not> uart_locked);
     (sr, devuart, _) \<leftarrow> suart_read8 SUART_REG_STATUS devuart;
     (con_isr, devuart, _) \<leftarrow> suart_read8 SUART_REG_IRQ_STATUS devuart;
     (con_ier, devuart, _) \<leftarrow> suart_read8 SUART_REG_IRQ_ENABLE devuart;
     Some [(''IC_ISR'', ucast isr), (''IC_IER'', ucast ier), (''IC_MER'', ucast mer),
           (''CON_SR'', ucast sr), (''CON_ISR'', ucast con_isr), (''CON_IER'', ucast con_ier)] }"

definition platform_state_save :: "bool \<Rightarrow> intc \<Rightarrow> suart \<Rightarrow> sim_file \<Rightarrow> sim_file option" where
  "platform_state_save uart_locked devintc devuart f = do {
     rs \<leftarrow> saved_devices uart_locked devintc devuart;
     Some (case save_chunks rs f of Inl f \<Rightarrow> f | Inr f \<Rightarrow> f) }"

definition sim_quit :: "sim_file option \<Rightarrow> cpu \<Rightarrow> mmu \<Rightarrow> bool \<Rightarrow> ram \<Rightarrow> hmem \<Rightarrow> bool \<Rightarrow> intc \<Rightarrow> suart \<Rightarrow>
    sim_file option option" where
  "sim_quit file c m irq devram mem uart_locked devintc devuart = do {
     ssh \<leftarrow> state_save_open file c m irq (platform_meminfo devram) mem;
     case ssh of
       Inl file \<Rightarrow> Some file
     | Inr f \<Rightarrow> do { f \<leftarrow> platform_state_save uart_locked devintc devuart f; Some (Some f) } }"

definition dev_names :: "string list" where
  "dev_names = [''IC_ISR'', ''IC_IER'', ''IC_MER'', ''CON_SR'', ''CON_ISR'', ''CON_IER'']"

lemma dev_names_apart:
  "distinct (map strncpy8 dev_names)"
  "set (map strncpy8 dev_names) \<inter> insert (strncpy8 STS_MEM) (strncpy8 ` set reg_names) = {}"
  by code_simp+

lemma uart_status_reads:
  "reg \<in> {SUART_REG_STATUS, SUART_REG_IRQ_STATUS, SUART_REG_IRQ_ENABLE} \<Longrightarrow>
     \<exists>u raised. suart_read8 reg d = Some (su_regs d (suart_reg reg), u, raised) \<and> su_regs u = su_regs d"
  by (auto simp: suart_read8_def Let_def suart_assessIRQstatus_def)

lemma saved_devices_some:
  "saved_devices False ic ua =
     Some [(''IC_ISR'', ucast (ic_regs ic 0)), (''IC_IER'', ucast (ic_regs ic 2)), (''IC_MER'', ucast (ic_regs ic 7)),
       (''CON_SR'', ucast (su_regs ua 1)), (''CON_ISR'', ucast (su_regs ua 2)), (''CON_IER'', ucast (su_regs ua 3))]"
proof -
  obtain u1 r1 where u1: "suart_read8 SUART_REG_STATUS ua = Some (su_regs ua 1, u1, r1)" "su_regs u1 = su_regs ua"
    using uart_status_reads [of SUART_REG_STATUS ua] by auto
  obtain u2 r2 where u2: "suart_read8 SUART_REG_IRQ_STATUS u1 = Some (su_regs ua 2, u2, r2)" "su_regs u2 = su_regs ua"
    using uart_status_reads [of SUART_REG_IRQ_STATUS u1] u1 by auto
  obtain u3 r3 where u3: "suart_read8 SUART_REG_IRQ_ENABLE u2 = Some (su_regs ua 3, u3, r3)"
    using uart_status_reads [of SUART_REG_IRQ_ENABLE u2] u2 by auto
  show ?thesis
    using u1 u2 u3 by (simp add: saved_devices_def intc_read32_def)
qed


text \<open>More chunks after the saved ones change neither a register nor memory that were there.\<close>

lemma read_reg_append: "read_reg cs n = Some v \<Longrightarrow> read_reg (cs @ ds) n = Some v"
  by (auto simp: read_reg_def map_add_def)

lemma read_mem_append:
  "\<forall>d \<in> set ds. \<not> covers pa d \<Longrightarrow> read_mem (cs @ ds) pa = read_mem cs pa"
proof (induction cs)
  case Nil
  then have "find (covers pa) ds = None" by (simp add: find_None_iff)
  then show ?case by (simp add: read_mem_def)
next
  case (Cons c cs)
  then show ?case by (simp add: read_mem_def)
qed

lemma read_reg_after:
  assumes "map fst rs = reg_names" and "map fst ds = dev_names" and "(n, v) \<in> set ds"
  shows "read_reg (saved_chunks rs bs m @ reg_chunks ds) n = Some v"
proof -
  have names: "map fst (reg_chunks ds) = map strncpy8 dev_names"
    unfolding assms(2) [symmetric] by (simp add: reg_chunks_def comp_def split_beta)
  have "(strncpy8 n, le64 v) \<in> set (reg_chunks ds)" using assms(3) by (force simp: reg_chunks_def)
  then have "map_of (reg_chunks ds) (strncpy8 n) = Some (le64 v)"
    using dev_names_apart(1) names by simp
  moreover have "strncpy8 n \<in> set (map strncpy8 dev_names)"
    unfolding assms(2) [symmetric] using assms(3) by force
  then have "strncpy8 n \<notin> fst ` set (saved_chunks rs bs m)"
    using dev_names_apart(2) saved_chunks_names [OF assms(1), of bs m] by blast
  then have "map_of (saved_chunks rs bs m) (strncpy8 n) = None" by (simp add: map_of_eq_None_iff)
  ultimately show ?thesis by (simp add: read_reg_def map_add_def)
qed

lemma platform_banks_ok: "banks_ok (platform_meminfo ram)" 
  by (simp add: banks_ok_def platform_meminfo_def STS_MEM_CHUNK_SZ_def)

lemma platform_state_size: "state_size (platform_meminfo ram) = 24 * length reg_names + 16 * (24 + 0x200000)"
  by (simp add: state_size_def platform_meminfo_def STS_MEM_CHUNK_SZ_def)

text \<open>
  The state file of a run is complete.  With a fresh file and 34 MB of space, \<open>sim_quit\<close> called without
  the UART's mutex returns, and reading the chunks of the file by name gives every register of the CPU
  and the MMU, the saved registers of the interrupt controller and the console UART, and every byte of
  the main memory, although chunks of memory that are all zero are not written.
\<close>

lemma state_file_complete:
  assumes "sf_data f = []" and "0x2200000 \<le> sf_space f"
  shows "\<exists>regs devs f' cs. saved_regs c mm irq = Some regs \<and> saved_devices False ic ua = Some devs \<and>
    sim_quit (Some f) c mm irq ram mem False ic ua = Some (Some f') \<and> read_chunks (sf_data f') = Some cs \<and>
    (\<forall>(n, v) \<in> set (regs @ devs). read_reg cs n = Some v) \<and>
    (\<forall>i < unat RAM_SIZE. read_mem cs (unat RAM_BASE_ADDR + i) = mem (r_mmap_base ram + of_nat i))"
proof -
  let ?bs = "platform_meminfo ram"
  have names: "length reg_names = 84" by (simp add: reg_names_def upt_rec)
  have space: "state_size ?bs + 144 \<le> sf_space f"
    using assms(2) by (simp add: platform_state_size names)
  then have le: "state_size ?bs \<le> sf_space f" by simp
  obtain rs where rs: "saved_regs c mm irq = Some rs" "map fst rs = reg_names"
    and saved: "state_save_open (Some f) c mm irq ?bs mem = Some (Inr (f\<lparr>sf_data := all_bytes (saved_chunks rs ?bs mem),
        sf_pos := length (all_bytes (saved_chunks rs ?bs mem))\<rparr>))"
    and len: "length (all_bytes (saved_chunks rs ?bs mem)) \<le> state_size ?bs"
    by (rule state_saved [OF platform_banks_ok [of ram] assms(1) le])
  obtain ds where ds: "saved_devices False ic ua = Some ds" "map fst ds = dev_names"
    using saved_devices_some [of ic ua] by (simp add: dev_names_def)
  define cs where "cs = saved_chunks rs ?bs mem @ reg_chunks ds"
  define f1 where "f1 = f\<lparr>sf_data := all_bytes (saved_chunks rs ?bs mem), sf_pos := length (all_bytes (saved_chunks rs ?bs mem))\<rparr>"
  have "length ds = 6" using arg_cong [OF ds(2), of length] by (simp add: dev_names_def)
  then have "room_for (24 * length ds) f1" using len space by (simp add: room_for_def f1_def)
  then have "save_chunks ds f1 = Inr (appended (all_bytes (reg_chunks ds)) f1)" by (rule save_chunks_room)
  then have quit: "sim_quit (Some f) c mm irq ram mem False ic ua = Some (Some (appended (all_bytes (reg_chunks ds)) f1))"
    by (simp add: sim_quit_def saved platform_state_save_def ds flip: f1_def)
  have "read_chunks (all_bytes cs) = Some cs"
    using saved_chunks_wf [of rs ?bs mem] reg_chunks_wf [of ds] by (intro read_chunks_all) (auto simp: cs_def)
  then have "read_chunks (sf_data (appended (all_bytes (reg_chunks ds)) f1)) = Some cs"
    by (simp add: appended_def f1_def cs_def)
  moreover have "read_reg cs n = Some v" if "(n, v) \<in> set (rs @ ds)" for n v
    using that read_reg_saved [OF rs(2)] read_reg_after [OF rs(2) ds(2)]
    by (auto simp: cs_def intro: read_reg_append)
  moreover have "read_mem cs (unat RAM_BASE_ADDR + i) = mem (r_mmap_base ram + of_nat i)" if "i < unat RAM_SIZE" for i
  proof -
    have "fst ` set (reg_chunks ds) \<subseteq> set (map strncpy8 dev_names)"
      unfolding ds(2) [symmetric] by (force simp: reg_chunks_def)
    then have "fst d \<noteq> strncpy8 STS_MEM" if "d \<in> set (reg_chunks ds)" for d
      using dev_names_apart(2) that by blast
    then have "\<forall>d \<in> set (reg_chunks ds). \<not> covers pa d" for pa
      by (force simp: covers_def)
    then show ?thesis
      using read_mem_saved [OF rs(2) platform_banks_ok [of ram], of "hd ?bs" i mem] that
      by (simp add: cs_def read_mem_append platform_meminfo_def)
  qed
  ultimately show ?thesis using quit rs(1) ds(1) by blast
qed

lemma state_file_complete_witness:
  "\<forall>c mm irq mem ic ua. \<exists>f' cs.
     sim_quit (Some \<lparr>sf_data = [], sf_pos = 0, sf_space = 0x3000000\<rparr>) c mm irq
       \<lparr>r_isROM = False, r_mmap_base = 0x7f0000000000, r_base_address = 0, r_address_span = 0x2000000\<rparr>
       mem False ic ua = Some (Some f') \<and>
     read_chunks (sf_data f') = Some cs \<and> read_mem cs 0x1234567 = mem 0x7f0001234567"
proof (intro allI)
  fix c mm irq mem ic ua
  let ?ram = "\<lparr>r_isROM = False, r_mmap_base = 0x7f0000000000, r_base_address = 0, r_address_span = 0x2000000\<rparr> :: ram"
  let ?f = "\<lparr>sf_data = [], sf_pos = 0, sf_space = 0x3000000\<rparr> :: sim_file"
  obtain f' cs where "sim_quit (Some ?f) c mm irq ?ram mem False ic ua = Some (Some f')" "read_chunks (sf_data f') = Some cs"
    and mem: "\<forall>i < unat RAM_SIZE. read_mem cs (unat RAM_BASE_ADDR + i) = mem (r_mmap_base ?ram + of_nat i)"
    using state_file_complete [of ?f c mm irq ic ua ?ram mem] by auto
  moreover have "read_mem cs 0x1234567 = mem 0x7f0001234567"
    using mem by (auto dest: spec [of _ "0x1234567"])
  ultimately show "\<exists>f' cs. sim_quit (Some ?f) c mm irq ?ram mem False ic ua = Some (Some f') \<and>
     read_chunks (sf_data f') = Some cs \<and> read_mem cs 0x1234567 = mem 0x7f0001234567" by blast
qed

text \<open>The simulator does not leave when it stops with the console UART's mutex held.\<close>

lemma sim_quit_deadlock:
  "state_save_open file c m irq (platform_meminfo ram) mem = Some (Inr f) \<Longrightarrow>
     sim_quit file c m irq ram mem True ic ua = None"
  by (simp add: sim_quit_def platform_state_save_def saved_devices_def intc_read32_def)


end
