(* ===== verification/UTLB_Assoc.thy ===== *)
theory UTLB_Assoc
  imports MMU_Translate
begin

section \<open>The associative micro-TLB: \<open>PPCMMU_utlb_assoc.h\<close>\<close>

text \<open>
  The alternative to the direct-mapped micro-TLB: four tables of eight entries, searched in order, and one
  counter, shared by the four tables, that says which entry the next insert replaces.  The tables are
  the ones of the MMU's record; the counter is the function's static variable and stands beside it.
  The invalidations are the same as in the direct-mapped variant.
\<close>

definition ASSOC_UTLB_ENTRIES :: nat where "ASSOC_UTLB_ENTRIES = 8"

definition assoc_utlbLookup :: "bool \<Rightarrow> bool \<Rightarrow> u32 \<Rightarrow> mmu \<Rightarrow> (u64 \<times> mmuperms_t) option" where
  "assoc_utlbLookup InD priv addr m =
     (let tlb = select_utlb InD priv m;
          find_ea = utlb_tag InD addr m
      in case find (\<lambda>i. utlb_getEA (tlb i) = find_ea) [0..<ASSOC_UTLB_ENTRIES] of
           None \<Rightarrow> None
         | Some i \<Rightarrow> Some (utlb_getPA (tlb i) OR (ucast addr AND 0xfff), perms_of_field (utlb_getPerms (tlb i))))"

text \<open>The part of \<open>utlbInsert\<close> that follows the question to the bus, and \<open>utlbInsert\<close>.\<close>

definition assoc_put :: "bool \<Rightarrow> bool \<Rightarrow> u32 \<Rightarrow> u64 \<Rightarrow> u8 \<Rightarrow> mmu \<times> nat \<Rightarrow> mmu \<times> nat" where
  "assoc_put InD priv addr pa perms = (\<lambda>(m, idx).
     let tr = (if (if InD then m_enabled_i m else m_enabled_d m) then PPCMMU_UTLB_TR else 0)
     in (write_utlb InD priv idx (utlb_set addr tr pa perms) m,
         unat ((of_nat idx + 1 :: u32) AND (of_nat ASSOC_UTLB_ENTRIES - 1))))"

definition assoc_utlbInsert :: "bool \<Rightarrow> bool \<Rightarrow> u32 \<Rightarrow> u32 \<Rightarrow> u8 \<Rightarrow> (mmu \<times> nat) \<times> io \<Rightarrow> ((mmu \<times> nat) \<times> io) option" where
  "assoc_utlbInsert InD priv addr out_addr perms s = do {
     let (m, io) = s;
     (host_addr, io) \<leftarrow> get_direct_map out_addr io;
     let pa = (case host_addr of Some h \<Rightarrow> h | None \<Rightarrow> ucast out_addr OR PPCMMU_HVA_IO_BIT);
     Some (assoc_put InD priv addr pa perms m, io) }"

subsection \<open>Runs of operations\<close>

datatype tlb_op = Op_insert bool bool u32 u64 u8 | Op_iutlbInv | Op_dutlbInv | Op_setIRDR bool bool

fun assoc_op :: "tlb_op \<Rightarrow> mmu \<times> nat \<Rightarrow> mmu \<times> nat" where
  "assoc_op (Op_insert InD priv addr pa perms) s = assoc_put InD priv addr pa perms s"
| "assoc_op Op_iutlbInv (m, idx) = (iutlbInv m, idx)"
| "assoc_op Op_dutlbInv (m, idx) = (dutlbInv m, idx)"
| "assoc_op (Op_setIRDR ir dr) (m, idx) = (m\<lparr>m_enabled_i := ir, m_enabled_d := dr\<rparr>, idx)"

definition assoc_run :: "tlb_op list \<Rightarrow> mmu \<times> nat \<Rightarrow> mmu \<times> nat" where
  "assoc_run ops s = fold assoc_op ops s"

lemma next_idx: "idx < 8 \<Longrightarrow> unat ((of_nat idx + 1 :: u32) AND 7) = (idx + 1) mod 8"
proof -
  assume "idx < 8"
  then have "idx \<in> {0, 1, 2, 3, 4, 5, 6, 7}" by auto
  then show ?thesis by auto
qed

lemma assoc_put_idx: "snd s < 8 \<Longrightarrow> snd (assoc_put InD priv a pa p s) = (snd s + 1) mod 8"
  using next_idx by (cases s) (simp add: assoc_put_def Let_def ASSOC_UTLB_ENTRIES_def)

lemma assoc_put_entry:
  "select_utlb I P (fst (assoc_put InD priv a pa p (m, idx))) i =
     (if (I, P, i) = (InD, priv, idx) then
        utlb_set a (if (if InD then m_enabled_i m else m_enabled_d m) then PPCMMU_UTLB_TR else 0) pa p
      else select_utlb I P m i)"
  by (auto simp: assoc_put_def select_utlb_def write_utlb_def Let_def)

lemma assoc_put_enabled [simp]:
  "m_enabled_i (fst (assoc_put InD priv a pa p (m, idx))) = m_enabled_i m"
  "m_enabled_d (fst (assoc_put InD priv a pa p (m, idx))) = m_enabled_d m"
  by (simp_all add: assoc_put_def write_utlb_def Let_def)

subsection \<open>An entry stays for seven inserts\<close>

fun is_insert :: "tlb_op \<Rightarrow> bool" where
  "is_insert (Op_insert _ _ _ _ _) = True"
| "is_insert _ = False"

text \<open>Operations that neither invalidate this side's tables nor insert the same page in the same table.\<close>

fun leaves_page :: "bool \<Rightarrow> bool \<Rightarrow> u32 \<Rightarrow> tlb_op \<Rightarrow> bool" where
  "leaves_page InD priv addr (Op_insert I P a pa p) \<longleftrightarrow>
     (I, P) \<noteq> (InD, priv) \<or> a AND NOT 0xfff \<noteq> addr AND NOT 0xfff"
| "leaves_page InD priv addr Op_iutlbInv \<longleftrightarrow> \<not> InD"
| "leaves_page InD priv addr Op_dutlbInv \<longleftrightarrow> InD"
| "leaves_page InD priv addr (Op_setIRDR ir dr) \<longleftrightarrow> True"

definition page_tag :: "u32 \<Rightarrow> u32 \<Rightarrow> bool" where
  "page_tag addr ea \<longleftrightarrow> ea AND NOT 0xfff = addr AND NOT 0xfff"

lemma low_bits_masked: "((a AND NOT 0xfff) OR r OR PPCMMU_UTLB_VALID) AND NOT 0xfff = a AND NOT 0xfff"
  if "r = PPCMMU_UTLB_TR \<or> r = 0" for a r :: u32
  using that by (elim disjE) (simp_all add: PPCMMU_UTLB_TR_def PPCMMU_UTLB_VALID_def blast32)

lemma page_tag_set: "page_tag addr (utlb_getEA (utlb_set a (if b then PPCMMU_UTLB_TR else 0) pa p)) \<longleftrightarrow>
    a AND NOT 0xfff = addr AND NOT 0xfff"
  unfolding page_tag_def utlb_set_fields(3) by (subst low_bits_masked) auto

lemma page_tag_utlb_tag: "page_tag addr (utlb_tag InD addr m)"
  using page_tag_set [of addr addr "if InD then m_enabled_i m else m_enabled_d m" 0 0] by (simp only: utlb_tag_set)

lemma assoc_select_setIRDR [simp]:
  "select_utlb InD priv (m\<lparr>m_enabled_i := ir, m_enabled_d := dr\<rparr>) = select_utlb InD priv m"
  by (simp add: select_utlb_def)

text \<open>Entry \<open>k\<close> holds \<open>t\<close>, no other entry of its table has the same tag, and \<open>n\<close> inserts came after it.\<close>

definition assoc_holds :: "bool \<Rightarrow> bool \<Rightarrow> utlb_t \<Rightarrow> nat \<Rightarrow> nat \<Rightarrow> mmu \<times> nat \<Rightarrow> bool" where
  "assoc_holds InD priv t k n s \<longleftrightarrow> k < 8 \<and> snd s = (k + 1 + n) mod 8 \<and> select_utlb InD priv (fst s) k = t \<and>
     (\<forall>i<8. i \<noteq> k \<longrightarrow> utlb_getEA (select_utlb InD priv (fst s) i) \<noteq> utlb_getEA t)"

lemma later_slot: "k < 8 \<Longrightarrow> n < 7 \<Longrightarrow> (k + 1 + n) mod 8 \<noteq> k" for k n :: nat
  by (cases "k + 1 + n < 8") (auto simp: mod_if)

lemma assoc_holds_op:
  assumes "assoc_holds InD priv t k n s" and "page_tag addr (utlb_getEA t)" and "bit (utlb_getEA t) 1"
    and "leaves_page InD priv addr op" and "is_insert op \<Longrightarrow> n < 7"
  shows "assoc_holds InD priv t k (if is_insert op then Suc n else n) (assoc_op op s)"
proof (cases op)
  case (Op_insert I P a pa p)
  obtain m idx where s: "s = (m, idx)" by (cases s)
  have idx: "idx = (k + 1 + n) mod 8" "k < 8" using assms(1) by (simp_all add: assoc_holds_def s)
  then have "idx < 8" "idx \<noteq> k" using later_slot [of k n] assms(5) Op_insert by auto
  moreover have "utlb_getEA (utlb_set a (if (if InD then m_enabled_i m else m_enabled_d m) then PPCMMU_UTLB_TR else 0) pa p)
      \<noteq> utlb_getEA t" if "(I, P) = (InD, priv)"
  proof
    assume "utlb_getEA (utlb_set a (if (if InD then m_enabled_i m else m_enabled_d m) then PPCMMU_UTLB_TR else 0) pa p) = utlb_getEA t"
    with assms(2) have "a AND NOT 0xfff = addr AND NOT 0xfff"
      by (simp only: page_tag_set flip: page_tag_set [of addr a "if InD then m_enabled_i m else m_enabled_d m" pa p])
    with assms(4) that show False by (simp add: Op_insert)
  qed
  moreover have "(idx + 1) mod 8 = (k + 1 + Suc n) mod 8" by (simp add: idx(1) mod_simps)
  ultimately show ?thesis
    using assms(1) Op_insert assoc_put_idx [of s I P a pa p] by (auto simp: assoc_holds_def s assoc_put_entry)
next
  case Op_iutlbInv
  then show ?thesis using assms by (cases s) (auto simp: assoc_holds_def select_utlb_def iutlbInv_def)
next
  case Op_dutlbInv
  then show ?thesis using assms by (cases s) (auto simp: assoc_holds_def select_utlb_def dutlbInv_def)
next
  case (Op_setIRDR ir dr)
  then show ?thesis using assms(1) by (cases s) (simp add: assoc_holds_def)
qed

lemma assoc_holds_run:
  "assoc_holds InD priv t k n s \<Longrightarrow> page_tag addr (utlb_getEA t) \<Longrightarrow> bit (utlb_getEA t) 1 \<Longrightarrow>
     list_all (leaves_page InD priv addr) ops \<Longrightarrow> n + length (filter is_insert ops) \<le> 7 \<Longrightarrow>
     assoc_holds InD priv t k (n + length (filter is_insert ops)) (assoc_run ops s)"
proof (induction ops arbitrary: n s)
  case (Cons op ops)
  have "assoc_holds InD priv t k (if is_insert op then Suc n else n) (assoc_op op s)"
    using Cons.prems by (intro assoc_holds_op) auto
  from Cons.IH [OF this] show ?case using Cons.prems by (auto simp: assoc_run_def split: if_splits)
qed (simp add: assoc_run_def)

lemma assoc_holds_lookup:
  assumes "assoc_holds InD priv t k n (m, idx)" and "utlb_getEA t = utlb_tag InD addr m"
  shows "assoc_utlbLookup InD priv addr m = Some (utlb_getPA t OR (ucast addr AND 0xfff), perms_of_field (utlb_getPerms t))"
proof -
  have "find (\<lambda>i. utlb_getEA (select_utlb InD priv m i) = utlb_tag InD addr m) [0..<8] = Some k"
    using assms by (auto simp: find_Some_iff assoc_holds_def)
  then show ?thesis
    using assms(1) by (simp add: assoc_utlbLookup_def ASSOC_UTLB_ENTRIES_def Let_def assoc_holds_def)
qed

text \<open>
  C30: the associative micro-TLB keeps a translation for seven more inserts.  After a miss and the insert
  of the missing translation, whatever is inserted for other pages or in the other tables (at most
  seven times), invalidated on the other side or switched in between, a lookup in the same translation
  mode hits and yields the page and the permissions that were inserted.
\<close>

theorem assoc_entry_survives:
  assumes "idx < 8" and "assoc_utlbLookup InD priv addr m = None"
    and "list_all (leaves_page InD priv addr) ops" and "length (filter is_insert ops) \<le> 7"
    and "utlb_tag InD addr (fst (assoc_run (Op_insert InD priv addr pa pf # ops) (m, idx))) = utlb_tag InD addr m"
  shows "assoc_utlbLookup InD priv addr (fst (assoc_run (Op_insert InD priv addr pa pf # ops) (m, idx))) =
    Some (page_of pa OR (ucast addr AND 0xfff), perms_of_field pf)"
proof -
  define t where "t = utlb_set addr (if (if InD then m_enabled_i m else m_enabled_d m) then PPCMMU_UTLB_TR else 0) pa pf"
  have ea: "utlb_getEA t = utlb_tag InD addr m" unfolding t_def by (rule utlb_tag_set)
  have "utlb_getEA (select_utlb InD priv m i) \<noteq> utlb_tag InD addr m" if "i < 8" for i
    using assms(2) that by (auto simp: assoc_utlbLookup_def Let_def ASSOC_UTLB_ENTRIES_def find_None_iff split: option.splits)
  then have "assoc_holds InD priv t idx 0 (assoc_put InD priv addr pa pf (m, idx))"
    using assms(1) assoc_put_idx [of "(m, idx)"] ea by (simp add: assoc_holds_def assoc_put_entry flip: t_def)
  then have "assoc_holds InD priv t idx (length (filter is_insert ops)) (assoc_run ops (assoc_put InD priv addr pa pf (m, idx)))"
    using assoc_holds_run [of InD priv t idx 0 _ addr ops] assms(3,4) page_tag_utlb_tag utlb_tag_valid ea by simp
  moreover have "assoc_run ops (assoc_put InD priv addr pa pf (m, idx)) = assoc_run (Op_insert InD priv addr pa pf # ops) (m, idx)"
    by (simp add: assoc_run_def)
  ultimately have "assoc_holds InD priv t idx (length (filter is_insert ops))
      (fst (assoc_run (Op_insert InD priv addr pa pf # ops) (m, idx)), snd (assoc_run (Op_insert InD priv addr pa pf # ops) (m, idx)))"
    by simp
  from assoc_holds_lookup [OF this] show ?thesis
    using ea assms(5) by (simp add: t_def utlb_set_fields page_of_def)
qed

lemma assoc_lookup_init: "assoc_utlbLookup InD priv addr (PPCMMU_init m) = None"
proof -
  have "utlb_getEA (select_utlb InD priv (PPCMMU_init m) i) = 0" for i
    by (simp add: PPCMMU_init_def select_utlb_def dutlbInv_def iutlbInv_def utlb_getEA_def Let_def)
  moreover have "utlb_tag InD addr (PPCMMU_init m) \<noteq> 0"
    using utlb_tag_valid [of InD addr "PPCMMU_init m"] by auto
  ultimately show ?thesis by (auto simp: assoc_utlbLookup_def find_None_iff Let_def split: option.split)
qed

lemma assoc_entry_survives_witness:
  "\<forall>m. assoc_utlbLookup False True 0x1234
      (fst (assoc_run [Op_insert False True 0x1234 0x7000 0xf, Op_insert False True 0x5000 0x9000 0xf, Op_iutlbInv,
                       Op_insert False False 0x1234 0xa000 0xf] (PPCMMU_init m, 3))) =
    Some (page_of 0x7000 OR (ucast (0x1234 :: u32) AND 0xfff), perms_of_field 0xf)"
proof
  fix m
  let ?ops = "[Op_insert False True 0x5000 0x9000 0xf, Op_iutlbInv, Op_insert False False 0x1234 0xa000 0xf]"
  have "utlb_tag False 0x1234 (fst (assoc_run (Op_insert False True 0x1234 0x7000 0xf # ?ops) (PPCMMU_init m, 3))) =
      utlb_tag False 0x1234 (PPCMMU_init m)"
    by (simp add: assoc_run_def assoc_put_def Let_def) (simp add: utlb_tag_def iutlbInv_def)
  then show "assoc_utlbLookup False True 0x1234
      (fst (assoc_run (Op_insert False True 0x1234 0x7000 0xf # ?ops) (PPCMMU_init m, 3))) =
    Some (page_of 0x7000 OR (ucast (0x1234 :: u32) AND 0xfff), perms_of_field 0xf)"
    by (intro assoc_entry_survives [OF _ assoc_lookup_init]) simp_all
qed

text \<open>
  A page inserted twice without an invalidation is found by its first entry.  That is what happens to a
  page that is read, then written: the store's walk inserts a second entry with the change bit set, the
  lookup keeps finding the first one, and every store walks the page table again.
\<close>

lemma assoc_stale_entry:
  "assoc_utlbLookup False True 0x1234
     (fst (assoc_run [Op_insert False True 0x1234 0x7000 clean, Op_insert False True 0x1234 0x7000 dirty] (PPCMMU_init m, 0))) =
   Some (page_of 0x7000 OR 0x234, perms_of_field clean)"
proof -
  define t where "t = utlb_set 0x1234 (if (if False then m_enabled_i (PPCMMU_init m) else m_enabled_d (PPCMMU_init m))
      then PPCMMU_UTLB_TR else 0) 0x7000 clean"
  obtain m1 where m1: "assoc_put False True 0x1234 0x7000 clean (PPCMMU_init m, 0) = (m1, 1)"
    using assoc_put_idx [of "(PPCMMU_init m, 0)" False True "0x1234" "0x7000" clean]
    by (cases "assoc_put False True 0x1234 0x7000 clean (PPCMMU_init m, 0)") simp
  have "select_utlb False True m1 0 = t"
    using assoc_put_entry [of False True False True "0x1234" "0x7000" clean "PPCMMU_init m" 0 0] m1 by (simp add: t_def)
  then have e: "select_utlb False True (fst (assoc_put False True 0x1234 0x7000 dirty (m1, 1))) 0 = t"
    by (simp add: assoc_put_entry)
  have tag: "utlb_tag False 0x1234 (fst (assoc_put False True 0x1234 0x7000 dirty (m1, 1))) = utlb_getEA t"
    unfolding t_def utlb_tag_set using m1 by (auto simp: utlb_tag_def assoc_put_def Let_def)
  have "[0..<8] = 0 # [1..<8 :: nat]" by (simp add: upt_rec)
  then have "assoc_utlbLookup False True 0x1234 (fst (assoc_put False True 0x1234 0x7000 dirty (m1, 1))) =
      Some (utlb_getPA t OR (ucast (0x1234 :: u32) AND 0xfff), perms_of_field (utlb_getPerms t))"
    unfolding assoc_utlbLookup_def Let_def ASSOC_UTLB_ENTRIES_def tag by (simp add: e [simplified])
  then show ?thesis by (simp add: assoc_run_def m1 t_def utlb_set_fields page_of_def)
qed

end
