(* ===== verification/C_Strings.thy ===== *)
theory C_Strings
  imports MR_Prelude
begin

section \<open>What the program uses of the C string library\<close>

text \<open>
  Comparison without regard to case, and \<open>strtoull(s, NULL, 0)\<close>: white space, a sign, a prefix
  that selects the base, and digits up to the first character that is none; \<open>ULLONG_MAX\<close> when the
  value does not fit.  Strings are character lists without the terminating zero.
\<close>

definition tolower :: "char \<Rightarrow> char" where
  "tolower c = (let n = (of_char c :: nat) in if 65 \<le> n \<and> n \<le> 90 then char_of (n + 32) else c)"

definition strcaseeq :: "string \<Rightarrow> string \<Rightarrow> bool" where
  "strcaseeq s t \<longleftrightarrow> map tolower s = map tolower t"

definition strncaseeq :: "string \<Rightarrow> string \<Rightarrow> nat \<Rightarrow> bool" where
  "strncaseeq s t n \<longleftrightarrow> map tolower (take n s) = map tolower (take n t)"

definition isspace :: "char \<Rightarrow> bool" where
  "isspace c = (let n = (of_char c :: nat) in n = 32 \<or> 9 \<le> n \<and> n \<le> 13)"

definition digit_val :: "char \<Rightarrow> nat option" where
  "digit_val c =
     (let n = (of_char c :: nat)
      in if 48 \<le> n \<and> n \<le> 57 then Some (n - 48)
         else if 97 \<le> n \<and> n \<le> 122 then Some (n - 87)
         else if 65 \<le> n \<and> n \<le> 90 then Some (n - 55)
         else None)"

fun digits :: "nat \<Rightarrow> nat \<Rightarrow> string \<Rightarrow> nat" where
  "digits base acc [] = acc"
| "digits base acc (c # cs) =
     (case digit_val c of
        None \<Rightarrow> acc
      | Some d \<Rightarrow> if d < base then digits base (acc * base + d) cs else acc)"

definition is_digit :: "nat \<Rightarrow> string \<Rightarrow> bool" where
  "is_digit base s = (case s of [] \<Rightarrow> False | c # _ \<Rightarrow> (case digit_val c of None \<Rightarrow> False | Some d \<Rightarrow> d < base))"

definition magnitude :: "string \<Rightarrow> nat" where
  "magnitude s =
     (if map tolower (take 2 s) = ''0x'' \<and> is_digit 16 (drop 2 s) then digits 16 0 (drop 2 s)
      else if take 1 s = ''0'' then digits 8 0 s
      else digits 10 0 s)"

definition strtoull :: "string \<Rightarrow> u64" where
  "strtoull s =
     (let s = dropWhile isspace s;
          (neg, s) = (case s of c # cs \<Rightarrow> (if c = CHR ''-'' then (True, cs) else if c = CHR ''+'' then (False, cs) else (False, s))
                      | [] \<Rightarrow> (False, s));
          n = magnitude s
      in if n \<ge> 2 ^ 64 then - 1 else if neg then - of_nat n else of_nat n)"

subsection \<open>Lemmas\<close>

lemma strcaseeq_refl [simp]: "strcaseeq s s"
  by (simp add: strcaseeq_def)

lemma strtoull_examples:
  "strtoull ''0xfff00000'' = 0xfff00000" "strtoull ''64'' = 64" "strtoull ''0100'' = 64" "strtoull ''x'' = 0"
  "strtoull ''-1'' = 0xffffffffffffffff"
  by (simp_all add: strtoull_def magnitude_def is_digit_def digit_val_def isspace_def tolower_def Let_def)

text \<open>Decimal numbers are read back.\<close>

fun decimal :: "nat \<Rightarrow> string" where
  "decimal n = (if n < 10 then [char_of (48 + n)] else decimal (n div 10) @ [char_of (48 + n mod 10)])"

declare decimal.simps [simp del]

lemma digit_val_char [simp]: "d < 10 \<Longrightarrow> digit_val (char_of (48 + d)) = Some d"
  by (simp add: digit_val_def Let_def of_char_of take_bit_nat_eq_self)

lemma digits_append:
  assumes "\<forall>c\<in>set s. \<exists>d<base. digit_val c = Some d"
  shows "digits base acc (s @ t) = digits base (digits base acc s) t"
  using assms by (induction s arbitrary: acc) auto

lemma decimal_digits: "c \<in> set (decimal n) \<Longrightarrow> \<exists>d<10. digit_val c = Some d"
proof (induction n rule: decimal.induct)
  case (1 n)
  then show ?case
    by (subst (asm) decimal.simps) (auto split: if_splits)
qed

lemma digits_decimal: "digits 10 0 (decimal n) = n"
proof (induction n rule: decimal.induct)
  case (1 n)
  show ?case
  proof (cases "n < 10")
    case True
    then show ?thesis by (simp add: decimal.simps [of n])
  next
    case False
    have "digits 10 0 (decimal n) = digits 10 (digits 10 0 (decimal (n div 10))) [char_of (48 + n mod 10)]"
      using False decimal_digits by (subst decimal.simps) (simp add: digits_append)
    also have "\<dots> = n" using False 1 by simp
    finally show ?thesis .
  qed
qed

end
