(* ===== verification/Config.thy ===== *)
theory Config
  imports C_Strings CPU_Exceptions
begin

section \<open>Configuration: \<open>Config.cc\<close>, \<open>log.cc\<close> and the start of \<open>main\<close>\<close>

text \<open>
  The command line becomes a configuration.  \<open>getopt\<close> is a library function: the model starts from
  what it returns, option characters with their arguments (empty when the option takes none).
  \<open>exit(1)\<close> after the usage message is \<open>None\<close>.  Numbers are read with \<open>strtoull\<close> and cut to the
  width of the field.
\<close>

definition CFG_SBD_NUM :: nat where "CFG_SBD_NUM = 4"

record config =
  cf_verbose :: bool
  cf_disass :: bool
  cf_instr_limit :: u64
  cf_dump_state_period :: u32
  cf_rom_path :: string
  cf_load_addr :: u32
  cf_start_addr :: u32
  cf_strace :: bool
  cf_io_trace :: bool
  cf_branch_trace :: bool
  cf_mmu_trace :: bool
  cf_exception_trace :: bool
  cf_jit_trace :: bool
  cf_block_path :: "string option list"
  cf_start_msr :: u32
  cf_save_state_path :: "string option"
  cf_gpio_inputs :: u32

definition Config_init :: config where
  "Config_init = \<lparr>cf_verbose = False, cf_disass = False, cf_instr_limit = 0, cf_dump_state_period = 0,
     cf_rom_path = ''rom.bin'', cf_load_addr = 0, cf_start_addr = NOT 0, cf_strace = False, cf_io_trace = False,
     cf_branch_trace = False, cf_mmu_trace = False, cf_exception_trace = False, cf_jit_trace = False,
     cf_block_path = replicate CFG_SBD_NUM None, cf_start_msr = 0, cf_save_state_path = None,
     cf_gpio_inputs = 0x80000000\<rparr>"

text \<open>The loop over the block device slots: the first free one is assigned; with none free the
  path is dropped with a message.\<close>

fun assign_block :: "string \<Rightarrow> string option list \<Rightarrow> string option list" where
  "assign_block path [] = []"
| "assign_block path (None # bs) = Some path # bs"
| "assign_block path (Some p # bs) = Some p # assign_block path bs"

definition trace_option :: "string \<Rightarrow> config \<Rightarrow> config option" where
  "trace_option arg c =
     (if strcaseeq arg ''syscall'' then Some (c\<lparr>cf_strace := True\<rparr>)
      else if strcaseeq arg ''io'' then Some (c\<lparr>cf_io_trace := True\<rparr>)
      else if strcaseeq arg ''branch'' then Some (c\<lparr>cf_branch_trace := True\<rparr>)
      else if strcaseeq arg ''mmu'' then Some (c\<lparr>cf_mmu_trace := True\<rparr>)
      else if strcaseeq arg ''exception'' then Some (c\<lparr>cf_exception_trace := True\<rparr>)
      else if strcaseeq arg ''jit'' then Some (c\<lparr>cf_jit_trace := True\<rparr>)
      else None)"

definition setup_option :: "char \<Rightarrow> string \<Rightarrow> config \<Rightarrow> config option" where
  "setup_option ch optarg c =
     (if ch = CHR ''r'' then Some (c\<lparr>cf_rom_path := optarg\<rparr>)
      else if ch = CHR ''v'' then Some (c\<lparr>cf_verbose := True\<rparr>)
      else if ch = CHR ''d'' then Some (c\<lparr>cf_disass := True\<rparr>)
      else if ch = CHR ''l'' then Some (c\<lparr>cf_instr_limit := strtoull optarg\<rparr>)
      else if ch = CHR ''p'' then Some (c\<lparr>cf_dump_state_period := ucast (strtoull optarg)\<rparr>)
      else if ch = CHR ''s'' then Some (c\<lparr>cf_start_addr := ucast (strtoull optarg)\<rparr>)
      else if ch = CHR ''m'' then Some (c\<lparr>cf_start_msr := ucast (strtoull optarg)\<rparr>)
      else if ch = CHR ''L'' then Some (c\<lparr>cf_load_addr := ucast (strtoull optarg)\<rparr>)
      else if ch = CHR ''G'' then Some (c\<lparr>cf_gpio_inputs := ucast (strtoull optarg)\<rparr>)
      else if ch = CHR ''b'' then Some (c\<lparr>cf_block_path := assign_block optarg (cf_block_path c)\<rparr>)
      else if ch = CHR ''t'' then trace_option optarg c
      else if ch = CHR ''x'' then Some (c\<lparr>cf_save_state_path := Some optarg\<rparr>)
      else None)"

primrec setup_options :: "(char \<times> string) list \<Rightarrow> config \<Rightarrow> config option" where
  "setup_options [] c = Some c"
| "setup_options (x # xs) c = do { c \<leftarrow> setup_option (fst x) (snd x) c; setup_options xs c }"

definition Config_setup :: "(char \<times> string) list \<Rightarrow> config \<Rightarrow> config option" where
  "Config_setup opts c = do {
     c \<leftarrow> setup_options opts c;
     Some (if cf_start_addr c = NOT 0 then c\<lparr>cf_start_addr := cf_load_addr c\<rparr> else c) }"

definition LOG_FLAG_DBG :: u32 where "LOG_FLAG_DBG = 1"
definition LOG_FLAG_DISASS :: u32 where "LOG_FLAG_DISASS = 2"
definition LOG_FLAG_STRACE :: u32 where "LOG_FLAG_STRACE = 4"
definition LOG_FLAG_IO_TRACE :: u32 where "LOG_FLAG_IO_TRACE = 8"
definition LOG_FLAG_BRANCH_TRACE :: u32 where "LOG_FLAG_BRANCH_TRACE = 16"
definition LOG_FLAG_MMU_TRACE :: u32 where "LOG_FLAG_MMU_TRACE = 32"
definition LOG_FLAG_EXC_TRACE :: u32 where "LOG_FLAG_EXC_TRACE = 64"
definition LOG_FLAG_JIT_TRACE :: u32 where "LOG_FLAG_JIT_TRACE = 128"

text \<open>\<open>log_init\<close>: the mask, starting from 0.\<close>

definition log_init :: "config \<Rightarrow> u32" where
  "log_init c =
     (if cf_verbose c then LOG_FLAG_DBG else 0) OR (if cf_disass c then LOG_FLAG_DISASS else 0) OR
     (if cf_strace c then LOG_FLAG_STRACE else 0) OR (if cf_io_trace c then LOG_FLAG_IO_TRACE else 0) OR
     (if cf_branch_trace c then LOG_FLAG_BRANCH_TRACE else 0) OR (if cf_mmu_trace c then LOG_FLAG_MMU_TRACE else 0) OR
     (if cf_exception_trace c then LOG_FLAG_EXC_TRACE else 0) OR (if cf_jit_trace c then LOG_FLAG_JIT_TRACE else 0)"

text \<open>The global \<open>pcs\<close>: zero before its constructor runs.\<close>

definition cpu_new :: cpu where
  "cpu_new = PPCCPUState_init \<lparr>c_gprs = (\<lambda>_. 0), c_pc = 0, c_ctr = 0, c_lr = 0, c_xer = 0, c_cr = 0, c_msr = 0,
     c_sprg0 = 0, c_sprg1 = 0, c_sprg2 = 0, c_sprg3 = 0, c_srr0 = 0, c_srr1 = 0, c_dar = 0, c_dsisr = 0,
     c_dec = 0, c_sdr1 = 0, c_hid0 = 0, c_hid1 = 0, c_pir = 0, c_tb = 0, c_inst_count = 0\<rparr>"

text \<open>Before the MMU is attached, so the MMU does not learn of the start MSR.\<close>

definition set_initial_cpu_context :: "config \<Rightarrow> cpu \<Rightarrow> cpu" where
  "set_initial_cpu_context cfg c = c\<lparr>c_pc := cf_start_addr cfg, c_msr := cf_start_msr cfg, c_pir := 0\<rparr>"

subsection \<open>What a command line means\<close>

text \<open>The reference: every option by itself.  The last argument of an option counts, the first four
  block images are used, and one bad option refuses the whole line.\<close>

definition args_of :: "char \<Rightarrow> (char \<times> string) list \<Rightarrow> string list" where
  "args_of ch opts = map snd (filter (\<lambda>x. fst x = ch) opts)"

definition last_arg :: "char \<Rightarrow> (string \<Rightarrow> 'a) \<Rightarrow> 'a \<Rightarrow> (char \<times> string) list \<Rightarrow> 'a" where
  "last_arg ch f d opts = (if args_of ch opts = [] then d else f (last (args_of ch opts)))"

definition good_option :: "char \<times> string \<Rightarrow> bool" where
  "good_option x \<longleftrightarrow> fst x \<in> set ''rvdlpsmLGbx'' \<or>
     fst x = CHR ''t'' \<and> list_ex (strcaseeq (snd x)) [''syscall'', ''io'', ''branch'', ''mmu'', ''exception'', ''jit'']"

definition traces :: "string \<Rightarrow> (char \<times> string) list \<Rightarrow> bool" where
  "traces t opts = list_ex (\<lambda>a. strcaseeq a t) (args_of CHR ''t'' opts)"

primrec block_slots :: "nat \<Rightarrow> string list \<Rightarrow> string option list" where
  "block_slots 0 bs = []"
| "block_slots (Suc n) bs = (case bs of [] \<Rightarrow> None # block_slots n [] | b # bs \<Rightarrow> Some b # block_slots n bs)"

definition config_of :: "(char \<times> string) list \<Rightarrow> config" where
  "config_of opts =
     \<lparr>cf_verbose = (args_of CHR ''v'' opts \<noteq> []), cf_disass = (args_of CHR ''d'' opts \<noteq> []),
      cf_instr_limit = last_arg CHR ''l'' strtoull 0 opts,
      cf_dump_state_period = last_arg CHR ''p'' (\<lambda>a. ucast (strtoull a)) 0 opts,
      cf_rom_path = last_arg CHR ''r'' id ''rom.bin'' opts,
      cf_load_addr = last_arg CHR ''L'' (\<lambda>a. ucast (strtoull a)) 0 opts,
      cf_start_addr = last_arg CHR ''s'' (\<lambda>a. ucast (strtoull a)) (NOT 0) opts,
      cf_strace = traces ''syscall'' opts, cf_io_trace = traces ''io'' opts, cf_branch_trace = traces ''branch'' opts,
      cf_mmu_trace = traces ''mmu'' opts, cf_exception_trace = traces ''exception'' opts,
      cf_jit_trace = traces ''jit'' opts,
      cf_block_path = block_slots CFG_SBD_NUM (args_of CHR ''b'' opts),
      cf_start_msr = last_arg CHR ''m'' (\<lambda>a. ucast (strtoull a)) 0 opts,
      cf_save_state_path = last_arg CHR ''x'' Some None opts,
      cf_gpio_inputs = last_arg CHR ''G'' (\<lambda>a. ucast (strtoull a)) 0x80000000 opts\<rparr>"

lemma args_of_snoc: "args_of ch (xs @ [x]) = args_of ch xs @ (if fst x = ch then [snd x] else [])"
  by (simp add: args_of_def)

lemma last_arg_snoc: "last_arg ch f d (xs @ [x]) = (if fst x = ch then f (snd x) else last_arg ch f d xs)"
  by (simp add: last_arg_def args_of_snoc)

lemma traces_snoc: "traces t (xs @ [x]) \<longleftrightarrow> traces t xs \<or> fst x = CHR ''t'' \<and> strcaseeq (snd x) t"
  by (auto simp: traces_def args_of_snoc)

lemma assign_block_args: "assign_block p (block_slots n bs) = block_slots n (bs @ [p])"
  by (induction n arbitrary: bs) (auto split: list.split)

lemma block_slots_Nil: "block_slots n [] = replicate n None"
  by (induction n) simp_all

lemma setup_options_snoc:
  "setup_options (xs @ [x]) c = do { c \<leftarrow> setup_options xs c; setup_option (fst x) (snd x) c }"
  by (induction xs arbitrary: c) (auto split: bind_splits)

lemma trace_words:
  "strcaseeq a ''syscall'' \<longleftrightarrow> map tolower a = ''syscall''" "strcaseeq a ''io'' \<longleftrightarrow> map tolower a = ''io''"
  "strcaseeq a ''branch'' \<longleftrightarrow> map tolower a = ''branch''" "strcaseeq a ''mmu'' \<longleftrightarrow> map tolower a = ''mmu''"
  "strcaseeq a ''exception'' \<longleftrightarrow> map tolower a = ''exception''" "strcaseeq a ''jit'' \<longleftrightarrow> map tolower a = ''jit''"
  by (simp_all add: strcaseeq_def tolower_def)

lemma trace_option_config_of:
  "trace_option a (config_of xs) =
     (if good_option (CHR ''t'', a) then Some (config_of (xs @ [(CHR ''t'', a)])) else None)"
  by (simp add: trace_option_def good_option_def config_of_def args_of_snoc last_arg_snoc traces_snoc trace_words)

lemma setup_option_config_of:
  "setup_option ch a (config_of xs) = (if good_option (ch, a) then Some (config_of (xs @ [(ch, a)])) else None)"
proof (cases "ch = CHR ''t''")
  case True
  then show ?thesis by (simp add: setup_option_def trace_option_config_of)
next
  case False
  then show ?thesis
    by (simp add: setup_option_def good_option_def config_of_def args_of_snoc last_arg_snoc traces_snoc assign_block_args)
qed

lemma setup_options_config_of:
  "setup_options xs Config_init = (if list_all good_option xs then Some (config_of xs) else None)"
proof (induction xs rule: rev_induct)
  case Nil
  then show ?case
    by (simp add: config_of_def Config_init_def args_of_def last_arg_def traces_def block_slots_Nil)
next
  case (snoc x xs)
  then show ?case by (cases x) (simp add: setup_options_snoc setup_option_config_of)
qed

text \<open>C33: The command line. Reading the options one after the other gives what each of them says by
  itself: the line is refused when some option or trace name is unknown; otherwise the last argument
  of each numeric or path option counts, the first four block images are attached in order and the
  rest are dropped, trace names are compared without regard to case, and the start address is the load
  address unless another one is given (the address 0xffffffff cannot be).\<close>

theorem setup_spec:
  "Config_setup opts Config_init =
     (if list_all good_option opts
      then let c = config_of opts
           in Some (if cf_start_addr c = NOT 0 then c\<lparr>cf_start_addr := cf_load_addr c\<rparr> else c)
      else None)"
  by (simp add: Config_setup_def setup_options_config_of Let_def)

end
