(* ===== verification/Platform_MR12.thy ===== *)
theory Platform_MR12
  imports Platform System_Bus
begin

section \<open>The other platforms and the interrupt lines\<close>

text \<open>
  The branches of \<open>platform.cc\<close> and \<open>platform.h\<close> for \<open>PLATFORM == 1\<close> (a software development platform
  with a 16550-like UART) and \<open>PLATFORM == 2\<close> (an intermediate one with a display), and the parts of
  platform 3 that are not its memory map: which interrupt line a device drives, and the connection of the
  interrupt controller to the CPU.
\<close>

definition MR1_RAM_BASE_ADDR :: u32 where [simp]: "MR1_RAM_BASE_ADDR = 0x00000000"
definition MR1_RAM_SIZE :: u32 where [simp]: "MR1_RAM_SIZE = 512 * 1024 * 1024"
definition MR1_UART_BASE_ADDR :: u32 where [simp]: "MR1_UART_BASE_ADDR = 0x80000000"
definition MR1_UART_SIZE :: u32 where [simp]: "MR1_UART_SIZE = 0x00000200"
definition MR1_INTC_BASE_ADDR :: u32 where [simp]: "MR1_INTC_BASE_ADDR = 0x80010000"
definition MR1_INTC_SIZE :: u32 where [simp]: "MR1_INTC_SIZE = 0x00000200"
definition MR1_SBD0_BASE_ADDR :: u32 where [simp]: "MR1_SBD0_BASE_ADDR = 0x80020000"
definition MR1_SBD_SIZE :: u32 where [simp]: "MR1_SBD_SIZE = 0x00000020"
definition MR1_SBD_NUM :: nat where [simp]: "MR1_SBD_NUM = 4"
definition MR1_SBD_STRIDE :: u32 where [simp]: "MR1_SBD_STRIDE = 0x100"

definition MR2_RAM_BASE_ADDR :: u32 where [simp]: "MR2_RAM_BASE_ADDR = 0x00000000"
definition MR2_RAM_SIZE :: u32 where [simp]: "MR2_RAM_SIZE = 512 * 1024"
definition MR2_UART_BASE_ADDR :: u32 where [simp]: "MR2_UART_BASE_ADDR = 0x80000000"
definition MR2_UART_SIZE :: u32 where [simp]: "MR2_UART_SIZE = 0x00000200"
definition MR2_LCDC0_BASE_ADDR :: u32 where [simp]: "MR2_LCDC0_BASE_ADDR = 0x80010000"
definition MR2_LCDC0_SIZE :: u32 where [simp]: "MR2_LCDC0_SIZE = 0x00000200"

definition mr1_attach :: "plat_device window list" where
  "mr1_attach =
     [(P_devram, MR1_RAM_BASE_ADDR, MR1_RAM_SIZE),
      (P_devuart, MR1_UART_BASE_ADDR, MR1_UART_SIZE),
      (P_devintc, MR1_INTC_BASE_ADDR, MR1_INTC_SIZE)] @
     map (\<lambda>i. (P_devsbd i, MR1_SBD0_BASE_ADDR + of_nat i * MR1_SBD_STRIDE, MR1_SBD_SIZE)) [0..<MR1_SBD_NUM]"

definition mr2_attach :: "plat_device window list" where
  "mr2_attach =
     [(P_devram, MR2_RAM_BASE_ADDR, MR2_RAM_SIZE),
      (P_devuart, MR2_UART_BASE_ADDR, MR2_UART_SIZE),
      (P_devlcdc_pdp, MR2_LCDC0_BASE_ADDR, MR2_LCDC0_SIZE)]"

text \<open>The boot image goes to bank 0; an address below it is fatal.\<close>

definition mr12_load :: "u32 \<Rightarrow> u8 list option \<Rightarrow> u32 \<Rightarrow> ram \<Rightarrow> hmem \<Rightarrow> hmem option" where
  "mr12_load ram_base rom load_addr devram m =
     (if load_addr \<ge> ram_base then loadAtOffset rom (load_addr - ram_base) devram m else None)"

definition UART0_IRQ :: nat where [simp]: "UART0_IRQ = 0"
definition KBD_IRQ :: nat where [simp]: "KBD_IRQ = 1"
definition MSE_IRQ :: nat where [simp]: "MSE_IRQ = 2"
definition SD0_IRQ :: nat where [simp]: "SD0_IRQ = 3"
definition SBD0_IRQ :: nat where [simp]: "SBD0_IRQ = 24"
definition SBD_IRQ_STRIDE :: nat where [simp]: "SBD_IRQ_STRIDE = 1"

text \<open>The \<open>setIntc\<close> calls: the line of each device, on platform 3 and on platform 1.\<close>

definition platform_irqs :: "(plat_device \<times> nat) list" where
  "platform_irqs =
     [(P_devuart, UART0_IRQ), (P_devkbd, KBD_IRQ), (P_devmse, MSE_IRQ), (P_devsd, SD0_IRQ)] @
     map (\<lambda>i. (P_devsbd i, SBD0_IRQ + i * SBD_IRQ_STRIDE)) [0..<SBD_NUM]"

definition MR1_SBD0_IRQ :: nat where [simp]: "MR1_SBD0_IRQ = 1"

definition mr1_irqs :: "(plat_device \<times> nat) list" where
  "mr1_irqs = (P_devuart, UART0_IRQ) #
     map (\<lambda>i. (P_devsbd i, MR1_SBD0_IRQ + i * SBD_IRQ_STRIDE)) [0..<MR1_SBD_NUM]"

definition platform_irq_cpuclient :: "intc \<Rightarrow> intc" where
  "platform_irq_cpuclient devintc = devintc\<lparr>ic_cpus := True\<rparr>"

text \<open>
  C29: the platforms are consistent.  On each of the three, every device has a window of its own, an access
  reaches the device whose window contains the address and nothing else, and no two devices that raise
  interrupts share a line of the controller's 32.
\<close>

theorem platforms_consistent:
  assumes "prev < bus_entries" and "ws \<in> {platform_attach, mr1_attach, mr2_attach}"
  shows "attach_names ws bus_init = Some (bus_of (\<lambda>_ _ d. d) ws) \<and> distinct (map fst ws) \<and>
    map_option (\<lambda>(i, b'). bd_dev (bus_devs b' ! i)) (get_dev a (bus_of (\<lambda>_ _ d. d) ws\<lparr>bus_last_dev := prev\<rparr>)) =
      map_option (\<lambda>w. Some (fst w)) (find (in_window a) ws) \<and>
    (\<forall>irqs \<in> {platform_irqs, mr1_irqs}. distinct (map snd irqs) \<and> (\<forall>n \<in> set (map snd irqs). n < 32) \<and>
       set (map fst irqs) \<subseteq> set (map fst (if irqs = platform_irqs then platform_attach else mr1_attach)))"
proof -
  have apart: "sorted_wrt window_apart mr1_attach" "sorted_wrt window_apart mr2_attach" by code_simp+
  have len: "length mr1_attach = 7" "length mr2_attach = 3" by (simp_all add: mr1_attach_def mr2_attach_def)
  have "length ws \<le> bus_entries" "sorted_wrt window_apart ws"
    using assms(2) platform_windows_apart apart len platform_attach_length by (auto simp: bus_entries_def)
  note map = attach_map_sound [OF this, of "\<lambda>_ _ d. d"] attach_map_routes [OF this assms(1), of a "\<lambda>_ _ d. d"]
  have irqs: "distinct (map snd platform_irqs)" "distinct (map snd mr1_irqs)"
    "list_all (\<lambda>n. n < 32) (map snd platform_irqs)" "list_all (\<lambda>n. n < 32) (map snd mr1_irqs)"
    "set (map fst platform_irqs) \<subseteq> set (map fst platform_attach)" "set (map fst mr1_irqs) \<subseteq> set (map fst mr1_attach)"
    "platform_irqs \<noteq> mr1_irqs"
    by code_simp+
  have "distinct (map fst platform_attach)" "distinct (map fst mr1_attach)" "distinct (map fst mr2_attach)"
    by code_simp+
  then have "distinct (map fst ws)" using assms(2) by auto
  then show ?thesis using map(1,4) irqs by (auto simp: list_all_iff)
qed

lemma platforms_consistent_witness:
  "attach_names mr1_attach bus_init = Some (bus_of (\<lambda>_ _ d. d) mr1_attach) \<and>
     map_option (\<lambda>(i, b'). bd_dev (bus_devs b' ! i)) (get_dev 0x80020110 (bus_of (\<lambda>_ _ d. d) mr1_attach\<lparr>bus_last_dev := 2\<rparr>)) =
       Some (Some (P_devsbd 1))"
proof -
  have "find (in_window 0x80020110) mr1_attach = Some (P_devsbd 1, 0x80020100, 0x20)" by code_simp
  then show ?thesis using platforms_consistent [of 2 mr1_attach "0x80020110"] by (simp add: bus_entries_def)
qed

text \<open>Platform 2 has less memory than one chunk of the state file.\<close>

lemma mr2_ram_below_chunk: "unat MR2_RAM_SIZE < 0x200000"
  by simp

end
