(* ===== verification/Machine.thy ===== *)
theory Machine
  imports Run_Props Config Platform_MR12 IO_Props Sim_Quit
begin

section \<open>The whole simulator: \<open>main\<close>\<close>

text \<open>
  \<open>main\<close> of \<open>main.cc\<close> for platform 3 without the JIT: \<open>platform_init\<close> makes the devices, gives them what
  they need of each other, attaches them and loads the image; then the first CPU context is set, the
  interrupt controller, the interpreter and the MMU are connected, the loop runs, and \<open>sim_quit\<close> saves the
  state.

  \<open>startup\<close> is what the operating system contributes: where \<open>mmap\<close> puts the two memories and what is
  there, the files by their paths (\<open>None\<close>: cannot be opened), the descriptors, the console's serial port,
  the file that is opened for the state, and the contents of the stack where the local objects
  \<open>interp\<close> and \<open>mmu\<close> are made, since their constructors do not set every field.

  The devices are global objects, zero before their constructors run.  A method called on a device after it
  has been attached works on the object on the bus; the calls on different objects commute, so the model
  makes each device complete and then attaches it.
\<close>

record startup =
  st_ram_map :: "u64 option"
  st_bootram_map :: "u64 option"
  st_hmem :: hmem
  st_file :: "path \<Rightarrow> image option"
  st_fd :: "nat \<Rightarrow> nat"
  st_serial :: serial
  st_save :: "sim_file option"
  st_stack :: sys
  st_host :: host

subsection \<open>The devices\<close>

definition ram_new :: ram where
  "ram_new = \<lparr>r_isROM = False, r_mmap_base = 0, r_base_address = 0, r_address_span = 0\<rparr>"

definition suart_new :: suart where
  "suart_new = \<lparr>su_base_address = 0, su_address_span = 0, su_regs = (\<lambda>_. 0), su_intc = False,
     su_irq_number = 0, su_irq_active = False, su_serio = None\<rparr>"

definition suart_setIntc :: "nat \<Rightarrow> suart \<Rightarrow> suart" where
  "suart_setIntc irq d = d\<lparr>su_intc := True, su_irq_number := irq\<rparr>"

definition suart_setSerIO :: "serial \<Rightarrow> suart \<Rightarrow> suart" where
  "suart_setSerIO s d = d\<lparr>su_serio := Some s\<rparr>"

definition intc_new :: intc where
  "intc_new = intc_init \<lparr>ic_base_address = 0, ic_address_span = 0, ic_regs = (\<lambda>_. 0),
     ic_triggeredCPU = False, ic_cpus = False\<rparr>"

definition lcdc_new :: lcdc where
  "lcdc_new = DevLCDC_init \<lparr>lc_bus = False, lc_init_done = False, lc_done = False, lc_frame_end_time = 0,
     lc_regs = [], lc_palette = replicate 256 0, lc_display_enable = False, lc_border_enable = False,
     lc_display_x = 640, lc_display_y = 480, lc_scale_x = 1, lc_scale_y = 1, lc_bpp = 0\<rparr>"

definition gpio_new :: gpio where
  "gpio_new = \<lparr>gp_base_address = 0, gp_address_span = 0, gp_out_state = 0, gp_in_state = 0\<rparr>"

definition spi_new :: spi where
  "spi_new = \<lparr>sp_config = 0, sp_len_a = 0, sp_len_b = 0, sp_cs = 0, sp_txd_a = 0, sp_rxd_a = 0,
     sp_txd_b = 0, sp_rxd_b = 0, sp_clkdiv = 0, sp_spidev = None\<rparr>"

definition sdcard_new :: sdcard where
  "sdcard_new = \<lparr>sd_fd = False, sd_image_blocks = 0, sd_acmd_pending = False, sd_state = SD_STATE_IDLE,
     sd_width = 1, sd_last_cmd = 0, sd_last_arg = 0, sd_last_acmd = False, sd_offset = 0, sd_block_count = 0\<rparr>"

definition sdhc_new :: sdhc where
  "sdhc_new = \<lparr>hc_regs = replicate DEVSD_REG_END 0, hc_bus = False, hc_intc = False, hc_irq_number = 0,
     hc_irq_tx_triggered = False, hc_irq_tx_enabled = False, hc_irq_rx_triggered = False,
     hc_irq_rx_enabled = False, hc_txblocks = 0, hc_cmd_ack = False, hc_tx_ack = False, hc_rx_ack = False,
     hc_cmd_status = 0, hc_tx_status = 0, hc_rx_status = 0, hc_dma_status = 0\<rparr>"

text \<open>\<open>devsd_card.init(CFG(block_path[0]))\<close>, and the block device of a slot with
  \<open>openImage(CFG(block_path[i]))\<close> if there is a path.\<close>

definition devsd_card :: "config \<Rightarrow> startup \<Rightarrow> sdcard" where
  "devsd_card cfg env =
     snd (sdcard_init (map_option (\<lambda>p. map_option length (st_file env p)) (cf_block_path cfg ! 0)) sdcard_new)"

definition devsd :: sdhc where
  "devsd = (DevSD_init sdhc_new)\<lparr>hc_bus := True, hc_intc := True, hc_irq_number := SD0_IRQ\<rparr>"

definition devsbd :: "config \<Rightarrow> startup \<Rightarrow> nat \<Rightarrow> sbd" where
  "devsbd cfg env i =
     (let d = sbd_new\<lparr>sb_bus := True\<rparr>
      in case cf_block_path cfg ! i of
           None \<Rightarrow> d
         | Some p \<Rightarrow> (case st_file env p of
               None \<Rightarrow> openImage (-1) None d
             | Some img \<Rightarrow> openImage (int (st_fd env i)) (Some (length img)) d))"

definition image_path :: "config \<Rightarrow> nat \<Rightarrow> path" where
  "image_path cfg i = (case cf_block_path cfg ! i of None \<Rightarrow> [] | Some p \<Rightarrow> p)"

text \<open>Every object of \<open>platform.cc\<close>, as it is when \<open>platform_init\<close> and \<open>platform_irq_cpuclient\<close> are over.  The window's
  surface is blank.\<close>

fun platform_device :: "config \<Rightarrow> startup \<Rightarrow> ram \<Rightarrow> ram \<Rightarrow> plat_device \<Rightarrow> device" where
  "platform_device cfg env devram devbootram P_devram = DRam devram"
| "platform_device cfg env devram devbootram P_devbootram = DRam devbootram"
| "platform_device cfg env devram devbootram P_devuart =
     DSuart (suart_setIntc UART0_IRQ (suart_init (suart_setSerIO (st_serial env) suart_new)))"
| "platform_device cfg env devram devbootram P_devkbd = DSuart (suart_setIntc KBD_IRQ (suart_init suart_new))"
| "platform_device cfg env devram devbootram P_devmse = DSuart (suart_setIntc MSE_IRQ (suart_init suart_new))"
| "platform_device cfg env devram devbootram P_devintc = DIntc (platform_irq_cpuclient intc_new)"
| "platform_device cfg env devram devbootram P_devlcdc_pdp = DLcdc (lcdc_new\<lparr>lc_bus := True\<rparr>) (\<lambda>_. 0)"
| "platform_device cfg env devram devbootram P_devgpio = DGpio (gpio_new\<lparr>gp_in_state := cf_gpio_inputs cfg\<rparr>)"
| "platform_device cfg env devram devbootram P_devi2s = DDummy"
| "platform_device cfg env devram devbootram P_devsd = DSd devsd (devsd_card cfg env) (image_path cfg 0)"
| "platform_device cfg env devram devbootram (P_devsbd i) = DSbd (devsbd cfg env i) (image_path cfg i)"
| "platform_device cfg env devram devbootram P_devspi0 = DSpi spi_new"
| "platform_device cfg env devram devbootram P_devspi1 = DSpi spi_new"

subsection \<open>Power-on, run and shutdown\<close>

definition platform_start :: "config \<Rightarrow> startup \<Rightarrow> io option" where
  "platform_start cfg env = do {
     devram \<leftarrow> ram_init (st_ram_map env) RAM_SIZE ram_new;
     devbootram \<leftarrow> ram_init (st_bootram_map env) BOOT_RAM_SIZE ram_new;
     mem \<leftarrow> platform_load (st_file env (cf_rom_path cfg)) (cf_load_addr cfg) devram devbootram (st_hmem env);
     bus \<leftarrow> attach_all dev_setProps
       (map (\<lambda>(d, w). (platform_device cfg env devram devbootram d, w)) platform_attach) bus_init;
     Some \<lparr>io_bus = bus, io_hmem = mem, io_irqFlag = False,
           io_files = (\<lambda>p. case st_file env p of None \<Rightarrow> [] | Some img \<Rightarrow> img), io_host = st_host env\<rparr> }"

definition power_on :: "config \<Rightarrow> startup \<Rightarrow> sys option" where
  "power_on cfg env = do {
     io \<leftarrow> platform_start cfg env;
     Some ((st_stack env)\<lparr>s_cpu := set_initial_cpu_context cfg cpu_new, s_mmu := PPCMMU_init (s_mmu (st_stack env)),
       s_io := io, s_want_break := False, s_mem_access_fault := FAULT_NONE, s_exc_generation_count := 0,
       s_stdout := []\<rparr>) }"

text \<open>\<open>unsigned int instr_limit = CFG(instr_limit)\<close>: the limit of 64 bits is cut to 32.\<close>

definition main_limit :: "config \<Rightarrow> u32" where
  "main_limit cfg = ucast (cf_instr_limit cfg)"

text \<open>The place on the bus that \<open>platform_init\<close> gave a device.\<close>

definition plat_slot :: "plat_device \<Rightarrow> nat" where
  "plat_slot d = length (takeWhile (\<lambda>w. fst w \<noteq> d) platform_attach)"

definition platform_quit :: "config \<Rightarrow> startup \<Rightarrow> sys \<Rightarrow> sim_file option option" where
  "platform_quit cfg env s =
     (case (io_dev (s_io s) (plat_slot P_devram), io_dev (s_io s) (plat_slot P_devintc),
            io_dev (s_io s) (plat_slot P_devuart)) of
        (Some (DRam devram), Some (DIntc devintc), Some (DSuart devuart)) \<Rightarrow>
          sim_quit (if cf_save_state_path cfg = None then None else st_save env) (s_cpu s) (s_mmu s)
            (io_irqFlag (s_io s)) devram (io_hmem (s_io s)) False devintc devuart
      | _ \<Rightarrow> None)"

definition sim_main :: "(u32 \<Rightarrow> sys \<Rightarrow> sys option) \<Rightarrow> (char \<times> string) list \<Rightarrow> startup \<Rightarrow> (sys \<times> sim_file option) option" where
  "sim_main decode opts env = do {
     cfg \<leftarrow> Config_setup opts Config_init;
     s \<leftarrow> power_on cfg env;
     s \<leftarrow> main_loop decode (main_limit cfg) s;
     f \<leftarrow> platform_quit cfg env s;
     Some (s, f) }"

text \<open>Bytes arrive at the console: the back end's thread calls the UART's callback, which may raise
  the interrupt.  It is taken to run between two instructions.\<close>

definition console_rx :: "u8 list \<Rightarrow> io \<Rightarrow> io" where
  "console_rx bs io =
     (case io_dev io (plat_slot P_devuart) of
        Some (DSuart u) \<Rightarrow>
          (let (u, raised) = suart_asyncRxCB (u\<lparr>su_serio := map_option (\<lambda>s. s\<lparr>ser_in := ser_in s @ bs\<rparr>) (su_serio u)\<rparr>)
           in fold io_triggerIRQ (if raised \<and> su_intc u then [su_irq_number u] else [])
                (io_set_dev (plat_slot P_devuart) (DSuart u) io))
      | _ \<Rightarrow> io)"

text \<open>The states of a run: rounds of the main loop, interleaved with input at the console.\<close>

inductive machine_run :: "(u32 \<Rightarrow> sys \<Rightarrow> sys option) \<Rightarrow> config \<Rightarrow> startup \<Rightarrow> sys \<Rightarrow> bool"
  for decode cfg env where
  M_start: "power_on cfg env = Some s \<Longrightarrow> machine_run decode cfg env s"
| M_round: "machine_run decode cfg env s \<Longrightarrow> \<not> s_want_break s \<Longrightarrow>
    main_step decode (main_limit cfg) s = Some s' \<Longrightarrow> machine_run decode cfg env s'"
| M_input: "machine_run decode cfg env s \<Longrightarrow> machine_run decode cfg env (s\<lparr>s_io := console_rx bs (s_io s)\<rparr>)"

subsection \<open>The devices on the bus\<close>

abbreviation machine_windows :: "config \<Rightarrow> startup \<Rightarrow> ram \<Rightarrow> ram \<Rightarrow> device window list" where
  "machine_windows cfg env r b \<equiv> map (\<lambda>(d, w). (platform_device cfg env r b d, w)) platform_attach"

lemma machine_windows_ok:
  "length (machine_windows cfg env r b) \<le> bus_entries" "sorted_wrt window_apart (machine_windows cfg env r b)"
  using platform_windows_apart [unfolded window_apart_def [abs_def]] platform_attach_length
  by (simp_all add: bus_entries_def sorted_wrt_map window_apart_def case_prod_beta)

lemmas machine_bus = attach_map_sound [OF machine_windows_ok]

lemma platform_start_SomeD:
  assumes "platform_start cfg env = Some io"
  obtains r b where "ram_init (st_ram_map env) RAM_SIZE ram_new = Some r"
    and "ram_init (st_bootram_map env) BOOT_RAM_SIZE ram_new = Some b"
    and "io_bus io = bus_of dev_setProps (machine_windows cfg env r b)"
    and "platform_load (st_file env (cf_rom_path cfg)) (cf_load_addr cfg) r b (st_hmem env) = Some (io_hmem io)"
    and "\<not> io_irqFlag io"
  using assms by (auto simp: platform_start_def machine_bus(1) elim!: bind_SomeE)

lemma platform_start_ok: "platform_start cfg env = Some io \<Longrightarrow> io_ok io"
  by (erule platform_start_SomeD) (simp add: io_ok_def machine_bus(2,3))


text \<open>Names and places: the device with a name is at its place in the table.\<close>

lemma plat_slot_nth: "i < 16 \<Longrightarrow> plat_slot (fst (platform_attach ! i)) = i"
proof -
  have "list_all (\<lambda>i. plat_slot (fst (platform_attach ! i)) = i) [0..<16]" by code_simp
  then show "i < 16 \<Longrightarrow> plat_slot (fst (platform_attach ! i)) = i" by (simp add: list_all_iff)
qed

lemma plat_slots:
  "plat_slot P_devram = 0" "plat_slot P_devbootram = 1" "plat_slot P_devuart = 2" "plat_slot P_devintc = 5"
  by code_simp+

lemma machine_window_nth:
  "i < 16 \<Longrightarrow> machine_windows cfg env r b ! i =
     (platform_device cfg env r b (fst (platform_attach ! i)), snd (platform_attach ! i))"
  by (simp add: platform_attach_length case_prod_beta)

lemma machine_dev:
  assumes "i < 16"
  shows "bd_dev (bus_devs (bus_of dev_setProps (machine_windows cfg env r b)) ! i) =
    Some (dev_setProps (fst (snd (platform_attach ! i))) (snd (snd (platform_attach ! i)))
      (platform_device cfg env r b (fst (platform_attach ! i))))"
  using assms machine_window_nth [OF assms, of cfg env r b]
  by (simp add: bus_of_def nth_append window_slot_def platform_attach_length case_prod_beta)

lemma machine_free:
  "16 \<le> i \<Longrightarrow> i < bus_entries \<Longrightarrow> bd_dev (bus_devs (bus_of dev_setProps (machine_windows cfg env r b)) ! i) = None"
  by (simp add: bus_of_def nth_append platform_attach_length)

text \<open>The devices as they are made agree with an interrupt flag that is clear, and there is one controller.\<close>

lemma platform_device_sound: "dev_sound False (dev_setProps a sz (platform_device cfg env r b d))"
  by (cases d) (simp_all add: suart_inv_def suart_want_def suart_setIntc_def suart_init_def suart_setSerIO_def
      suart_new_def intc_inv_def platform_irq_cpuclient_def intc_new_def intc_init_def getActive_def)

lemma platform_device_intc: "is_intc (Some (dev_setProps a sz (platform_device cfg env r b d))) \<longleftrightarrow> d = P_devintc"
  by (cases d) (simp_all add: is_intc_def)

lemma platform_start_sound:
  assumes "platform_start cfg env = Some io"
  shows "io_sound io"
proof -
  obtain r b where bus: "io_bus io = bus_of dev_setProps (machine_windows cfg env r b)" and f: "\<not> io_irqFlag io"
    using assms by (rule platform_start_SomeD)
  have none: "io_dev io i = None" if "\<not> i < 16" "i < bus_entries" for i
    using machine_free [of i] that unfolding bus by simp
  have intc: "i = plat_slot P_devintc" if "i < bus_entries" "is_intc (io_dev io i)" for i
  proof -
    have i: "i < 16" using none [of i] that by (cases "i < 16") (simp_all add: is_intc_def)
    then have "fst (platform_attach ! i) = P_devintc"
      using that(2) platform_device_intc unfolding bus machine_dev [OF i] by blast
    then show ?thesis using plat_slot_nth [OF i] by simp
  qed
  have "dev_sound (io_irqFlag io) d" if "i < bus_entries" "io_dev io i = Some d" for i d
  proof -
    have i: "i < 16" using none [of i] that by (cases "i < 16") simp_all
    show ?thesis using that(2) f platform_device_sound unfolding bus machine_dev [OF i] by auto
  qed
  moreover have "length (bus_devs (io_bus io)) = bus_entries"
    using platform_start_ok [OF assms] by (simp add: io_ok_def bus_wf_def)
  ultimately show ?thesis using intc unfolding io_sound_def by metis
qed

lemma machine_finds:
  "find_dev_for_addr (bus_of dev_setProps (machine_windows cfg env r b)) a =
     map_option (\<lambda>w. plat_slot (fst w)) (find (in_window a) platform_attach)"
proof -
  let ?ws = "machine_windows cfg env r b" and ?b = "bus_of dev_setProps (machine_windows cfg env r b)"
  have upt: "find_dev_for_addr ?b a = find (\<lambda>i. in_window a (platform_attach ! i)) [0..<16]"
    unfolding find_dev_upt [OF machine_windows_ok(1)]
    by (rule find_cong) (simp_all add: platform_attach_length case_prod_beta)
  have win: "find (in_window a) platform_attach = map_option (\<lambda>i. platform_attach ! i) (find_dev_for_addr ?b a)"
    using find_map_nth [of "in_window a" "\<lambda>i. platform_attach ! i" "[0..<16]"] map_nth [of platform_attach]
    unfolding upt by (simp add: platform_attach_length)
  have "i < 16" if "find_dev_for_addr ?b a = Some i" for i
    using find_dev_SomeD [OF that] bus_of_matches [OF machine_windows_ok(1)] by (simp add: platform_attach_length)
  then show ?thesis
    by (cases "find_dev_for_addr ?b a") (simp_all add: win plat_slot_nth)
qed

subsection \<open>Power-on\<close>

definition mapped :: "u64 option \<Rightarrow> u32 \<Rightarrow> bool" where
  "mapped r sz \<longleftrightarrow> (case r of None \<Rightarrow> False | Some p \<Rightarrow> p \<noteq> 0 \<and> take_bit 12 p = 0 \<and> uint p + uint sz \<le> 2 ^ 63)"

definition image_fits :: "config \<Rightarrow> u8 list \<Rightarrow> bool" where
  "image_fits cfg bs \<longleftrightarrow>
     (if cf_load_addr cfg \<ge> BOOT_RAM_BASE_ADDR
      then length bs + unat (cf_load_addr cfg - BOOT_RAM_BASE_ADDR) \<le> unat BOOT_RAM_SIZE
      else length bs + unat (cf_load_addr cfg) \<le> unat RAM_SIZE)"

text \<open>Translation off in the start MSR: the MMU, which is connected later, is off.\<close>

definition starts_real :: "config \<Rightarrow> bool" where
  "starts_real cfg \<longleftrightarrow> \<not> bit (cf_start_msr cfg) 5 \<and> \<not> bit (cf_start_msr cfg) 4"

lemma PPCMMU_init_off: "m_enabled_i (PPCMMU_init m) = False" "m_enabled_d (PPCMMU_init m) = False"
  by (simp_all add: PPCMMU_init_def Let_def iutlbInv_def dutlbInv_def)

lemma power_on_SomeD:
  assumes "power_on cfg env = Some s"
  shows "platform_start cfg env = Some (s_io s)" and "s_cpu s = set_initial_cpu_context cfg cpu_new"
    and "s_mmu s = PPCMMU_init (s_mmu (st_stack env))" and "\<not> s_want_break s"
  using assms by (auto simp: power_on_def elim!: bind_SomeE)

lemma power_on_ok:
  assumes "power_on cfg env = Some s" and "starts_real cfg"
  shows "sys_ok s"
proof -
  note p = power_on_SomeD [OF assms(1)]
  have "mmu_good (s_mmu s, s_io s)"
    using platform_start_ok [OF p(1)] by (simp add: mmu_good_def p(3) coherent_inv_ops)
  moreover have "mmu_sync (s_cpu s, s_mmu s)"
    using assms(2) by (simp add: mmu_sync_def p(2,3) PPCMMU_init_off set_initial_cpu_context_def starts_real_def)
  moreover have "xer_wf (s_cpu s)"
    using xer_wf_init by (simp add: p(2) set_initial_cpu_context_def cpu_new_def xer_wf_def)
  ultimately show ?thesis by (simp add: sys_ok_def)
qed

lemma power_on_count: "power_on cfg env = Some s \<Longrightarrow> c_inst_count (s_cpu s) = 0"
  using power_on_SomeD(2) by (fastforce simp: set_initial_cpu_context_def cpu_new_def PPCCPUState_init_def)

text \<open>A start MSR with translation on does not reach the MMU.\<close>

lemma start_msr_not_in_mmu:
  "power_on cfg env = Some s \<Longrightarrow> \<not> starts_real cfg \<Longrightarrow> \<not> mmu_sync (s_cpu s, s_mmu s)"
  by (auto simp: mmu_sync_def power_on_SomeD(2,3) PPCMMU_init_off set_initial_cpu_context_def starts_real_def)

text \<open>A limit of \<open>2^32\<close> is none.\<close>

lemma limit_cut: "cf_instr_limit cfg = 0x100000000 \<Longrightarrow> check_limit (main_limit cfg) s = s"
  by (simp add: main_limit_def check_limit_def)

subsection \<open>Along a run\<close>

lemma console_rx_same_map:
  assumes "io_ok io"
  shows "same_map io (console_rx bs io)"
proof -
  have "same_map io (io_set_dev (plat_slot P_devuart) (DSuart u') io)"
    if "io_dev io (plat_slot P_devuart) = Some (DSuart u)" "u' = fst (suart_asyncRxCB (u\<lparr>su_serio := map_option x (su_serio u)\<rparr>))" for u u' x
  proof (rule same_map_set_dev [OF same_map_refl [OF assms] that(1)])
    show "plat_slot P_devuart < bus_entries" by (simp add: plat_slots bus_entries_def)
    have "su_intc u' = su_intc u" "su_irq_number u' = su_irq_number u" "(su_serio u' = None) = (su_serio u = None)"
      using suart_assess_wired [of "suart_rx_flags (u\<lparr>su_serio := map_option x (su_serio u)\<rparr>)" u'] that(2)
      by (auto simp: suart_asyncRxCB_def suart_rx_flags_def prod_eq_iff)
    then show "dev_kind (DSuart u') = dev_kind (DSuart u)" by simp
    show "dev_sound (io_irqFlag io) (DSuart u')" using suart_ops_inv(1) by (simp add: that(2))
  qed
  then show ?thesis
    using same_map_refl [OF assms]
    by (auto simp: console_rx_def case_prod_beta intro!: io_triggerIRQ_same_map split: option.split device.split)
qed

lemma machine_run_ok:
  assumes "machine_run decode cfg env s" and "decoder_keeps decode" and "starts_real cfg"
  shows "sys_ok s \<and> (\<exists>io. platform_start cfg env = Some io \<and> same_map io (s_io s))"
  using assms(1)
proof (induction rule: machine_run.induct)
  case (M_start s)
  then have "sys_ok s" using assms(3) by (rule power_on_ok)
  with power_on_SomeD(1) [OF M_start] show ?case by (auto dest: sys_okD(5) intro: same_map_refl)
next
  case (M_round s s')
  then show ?case using main_step_SomeD(1,2) [OF M_round(3) assms(2)] by (auto intro: same_map_trans)
next
  case (M_input s bs)
  then have "same_map (s_io s) (console_rx bs (s_io s))" by (auto dest: sys_okD(5) intro: console_rx_same_map)
  with M_input show ?case by (auto intro: sys_ok_same_map same_map_trans)
qed

lemma machine_run_sound:
  assumes "machine_run decode cfg env s" and "decoder_keeps decode" and "starts_real cfg"
  shows "io_sound (s_io s)"
  using machine_run_ok [OF assms] platform_start_sound by (auto simp: same_map_def)

lemma machine_kinds:
  assumes "platform_start cfg env = Some io0" and "same_map io0 io" and "i < 16"
  shows "\<exists>r b d. ram_init (st_ram_map env) RAM_SIZE ram_new = Some r \<and> io_dev io i = Some d \<and>
    dev_kind d = dev_kind (dev_setProps (fst (snd (platform_attach ! i))) (snd (snd (platform_attach ! i)))
      (platform_device cfg env r b (fst (platform_attach ! i))))"
proof -
  obtain r b where rb: "ram_init (st_ram_map env) RAM_SIZE ram_new = Some r"
    "ram_init (st_bootram_map env) BOOT_RAM_SIZE ram_new = Some b"
    and bus: "io_bus io0 = bus_of dev_setProps (machine_windows cfg env r b)"
    using assms(1) by (rule platform_start_SomeD)
  have "map_option dev_kind (io_dev io i) = map_option dev_kind (io_dev io0 i)"
    using same_map_dev [OF assms(2) platform_start_ok [OF assms(1)]] assms(3) by (simp add: bus_entries_def)
  then have "map_option dev_kind (io_dev io i) = Some (dev_kind (dev_setProps (fst (snd (platform_attach ! i)))
      (snd (snd (platform_attach ! i))) (platform_device cfg env r b (fst (platform_attach ! i)))))"
    unfolding bus machine_dev [OF assms(3)] by simp
  then show ?thesis using rb(1) by blast
qed

lemma machine_lookup:
  assumes "platform_start cfg env = Some io0" and "same_map io0 io"
  shows "find_dev_for_addr (io_bus io) a = map_option (\<lambda>w. plat_slot (fst w)) (find (in_window a) platform_attach)"
proof -
  have "find_dev_for_addr (io_bus io) a = find_dev_for_addr (io_bus io0) a"
    using same_map_matches [OF assms(2) platform_start_ok [OF assms(1)]] by (rule find_dev_cong)
  with assms(1) show ?thesis by (auto elim!: platform_start_SomeD simp: machine_finds)
qed

lemma kind_setProps: "fst (dev_kind (dev_setProps a sz d)) = fst (dev_kind d)"
  by (cases d) simp_all

lemma kind_ram_free:
  "fst (dev_kind (platform_device cfg env r b d)) = fst (dev_kind (platform_device cfg env r' b' d))"
  by (cases d) simp_all

lemma machine_routes:
  assumes "platform_start cfg env = Some io0" and "same_map io0 io"
  shows "map_option (\<lambda>(i, d, _). (i, fst (dev_kind d))) (io_get_dev a io) =
    map_option (\<lambda>w. (plat_slot (fst w), fst (dev_kind (platform_device cfg env ram_new ram_new (fst w)))))
      (find (in_window a) platform_attach)"
proof -
  have ok: "io_ok io" using same_map_ok [OF assms(2) platform_start_ok [OF assms(1)]] .
  then have get: "get_dev a (io_bus io) = (case find_dev_for_addr (io_bus io) a of None \<Rightarrow> None
      | Some i \<Rightarrow> Some (i, io_bus io\<lparr>bus_last_dev := i\<rparr>))"
    using get_dev_find [of "io_bus io" a] by (simp add: io_ok_def)
  show ?thesis
  proof (cases "find (in_window a) platform_attach")
    case None
    then show ?thesis using machine_lookup [OF assms, of a] by (simp add: io_get_dev_def get)
  next
    case (Some w)
    then obtain i where i: "i < 16" "w = platform_attach ! i"
      by (auto simp: find_Some_iff platform_attach_length)
    obtain d where "io_dev io i = Some d"
      "fst (dev_kind d) = fst (dev_kind (platform_device cfg env ram_new ram_new (fst w)))"
      using machine_kinds [OF assms i(1)] kind_setProps kind_ram_free unfolding i(2) by metis
    then show ?thesis
      using machine_lookup [OF assms, of a] Some i plat_slot_nth [OF i(1)] by (simp add: io_get_dev_def get)
  qed
qed

subsection \<open>The first fetch\<close>

text \<open>A fetch from RAM with translation off and nothing cached is a load of the device's word.\<close>

lemma real_fetch_RAM:
  assumes off: "\<not> enabled True m" and cold: "utlb_empty True m" and ok: "io_ok io" and ram: "ram_at io a d"
    and al: "take_bit 12 (r_mmap_base d) = 0" "take_bit 12 (r_base_address d) = 0"
    and direct: "IS_DIRECT (ram_direct_map d a)"
  obtains m' io' where "loadInst32 a priv (m, io) = Some (Inr (BS32 (ram_read32 d a (io_hmem io))), (m', io'))"
proof -
  obtain k where dm: "get_direct_map a io = Some (Some (ram_direct_map d a), io\<lparr>io_bus := io_bus io\<lparr>bus_last_dev := k\<rparr>\<rparr>)"
    using ram ok by (auto simp: get_direct_map_def io_ok_def elim: ram_at_get_dev)
  then obtain m' io' where ins: "utlbInsert True priv a a (perms_field PPCMMU_PERMS_ANY) (m, io) = Some (m', io')"
    and io': "io_hmem io' = io_hmem io"
    by (simp add: utlbInsert_def Let_def)
  have ea: "translateEA a True True priv 0 (m, io) = Some (Inr (a, PPCMMU_PERMS_ANY), (m', io'))"
    using off ins by (simp add: translateEA_eq)
  then obtain res where t: "do_lookup a True True priv 0 (m, io) = Some (res, (m', io'))"
    using do_lookup_unfold [OF ea] by auto
  then obtain h where h: "resolve a io = Some h" "res = Inr (page_of h OR (ucast a AND 0xfff))"
    using off by (rule walk_real)
  have "h = ram_direct_map d a" using h(1) resolve_RAM [OF ram ok] by simp
  with h(2) have "res = Inr (ram_direct_map d a)" using page_host [OF al refl, of a] by simp
  with t have "translateAddr a True True priv 0 (m, io) = Some (Inr (ram_direct_map d a), (m', io'))"
    by (simp add: translateAddr_def utlb_empty_lookup [OF cold])
  then show thesis
    using that [of m' io'] direct by (simp add: loadInst32_def ram_direct_read io')
qed

lemma IS_DIRECT_low: "uint p < 2 ^ 63 \<Longrightarrow> IS_DIRECT p"
proof -
  assume "uint p < 2 ^ 63"
  then have "\<not> bit (uint p) 63" by (simp add: bit_iff_odd div_pos_pos_trivial)
  then have "\<not> bit p 63" by (simp add: bit_uint_iff)
  then have "p AND PPCMMU_HVA_IO_BIT = 0"
    by (intro bit_word_eqI) (auto simp: PPCMMU_HVA_IO_BIT_def bit_and_iff)
  then show "IS_DIRECT p" by (simp add: IS_DIRECT_def)
qed

text \<open>An offset inside a window of memory that does not wrap around.\<close>

lemma window_offset:
  fixes base sz x :: u32
  assumes "x < sz" and "uint base + uint sz < 2 ^ 32"
  shows "base \<le> base + x" and "base + x < base + sz"
proof -
  have "uint x < uint sz" using assms(1) by (simp add: word_less_def)
  then have "uint (base + x) = uint base + uint x" "uint (base + sz) = uint base + uint sz"
    using assms(2) by (simp_all add: uint_word_ariths)
  then show "base \<le> base + x" "base + x < base + sz"
    using \<open>uint x < uint sz\<close> by (simp_all add: word_le_def word_less_def)
qed

text \<open>The two memories, by the address an image is loaded at.\<close>

definition load_slot :: "config \<Rightarrow> nat" where
  "load_slot cfg = (if cf_load_addr cfg \<ge> BOOT_RAM_BASE_ADDR then 1 else 0)"

definition load_ram :: "config \<Rightarrow> startup \<Rightarrow> ram" where
  "load_ram cfg env =
     (if cf_load_addr cfg \<ge> BOOT_RAM_BASE_ADDR
      then \<lparr>r_isROM = False, r_mmap_base = the (st_bootram_map env), r_base_address = BOOT_RAM_BASE_ADDR,
            r_address_span = BOOT_RAM_SIZE\<rparr>
      else \<lparr>r_isROM = False, r_mmap_base = the (st_ram_map env), r_base_address = RAM_BASE_ADDR,
            r_address_span = RAM_SIZE\<rparr>)"

lemma platform_start_some:
  assumes "mapped (st_ram_map env) RAM_SIZE" and "mapped (st_bootram_map env) BOOT_RAM_SIZE"
    and "st_file env (cf_rom_path cfg) = Some bs" and "image_fits cfg bs"
  obtains io where "platform_start cfg env = Some io"
    and "io_dev io (load_slot cfg) = Some (DRam (load_ram cfg env))"
    and "loadAtOffset (Some bs) (cf_load_addr cfg - r_base_address (load_ram cfg env)) (load_ram cfg env) (st_hmem env) =
      Some (io_hmem io)"
proof -
  obtain p q where p: "st_ram_map env = Some p" "p \<noteq> 0" and q: "st_bootram_map env = Some q" "q \<noteq> 0"
    using assms(1,2) by (auto simp: mapped_def split: option.splits)
  define r b where "r = \<lparr>r_isROM = False, r_mmap_base = p, r_base_address = 0, r_address_span = RAM_SIZE\<rparr>"
    and "b = \<lparr>r_isROM = False, r_mmap_base = q, r_base_address = 0, r_address_span = BOOT_RAM_SIZE\<rparr>"
  note rb = r_def b_def
  have init: "ram_init (st_ram_map env) RAM_SIZE ram_new = Some r"
    "ram_init (st_bootram_map env) BOOT_RAM_SIZE ram_new = Some b"
    by (simp_all add: ram_init_def ram_new_def p(1) q(1) rb)
  obtain m where l: "loadAtOffset (Some bs) (cf_load_addr cfg - r_base_address (load_ram cfg env)) (load_ram cfg env)
      (st_hmem env) = Some m"
    using assms(4) p q by (simp add: loadAtOffset_def load_ram_def image_fits_def split: if_splits)
  moreover have "platform_load (Some bs) (cf_load_addr cfg) r b (st_hmem env) =
      loadAtOffset (Some bs) (cf_load_addr cfg - r_base_address (load_ram cfg env)) (load_ram cfg env) (st_hmem env)"
    by (simp add: platform_load_def load_ram_def loadAtOffset_def p(1) q(1) rb)
  ultimately have load: "platform_load (Some bs) (cf_load_addr cfg) r b (st_hmem env) = Some m" by simp
  have slot: "load_slot cfg < 16" by (simp add: load_slot_def)
  have "platform_attach ! 0 = (P_devram, RAM_BASE_ADDR, RAM_SIZE)"
    "platform_attach ! 1 = (P_devbootram, BOOT_RAM_BASE_ADDR, BOOT_RAM_SIZE)"
    by (simp_all add: platform_attach_def)
  then have dev: "bd_dev (bus_devs (bus_of dev_setProps (machine_windows cfg env r b)) ! load_slot cfg) =
      Some (DRam (load_ram cfg env))"
    unfolding machine_dev [OF slot]
    by (auto simp: load_slot_def load_ram_def ram_setProps_def p(1) q(1) rb)
  have start: "platform_start cfg env = Some \<lparr>io_bus = bus_of dev_setProps (machine_windows cfg env r b), io_hmem = m,
      io_irqFlag = False, io_files = (\<lambda>p. case st_file env p of None \<Rightarrow> [] | Some img \<Rightarrow> img), io_host = st_host env\<rparr>"
    by (simp only: platform_start_def init load assms(3) machine_bus(1) Option.bind.simps)
  show thesis
    by (rule that [OF start]) (simp_all only: io.select_convs dev l)
qed

text \<open>Every address of the image is in the memory it was loaded to.\<close>

lemma image_offset:
  assumes "image_fits cfg bs" and "i < length bs"
  shows "cf_load_addr cfg - r_base_address (load_ram cfg env) + of_nat i < r_address_span (load_ram cfg env)"
proof -
  let ?d = "load_ram cfg env"
  have fit: "i + unat (cf_load_addr cfg - r_base_address ?d) < unat (r_address_span ?d)"
    using assms by (auto simp: image_fits_def load_ram_def split: if_splits)
  have "unat (r_address_span ?d) < 2 ^ 32" using unsigned_less [of "r_address_span ?d"] by simp
  then have "unat (cf_load_addr cfg - r_base_address ?d + of_nat i) = unat (cf_load_addr cfg - r_base_address ?d) + i"
    using fit by (simp add: unat_word_ariths unsigned_of_nat take_bit_eq_mod)
  then show ?thesis using fit by (simp add: word_less_nat_alt)
qed

lemma image_in_ram:
  assumes "platform_start cfg env = Some io" and "io_dev io (load_slot cfg) = Some (DRam (load_ram cfg env))"
    and "image_fits cfg bs" and "i < length bs"
  shows "ram_at io (cf_load_addr cfg + of_nat i) (load_ram cfg env)"
proof -
  let ?d = "load_ram cfg env" and ?a = "cf_load_addr cfg + of_nat i"
  let ?x = "cf_load_addr cfg - r_base_address ?d + of_nat i"
  have span: "uint (r_base_address ?d) + uint (r_address_span ?d) < 2 ^ 32" by (simp add: load_ram_def)
  note win = window_offset [OF image_offset [OF assms(3,4)] span]
  have a: "?a = r_base_address ?d + ?x" by simp
  have "find (in_window ?a) platform_attach = Some (platform_attach ! load_slot cfg)"
  proof (cases "cf_load_addr cfg \<ge> BOOT_RAM_BASE_ADDR")
    case True
    then have "BOOT_RAM_BASE_ADDR \<le> ?a" "?a < BOOT_RAM_BASE_ADDR + BOOT_RAM_SIZE"
      using win unfolding a by (simp_all only: load_ram_def if_True ram.simps)
    moreover from this(1) have "\<not> ?a < RAM_BASE_ADDR + RAM_SIZE" by (simp add: word_le_def word_less_def)
    ultimately show ?thesis using True by (simp add: platform_attach_def load_slot_def)
  next
    case False
    then have "?a < RAM_BASE_ADDR + RAM_SIZE"
      using win(2) unfolding a by (simp only: load_ram_def if_False ram.simps)
    then show ?thesis using False by (simp add: platform_attach_def load_slot_def)
  qed
  moreover have "load_slot cfg < 16" by (simp add: load_slot_def)
  ultimately have "find_dev_for_addr (io_bus io) ?a = Some (load_slot cfg)"
    using machine_lookup [OF assms(1) same_map_refl [OF platform_start_ok [OF assms(1)]], of ?a] plat_slot_nth by simp
  with assms(2) show ?thesis by (simp add: ram_at_def)
qed

lemma first_fetch:
  assumes "mapped (st_ram_map env) RAM_SIZE" and "mapped (st_bootram_map env) BOOT_RAM_SIZE"
    and "st_file env (cf_rom_path cfg) = Some bs" and "image_fits cfg bs"
    and "cf_start_addr cfg = cf_load_addr cfg + of_nat i" and "i + 4 \<le> length bs"
  obtains s s' where "power_on cfg env = Some s"
    and "fetch s = Some (Inr (be32 (bs ! i) (bs ! (i + 1)) (bs ! (i + 2)) (bs ! (i + 3))), s')"
proof -
  let ?d = "load_ram cfg env" and ?a = "cf_start_addr cfg"
  obtain io where io: "platform_start cfg env = Some io" "io_dev io (load_slot cfg) = Some (DRam ?d)"
    "loadAtOffset (Some bs) (cf_load_addr cfg - r_base_address ?d) ?d (st_hmem env) = Some (io_hmem io)"
    using assms(1-4) by (rule platform_start_some)
  then obtain s where s: "power_on cfg env = Some s" "s_io s = io" by (simp add: power_on_def)
  note p = power_on_SomeD [OF s(1)]
  have map: "take_bit 12 (r_mmap_base ?d) = 0" "take_bit 12 (r_base_address ?d) = 0"
    "uint (r_mmap_base ?d) + uint (r_address_span ?d) \<le> 2 ^ 63"
    using assms(1,2) by (auto simp: load_ram_def mapped_def split: option.splits)
  have off: "offset_from_PA ?d ?a = cf_load_addr cfg - r_base_address ?d + of_nat i"
    by (simp add: offset_from_PA_def assms(5))
  have ram: "ram_at io ?a ?d" using image_in_ram [OF io(1,2) assms(4)] assms(5,6) by simp
  have "\<not> enabled True (s_mmu s)" "utlb_empty True (s_mmu s)"
    by (simp_all add: p(3) enabled_def PPCMMU_init_off mmu_inv_ops_empty)
  moreover have "IS_DIRECT (ram_direct_map ?d ?a)"
  proof (rule IS_DIRECT_low)
    have "uint (offset_from_PA ?d ?a) < uint (r_address_span ?d)"
      using image_offset [OF assms(4), of i env] assms(6) unfolding off by (simp add: word_less_def)
    moreover have "uint (ucast (offset_from_PA ?d ?a) :: u64) = uint (offset_from_PA ?d ?a)"
      by (rule uint_up_ucast) (simp add: is_up)
    ultimately show "uint (ram_direct_map ?d ?a) < 2 ^ 63"
      using map(3) uint_add_le [of "r_mmap_base ?d" "ucast (offset_from_PA ?d ?a)"]
      by (simp add: ram_direct_map_def)
  qed
  ultimately obtain m' io' where "loadInst32 ?a (isPrivileged (s_cpu s)) (s_mmu s, io) =
      Some (Inr (BS32 (ram_read32 ?d ?a (io_hmem io))), (m', io'))"
    using real_fetch_RAM [OF _ _ platform_start_ok [OF io(1)] ram map(1,2)] by blast
  moreover have "BS32 (ram_read32 ?d ?a (io_hmem io)) = be32 (bs ! i) (bs ! (i + 1)) (bs ! (i + 2)) (bs ! (i + 3))"
    using map(3) by (intro load_word [OF io(3) assms(6) _ off]) simp
  moreover have "getPC s = ?a" by (simp add: getPC_def p(2) set_initial_cpu_context_def)
  ultimately have "\<exists>s'. fetch s = Some (Inr (be32 (bs ! i) (bs ! (i + 1)) (bs ! (i + 2)) (bs ! (i + 3))), s')"
    by (simp add: fetch_def s(2))
  with s(1) that show thesis by blast
qed

subsection \<open>Shutdown\<close>

lemma main_fuel_run:
  assumes "machine_run decode cfg env s" and "main_fuel n decode (main_limit cfg) s = Some (Some s')"
  shows "machine_run decode cfg env s'"
  using assms
proof (induction n arbitrary: s)
  case (Suc n)
  then show ?case by (auto split: if_splits option.splits intro: M_round)
qed (auto split: if_splits)

lemma machine_devices:
  assumes io0: "platform_start cfg env = Some io0" "same_map io0 io"
  obtains ic ua where "io_dev io (plat_slot P_devram) = Some (DRam \<lparr>r_isROM = False,
      r_mmap_base = the (st_ram_map env), r_base_address = RAM_BASE_ADDR, r_address_span = RAM_SIZE\<rparr>)"
    and "io_dev io (plat_slot P_devintc) = Some (DIntc ic)" and "ic_cpus ic"
    and "io_dev io (plat_slot P_devuart) = Some (DSuart ua)" and "su_intc ua" and "su_irq_number ua = UART0_IRQ"
    and "su_serio ua \<noteq> None"
proof -
  have at: "platform_attach ! 0 = (P_devram, RAM_BASE_ADDR, RAM_SIZE)"
    "platform_attach ! 2 = (P_devuart, UART_BASE_ADDR, UART_SIZE)"
    "platform_attach ! 5 = (P_devintc, INTC_BASE_ADDR, INTC_SIZE)"
    by (simp_all add: platform_attach_def)
  obtain r b d where "ram_init (st_ram_map env) RAM_SIZE ram_new = Some r" "io_dev io 0 = Some d"
    "dev_kind d = dev_kind (dev_setProps RAM_BASE_ADDR RAM_SIZE (platform_device cfg env r b P_devram))"
    using machine_kinds [OF io0, of 0] unfolding at by auto
  moreover obtain r' b' u where "io_dev io 2 = Some u"
    "dev_kind u = dev_kind (dev_setProps UART_BASE_ADDR UART_SIZE (platform_device cfg env r' b' P_devuart))"
    using machine_kinds [OF io0, of 2] unfolding at by auto
  moreover obtain r'' b'' i where "io_dev io 5 = Some i"
    "dev_kind i = dev_kind (dev_setProps INTC_BASE_ADDR INTC_SIZE (platform_device cfg env r'' b'' P_devintc))"
    using machine_kinds [OF io0, of 5] unfolding at by auto
  ultimately show thesis
    using that dev_kindD(1) [of d] dev_kindD(3) [of u True True 0] dev_kindD(2) [of i True 0]
    by (auto simp: plat_slots ram_init_def ram_setProps_def ram_new_def suart_setIntc_def suart_init_def
        platform_irq_cpuclient_def suart_setSerIO_def split: option.splits)
qed

lemma machine_ram_intc_uart:
  assumes "machine_run decode cfg env s" and "decoder_keeps decode" and "starts_real cfg"
  obtains ic ua where "io_dev (s_io s) (plat_slot P_devram) = Some (DRam \<lparr>r_isROM = False,
      r_mmap_base = the (st_ram_map env), r_base_address = RAM_BASE_ADDR, r_address_span = RAM_SIZE\<rparr>)"
    and "io_dev (s_io s) (plat_slot P_devintc) = Some (DIntc ic)" and "ic_cpus ic"
    and "io_dev (s_io s) (plat_slot P_devuart) = Some (DSuart ua)" and "su_intc ua" and "su_irq_number ua = UART0_IRQ"
    and "su_serio ua \<noteq> None"
proof -
  obtain io0 where "platform_start cfg env = Some io0" "same_map io0 (s_io s)"
    using machine_run_ok [OF assms] by blast
  then show thesis using that by (rule machine_devices)
qed

subsection \<open>A small machine\<close>

text \<open>The default configuration with a limit and a path for the state, and an image of one word.\<close>

definition demo_options :: "(char \<times> string) list" where
  "demo_options = [(CHR ''l'', ''5''), (CHR ''x'', ''state'')]"

definition demo_config :: config where
  "demo_config = the (Config_setup demo_options Config_init)"

definition demo_startup :: startup where
  "demo_startup = \<lparr>st_ram_map = Some 0x7f0000000000, st_bootram_map = Some 0x7f0010000000, st_hmem = (\<lambda>_. 0),
     st_file = (\<lambda>p. if p = ''rom.bin'' then Some [0x12, 0x34, 0x56, 0x78] else None), st_fd = (\<lambda>i. i + 3),
     st_serial = \<lparr>ser_in = [], ser_out = []\<rparr>, st_save = Some \<lparr>sf_data = [], sf_pos = 0, sf_space = 0x3000000\<rparr>,
     st_stack = demo_sys (\<lambda>_. 0), st_host = quiet_host\<rparr>"

lemma demo_setup:
  "Config_setup demo_options Config_init =
     Some (Config_init\<lparr>cf_instr_limit := 5, cf_save_state_path := Some ''state'', cf_start_addr := 0\<rparr>)"
proof -
  have "strtoull ''5'' = 5"
    by (simp add: strtoull_def magnitude_def is_digit_def digit_val_def isspace_def tolower_def Let_def)
  then show ?thesis
    by (simp add: Config_setup_def setup_option_def demo_options_def) (simp add: Config_init_def)
qed

lemma demo_config_eq:
  "demo_config = Config_init\<lparr>cf_instr_limit := 5, cf_save_state_path := Some ''state'', cf_start_addr := 0\<rparr>"
  by (simp only: demo_config_def demo_setup option.sel)

lemma demo_starts:
  "mapped (st_ram_map demo_startup) RAM_SIZE" "mapped (st_bootram_map demo_startup) BOOT_RAM_SIZE"
  "st_file demo_startup (cf_rom_path demo_config) = Some [0x12, 0x34, 0x56, 0x78]"
  "image_fits demo_config [0x12, 0x34, 0x56, 0x78]" "starts_real demo_config"
  "cf_start_addr demo_config = cf_load_addr demo_config" "main_limit demo_config = 5"
  by (simp_all add: demo_config_eq demo_startup_def mapped_def image_fits_def starts_real_def
      Config_init_def main_limit_def)

lemma demo_powers_on: "\<exists>s. power_on demo_config demo_startup = Some s"
proof -
  obtain io where "platform_start demo_config demo_startup = Some io"
    using demo_starts(1-4) by (rule platform_start_some)
  then show ?thesis by (simp add: power_on_def)
qed

subsection \<open>Properties\<close>

text \<open>C5: The simulator boots.  When the two memories are mapped, the image fits and the start MSR has translation
  off, \<open>platform_init\<close> and \<open>main\<close> reach the loop in a state that satisfies the system invariant, and the
  first fetch, at a start address inside the image, yields the image's word there, most significant byte
  first.\<close>

theorem machine_boots:
  assumes "mapped (st_ram_map env) RAM_SIZE" and "mapped (st_bootram_map env) BOOT_RAM_SIZE"
    and "st_file env (cf_rom_path cfg) = Some bs" and "image_fits cfg bs" and "starts_real cfg"
    and "cf_start_addr cfg = cf_load_addr cfg + of_nat i" and "i + 4 \<le> length bs"
  shows "\<exists>s s'. power_on cfg env = Some s \<and> sys_ok s \<and> \<not> s_want_break s \<and>
    fetch s = Some (Inr (be32 (bs ! i) (bs ! (i + 1)) (bs ! (i + 2)) (bs ! (i + 3))), s')"
proof -
  obtain s s' where s: "power_on cfg env = Some s"
    and "fetch s = Some (Inr (be32 (bs ! i) (bs ! (i + 1)) (bs ! (i + 2)) (bs ! (i + 3))), s')"
    using assms(1-4,6,7) by (rule first_fetch)
  moreover have "sys_ok s" "\<not> s_want_break s" by (rule power_on_ok [OF s assms(5)], rule power_on_SomeD(4) [OF s])
  ultimately show ?thesis by blast
qed

theorem machine_boots_witness:
  "\<exists>s s'. power_on demo_config demo_startup = Some s \<and> sys_ok s \<and> fetch s = Some (Inr 0x12345678, s')"
  using machine_boots [of demo_startup demo_config "[0x12, 0x34, 0x56, 0x78]" 0] demo_starts
  by (auto simp: be32_def)

text \<open>C2: Every state of every run is sound.  From power-on, through any rounds of the main loop and any
  input at the console in between, the system invariant holds, an access to an address reaches the device
  that \<open>platform_init\<close> attached there and no other, and the main memory stays where it was mapped.\<close>

theorem machine_invariant:
  assumes "machine_run (\<lambda>w. exec_insn (dec w)) cfg env s" and "starts_real cfg"
  shows "sys_ok s \<and>
    map_option (\<lambda>(i, d, _). (i, fst (dev_kind d))) (io_get_dev a (s_io s)) =
      map_option (\<lambda>w. (plat_slot (fst w), fst (dev_kind (platform_device cfg env ram_new ram_new (fst w)))))
        (find (in_window a) platform_attach) \<and>
    io_dev (s_io s) (plat_slot P_devram) = Some (DRam \<lparr>r_isROM = False,
      r_mmap_base = the (st_ram_map env), r_base_address = RAM_BASE_ADDR, r_address_span = RAM_SIZE\<rparr>)"
proof -
  note run = machine_run_ok [OF assms(1) decoder_keeps_exec assms(2)]
  then obtain io0 where "platform_start cfg env = Some io0" "same_map io0 (s_io s)" by blast
  then have "map_option (\<lambda>(i, d, _). (i, fst (dev_kind d))) (io_get_dev a (s_io s)) =
      map_option (\<lambda>w. (plat_slot (fst w), fst (dev_kind (platform_device cfg env ram_new ram_new (fst w)))))
        (find (in_window a) platform_attach)"
    by (rule machine_routes)
  moreover have "io_dev (s_io s) (plat_slot P_devram) = Some (DRam \<lparr>r_isROM = False,
      r_mmap_base = the (st_ram_map env), r_base_address = RAM_BASE_ADDR, r_address_span = RAM_SIZE\<rparr>)"
    using machine_ram_intc_uart [OF assms(1) decoder_keeps_exec assms(2)] by blast
  ultimately show ?thesis using run by blast
qed

theorem machine_invariant_witness:
  "\<exists>s. machine_run (\<lambda>w. exec_insn (Special I_isync)) demo_config demo_startup s \<and> sys_ok s \<and>
     map_option (\<lambda>(i, d, _). (i, fst (dev_kind d))) (io_get_dev 0x82070010 (s_io s)) = Some (5, 1)"
proof -
  obtain s where s: "power_on demo_config demo_startup = Some s" using demo_powers_on by blast
  have "find (in_window 0x82070010) platform_attach = Some (P_devintc, 0x82070000, 0x200)" by code_simp
  moreover have run: "machine_run (\<lambda>w. exec_insn (Special I_isync)) demo_config demo_startup s"
    using s by (rule M_start)
  ultimately show ?thesis
    using machine_invariant [OF run demo_starts(5), of "0x82070010"] by (auto simp: plat_slots)
qed

text \<open>C6: A limited run ends and leaves its state behind.  With an instruction limit and a path for the state,
  after at most limit + 1 rounds either the simulator has aborted, or \<open>main\<close> is over, and the chunks
  of the file that it wrote give every register of the final CPU and MMU and every byte of the final main
  memory.\<close>

theorem simulation_ends:
  fixes dec :: "u32 \<Rightarrow> insn"
  assumes "Config_setup opts Config_init = Some cfg" and "power_on cfg env = Some s" and "starts_real cfg"
    and "main_limit cfg \<noteq> 0" and "cf_save_state_path cfg \<noteq> None"
    and "st_save env = Some f" and "sf_data f = []" and "0x2200000 \<le> sf_space f"
  defines "D \<equiv> \<lambda>w. exec_insn (dec w)"
  shows "\<exists>r. main_fuel (unat (main_limit cfg) + 1) D (main_limit cfg) s = Some r \<and>
    (case r of
       None \<Rightarrow> sim_main D opts env = None
     | Some s' \<Rightarrow> s_want_break s' \<and> (\<exists>regs f' cs.
         sim_main D opts env = Some (s', Some f') \<and>
         saved_regs (s_cpu s') (s_mmu s') (io_irqFlag (s_io s')) = Some regs \<and>
         read_chunks (sf_data f') = Some cs \<and> (\<forall>(n, v) \<in> set regs. read_reg cs n = Some v) \<and>
         (\<forall>k < unat RAM_SIZE. read_mem cs (unat RAM_BASE_ADDR + k) =
            io_hmem (s_io s') (the (st_ram_map env) + of_nat k))))"
proof -
  have "main_fuel (unat (main_limit cfg) + 1) D (main_limit cfg) s \<noteq> None"
    unfolding D_def using assms(4) power_on_ok [OF assms(2,3)] power_on_count [OF assms(2)]
    by (intro main_fuel_enough decoder_keeps_exec) auto
  then obtain r where r: "main_fuel (unat (main_limit cfg) + 1) D (main_limit cfg) s = Some r" by blast
  have loop: "main_loop D (main_limit cfg) s = r" using r by (rule main_fuel_loop)
  show ?thesis
  proof (cases r)
    case None
    then have "sim_main D opts env = None" using loop by (simp add: sim_main_def assms(1,2))
    with r None show ?thesis by auto
  next
    case (Some s')
    have "machine_run D cfg env s'"
      using main_fuel_run [OF M_start [OF assms(2)] r [unfolded Some]] .
    then obtain ic ua where dev: "io_dev (s_io s') (plat_slot P_devram) = Some (DRam \<lparr>r_isROM = False,
        r_mmap_base = the (st_ram_map env), r_base_address = RAM_BASE_ADDR, r_address_span = RAM_SIZE\<rparr>)"
      "io_dev (s_io s') (plat_slot P_devintc) = Some (DIntc ic)"
      "io_dev (s_io s') (plat_slot P_devuart) = Some (DSuart ua)"
      unfolding D_def by (rule machine_ram_intc_uart [OF _ decoder_keeps_exec assms(3)])
    let ?ram = "\<lparr>r_isROM = False, r_mmap_base = the (st_ram_map env), r_base_address = RAM_BASE_ADDR,
        r_address_span = RAM_SIZE\<rparr> :: ram"
    obtain regs devs f' cs where saved: "saved_regs (s_cpu s') (s_mmu s') (io_irqFlag (s_io s')) = Some regs"
      "sim_quit (Some f) (s_cpu s') (s_mmu s') (io_irqFlag (s_io s')) ?ram (io_hmem (s_io s')) False ic ua = Some (Some f')"
      "read_chunks (sf_data f') = Some cs" "\<forall>(n, v) \<in> set (regs @ devs). read_reg cs n = Some v"
      "\<forall>k < unat RAM_SIZE. read_mem cs (unat RAM_BASE_ADDR + k) = io_hmem (s_io s') (r_mmap_base ?ram + of_nat k)"
      using state_file_complete [OF assms(7,8), of "s_cpu s'" "s_mmu s'" "io_irqFlag (s_io s')" ic ua ?ram "io_hmem (s_io s')"]
      by blast
    have "sim_main D opts env = Some (s', Some f')"
      using loop assms(5,6) saved(2) by (auto simp: sim_main_def assms(1,2) Some platform_quit_def dev)
    moreover have "s_want_break s'" using main_fuel_stopped [OF r [unfolded Some]] .
    ultimately show ?thesis using r Some saved by auto
  qed
qed

theorem simulation_ends_witness:
  "\<exists>s. power_on demo_config demo_startup = Some s \<and>
     (\<exists>r. main_fuel 6 (\<lambda>w. exec_insn (Special I_isync)) 5 s = Some r \<and>
       (\<forall>s'. r = Some s' \<longrightarrow> (\<exists>f' cs.
          sim_main (\<lambda>w. exec_insn (Special I_isync)) demo_options demo_startup = Some (s', Some f') \<and>
          read_chunks (sf_data f') = Some cs \<and> read_mem cs 3 = io_hmem (s_io s') 0x7f0000000003)))"
proof -
  obtain s where s: "power_on demo_config demo_startup = Some s" using demo_powers_on by blast
  have opts: "Config_setup demo_options Config_init = Some demo_config" by (simp only: demo_config_def demo_setup option.sel)
  have cfg: "main_limit demo_config \<noteq> 0" "cf_save_state_path demo_config \<noteq> None"
    by (simp_all add: demo_starts(7)) (simp add: demo_config_eq)
  have save: "st_save demo_startup = Some \<lparr>sf_data = [], sf_pos = 0, sf_space = 0x3000000\<rparr>"
    by (simp add: demo_startup_def)
  obtain r where r: "main_fuel 6 (\<lambda>w. exec_insn (Special I_isync)) 5 s = Some r"
    and left: "case r of
       None \<Rightarrow> sim_main (\<lambda>w. exec_insn (Special I_isync)) demo_options demo_startup = None
     | Some s' \<Rightarrow> s_want_break s' \<and> (\<exists>regs f' cs.
         sim_main (\<lambda>w. exec_insn (Special I_isync)) demo_options demo_startup = Some (s', Some f') \<and>
         saved_regs (s_cpu s') (s_mmu s') (io_irqFlag (s_io s')) = Some regs \<and>
         read_chunks (sf_data f') = Some cs \<and> (\<forall>(n, v) \<in> set regs. read_reg cs n = Some v) \<and>
         (\<forall>k < unat RAM_SIZE. read_mem cs (unat RAM_BASE_ADDR + k) =
            io_hmem (s_io s') (the (st_ram_map demo_startup) + of_nat k)))"
    using simulation_ends [OF opts s demo_starts(5) cfg save _ _, of "\<lambda>_. Special I_isync"] by (auto simp: demo_starts(7))
  show ?thesis
    by (rule exI [of _ s], rule conjI [OF s], rule exI [of _ r], rule conjI [OF r])
      (use left in \<open>auto simp: demo_startup_def dest: spec [of _ 3]\<close>)
qed

end
