(* ===== verification/Machine_Irq.thy ===== *)
theory Machine_Irq
  imports Machine
begin

section \<open>From the console to the CPU\<close>

text \<open>
  How the parts of platform 3 work together when a key is pressed at the console: the back end's thread
  calls the UART, the UART raises its line at the interrupt controller, the controller sets the CPU's
  interrupt flag, the main loop takes the exception, and the handler reads which line it was and then the
  byte.  The lemmas rest on the soundness of the I/O state (\<open>io_sound\<close>), which every state of a run has,
  and on the wiring, which no access changes.
\<close>

subsection \<open>The interrupt controller is found\<close>

lemma io_soundD:
  assumes "io_sound io"
  shows "length (bus_devs (io_bus io)) = bus_entries"
    and "i < bus_entries \<Longrightarrow> io_dev io i = Some d \<Longrightarrow> dev_sound (io_irqFlag io) d"
  using assms unfolding io_sound_def by blast+

lemma find_intc:
  assumes "io_sound io" and "io_dev io k = Some (DIntc ic)" and "k < bus_entries"
  shows "find (\<lambda>i. is_intc (io_dev io i)) [0..<bus_entries] = Some k"
proof (rule find_upt_first [OF assms(3)])
  show k: "is_intc (io_dev io k)" by (simp add: assms(2) is_intc_def)
  show "\<forall>i<k. \<not> is_intc (io_dev io i)"
  proof (intro allI impI notI)
    fix i assume "i < k" "is_intc (io_dev io i)"
    moreover from \<open>i < k\<close> have "i < bus_entries" using assms(3) by simp
    ultimately have "i = k" using assms(1,3) k unfolding io_sound_def by blast
    with \<open>i < k\<close> show False by simp
  qed
qed

lemma io_dev_set_dev:
  "i < length (bus_devs (io_bus io)) \<Longrightarrow> io_dev (io_set_dev k d io) i = (if i = k then Some d else io_dev io i)"
  by (simp add: io_set_dev_def nth_list_update)

text \<open>Raising a line changes the controller and the flag only.\<close>

lemma io_triggerIRQ_intc:
  assumes "io_sound io" and "io_dev io k = Some (DIntc ic)" and "k < bus_entries"
  shows "io_triggerIRQ n io =
    (io_set_dev k (DIntc (fst (triggerIRQ n (ic, io_irqFlag io)))) io)\<lparr>io_irqFlag := snd (triggerIRQ n (ic, io_irqFlag io))\<rparr>"
  by (simp add: io_triggerIRQ_def find_intc [OF assms] assms(2) Let_def case_prod_beta)

lemma triggerIRQ_regs:
  "n < 32 \<Longrightarrow> ic_regs (fst (triggerIRQ n (ic, f))) = (ic_regs ic)(0 := ic_regs ic 0 OR push_bit n 1)"
  by (simp add: triggerIRQ_def Let_def)

subsection \<open>The UART's callback\<close>

lemma asyncRxCB_raises:
  assumes "suart_inv d"
  shows "snd (suart_asyncRxCB d) \<longleftrightarrow> bit (su_regs d (suart_reg SUART_REG_IRQ_ENABLE)) 0 \<and> \<not> suart_want d"
proof -
  have "suart_want (suart_rx_flags d) \<longleftrightarrow> bit (su_regs d 3) 0 \<or> suart_want d"
    by (auto simp: suart_want_def suart_rx_flags_def bit.conj_disj_distrib2 or_eq_0_iff one_and_eq bit_0 mod_2_eq_odd)
  then show ?thesis
    using assms by (auto simp: suart_asyncRxCB_def su.raised_iff suart_inv_def suart_rx_flags_def)
qed

lemma asyncRxCB_keeps:
  "su_serio (fst (suart_asyncRxCB d)) = su_serio d"
  "su_regs (fst (suart_asyncRxCB d)) (suart_reg SUART_REG_STATUS) = su_regs d (suart_reg SUART_REG_STATUS) OR 1"
  by (simp_all add: suart_asyncRxCB_def suart_assessIRQstatus_def suart_rx_flags_def Let_def)

subsection \<open>Input at the console\<close>

abbreviation typed :: "u8 list \<Rightarrow> suart \<Rightarrow> suart" where
  "typed bs u \<equiv> u\<lparr>su_serio := map_option (\<lambda>s. s\<lparr>ser_in := ser_in s @ bs\<rparr>) (su_serio u)\<rparr>"

lemma console_rx_devices:
  assumes sound: "io_sound io" and u: "io_dev io (plat_slot P_devuart) = Some (DSuart u)"
    and ic: "io_dev io (plat_slot P_devintc) = Some (DIntc ic)"
    and wired: "su_intc u" "su_irq_number u = UART0_IRQ"
  obtains ic' where "io_dev (console_rx bs io) (plat_slot P_devuart) = Some (DSuart (fst (suart_asyncRxCB (typed bs u))))"
    and "io_dev (console_rx bs io) (plat_slot P_devintc) = Some (DIntc ic')" and "ic_cpus ic' = ic_cpus ic"
    and "ic_regs ic' = (ic_regs ic)(0 := ic_regs ic 0 OR (if snd (suart_asyncRxCB (typed bs u)) then 1 else 0))"
proof -
  let ?u = "fst (suart_asyncRxCB (typed bs u))" and ?raised = "snd (suart_asyncRxCB (typed bs u))"
  let ?io = "io_set_dev (plat_slot P_devuart) (DSuart ?u) io"
  let ?tr = "triggerIRQ UART0_IRQ (ic, io_irqFlag io)"
  have len: "length (bus_devs (io_bus io)) = bus_entries" using sound by (rule io_soundD)
  have slots: "plat_slot P_devuart < bus_entries" "plat_slot P_devintc < bus_entries"
    "plat_slot P_devintc \<noteq> plat_slot P_devuart" by (simp_all add: plat_slots bus_entries_def)
  have w: "su_intc ?u = su_intc u" "su_irq_number ?u = su_irq_number u" "(su_serio ?u = None) = (su_serio u = None)"
    using suart_assess_wired [of "suart_rx_flags (typed bs u)" ?u] by (auto simp: suart_asyncRxCB_def suart_rx_flags_def prod_eq_iff)
  have dev: "io_dev ?io (plat_slot P_devuart) = Some (DSuart ?u)" "io_dev ?io (plat_slot P_devintc) = Some (DIntc ic)"
    using slots ic by (simp_all add: io_dev_set_dev len)
  have "io_sound (?io\<lparr>io_irqFlag := io_irqFlag io\<rparr>)"
    using suart_ops_inv(1) w by (intro io_sound_put [OF sound u slots(1)]) simp_all
  moreover have "?io\<lparr>io_irqFlag := io_irqFlag io\<rparr> = ?io" by (simp add: io_set_dev_def)
  ultimately have s: "io_sound ?io" by simp
  have len': "length (bus_devs (io_bus ?io)) = bus_entries" using s by (rule io_soundD)
  have flag: "io_irqFlag ?io = io_irqFlag io" by (simp add: io_set_dev_def)
  have eq: "console_rx bs io = (if ?raised then io_triggerIRQ UART0_IRQ ?io else ?io)"
    using u w(1,2) wired by (simp add: console_rx_def case_prod_beta Let_def)
  show thesis
  proof (cases ?raised)
    case True
    have "console_rx bs io = (io_set_dev (plat_slot P_devintc) (DIntc (fst ?tr)) ?io)\<lparr>io_irqFlag := snd ?tr\<rparr>"
      using True io_triggerIRQ_intc [OF s dev(2) slots(2)] by (simp only: eq flag if_True)
    then have "io_dev (console_rx bs io) (plat_slot P_devuart) = Some (DSuart ?u)"
      "io_dev (console_rx bs io) (plat_slot P_devintc) = Some (DIntc (fst ?tr))"
      using slots dev(1) by (simp_all add: io_dev_set_dev len')
    with True show thesis by (intro that [of "fst ?tr"]) (simp_all add: triggerIRQ_regs intc_cpus_kept(2))
  next
    case False
    with dev eq show thesis by (intro that [of ic]) simp_all
  qed
qed

lemma machine_get:
  assumes "platform_start cfg env = Some io0" and "same_map io0 io"
    and "find (in_window a) platform_attach = Some (p, w)" and "io_dev io (plat_slot p) = Some d"
  shows "io_get_dev a io = Some (plat_slot p, d, io\<lparr>io_bus := io_bus io\<lparr>bus_last_dev := plat_slot p\<rparr>\<rparr>)"
proof -
  have "io_ok io" using same_map_ok [OF assms(2) platform_start_ok [OF assms(1)]] .
  moreover obtain d' io' where g: "io_get_dev a io = Some (plat_slot p, d', io')"
    using machine_routes [OF assms(1,2), of a] assms(3) by auto
  ultimately show ?thesis using io_get_dev_SomeD(3,4) [OF g] assms(4) by (simp add: io_ok_def)
qed

text \<open>What the handler reads: the line, that there is input, and the oldest byte.\<close>

lemma machine_windows_irq:
  "find (in_window (INTC_BASE_ADDR + XPSINTC_REG_IVR)) platform_attach = Some (P_devintc, INTC_BASE_ADDR, INTC_SIZE)"
  "find (in_window (INTC_BASE_ADDR + XPSINTC_REG_IER)) platform_attach = Some (P_devintc, INTC_BASE_ADDR, INTC_SIZE)"
  "find (in_window (UART_BASE_ADDR + SUART_REG_STATUS)) platform_attach = Some (P_devuart, UART_BASE_ADDR, UART_SIZE)"
  "find (in_window (UART_BASE_ADDR + SUART_REG_RX)) platform_attach = Some (P_devuart, UART_BASE_ADDR, UART_SIZE)"
  "find (in_window (UART_BASE_ADDR + SUART_REG_IRQ_ENABLE)) platform_attach = Some (P_devuart, UART_BASE_ADDR, UART_SIZE)"
  by code_simp+

lemma read_ivr_line0:
  "bit (getActive ic) 0 \<Longrightarrow> intc_read32 ic (INTC_BASE_ADDR + XPSINTC_REG_IVR) = Some 0"
  by (simp add: intc_read32_def Let_def upt_rec [of 0] and_one_eq bit_0 mod_2_eq_odd)

lemma read_status:
  "suart_read8 (UART_BASE_ADDR + SUART_REG_STATUS) u =
     Some (su_regs u (suart_reg SUART_REG_STATUS), suart_assessIRQstatus u)"
  by (simp add: suart_read8_def Let_def case_prod_beta)

lemma read_rx:
  "su_serio u = Some ser \<Longrightarrow> ser_in ser \<noteq> [] \<Longrightarrow>
     \<exists>u' r. suart_read8 (UART_BASE_ADDR + SUART_REG_RX) u = Some (hd (ser_in ser), u', r)"
  by (cases "ser_in ser") (simp_all add: suart_read8_def suart_getByte_def getByte_def Let_def case_prod_beta)

subsection \<open>The property\<close>

text \<open>C3: A key press interrupts the CPU and is read. In every state of every run the CPU's interrupt flag is set
  exactly when the controller has an enabled line raised.  When the guest has enabled the console's
  interrupt at the UART and at the controller, has handled the previous one and runs with EE set, then bytes
  that arrive at the console make the CPU take the external interrupt, with the interrupted PC and the MSR
  saved; the handler then reads line 0, the console's, from IVR, input available from the UART's status,
  and from its data register the oldest byte not yet read.\<close>

theorem console_interrupt:
  assumes "machine_run decode cfg env s" and "decoder_keeps decode" and "starts_real cfg"
    and u: "io_dev (s_io s) (plat_slot P_devuart) = Some (DSuart u)"
    and ic: "io_dev (s_io s) (plat_slot P_devintc) = Some (DIntc ic)"
    and enabled: "bit (su_regs u (suart_reg SUART_REG_IRQ_ENABLE)) 0" "bit (ic_regs ic (intc_reg XPSINTC_REG_IER)) UART0_IRQ"
    and "\<not> suart_want u" and "bit (c_msr (s_cpu s)) 15" and "bs \<noteq> []"
  defines "t \<equiv> deliver_pending (s\<lparr>s_io := console_rx bs (s_io s)\<rparr>)"
  shows "(io_irqFlag (s_io s) \<longleftrightarrow> getActive ic \<noteq> 0) \<and>
    c_pc (s_cpu t) = (if bit (c_msr (s_cpu s)) 6 then 0xfff00000 else 0) + 0x500 \<and>
    c_srr0 (s_cpu t) = c_pc (s_cpu s) AND NOT 3 \<and> c_srr1 (s_cpu t) = c_msr (s_cpu s) \<and>
    map_option fst (bus_read32 (INTC_BASE_ADDR + XPSINTC_REG_IVR) (s_io t)) = Some (of_nat UART0_IRQ) \<and>
    (\<exists>v. map_option fst (bus_read8 (UART_BASE_ADDR + SUART_REG_STATUS) (s_io t)) = Some v \<and> bit v 0) \<and>
    (\<exists>ser. su_serio u = Some ser \<and>
       map_option fst (bus_read8 (UART_BASE_ADDR + SUART_REG_RX) (s_io t)) = Some (hd (ser_in ser @ bs)))"
proof -
  let ?io = "console_rx bs (s_io s)" and ?u = "fst (suart_asyncRxCB (typed bs u))"
  obtain io0 where io0: "platform_start cfg env = Some io0" "same_map io0 (s_io s)" and ok: "sys_ok s"
    using machine_run_ok [OF assms(1-3)] by blast
  have sm: "same_map (s_io s) ?io" using sys_okD(5) [OF ok] by (rule console_rx_same_map)
  note map = same_map_trans [OF io0(2) sm] and sound = machine_run_sound [OF assms(1-3)]
  have sound': "io_sound ?io" using sm sound by (simp add: same_map_def)
  have slots: "plat_slot P_devuart < bus_entries" "plat_slot P_devintc < bus_entries"
    by (simp_all add: plat_slots bus_entries_def)
  obtain ic0 u0 where "io_dev (s_io s) (plat_slot P_devintc) = Some (DIntc ic0)" "ic_cpus ic0"
    "io_dev (s_io s) (plat_slot P_devuart) = Some (DSuart u0)" "su_intc u0" "su_irq_number u0 = UART0_IRQ" "su_serio u0 \<noteq> None"
    by (rule machine_ram_intc_uart [OF assms(1-3)])
  then have wired: "ic_cpus ic" "su_intc u" "su_irq_number u = UART0_IRQ" and some: "su_serio u \<noteq> None"
    using u ic by simp_all
  obtain ser where ser: "su_serio u = Some ser" using some by blast
  have inv: "intc_inv (ic, io_irqFlag (s_io s))" "suart_inv u"
    using io_soundD(2) [OF sound slots(2) ic] io_soundD(2) [OF sound slots(1) u] by simp_all
  obtain ic' where dev: "io_dev ?io (plat_slot P_devuart) = Some (DSuart ?u)" "io_dev ?io (plat_slot P_devintc) = Some (DIntc ic')"
    and ic': "ic_cpus ic'" "ic_regs ic' = (ic_regs ic)(0 := ic_regs ic 0 OR (if snd (suart_asyncRxCB (typed bs u)) then 1 else 0))"
    by (rule console_rx_devices [OF sound u ic wired(2,3), of bs]) (use wired(1) in simp)
  have "suart_inv (typed bs u)" using inv(2) by (simp add: suart_inv_def suart_want_def)
  then have "snd (suart_asyncRxCB (typed bs u))"
    using enabled(1) assms(8) by (simp add: asyncRxCB_raises suart_want_def)
  then have line: "bit (getActive ic') 0" using enabled(2) by (simp add: ic'(2) getActive_def bit_simps)
  have "intc_inv (ic', io_irqFlag ?io)" using io_soundD(2) [OF sound' slots(2) dev(2)] by simp
  then have "io_irqFlag ?io" using line ic'(1) by (auto simp: intc_inv_def)
  then have t: "t = s\<lparr>s_io := ?io, s_cpu := (s_cpu s)\<lparr>c_srr0 := c_pc (s_cpu s) AND NOT 3, c_srr1 := c_msr (s_cpu s),
      c_msr := c_msr (s_cpu s) AND MSR_IP, c_pc := (if bit (c_msr (s_cpu s)) 6 then 0xfff00000 else 0) + 0x500\<rparr>,
      s_mmu := setIRDR False False (s_mmu s)\<rparr>"
    using assms(9) by (simp add: t_def deliver_pending_eq)
  have ivr: "map_option fst (bus_read32 (INTC_BASE_ADDR + XPSINTC_REG_IVR) ?io) = Some (of_nat UART0_IRQ)"
    unfolding bus_read32_def machine_get [OF io0(1) map machine_windows_irq(1) dev(2)]
    using read_ivr_line0 [OF line] by simp
  have serio: "su_serio ?u = Some (ser\<lparr>ser_in := ser_in ser @ bs\<rparr>)" by (simp only: asyncRxCB_keeps(1)) (simp add: ser)
  have "map_option fst (bus_read8 (UART_BASE_ADDR + SUART_REG_STATUS) ?io) =
      Some (su_regs ?u (suart_reg SUART_REG_STATUS))"
    unfolding bus_read8_def machine_get [OF io0(1) map machine_windows_irq(3) dev(1)]
    using read_status [of ?u] by (simp add: case_prod_beta)
  moreover have "bit (su_regs ?u (suart_reg SUART_REG_STATUS)) 0"
    by (simp only: asyncRxCB_keeps(2)) (simp add: bit_simps)
  ultimately have status: "\<exists>v. map_option fst (bus_read8 (UART_BASE_ADDR + SUART_REG_STATUS) ?io) = Some v \<and> bit v 0"
    by blast
  obtain u' r where "suart_read8 (UART_BASE_ADDR + SUART_REG_RX) ?u = Some (hd (ser_in ser @ bs), u', r)"
    using read_rx [OF serio] assms(10) by auto
  then have rx: "map_option fst (bus_read8 (UART_BASE_ADDR + SUART_REG_RX) ?io) = Some (hd (ser_in ser @ bs))"
    unfolding bus_read8_def machine_get [OF io0(1) map machine_windows_irq(4) dev(1)] by (simp add: case_prod_beta)
  have "io_irqFlag (s_io s) \<longleftrightarrow> getActive ic \<noteq> 0" using inv(1) wired(1) by (simp add: intc_inv_def)
  then show ?thesis using ivr status rx ser by (simp add: t)
qed

subsection \<open>A guest that uses the console\<close>

text \<open>A decoder whose only instruction does what a guest's start-up code does: clear what is pending, enable the console's
  interrupt at the UART and at the controller, start the decrementer and set EE.\<close>

definition enable_console :: "u32 \<Rightarrow> sys \<Rightarrow> sys option" where
  "enable_console inst s = do {
     io \<leftarrow> bus_write8 (UART_BASE_ADDR + SUART_REG_IRQ_STATUS) 0xff (s_io s);
     io \<leftarrow> bus_write8 (UART_BASE_ADDR + SUART_REG_IRQ_ENABLE) 1 io;
     io \<leftarrow> bus_write32 (INTC_BASE_ADDR + XPSINTC_REG_IAR) 0xffffffff io;
     io \<leftarrow> bus_write32 (INTC_BASE_ADDR + XPSINTC_REG_IER) 1 io;
     Some (s\<lparr>s_io := io, s_cpu := (s_cpu s)\<lparr>c_msr := c_msr (s_cpu s) OR 0x8000, c_dec := 0x7fffffff\<rparr>\<rparr>) }"

lemma enable_console_keeps: "decoder_keeps enable_console"
  unfolding decoder_keeps_def
proof (intro allI impI)
  fix inst s s' assume e: "enable_console inst s = Some s'" and ok: "sys_ok s"
  then obtain io1 io2 io3 io4 where w: "bus_write8 (UART_BASE_ADDR + SUART_REG_IRQ_STATUS) 0xff (s_io s) = Some io1"
    "bus_write8 (UART_BASE_ADDR + SUART_REG_IRQ_ENABLE) 1 io1 = Some io2"
    "bus_write32 (INTC_BASE_ADDR + XPSINTC_REG_IAR) 0xffffffff io2 = Some io3"
    "bus_write32 (INTC_BASE_ADDR + XPSINTC_REG_IER) 1 io3 = Some io4"
    and s': "s' = s\<lparr>s_io := io4, s_cpu := (s_cpu s)\<lparr>c_msr := c_msr (s_cpu s) OR 0x8000, c_dec := 0x7fffffff\<rparr>\<rparr>"
    unfolding enable_console_def by (elim bind_SomeE) blast
  have io: "io_ok (s_io s)" using ok by (rule sys_okD)
  note m1 = bus_write8_same_map [OF w(1) io]
  note m2 = same_map_trans [OF m1 bus_write8_same_map [OF w(2) same_map_ok [OF m1 io]]]
  note m3 = same_map_trans [OF m2 bus_write32_same_map [OF w(3) same_map_ok [OF m2 io]]]
  note m4 = same_map_trans [OF m3 bus_write32_same_map [OF w(4) same_map_ok [OF m3 io]]]
  have "sys_ok (s\<lparr>s_io := io4\<rparr>)" using m4 ok by (rule sys_ok_same_map)
  then have "sys_ok s'" by (simp add: s' sys_ok_def mmu_sync_def xer_wf_def bit_simps)
  with m4 show "sys_ok s' \<and> same_map (s_io s) (s_io s') \<and> c_inst_count (s_cpu s') = c_inst_count (s_cpu s)"
    by (simp add: s')
qed

text \<open>Writes to the two devices that raise nothing.\<close>

lemma uart_write_quiet:
  assumes "platform_start cfg env = Some io0" and "same_map io0 io"
    and "find (in_window a) platform_attach = Some (P_devuart, w)" and u: "io_dev io (plat_slot P_devuart) = Some (DSuart u)"
    and "suart_write8 a v u = Some (u', False)"
  obtains io' where "bus_write8 a v io = Some io'" and "same_map io0 io'"
    and "io_dev io' (plat_slot P_devuart) = Some (DSuart u')" and "io_dev io' (plat_slot P_devintc) = io_dev io (plat_slot P_devintc)"
proof -
  have ok: "io_ok io" using same_map_ok [OF assms(2) platform_start_ok [OF assms(1)]] .
  note g = machine_get [OF assms(1-4)]
  have len: "length (bus_devs (io_bus io)) = bus_entries" using ok by (simp add: io_ok_def bus_wf_def)
  obtain io' where w: "bus_write8 a v io = Some io'"
    and io': "io' = io_set_dev (plat_slot P_devuart) (DSuart u') (io\<lparr>io_bus := io_bus io\<lparr>bus_last_dev := plat_slot P_devuart\<rparr>\<rparr>)"
    unfolding bus_write8_def g using assms(5) by (simp add: io_set_dev_def)
  show thesis
  proof (rule that [OF w same_map_trans [OF assms(2) bus_write8_same_map [OF w ok]]])
    show "io_dev io' (plat_slot P_devuart) = Some (DSuart u')" "io_dev io' (plat_slot P_devintc) = io_dev io (plat_slot P_devintc)"
      by (simp_all add: io' io_set_dev_def nth_list_update len plat_slots bus_entries_def)
  qed
qed

lemma intc_write_dev:
  assumes "platform_start cfg env = Some io0" and "same_map io0 io"
    and "find (in_window a) platform_attach = Some (P_devintc, w)" and ic: "io_dev io (plat_slot P_devintc) = Some (DIntc ic)"
  obtains io' ic' f where "bus_write32 a v io = Some io'" and "same_map io0 io'"
    and "intc_write32 a v (ic, io_irqFlag io) = Some (ic', f)"
    and "io_dev io' (plat_slot P_devintc) = Some (DIntc ic')" and "io_dev io' (plat_slot P_devuart) = io_dev io (plat_slot P_devuart)"
proof -
  have ok: "io_ok io" using same_map_ok [OF assms(2) platform_start_ok [OF assms(1)]] .
  note g = machine_get [OF assms(1-4)]
  have len: "length (bus_devs (io_bus io)) = bus_entries" using ok by (simp add: io_ok_def bus_wf_def)
  obtain ic' f where iw: "intc_write32 a v (ic, io_irqFlag io) = Some (ic', f)"
    using intc_never_fatal(2) [of a v "(ic, io_irqFlag io)"] by fastforce
  obtain io' where w: "bus_write32 a v io = Some io'"
    and io': "io_bus io' = io_bus (io_set_dev (plat_slot P_devintc) (DIntc ic') (io\<lparr>io_bus := io_bus io\<lparr>bus_last_dev := plat_slot P_devintc\<rparr>\<rparr>))"
    unfolding bus_write32_def g using iw by (simp add: io_set_dev_def)
  show thesis
  proof (rule that [OF w same_map_trans [OF assms(2) bus_write32_same_map [OF w ok]] iw])
    show "io_dev io' (plat_slot P_devintc) = Some (DIntc ic')" "io_dev io' (plat_slot P_devuart) = io_dev io (plat_slot P_devuart)"
      unfolding io' by (simp_all add: io_set_dev_def nth_list_update len plat_slots bus_entries_def)
  qed
qed

text \<open>What the writes leave in the devices.\<close>

lemma enable_console_devices:
  assumes io0: "platform_start cfg env = Some io0" and "same_map io0 (s_io s)"
  obtains io u ic where "enable_console inst s =
      Some (s\<lparr>s_io := io, s_cpu := (s_cpu s)\<lparr>c_msr := c_msr (s_cpu s) OR 0x8000, c_dec := 0x7fffffff\<rparr>\<rparr>)"
    and "io_dev io (plat_slot P_devuart) = Some (DSuart u)" and "io_dev io (plat_slot P_devintc) = Some (DIntc ic)"
    and "bit (su_regs u (suart_reg SUART_REG_IRQ_ENABLE)) 0" and "bit (ic_regs ic (intc_reg XPSINTC_REG_IER)) UART0_IRQ"
    and "\<not> suart_want u" and "\<not> io_irqFlag io"
proof -
  obtain ic0 u0 where d0: "io_dev (s_io s) (plat_slot P_devintc) = Some (DIntc ic0)"
    "io_dev (s_io s) (plat_slot P_devuart) = Some (DSuart u0)" by (rule machine_devices [OF assms])
  have none: "(- 256 :: u8) = 0" "(- 4294967296 :: u32) = 0" by code_simp+
  have "\<exists>u1. suart_write8 (UART_BASE_ADDR + SUART_REG_IRQ_STATUS) 0xff u0 = Some (u1, False) \<and> su_regs u1 2 = 0"
    by (simp add: none suart_write8_def Let_def suart_assessIRQstatus_def suart_want_def)
  then obtain u1 where u1: "suart_write8 (UART_BASE_ADDR + SUART_REG_IRQ_STATUS) 0xff u0 = Some (u1, False)" "su_regs u1 2 = 0"
    by blast
  have "\<exists>u2. suart_write8 (UART_BASE_ADDR + SUART_REG_IRQ_ENABLE) 1 u1 = Some (u2, False) \<and> su_regs u2 2 = 0 \<and> su_regs u2 3 = 1"
    using u1(2) by (simp add: suart_write8_def Let_def suart_assessIRQstatus_def suart_want_def)
  then obtain u2 where u2: "suart_write8 (UART_BASE_ADDR + SUART_REG_IRQ_ENABLE) 1 u1 = Some (u2, False)"
    "su_regs u2 2 = 0" "su_regs u2 3 = 1" by blast
  have win: "find (in_window (UART_BASE_ADDR + SUART_REG_IRQ_STATUS)) platform_attach = Some (P_devuart, UART_BASE_ADDR, UART_SIZE)"
    "find (in_window (INTC_BASE_ADDR + XPSINTC_REG_IAR)) platform_attach = Some (P_devintc, INTC_BASE_ADDR, INTC_SIZE)"
    by code_simp+
  obtain io1 where w1: "bus_write8 (UART_BASE_ADDR + SUART_REG_IRQ_STATUS) 0xff (s_io s) = Some io1" "same_map io0 io1"
    "io_dev io1 (plat_slot P_devuart) = Some (DSuart u1)" "io_dev io1 (plat_slot P_devintc) = Some (DIntc ic0)"
    by (rule uart_write_quiet [OF assms win(1) d0(2) u1(1)]) (use d0(1) in simp)
  obtain io2 where w2: "bus_write8 (UART_BASE_ADDR + SUART_REG_IRQ_ENABLE) 1 io1 = Some io2" "same_map io0 io2"
    "io_dev io2 (plat_slot P_devuart) = Some (DSuart u2)" "io_dev io2 (plat_slot P_devintc) = Some (DIntc ic0)"
    by (rule uart_write_quiet [OF io0 w1(2) machine_windows_irq(5) w1(3) u2(1)]) (use w1(4) in simp)
  obtain io3 ic1 f1 where w3: "bus_write32 (INTC_BASE_ADDR + XPSINTC_REG_IAR) 0xffffffff io2 = Some io3" "same_map io0 io3"
    "intc_write32 (INTC_BASE_ADDR + XPSINTC_REG_IAR) 0xffffffff (ic0, io_irqFlag io2) = Some (ic1, f1)"
    "io_dev io3 (plat_slot P_devintc) = Some (DIntc ic1)" "io_dev io3 (plat_slot P_devuart) = Some (DSuart u2)"
    by (rule intc_write_dev [OF io0 w2(2) win(2) w2(4)]) (use w2(3) in simp)
  obtain io4 ic2 f2 where w4: "bus_write32 (INTC_BASE_ADDR + XPSINTC_REG_IER) 1 io3 = Some io4" "same_map io0 io4"
    "intc_write32 (INTC_BASE_ADDR + XPSINTC_REG_IER) 1 (ic1, io_irqFlag io3) = Some (ic2, f2)"
    "io_dev io4 (plat_slot P_devintc) = Some (DIntc ic2)" "io_dev io4 (plat_slot P_devuart) = Some (DSuart u2)"
    by (rule intc_write_dev [OF io0 w3(2) machine_windows_irq(2) w3(4)]) (use w3(5) in simp)
  have "ic_regs ic1 0 = 0"
    using arg_cong [OF w3(3), of "\<lambda>x. ic_regs (fst (the x)) 0"] none by (simp add: intc_write32_def Let_def)
  then have regs: "ic_regs ic2 0 = 0" "ic_regs ic2 2 = 1"
    using arg_cong [OF w4(3) [symmetric], of "\<lambda>x. ic_regs (fst (the x))"] by (simp_all add: intc_write32_def Let_def fun_eq_iff)
  have "io_sound io4" using w4(2) platform_start_sound [OF io0] by (simp add: same_map_def)
  then have "intc_inv (ic2, io_irqFlag io4)"
    using io_soundD(2) [OF _ _ w4(4)] by (simp add: plat_slots bus_entries_def)
  moreover have "ic_cpus ic2" using machine_devices [OF io0 w4(2)] w4(4) by (metis device.inject(2) option.inject)
  ultimately have "\<not> io_irqFlag io4" using regs by (simp add: intc_inv_def getActive_def)
  with w1(1) w2(1) w3(1) w4 u2 regs show thesis
    by (intro that [of io4 u2 ic2]) (simp_all add: enable_console_def suart_want_def)
qed

lemma check_limit_form:
  obtains b where "check_limit l s = s\<lparr>s_want_break := b\<rparr>"
proof (cases "check_limit l s = s")
  case True
  then show thesis using that [of "s_want_break s"] by simp
next
  case False
  then show thesis using that [of True] by (auto simp: check_limit_def split: if_splits)
qed

lemma console_ready:
  assumes "power_on cfg env = Some s" and "starts_real cfg" and "fetch s = Some (Inr inst, s1)"
  obtains t u ic where "main_step enable_console l s = Some t"
    and "io_dev (s_io t) (plat_slot P_devuart) = Some (DSuart u)" and "io_dev (s_io t) (plat_slot P_devintc) = Some (DIntc ic)"
    and "bit (su_regs u (suart_reg SUART_REG_IRQ_ENABLE)) 0" and "bit (ic_regs ic (intc_reg XPSINTC_REG_IER)) UART0_IRQ"
    and "\<not> suart_want u" and "bit (c_msr (s_cpu t)) 15"
proof -
  note p = power_on_SomeD [OF assms(1)] and f = fetch_ok [OF assms(3) power_on_ok [OF assms(1,2)]]
  obtain io u ic where e: "enable_console inst (s1\<lparr>s_inst := inst\<rparr>) =
      Some (s1\<lparr>s_inst := inst, s_io := io, s_cpu := (s_cpu s1)\<lparr>c_msr := c_msr (s_cpu s1) OR 0x8000, c_dec := 0x7fffffff\<rparr>\<rparr>)"
    and dev: "io_dev io (plat_slot P_devuart) = Some (DSuart u)" "io_dev io (plat_slot P_devintc) = Some (DIntc ic)"
    "bit (su_regs u (suart_reg SUART_REG_IRQ_ENABLE)) 0" "bit (ic_regs ic (intc_reg XPSINTC_REG_IER)) UART0_IRQ"
    "\<not> suart_want u" "\<not> io_irqFlag io"
    using enable_console_devices [OF p(1), of "s1\<lparr>s_inst := inst\<rparr>" inst] f(4) by auto
  let ?x = "s1\<lparr>s_inst := inst, s_io := io, s_cpu := (s_cpu s1)\<lparr>c_msr := c_msr (s_cpu s1) OR 0x8000, c_dec := 0x7fffffff\<rparr>\<rparr>"
  have ex: "execute enable_console s = Some ?x" by (subst execute.simps) (simp add: assms(3) e)
  have cpu: "c_tb (s_cpu s1) = 0" "c_inst_count (s_cpu s1) = 0"
    by (simp_all add: f(3) p(2) set_initial_cpu_context_def cpu_new_def PPCCPUState_init_def)
  let ?y = "upd_cpu (CPUTick 1) ?x"
  have "deliver_pending ?y = ?y"
    using dev(6) cpu by (simp add: deliver_pending_eq upd_cpu_def CPUTick_def Let_def TB_SHIFT_def)
  moreover obtain b where "check_limit l ?y = ?y\<lparr>s_want_break := b\<rparr>" by (rule check_limit_form)
  moreover have "c_inst_count (s_cpu ?y) = 1" using cpu by (simp add: upd_cpu_def CPUTick_def Let_def)
  moreover have "platform_poll_periodic 1 io = Some io"
    by (simp add: platform_poll_periodic_def LCDC0_POLL_PERIOD_MASK_def)
  moreover have "s_io ?y = io" by (simp add: upd_cpu_def)
  ultimately have "main_step enable_console l s = Some (?y\<lparr>s_want_break := b, s_io := io\<rparr>)"
    unfolding main_step_def ex by (simp only: Let_def bind.bind_lunit) (simp del: upd_cpu_def)
  with dev show thesis by (intro that) (auto simp: upd_cpu_def CPUTick_def Let_def bit_simps)
qed

theorem console_interrupt_witness:
  "\<exists>s. machine_run enable_console demo_config demo_startup s \<and>
     (let t = deliver_pending (s\<lparr>s_io := console_rx [0x41] (s_io s)\<rparr>)
      in c_pc (s_cpu t) AND 0xfff = 0x500 \<and> map_option fst (bus_read32 0x82070018 (s_io t)) = Some 0)"
proof -
  obtain s s1 inst where s: "power_on demo_config demo_startup = Some s" "fetch s = Some (Inr inst, s1)"
    by (rule first_fetch [OF demo_starts(1-4), of 0]) (simp_all add: demo_starts(6))
  obtain t u ic where t: "main_step enable_console (main_limit demo_config) s = Some t"
    and ready: "io_dev (s_io t) (plat_slot P_devuart) = Some (DSuart u)" "io_dev (s_io t) (plat_slot P_devintc) = Some (DIntc ic)"
    "bit (su_regs u (suart_reg SUART_REG_IRQ_ENABLE)) 0" "bit (ic_regs ic (intc_reg XPSINTC_REG_IER)) UART0_IRQ"
    "\<not> suart_want u" "bit (c_msr (s_cpu t)) 15"
    using s(1) demo_starts(5) s(2) by (rule console_ready)
  have run: "machine_run enable_console demo_config demo_startup t"
    using M_start [OF s(1)] power_on_SomeD(4) [OF s(1)] t by (rule M_round)
  note c = console_interrupt [OF run enable_console_keeps demo_starts(5) ready, of "[0x41]"]
  show ?thesis by (rule exI [of _ t]) (use run c in \<open>simp add: Let_def\<close>)
qed

end
