(* ===== verification/Console_Text.thy ===== *)
theory Console_Text
  imports C_Strings CPU_State
begin

section \<open>Texts of the status replies: \<open>render_mr\<close>, \<open>stats.cc\<close> and \<open>snprintf\<close>\<close>

text \<open>
  The management console answers with texts that \<open>snprintf\<close> writes into one buffer, piece after
  piece.  The buffer is a list of characters; a write that does not lie in it is \<open>None\<close>.  A piece is written at
  \<open>p\<close> with room \<open>s\<close>, a \<open>size_t\<close>: \<open>snprintf\<close> cuts the text to the room but returns its full
  length, and the code moves \<open>p\<close> and \<open>s\<close> by what is returned.

  The performance counters are generated at build time: a list of their names and values in the order of
  \<open>stats_counter_defs.h\<close>.

  The replies are lists of a name, a space, a value, a comma and a space.  \<open>read_pairs\<close>, what a client
  does, is the specification, and the lemmas show that it gives back the names and the values.
\<close>

definition NL :: char where [simp]: "NL = CHR 0x0A"
definition NUL :: char where [simp]: "NUL = CHR 0x00"

definition c_str :: "string \<Rightarrow> string" where
  "c_str s = takeWhile (\<lambda>c. c \<noteq> CHR 0x00) s"

subsection \<open>Writing into a buffer\<close>

type_synonym outbuf = "string \<times> nat \<times> u64"

definition put_at :: "nat \<Rightarrow> string \<Rightarrow> string \<Rightarrow> string option" where
  "put_at p t buf =
     (if p + length t \<le> length buf then Some (take p buf @ t @ drop (p + length t) buf) else None)"

text \<open>\<open>r = snprintf(p, s, ...); s -= r; p += r;\<close>\<close>

definition snprintf :: "string \<Rightarrow> outbuf \<Rightarrow> outbuf option" where
  "snprintf t = (\<lambda>(buf, p, s). do {
     buf \<leftarrow> (if s = 0 then Some buf else put_at p (take (unat s - 1) t @ [NUL]) buf);
     Some (buf, p + length t, s - of_nat (length t)) })"

fun snprintf_all :: "string list \<Rightarrow> outbuf \<Rightarrow> outbuf option" where
  "snprintf_all [] b = Some b"
| "snprintf_all (t # ts) b = do { b \<leftarrow> snprintf t b; snprintf_all ts b }"

definition end_line :: "nat \<Rightarrow> outbuf \<Rightarrow> string option" where
  "end_line len = (\<lambda>(buf, p, s). put_at (if s \<le> 1 then len - 2 else p) [NL, NUL] buf)"

subsection \<open>Formats\<close>

definition hex_digit :: "nat \<Rightarrow> char" where
  "hex_digit d = char_of (if d < 10 then 48 + d else 87 + d)"

text \<open>\<open>%0nx\<close> of a value below \<open>16^n\<close>, and \<open>%lld\<close>.\<close>

primrec hexs :: "nat \<Rightarrow> nat \<Rightarrow> string" where
  "hexs 0 v = []"
| "hexs (Suc n) v = hexs n (v div 16) @ [hex_digit (v mod 16)]"

definition sdecimal :: "u64 \<Rightarrow> string" where
  "sdecimal v = (if sint v < 0 then CHR ''-'' # decimal (nat (- sint v)) else decimal (nat (sint v)))"

definition pair_text :: "string \<times> string \<Rightarrow> string" where
  "pair_text kv = fst kv @ '' '' @ snd kv @ '', ''"

definition gpr_name :: "nat \<Rightarrow> string" where
  "gpr_name i = ''r'' @ [char_of (48 + i div 10), char_of (48 + i mod 10)]"

definition spr_pairs :: "cpu \<Rightarrow> (string \<times> string) list" where
  "spr_pairs c =
     [(''ICOUNT'', hexs 16 (unat (c_inst_count c))), (''PC'', hexs 8 (unat (c_pc c))), (''LR'', hexs 8 (unat (c_lr c))),
      (''CTR'', hexs 8 (unat (c_ctr c))), (''CR'', hexs 8 (unat (c_cr c))), (''XER'', hexs 8 (unat (c_xer c))),
      (''MSR'', hexs 8 (unat (c_msr c))), (''DEC'', hexs 8 (unat (c_dec c)))]"

definition gpr_pairs :: "cpu \<Rightarrow> (string \<times> string) list" where
  "gpr_pairs c = map (\<lambda>i. (gpr_name i, hexs 8 (unat (c_gprs c i)))) [0..<32]"

definition render_mr :: "cpu \<Rightarrow> nat \<Rightarrow> string \<Rightarrow> string option" where
  "render_mr c len buf = do {
     b \<leftarrow> snprintf (concat (map pair_text (spr_pairs c))) (buf, 0, of_nat len);
     b \<leftarrow> snprintf_all (map pair_text (gpr_pairs c)) b;
     end_line len b }"

subsection \<open>The counters\<close>

type_synonym counters = "(string \<times> u64) list"

definition COUNT :: "string \<Rightarrow> counters \<Rightarrow> counters" where
  "COUNT x cs = map (\<lambda>(n, v). (n, if n = x then v + 1 else v)) cs"

definition stats_reset :: "counters \<Rightarrow> counters" where
  "stats_reset cs = map (\<lambda>(n, v). (n, 0)) cs"

text \<open>\<open>"\t%40s:\t%lld\n"\<close> for each counter.\<close>

definition stats_dump :: "counters \<Rightarrow> string" where
  "stats_dump cs = ''Global counters:'' @ [NL] @
     concat (map (\<lambda>(n, v). [CHR 0x09] @ replicate (40 - length n) CHR '' '' @ n @ '':'' @ [CHR 0x09] @ sdecimal v @ [NL]) cs)"

definition counter_pairs :: "counters \<Rightarrow> (string \<times> string) list" where
  "counter_pairs cs = map (\<lambda>(n, v). (n, sdecimal v)) cs"

definition stats_text :: "counters \<Rightarrow> nat \<Rightarrow> string \<Rightarrow> string option" where
  "stats_text cs len buf = do {
     b \<leftarrow> snprintf_all (map pair_text (counter_pairs cs)) (buf, 0, of_nat len);
     end_line len b }"

subsection \<open>What fits is written\<close>

lemma snprintf_fits:
  assumes "length buf = len" and "len < 2 ^ 64" and "p + length t < len" and "s = of_nat (len - p)"
  shows "snprintf t (buf, p, s) =
    Some (take p buf @ t @ NUL # drop (p + length t + 1) buf, p + length t, of_nat (len - (p + length t)))"
proof -
  have s: "unat s = len - p"
    using assms(2,4) by (simp add: unsigned_of_nat take_bit_nat_eq_self)
  then have "s \<noteq> 0" using assms(3) by (auto simp: unat_eq_0)
  moreover have "s - of_nat (length t) = of_nat (len - (p + length t))"
    using assms(3,4) by (simp add: of_nat_diff)
  ultimately show ?thesis
    using assms(1,3) s by (simp add: snprintf_def put_at_def)
qed

lemma snprintf_all_fits:
  assumes "length buf = len" and "len < 2 ^ 64" and "p + length (concat ts) < len" and "s = of_nat (len - p)"
  shows "\<exists>buf'. snprintf_all ts (buf, p, s) =
      Some (buf', p + length (concat ts), of_nat (len - (p + length (concat ts)))) \<and>
    length buf' = len \<and> take (p + length (concat ts)) buf' = take p buf @ concat ts"
  using assms
proof (induction ts arbitrary: buf p s)
  case (Cons t ts)
  let ?buf = "take p buf @ t @ NUL # drop (p + length t + 1) buf" and ?p = "p + length t"
  have t: "snprintf t (buf, p, s) = Some (?buf, ?p, of_nat (len - ?p))"
    using Cons.prems by (intro snprintf_fits) simp_all
  have len: "length ?buf = len" using Cons.prems by simp
  have "?p + length (concat ts) < len" using Cons.prems(3) by simp
  from Cons.IH [OF len assms(2) this refl] obtain buf' where
    "snprintf_all ts (?buf, ?p, of_nat (len - ?p)) =
      Some (buf', ?p + length (concat ts), of_nat (len - (?p + length (concat ts))))"
    "length buf' = len" "take (?p + length (concat ts)) buf' = take ?p ?buf @ concat ts"
    by blast
  moreover have "take ?p ?buf = take p buf @ t" using Cons.prems(1,3) by simp
  ultimately show ?case using t by (simp add: add.assoc)
qed simp

lemma end_line_fits:
  assumes "length buf = len" and "len < 2 ^ 64" and "p + 2 \<le> len"
  obtains buf' where "end_line len (buf, p, of_nat (len - p)) = Some buf'"
    and "take (p + 2) buf' = take p buf @ [NL, NUL]" and "length buf' = len"
proof -
  have "unat (of_nat (len - p) :: u64) = len - p"
    using assms(2) by (simp add: unsigned_of_nat take_bit_nat_eq_self)
  then have "\<not> (of_nat (len - p) :: u64) \<le> 1" using assms(3) by (simp add: word_le_nat_alt)
  then show thesis
    using assms(1,3) by (intro that [of "take p buf @ [NL, NUL] @ drop (p + 2) buf"])
      (simp_all add: end_line_def put_at_def)
qed

text \<open>A text of pieces without a zero byte that fits with its newline is the string in the buffer.\<close>

lemma c_str_prefix:
  assumes "take (length t + 1) buf = t @ [NUL]" and "NUL \<notin> set t"
  shows "c_str buf = t"
proof -
  have "buf = t @ NUL # drop (length t + 1) buf"
    using assms(1) append_take_drop_id [of "length t + 1" buf] by simp
  moreover have "c_str (t @ NUL # r) = t" for r
    using assms(2) by (induction t) (auto simp: c_str_def)
  ultimately show ?thesis by metis
qed

lemma pieces_fit:
  assumes "length buf = len" and "len < 2 ^ 64" and "length (concat ts) + 2 \<le> len" and "NUL \<notin> set (concat ts)"
  obtains b buf' where "snprintf_all ts (buf, 0, of_nat len) = Some b" and "end_line len b = Some buf'"
    and "c_str buf' = concat ts @ [NL]" and "length buf' = len"
proof -
  obtain buf1 where b: "snprintf_all ts (buf, 0, of_nat len) =
      Some (buf1, length (concat ts), of_nat (len - length (concat ts)))"
    "length buf1 = len" "take (length (concat ts)) buf1 = concat ts"
    using snprintf_all_fits [OF assms(1,2), of 0 ts "of_nat len"] assms(3) by auto
  obtain buf2 where e: "end_line len (buf1, length (concat ts), of_nat (len - length (concat ts))) = Some buf2"
    "take (length (concat ts) + 2) buf2 = take (length (concat ts)) buf1 @ [NL, NUL]" "length buf2 = len"
    using b(2) assms(2,3) by (rule end_line_fits)
  have "c_str buf2 = concat ts @ [NL]"
    using e(2) b(3) assms(4) by (intro c_str_prefix) simp_all
  with b(1) e(1,3) show thesis by (intro that)
qed

subsection \<open>Reading a reply\<close>

fun split_on :: "char \<Rightarrow> string \<Rightarrow> string list" where
  "split_on c [] = [[]]"
| "split_on c (x # xs) =
     (if x = c then [] # split_on c xs
      else case split_on c xs of [] \<Rightarrow> [[x]] | l # ls \<Rightarrow> (x # l) # ls)"

definition read_pair :: "string \<Rightarrow> string \<times> string" where
  "read_pair f =
     (let f = dropWhile (\<lambda>c. c = CHR '' '') f
      in (takeWhile (\<lambda>c. c \<noteq> CHR '' '') f, drop 1 (dropWhile (\<lambda>c. c \<noteq> CHR '' '') f)))"

text \<open>The pairs of a line: what follows the last comma is not one.\<close>

definition read_pairs :: "string \<Rightarrow> (string \<times> string) list" where
  "read_pairs t = map read_pair (butlast (split_on CHR '','' t))"

definition pair_ok :: "string \<times> string \<Rightarrow> bool" where
  "pair_ok kv \<longleftrightarrow> fst kv \<noteq> [] \<and> CHR '' '' \<notin> set (fst kv) \<and> CHR '','' \<notin> set (fst kv) \<union> set (snd kv) \<and>
     NUL \<notin> set (fst kv) \<union> set (snd kv)"

lemma split_on_not_Nil [simp]: "split_on c s \<noteq> []"
  by (cases s) (auto split: list.split)

lemma split_on_plain: "c \<notin> set s \<Longrightarrow> split_on c s = [s]"
  by (induction s) auto

lemma split_on_append: "c \<notin> set s \<Longrightarrow> split_on c (s @ c # t) = s # split_on c t"
  by (induction s) auto

lemma read_pair_spaced:
  assumes "pair_ok kv" and "set sp \<subseteq> {CHR '' ''}"
  shows "read_pair (sp @ fst kv @ '' '' @ snd kv) = kv"
proof -
  have k: "\<forall>c \<in> set (fst kv). c \<noteq> CHR '' ''" and "fst kv \<noteq> []" using assms(1) by (auto simp: pair_ok_def)
  then have "dropWhile (\<lambda>c. c = CHR '' '') (fst kv @ r) = fst kv @ r" for r by (cases "fst kv") auto
  moreover have "dropWhile (\<lambda>c. c = CHR '' '') (sp @ r) = dropWhile (\<lambda>c. c = CHR '' '') r" for r
    using assms(2) by (induction sp) auto
  ultimately show ?thesis
    using k by (simp add: read_pair_def takeWhile_append2 dropWhile_append2)
qed

lemma read_pairs_spaced:
  assumes "list_all pair_ok kvs" and "CHR '','' \<notin> set e"
  shows "set sp \<subseteq> {CHR '' ''} \<Longrightarrow> read_pairs (sp @ concat (map pair_text kvs) @ e) = kvs"
  using assms(1)
proof (induction kvs arbitrary: sp)
  case Nil
  then have "CHR '','' \<notin> set (sp @ e)" using assms(2) by auto
  then have "split_on CHR '','' (sp @ e) = [sp @ e]" by (rule split_on_plain)
  then show ?case by (simp add: read_pairs_def)
next
  case (Cons kv kvs)
  have "CHR '','' \<notin> set (sp @ fst kv @ '' '' @ snd kv)"
    using Cons.prems by (auto simp: pair_ok_def)
  from split_on_append [OF this, of "'' '' @ concat (map pair_text kvs) @ e"]
  have "split_on CHR '','' (sp @ concat (map pair_text (kv # kvs)) @ e) =
      (sp @ fst kv @ '' '' @ snd kv) # split_on CHR '','' ('' '' @ concat (map pair_text kvs) @ e)"
    by (simp add: pair_text_def)
  moreover have "read_pair (sp @ fst kv @ '' '' @ snd kv) = kv"
    using Cons.prems by (intro read_pair_spaced) simp_all
  moreover have "read_pairs ('' '' @ concat (map pair_text kvs) @ e) = kvs"
    using Cons.prems(2) by (intro Cons.IH) simp_all
  ultimately show ?case unfolding read_pairs_def by (simp only: butlast.simps list.map split_on_not_Nil if_False)
qed

text \<open>A reply that is written without loss is read back.\<close>

lemma read_pairs_line:
  "list_all pair_ok kvs \<Longrightarrow> read_pairs (concat (map pair_text kvs) @ [NL]) = kvs"
  using read_pairs_spaced [of kvs "[NL]" "[]"] by simp

subsection \<open>Numbers are read back\<close>

lemma digit_val_hex: "d < 16 \<Longrightarrow> digit_val (hex_digit d) = Some d"
  by (simp add: hex_digit_def digit_val_def Let_def of_char_of take_bit_nat_eq_self)

lemma hexs_digits: "c \<in> set (hexs n v) \<Longrightarrow> \<exists>d<16. digit_val c = Some d"
  by (induction n arbitrary: v) (auto simp: digit_val_hex)

lemma digits_hexs: "v < 16 ^ n \<Longrightarrow> digits 16 0 (hexs n v) = v"
proof (induction n arbitrary: v)
  case (Suc n)
  then have "digits 16 0 (hexs n (v div 16)) = v div 16" by (intro Suc.IH) (simp add: less_mult_imp_div_less mult.commute)
  moreover have "\<forall>c \<in> set (hexs n (v div 16)). \<exists>d<16. digit_val c = Some d" using hexs_digits by blast
  ultimately show ?case by (simp add: digits_append digit_val_hex)
qed simp

lemma hexs_word: "digits 16 0 (hexs 8 (unat (w :: u32))) = unat w" "digits 16 0 (hexs 16 (unat (x :: u64))) = unat x"
  using unsigned_less [of w] unsigned_less [of x] by (intro digits_hexs; simp)+

lemma length_hexs [simp]: "length (hexs n v) = n"
  by (induction n arbitrary: v) simp_all

text \<open>No digit is a separator.\<close>

lemma digits_plain:
  "CHR '','' \<notin> set (hexs n v)" "NUL \<notin> set (hexs n v)" "CHR '','' \<notin> set (sdecimal x)" "NUL \<notin> set (sdecimal x)"
proof -
  have sep: "digit_val CHR '','' = None" "digit_val NUL = None" by (simp_all add: digit_val_def)
  show "CHR '','' \<notin> set (hexs n v)" "NUL \<notin> set (hexs n v)" using hexs_digits sep by fastforce+
  show "CHR '','' \<notin> set (sdecimal x)" "NUL \<notin> set (sdecimal x)"
    using decimal_digits sep by (auto simp: sdecimal_def) fastforce+
qed

definition sread :: "string \<Rightarrow> int" where
  "sread x = (if take 1 x = ''-'' then - int (digits 10 0 (drop 1 x)) else int (digits 10 0 x))"

lemma sread_sdecimal: "sread (sdecimal v) = sint v"
proof -
  have "take 1 (decimal n) \<noteq> ''-''" for n
  proof
    assume "take 1 (decimal n) = ''-''"
    then have "CHR ''-'' \<in> set (decimal n)" by (cases "decimal n") auto
    moreover have "digit_val CHR ''-'' = None" by (simp add: digit_val_def)
    ultimately show False using decimal_digits by fastforce
  qed
  then show ?thesis by (simp add: sread_def sdecimal_def digits_decimal)
qed

subsection \<open>The two long replies\<close>

lemma gpr_name_ok: "i < 32 \<Longrightarrow> pair_ok (gpr_name i, hexs n v)"
proof -
  assume "i < 32"
  then have d: "digit_val (char_of (48 + i div 10)) = Some (i div 10)" "digit_val (char_of (48 + i mod 10)) = Some (i mod 10)"
    by simp_all
  have "digit_val CHR '','' = None" "digit_val NUL = None" "digit_val CHR '' '' = None" by (simp_all add: digit_val_def)
  with d have "char_of (48 + i div 10) \<notin> {CHR '','', NUL, CHR '' ''}" "char_of (48 + i mod 10) \<notin> {CHR '','', NUL, CHR '' ''}"
    by (metis insertE option.distinct(1) singletonD)+
  then show ?thesis by (auto simp: pair_ok_def gpr_name_def digits_plain simp del: NUL_def) (simp_all add: digits_plain [simplified])
qed

lemma cpu_pairs_ok: "list_all pair_ok (spr_pairs c @ gpr_pairs c)"
proof -
  have "list_all pair_ok (gpr_pairs c)" using gpr_name_ok by (simp add: gpr_pairs_def list_all_iff)
  moreover have "list_all pair_ok (spr_pairs c)"
    using digits_plain(1,2) by (simp add: spr_pairs_def pair_ok_def)
  ultimately show ?thesis by simp
qed

lemma length_pairs:
  "length (concat (map pair_text (spr_pairs c))) = 120" "length (concat (map pair_text (gpr_pairs c))) = 448"
proof -
  show "length (concat (map pair_text (spr_pairs c))) = 120" by (simp add: spr_pairs_def pair_text_def)
  have "sum_list (map (\<lambda>i. 14) [0..<32]) = (448 :: nat)" by (simp add: sum_list_triv)
  then show "length (concat (map pair_text (gpr_pairs c))) = 448"
    by (simp add: length_concat gpr_pairs_def comp_def pair_text_def gpr_name_def)
qed

lemma pair_texts_plain: "list_all pair_ok kvs \<Longrightarrow> NUL \<notin> set (concat (map pair_text kvs))"
  by (induction kvs) (auto simp: pair_text_def pair_ok_def)

text \<open>The CPU's reply takes 569 characters, so it fits, and it is read back.\<close>

lemma render_mr_reads:
  assumes "length buf = len" and "len < 2 ^ 64" and "570 \<le> len"
  obtains buf' where "render_mr c len buf = Some buf'" and "length buf' = len"
    and "read_pairs (c_str buf') = spr_pairs c @ gpr_pairs c"
proof -
  let ?ts = "concat (map pair_text (spr_pairs c)) # map pair_text (gpr_pairs c)"
  have ts: "concat ?ts = concat (map pair_text (spr_pairs c @ gpr_pairs c))" by simp
  have "length (concat ?ts) + 2 \<le> len" using length_pairs [of c] assms(3) by simp
  moreover have "NUL \<notin> set (concat ?ts)" unfolding ts by (rule pair_texts_plain [OF cpu_pairs_ok])
  ultimately obtain b buf' where b: "snprintf_all ?ts (buf, 0, of_nat len) = Some b" "end_line len b = Some buf'"
    "c_str buf' = concat ?ts @ [NL]" "length buf' = len"
    by (rule pieces_fit [OF assms(1,2)])
  then have "render_mr c len buf = Some buf'" by (auto simp: render_mr_def elim!: bind_SomeE)
  moreover have "read_pairs (c_str buf') = spr_pairs c @ gpr_pairs c"
    unfolding b(3) ts by (rule read_pairs_line [OF cpu_pairs_ok])
  ultimately show thesis using b(4) by (intro that)
qed

lemma stats_text_reads:
  assumes "length buf = len" and "len < 2 ^ 64" and "length (concat (map pair_text (counter_pairs cs))) + 2 \<le> len"
    and "list_all pair_ok (counter_pairs cs)"
  obtains buf' where "stats_text cs len buf = Some buf'" and "length buf' = len"
    and "read_pairs (c_str buf') = counter_pairs cs"
proof -
  obtain b buf' where b: "snprintf_all (map pair_text (counter_pairs cs)) (buf, 0, of_nat len) = Some b"
    "end_line len b = Some buf'" "c_str buf' = concat (map pair_text (counter_pairs cs)) @ [NL]" "length buf' = len"
    using assms(1-3) pair_texts_plain [OF assms(4)] by (rule pieces_fit)
  then have "stats_text cs len buf = Some buf'" by (simp add: stats_text_def)
  moreover have "read_pairs (c_str buf') = counter_pairs cs" unfolding b(3) by (rule read_pairs_line [OF assms(4)])
  ultimately show thesis using b(4) by (intro that)
qed

text \<open>A text longer than the room makes the room wrap around: the next piece is written past the buffer.\<close>

lemma stats_text_overruns:
  "stats_text [(''A'', 1), (''B'', 2)] 4 ''    '' = None"
proof -
  have "char_of (49 :: nat) = CHR ''1''" "char_of (50 :: nat) = CHR ''2''" by code_simp+
  then have "sdecimal 1 = ''1''" "sdecimal 2 = ''2''" by (simp_all add: sdecimal_def decimal.simps)
  then show ?thesis
    by (simp add: stats_text_def counter_pairs_def pair_text_def snprintf_def put_at_def)
qed

end
