(* ===== verification/Management.thy ===== *)
theory Management
  imports Config Console_Text
begin

section \<open>The management console: \<open>management.cc\<close>\<close>

text \<open>
  A socket client sends lines; the management thread collects what \<open>read\<close> returns in a buffer and
  processes the complete lines.  The socket is a parameter: the list of byte strings that successive
  reads return until there is nothing more (\<open>EAGAIN\<close>).  The console state holds what the commands use
  and change: the log mask, the counters, the CPU as the thread sees it, the output buffer and the replies sent.
  \<open>mg_overrun\<close> records that a reply has been written past the output buffer; the model says nothing of
  what happens to the program then.

  \<open>mg_input\<close> is the used part of \<open>input_buffer\<close>, so \<open>current_input_pos\<close> is its length.
\<close>

definition BUF_SZ :: nat where "BUF_SZ = 4096"

record mgmt =
  mg_skt :: int
  mg_input :: string
  mg_log_mask :: u32
  mg_replies :: "string list"
  mg_lines :: "string list"
  mg_output :: string
  mg_pcs :: cpu
  mg_counters :: counters
  mg_overrun :: bool

definition write_response :: "string \<Rightarrow> mgmt \<Rightarrow> mgmt" where
  "write_response r m = (if mg_skt m = -1 then m else m\<lparr>mg_replies := mg_replies m @ [r]\<rparr>)"

definition skip_whitespace :: "string \<Rightarrow> string" where
  "skip_whitespace p = dropWhile (\<lambda>c. c = CHR '' '') p"

definition find_whitespace :: "string \<Rightarrow> string" where
  "find_whitespace p = dropWhile (\<lambda>c. c \<noteq> CHR '' '') p"

text \<open>\<open>TEST_FLAG\<close>, and \<open>log_set\<close>.  \<open>val[0]\<close> is the terminating zero of an empty string.\<close>

definition TEST_FLAG :: "u32 \<Rightarrow> string \<Rightarrow> mgmt \<Rightarrow> mgmt" where
  "TEST_FLAG x val m =
     (if take 1 val = ''1'' then m\<lparr>mg_log_mask := mg_log_mask m OR x\<rparr>
      else m\<lparr>mg_log_mask := mg_log_mask m AND NOT x\<rparr>)"

definition log_set :: "string \<Rightarrow> string \<Rightarrow> mgmt \<Rightarrow> mgmt" where
  "log_set flag val m =
     (if strcaseeq flag ''LOG_FLAG_DBG'' then TEST_FLAG LOG_FLAG_DBG val m
      else if strcaseeq flag ''LOG_FLAG_DISASS'' then TEST_FLAG LOG_FLAG_DISASS val m
      else if strcaseeq flag ''LOG_FLAG_STRACE'' then TEST_FLAG LOG_FLAG_STRACE val m
      else if strcaseeq flag ''LOG_FLAG_IO_TRACE'' then TEST_FLAG LOG_FLAG_IO_TRACE val m
      else if strcaseeq flag ''LOG_FLAG_BRANCH_TRACE'' then TEST_FLAG LOG_FLAG_BRANCH_TRACE val m
      else if strcaseeq flag ''LOG_FLAG_MMU_TRACE'' then TEST_FLAG LOG_FLAG_MMU_TRACE val m
      else if strcaseeq flag ''LOG_FLAG_EXC_TRACE'' then TEST_FLAG LOG_FLAG_EXC_TRACE val m
      else m)"

definition help_text :: string where
  "help_text = ''STATS'' @ [NL] @ ''RESET-STATS'' @ [NL] @ ''CPU<n>'' @ [NL] @ ''GETLOG'' @ [NL] @
     ''SETLOG <flagnr> <0|1>'' @ [NL]"

text \<open>The replies that are written into the output buffer.\<close>

definition send_output :: "string option \<Rightarrow> mgmt \<Rightarrow> mgmt" where
  "send_output buf m =
     (case buf of
        None \<Rightarrow> m\<lparr>mg_overrun := True\<rparr>
      | Some buf \<Rightarrow> write_response (c_str buf) (m\<lparr>mg_output := buf\<rparr>))"

definition stats_send :: "mgmt \<Rightarrow> mgmt" where
  "stats_send m = send_output (stats_text (mg_counters m) BUF_SZ (mg_output m)) m"

definition cpu_state_send :: "mgmt \<Rightarrow> mgmt" where
  "cpu_state_send m = send_output (render_mr (mg_pcs m) BUF_SZ (mg_output m)) m"

definition log_pairs :: "u32 \<Rightarrow> (string \<times> string) list" where
  "log_pairs flags = map (\<lambda>(n, f). (n, if flags AND f \<noteq> 0 then ''1'' else ''0''))
     [(''LOG_FLAG_DBG'', LOG_FLAG_DBG), (''LOG_FLAG_DISASS'', LOG_FLAG_DISASS), (''LOG_FLAG_STRACE'', LOG_FLAG_STRACE),
      (''LOG_FLAG_IO_TRACE'', LOG_FLAG_IO_TRACE), (''LOG_FLAG_BRANCH_TRACE'', LOG_FLAG_BRANCH_TRACE),
      (''LOG_FLAG_MMU_TRACE'', LOG_FLAG_MMU_TRACE), (''LOG_FLAG_EXC_TRACE'', LOG_FLAG_EXC_TRACE)]"

definition log_send :: "mgmt \<Rightarrow> mgmt" where
  "log_send m =
     send_output (map_option fst (snprintf (concat (map pair_text (log_pairs (mg_log_mask m))) @ [NL])
       (mg_output m, 0, of_nat BUF_SZ))) m"

text \<open>\<open>process_line\<close> on a C string.  The terminator that \<open>SETLOG\<close> writes after the flag makes the
  flag end there; it comes after \<open>val\<close> has been found.\<close>

definition process_line :: "string \<Rightarrow> mgmt \<Rightarrow> mgmt" where
  "process_line line m =
     (if strcaseeq line ''help'' then write_response help_text m
      else if strcaseeq line ''STATS'' then stats_send m
      else if strcaseeq line ''RESET-STATS'' then m\<lparr>mg_counters := stats_reset (mg_counters m)\<rparr>
      else if strncaseeq line ''CPU'' 3 then cpu_state_send m
      else if strcaseeq line ''GETLOG'' then log_send m
      else if strncaseeq line ''SETLOG'' 6 then
        let flag = skip_whitespace (find_whitespace line);
            end_flag = find_whitespace flag;
            val = skip_whitespace end_flag
        in log_set (takeWhile (\<lambda>c. c \<noteq> CHR '' '') flag) val m
      else write_response (''ONOES'' @ [NL]) m)"

text \<open>The scan for newlines: \<open>i\<close> runs over the buffer, \<open>start_pt\<close> is the start of the current line.
  A line is passed on as a C string, so it ends at the first zero byte in it.\<close>

function scan :: "nat \<Rightarrow> nat \<Rightarrow> string \<Rightarrow> mgmt \<Rightarrow> nat \<times> mgmt" where
  "scan i start_pt buf m =
     (if i < length buf then
        if buf ! i = NL then
          let line = c_str (take (i - start_pt) (drop start_pt buf))
          in scan (i + 1) (i + 1) buf (process_line line (m\<lparr>mg_lines := mg_lines m @ [line]\<rparr>))
        else scan (i + 1) start_pt buf m
      else (start_pt, m))"
  by pat_completeness auto
termination by (relation "measure (\<lambda>(i, start_pt, buf, m). length buf - i)") auto

declare scan.simps [simp del]

text \<open>One round of the loop of \<open>get_input\<close>, with the \<open>r >= 1\<close> bytes of one read.  \<open>memmove\<close> keeps
  what follows the last line only when that is more than one byte.\<close>

definition input_chunk :: "string \<Rightarrow> mgmt \<Rightarrow> mgmt" where
  "input_chunk bs m =
     (let buf = mg_input m @ bs;
          current_input_pos = length buf;
          (start_pt, m) = scan 0 0 buf m
      in if start_pt < current_input_pos - 1 then m\<lparr>mg_input := drop start_pt buf\<rparr>
         else m\<lparr>mg_input := []\<rparr>)"

text \<open>\<open>get_input\<close>: a read returns at most as much as the buffer has room for and the rest stays in the
  socket; the loop ends when there is no room, or nothing to read.\<close>

function get_input :: "string list \<Rightarrow> mgmt \<Rightarrow> mgmt \<times> string list" where
  "get_input [] m = (m, [])"
| "get_input (bs # reads) m =
     (if length (mg_input m) < BUF_SZ - 1 \<and> bs \<noteq> [] then
        let n = BUF_SZ - length (mg_input m) - 1;
            reads = (if drop n bs = [] then reads else drop n bs # reads)
        in get_input reads (input_chunk (take n bs) m)
      else (m, bs # reads))"
  by pat_completeness auto
termination
  by (relation "measure (\<lambda>(reads, m). length (concat reads) + length reads)") (auto simp: Let_def BUF_SZ_def)

text \<open>
  One round of \<open>mgmt_thread\<close> after \<open>poll\<close>.  \<open>conn\<close> is what \<open>accept\<close> returns when the listening socket
  has an event, \<open>hup\<close> says that the connection has \<open>POLLERR\<close> or \<open>POLLHUP\<close>, \<open>input\<close> is what the reads
  return when it has \<open>POLLIN\<close>, and whether they end in an error other than \<open>EAGAIN\<close>.  Only a
  connection that was open when \<open>poll\<close> was called (\<open>num = 2\<close>) has events.
\<close>

definition mgmt_poll :: "int option \<Rightarrow> bool \<Rightarrow> (string list \<times> bool) option \<Rightarrow> mgmt \<Rightarrow> mgmt" where
  "mgmt_poll conn hup input m =
     (let open_before = mg_skt m \<noteq> -1;
          m = (case conn of Some fd \<Rightarrow> m\<lparr>mg_skt := fd\<rparr> | None \<Rightarrow> m)
      in if open_before \<and> hup then m\<lparr>mg_skt := -1\<rparr>
         else case input of
           Some (reads, err) \<Rightarrow>
             if open_before then
               let (m, left) = get_input reads m
               in if left = [] \<and> err \<and> length (mg_input m) < BUF_SZ - 1 then m\<lparr>mg_skt := -1\<rparr> else m
             else m
         | None \<Rightarrow> m)"

subsection \<open>Lines\<close>

text \<open>The reference: the complete lines of a text, and what follows the last of them.\<close>

fun split_lines :: "string \<Rightarrow> string list \<times> string" where
  "split_lines [] = ([], [])"
| "split_lines (c # s) =
     (let (ls, r) = split_lines s
      in if c = NL then ([] # ls, r) else case ls of [] \<Rightarrow> ([], c # r) | l # ls \<Rightarrow> ((c # l) # ls, r))"

definition handle_line :: "string \<Rightarrow> mgmt \<Rightarrow> mgmt" where
  "handle_line line m = process_line (c_str line) (m\<lparr>mg_lines := mg_lines m @ [c_str line]\<rparr>)"

lemma split_lines_plain: "NL \<notin> set p \<Longrightarrow> split_lines p = ([], p)"
  by (induction p) auto

lemma split_lines_line: "NL \<notin> set p \<Longrightarrow> split_lines (p @ NL # s) = (p # fst (split_lines s), snd (split_lines s))"
  by (induction p) (auto split: prod.split)


lemma split_lines_rest: "length (snd (split_lines s)) \<le> length s"
  by (induction s) (auto simp: split_beta Let_def split: list.split)

lemma split_lines_suffix: "\<exists>p. s = p @ snd (split_lines s)"
proof (induction s)
  case (Cons c s)
  then obtain p where p: "s = p @ snd (split_lines s)" by blast
  show ?case
  proof (cases "c \<noteq> NL \<and> fst (split_lines s) = []")
    case True
    then have "snd (split_lines (c # s)) = c # snd (split_lines s)" by (simp add: split_beta)
    moreover have "snd (split_lines s) = s" if "fst (split_lines s) = []" for s
      using that by (induction s) (auto simp: split_beta split: if_splits list.splits)
    ultimately show ?thesis using True by (metis append_Nil)
  next
    case False
    then have "snd (split_lines (c # s)) = snd (split_lines s)" by (auto simp: split_beta split: list.split)
    with p show ?thesis by (metis append_Cons)
  qed
qed simp

lemma keep_input [simp]:
  "mg_input (write_response r m) = mg_input m" "mg_input (TEST_FLAG x v m) = mg_input m"
  "mg_input (send_output b m) = mg_input m"
  by (simp_all add: write_response_def TEST_FLAG_def send_output_def split: option.split)


lemmas status_sends = stats_send_def cpu_state_send_def log_send_def

lemma log_set_input [simp]: "mg_input (log_set f v m) = mg_input m"
  by (simp add: log_set_def)


lemma process_line_input [simp]: "mg_input (process_line l m) = mg_input m"
  by (simp add: process_line_def Let_def status_sends)


lemma handle_lines_input [simp]: "mg_input (fold handle_line ls m) = mg_input m"
  by (induction ls arbitrary: m) (simp_all add: handle_line_def)



lemma scan_lines:
  "start \<le> i \<Longrightarrow> i \<le> length buf \<Longrightarrow> NL \<notin> set (take (i - start) (drop start buf)) \<Longrightarrow>
     scan i start buf m =
       (length buf - length (snd (split_lines (drop start buf))), fold handle_line (fst (split_lines (drop start buf))) m)"
proof (induction i start buf m rule: scan.induct)
  case (1 i start buf m)
  define p where "p = take (i - start) (drop start buf)"
  have nl: "NL \<notin> set p" using 1(5) unfolding p_def .
  show ?case
  proof (cases "i < length buf")
    case False
    then have "p = drop start buf" using 1(3,4) by (simp add: p_def)
    with nl False 1(3,4) show ?thesis
      by (subst scan.simps) (simp add: split_lines_plain del: NL_def)
  next
    case True
    have split: "drop start buf = p @ buf ! i # drop (i + 1) buf"
      using True 1(3) id_take_nth_drop [of "i - start" "drop start buf"] by (simp add: p_def)
    show ?thesis
    proof (cases "buf ! i = NL")
      case nl_here: True
      have "split_lines (drop start buf) = (p # fst (split_lines (drop (i + 1) buf)), snd (split_lines (drop (i + 1) buf)))"
        unfolding split nl_here by (rule split_lines_line [OF nl])
      moreover have here: "process_line (c_str (take (i - start) (drop start buf)))
          (m\<lparr>mg_lines := mg_lines m @ [c_str (take (i - start) (drop start buf))]\<rparr>) = handle_line p m"
        by (simp add: handle_line_def p_def)
      ultimately show ?thesis using 1(1) [OF True nl_here refl] True nl_here
        by (subst scan.simps) (simp add: Let_def here del: NL_def)
    next
      case other: False
      have "take (i + 1 - start) (drop start buf) = p @ [buf ! i]"
        using True 1(3) by (simp add: p_def Suc_diff_le take_Suc_conv_app_nth)
      then have "NL \<notin> set (take (i + 1 - start) (drop start buf))" using nl other by (simp del: NL_def)
      with 1(2) [OF True other] True other 1(3) show ?thesis
        by (subst scan.simps) (simp del: NL_def)
    qed
  qed
qed

text \<open>What a read does, in terms of lines: a remainder of one byte is lost.\<close>

lemma input_chunk_lines:
  "input_chunk bs m =
     (let (ls, r) = split_lines (mg_input m @ bs)
      in (fold handle_line ls m)\<lparr>mg_input := if length r \<le> 1 then [] else r\<rparr>)"
proof -
  define buf where "buf = mg_input m @ bs"
  obtain p where "buf = p @ snd (split_lines buf)" using split_lines_suffix by blast
  then have "drop (length buf - length (snd (split_lines buf))) buf = snd (split_lines buf)"
    by (metis append_eq_conv_conj diff_add_inverse2 length_append)
  then show ?thesis
    using scan_lines [of 0 0 buf m] split_lines_rest [of buf]
    by (auto simp: input_chunk_def Let_def split_beta simp flip: buf_def)
qed

lemma typed_byte_lost:
  "c \<noteq> NL \<Longrightarrow> mg_input m = [] \<Longrightarrow> input_chunk [c] m = m"
  by (simp add: input_chunk_lines)

text \<open>A dropped connection leaves its unfinished line to the next one, and a new connection that
  arrives in the round in which the old one hangs up is dropped with it.\<close>

lemma dropped_input_kept: "mg_input (mgmt_poll conn True input m) = mg_input m"
  by (simp add: mgmt_poll_def Let_def split: option.split)

lemma new_connection_dropped: "mg_skt m \<noteq> -1 \<Longrightarrow> mg_skt (mgmt_poll (Some fd) True input m) = -1"
  by (simp add: mgmt_poll_def Let_def)

text \<open>A full buffer without a newline stops the input for good.\<close>

lemma full_buffer_stuck:
  "length (mg_input m) = BUF_SZ - 1 \<Longrightarrow> get_input reads m = (m, reads)"
  by (cases reads) (simp_all add: BUF_SZ_def)










subsection \<open>The status replies\<close>










end
