(* ===== verification/Hosted_OS.thy ===== *)
theory Hosted_OS
  imports Interp_Basic
begin

section \<open>The hosted mode: \<open>OS.cc\<close>\<close>

text \<open>
  The build with \<open>HOSTED\<close> runs a statically linked program without a kernel: \<open>OS::init\<close> lays out
  the initial stack of the process and \<open>OS::doSyscall\<close> serves \<open>sc\<close>.  Class \<open>OS\<close> is a record;
  guest memory is reached through the host pointer \<open>real_ram_base\<close>.  What \<open>write\<close> sends to the standard
  output is appended to \<open>s_stdout\<close>.  The instruction methods that differ in this build stand at the end.
\<close>

record os_t =
  os_ram_base :: u32
  os_ram_top :: u32
  os_cur_stack_ptr :: u32
  os_real_ram_base :: u64

definition in_mem :: "os_t \<Rightarrow> u32 \<Rightarrow> bool" where
  "in_mem os sim_addr \<longleftrightarrow> sim_addr \<ge> os_ram_base os \<and> sim_addr \<le> os_ram_top os"

definition to_host :: "os_t \<Rightarrow> u32 \<Rightarrow> u64 option" where
  "to_host os sim_addr =
     (if \<not> in_mem os sim_addr then None
      else Some (os_real_ram_base os + ucast sim_addr - ucast (os_ram_base os)))"

definition push32 :: "u32 \<Rightarrow> os_t \<times> hmem \<Rightarrow> (os_t \<times> hmem) option" where
  "push32 val = (\<lambda>(os, m). do {
     let os = os\<lparr>os_cur_stack_ptr := os_cur_stack_ptr os - 4\<rparr>;
     p \<leftarrow> to_host os (os_cur_stack_ptr os);
     Some (os, hstore32 p (BS32 val) m) })"

definition push8 :: "u8 \<Rightarrow> os_t \<times> hmem \<Rightarrow> (os_t \<times> hmem) option" where
  "push8 val = (\<lambda>(os, m). do {
     let os = os\<lparr>os_cur_stack_ptr := os_cur_stack_ptr os - 1\<rparr>;
     p \<leftarrow> to_host os (os_cur_stack_ptr os);
     Some (os, hstore8 p val m) })"

definition push8s :: "u8 list \<Rightarrow> os_t \<times> hmem \<Rightarrow> (os_t \<times> hmem) option" where
  "push8s vals s = fold (\<lambda>v s. Option.bind s (push8 v)) vals (Some s)"

text \<open>\<open>OS::init\<close>.  The strings are pushed backwards: \<open>"foo"\<close> and \<open>"F=1"\<close> in ASCII.\<close>

definition os_init :: "u32 \<Rightarrow> u32 \<Rightarrow> u64 \<Rightarrow> cpu \<Rightarrow> hmem \<Rightarrow> (cpu \<times> os_t \<times> hmem) option" where
  "os_init ram_base ram_size real_ram_base c m = do {
     let os = \<lparr>os_ram_base = ram_base, os_ram_top = ram_base + ram_size - 1,
               os_cur_stack_ptr = ram_base + ram_size - 16, os_real_ram_base = real_ram_base\<rparr>;
     s \<leftarrow> push32 0xdeadbeef (os, m);
     s \<leftarrow> push32 0xfeedface s;
     s \<leftarrow> push32 0xcafeb00c s;
     s \<leftarrow> push32 0xbaadbeef s;
     let rand = os_cur_stack_ptr (fst s);
     s \<leftarrow> push8s [0, 0x6f, 0x6f, 0x66] s;
     let argp = os_cur_stack_ptr (fst s);
     s \<leftarrow> push32 0 s;
     s \<leftarrow> push8s [0, 0x31, 0x3d, 0x46] s;
     let envp = os_cur_stack_ptr (fst s);
     s \<leftarrow> push32 0 s;
     s \<leftarrow> push32 0 s;
     s \<leftarrow> push32 rand s;
     s \<leftarrow> push32 25 s;
     s \<leftarrow> push32 0 s;
     s \<leftarrow> push32 envp s;
     s \<leftarrow> push32 0 s;
     s \<leftarrow> push32 argp s;
     s \<leftarrow> push32 1 s;
     c \<leftarrow> setGPR 1 (os_cur_stack_ptr (fst s)) c;
     Some (c, s) }"

text \<open>\<open>OS::doSyscall\<close>: \<open>exit\<close> ends the simulator, \<open>write\<close> to another descriptor than 1 and 2 and
  unknown calls are fatal.  \<open>err\<close> is never set.\<close>

definition sc_write :: "os_t \<Rightarrow> u32 \<Rightarrow> u32 \<Rightarrow> u32 \<Rightarrow> hmem \<Rightarrow> (u32 \<times> u8 list) option" where
  "sc_write os a0 a1 a2 m = do {
     out \<leftarrow> (if a0 = 1 \<or> a0 = 2 then
               if \<not> in_mem os a1 \<or> \<not> in_mem os (a1 + a2) then Some []
               else do { p \<leftarrow> to_host os a1; Some (host_bytes m p (unat a2)) }
             else None);
     Some (a2, out) }"

definition doSyscall :: "os_t \<Rightarrow> hmem \<Rightarrow> u8 \<Rightarrow> cpu \<Rightarrow> (cpu \<times> u8 list) option" where
  "doSyscall os m LEV c = do {
     sc \<leftarrow> getGPR c 0;
     a0 \<leftarrow> getGPR c 3;
     a1 \<leftarrow> getGPR c 4;
     a2 \<leftarrow> getGPR c 5;
     (result, out) \<leftarrow>
       (if sc = 1 then None
        else if sc = 4 then sc_write os a0 a1 a2 m
        else if sc = 54 then Some (0, [])
        else if sc = 173 then Some (0, [])
        else None);
     let cr = c_cr c AND NOT 0x10000000;
     c \<leftarrow> setGPR 3 result (c\<lparr>c_cr := cr\<rparr>);
     Some (c, out) }"

subsection \<open>The instruction methods of the hosted build\<close>

definition hosted_op_sc :: "os_t \<Rightarrow> u8 \<Rightarrow> sys \<Rightarrow> sys option" where
  "hosted_op_sc os LEV s = do {
     (c, out) \<leftarrow> doSyscall os (io_hmem (s_io s)) LEV (s_cpu s);
     Some (incPC (s\<lparr>s_cpu := c, s_stdout := s_stdout s @ out\<rparr>)) }"

definition hosted_op_tw :: "u32 \<Rightarrow> nat \<Rightarrow> nat \<Rightarrow> sys \<Rightarrow> sys option" where
  "hosted_op_tw TO RA RB s = do {
     val_RA \<leftarrow> READ_GPR s RA;
     val_RB \<leftarrow> READ_GPR s RB;
     if does_trap TO val_RA val_RB then None else Some (incPC s) }"

definition hosted_op_twi :: "u32 \<Rightarrow> nat \<Rightarrow> u16 \<Rightarrow> sys \<Rightarrow> sys option" where
  "hosted_op_twi TO RA SI s = do {
     val_RA \<leftarrow> READ_GPR s RA;
     if does_trap TO val_RA (scast SI) then None else Some (incPC s) }"

text \<open>An unknown instruction is fatal.\<close>

definition hosted_op_unk :: "u32 \<Rightarrow> sys \<Rightarrow> sys option" where
  "hosted_op_unk inst s = None"

subsection \<open>The initial stack\<close>

text \<open>A push in a stack with room.\<close>

definition os_room :: "nat \<Rightarrow> os_t \<times> hmem \<Rightarrow> bool" where
  "os_room n s \<longleftrightarrow> unat (os_ram_base (fst s)) + n \<le> unat (os_cur_stack_ptr (fst s)) \<and>
     unat (os_cur_stack_ptr (fst s)) \<le> unat (os_ram_top (fst s)) + 1"

definition guest_addr :: "os_t \<Rightarrow> u32 \<Rightarrow> u64" where
  "guest_addr os a = os_real_ram_base os + ucast a - ucast (os_ram_base os)"

definition guest_byte :: "os_t \<times> hmem \<Rightarrow> u32 \<Rightarrow> u8" where
  "guest_byte s a = snd s (guest_addr (fst s) a)"

definition pushed :: "u8 \<Rightarrow> os_t \<times> hmem \<Rightarrow> os_t \<times> hmem" where
  "pushed v s = (let os = (fst s)\<lparr>os_cur_stack_ptr := os_cur_stack_ptr (fst s) - 1\<rparr>
     in (os, hstore8 (guest_addr os (os_cur_stack_ptr os)) v (snd s)))"

definition be_bytes :: "u32 \<Rightarrow> u8 list" where
  "be_bytes v = [ucast (drop_bit 24 v), ucast (drop_bit 16 v), ucast (drop_bit 8 v), ucast v]"

lemma length_be_bytes [simp]: "length (be_bytes v) = 4"
  by (simp add: be_bytes_def)

lemma unat_ucast64 [simp]: "unat (ucast a :: u64) = unat a" for a :: u32
proof -
  have "unat a < 2 ^ 64" using unsigned_less [of a] by (rule order.strict_trans) simp
  then show ?thesis by (simp add: unsigned_ucast_eq take_bit_nat_eq_self)
qed

lemma guest_addr_inj [simp]: "guest_addr os a = guest_addr os c \<longleftrightarrow> a = c"
  by (simp add: guest_addr_def) (metis unat_ucast64 word_unat_eq_iff)

lemma guest_addr_upd [simp]: "guest_addr (os\<lparr>os_cur_stack_ptr := x\<rparr>) = guest_addr os"
  by (simp add: guest_addr_def fun_eq_iff)

lemma to_host_eq: "in_mem os a \<Longrightarrow> to_host os a = Some (guest_addr os a)"
  by (simp add: to_host_def guest_addr_def)

lemma in_mem_upd [simp]: "in_mem (os\<lparr>os_cur_stack_ptr := x\<rparr>) = in_mem os"
  by (simp add: in_mem_def fun_eq_iff)

lemma unat_minus_small: "n \<le> unat x \<Longrightarrow> unat (x - of_nat n) = unat x - n" for x :: u32
  by (metis le_unat_uoi unat_sub word_le_nat_alt)

lemma pushed_simps [simp]:
  "os_cur_stack_ptr (fst (pushed v s)) = os_cur_stack_ptr (fst s) - 1"
  "os_ram_base (fst (pushed v s)) = os_ram_base (fst s)"
  "os_ram_top (fst (pushed v s)) = os_ram_top (fst s)"
  "guest_addr (fst (pushed v s)) = guest_addr (fst s)"
  by (simp_all add: pushed_def Let_def guest_addr_def fun_eq_iff)

lemma room_pushed: "os_room (Suc n) s \<Longrightarrow> os_room n (pushed v s)"
  using unat_minus_small [of 1 "os_cur_stack_ptr (fst s)"] by (auto simp: os_room_def)

lemma room_less: "os_room m s \<Longrightarrow> n \<le> m \<Longrightarrow> os_room n s"
  by (simp add: os_room_def)

lemma room_in_mem:
  assumes "os_room n s" and "0 < k" and "k \<le> n"
  shows "in_mem (fst s) (os_cur_stack_ptr (fst s) - of_nat k)"
  using assms unat_minus_small [of k "os_cur_stack_ptr (fst s)"]
  by (auto simp: os_room_def in_mem_def word_le_nat_alt)

lemma push8_eq: "os_room (Suc n) s \<Longrightarrow> push8 v s = Some (pushed v s)"
  using room_in_mem [of "Suc n" s 1]
  by (cases s) (simp add: push8_def pushed_def Let_def to_host_eq)

lemma guest_addr_Suc: "Suc (unat a) < 2 ^ 32 \<Longrightarrow> guest_addr os (a + 1) = guest_addr os a + 1"
proof -
  assume "Suc (unat a) < 2 ^ 32"
  then have "unat (ucast (a + 1) :: u64) = unat (ucast a + 1 :: u64)"
    by (simp add: unat_word_ariths)
  then have "(ucast (a + 1) :: u64) = ucast a + 1" using word_unat_eq_iff by blast
  then show ?thesis by (simp add: guest_addr_def)
qed

lemma hstore32_bytes: "hstore32 p (BS32 v) m =
    m(p + 3 := ucast v, p + 2 := ucast (drop_bit 8 v), p + 1 := ucast (drop_bit 16 v), p := ucast (drop_bit 24 v))"
  using hstore32_BS32 [of p v m] hstore32_other [of _ p "BS32 v" m] by (auto simp: fun_eq_iff)

text \<open>A 32-bit push is the push of its bytes, the last one first.\<close>

lemma push32_eq:
  assumes room: "os_room 4 s"
  shows "push32 v s = Some (fold pushed (rev (be_bytes v)) s)"
proof -
  obtain os m where s: "s = (os, m)" by (cases s)
  define a where "a = os_cur_stack_ptr os - 4"
  have u: "unat a + 4 = unat (os_cur_stack_ptr os)"
    using room unat_minus_small [of 4 "os_cur_stack_ptr os"] by (auto simp: os_room_def s a_def)
  moreover have lt: "unat (os_cur_stack_ptr os) < 4294967296" using unsigned_less [of "os_cur_stack_ptr os"] by simp
  ultimately have "unat (a + 1) = unat a + 1" "unat (a + 2) = unat a + 2" "unat (a + 3) = unat a + 3"
    by (simp_all add: unat_word_ariths)
  then have "guest_addr os (a + 1) = guest_addr os a + 1" "guest_addr os (a + 2) = guest_addr os a + 2"
    "guest_addr os (a + 3) = guest_addr os a + 3"
    using u lt guest_addr_Suc [of a os] guest_addr_Suc [of "a + 1" os] guest_addr_Suc [of "a + 2" os]
    by (simp_all add: add.assoc)
  moreover have "os_cur_stack_ptr os - 1 = a + 3" "os_cur_stack_ptr os - 2 = a + 2" "os_cur_stack_ptr os - 3 = a + 1"
    by (simp_all add: a_def)
  ultimately show ?thesis
    using room_in_mem [OF room, of 4]
    by (simp add: s push32_def to_host_eq Let_def pushed_def be_bytes_def hstore8_def hstore32_bytes
        add.commute [of _ a] flip: a_def)
qed

text \<open>\<open>stack_holds L s\<close>: memory from the stack pointer up has the bytes \<open>L\<close>.\<close>

definition stack_holds :: "u8 list \<Rightarrow> os_t \<times> hmem \<Rightarrow> bool" where
  "stack_holds L s \<longleftrightarrow> unat (os_cur_stack_ptr (fst s)) + length L \<le> 2 ^ 32 \<and>
     (\<forall>i<length L. guest_byte s (os_cur_stack_ptr (fst s) + of_nat i) = L ! i)"

lemma stack_holds_pushed:
  assumes "stack_holds L s" and "os_room 1 s"
  shows "stack_holds (v # L) (pushed v s)"
proof -
  define sp where "sp = os_cur_stack_ptr (fst s)"
  have u: "unat (sp - 1) + 1 = unat sp"
    using assms(2) unat_minus_small [of 1 sp] by (auto simp: os_room_def sp_def)
  have byte: "guest_byte (pushed v s) a = (if a = sp - 1 then v else guest_byte s a)" for a
    by (simp add: guest_byte_def) (simp add: pushed_def Let_def hstore8_def sp_def)
  have "guest_byte (pushed v s) (sp - 1 + of_nat i) = (v # L) ! i" if "i < Suc (length L)" for i
  proof (cases i)
    case 0
    then show ?thesis by (simp add: byte)
  next
    case (Suc j)
    have "of_nat j \<noteq> (- 1 :: u32)"
    proof
      assume "of_nat j = (- 1 :: u32)"
      moreover have j: "j < 4294967295" using that Suc u assms(1) by (simp add: stack_holds_def sp_def)
      then have "unat (of_nat j :: u32) = j" by (simp add: unsigned_of_nat take_bit_nat_eq_self)
      moreover have "unat (- 1 :: u32) = 4294967295" by (simp add: unsigned_minus_1_eq_mask mask_eq_exp_minus_1)
      ultimately show False using j by simp
    qed
    then have "sp + of_nat j \<noteq> sp - 1" by (simp add: diff_conv_add_uminus del: add_uminus_conv_diff)
    then show ?thesis using Suc that assms(1) byte [of "sp + of_nat j"]
      by (simp add: stack_holds_def sp_def algebra_simps)
  qed
  then show ?thesis using assms(1) u by (auto simp: stack_holds_def sp_def)
qed

lemma stack_holds_pushes:
  "stack_holds L s \<Longrightarrow> os_room (length vs) s \<Longrightarrow> stack_holds (rev vs @ L) (fold pushed vs s)"
proof (induction vs arbitrary: L s)
  case (Cons v vs)
  then have "stack_holds (v # L) (pushed v s)" "os_room (length vs) (pushed v s)"
    using stack_holds_pushed room_less [of "length (v # vs)" s 1] room_pushed by simp_all
  from Cons.IH [OF this] show ?case by simp
qed simp

lemma pushes_simps [simp]:
  "os_cur_stack_ptr (fst (fold pushed vs s)) = os_cur_stack_ptr (fst s) - of_nat (length vs)"
  "os_ram_base (fst (fold pushed vs s)) = os_ram_base (fst s)"
  "os_ram_top (fst (fold pushed vs s)) = os_ram_top (fst s)"
  "guest_addr (fst (fold pushed vs s)) = guest_addr (fst s)"
  by (induction vs arbitrary: s) simp_all

lemma room_pushes: "os_room (n + length vs) s \<Longrightarrow> os_room n (fold pushed vs s)"
proof (induction vs arbitrary: s)
  case (Cons v vs)
  then have "os_room (n + length vs) (pushed v s)" by (simp add: room_pushed)
  from Cons.IH [OF this] show ?case by simp
qed simp

lemma push8s_eq: "os_room (length vs) s \<Longrightarrow> push8s vs s = Some (fold pushed vs s)"
proof (induction vs arbitrary: s)
  case (Cons v vs)
  then show ?case using push8_eq [of "length vs" s v] room_pushed [of "length vs" s v]
    by (simp add: push8s_def)
qed (simp add: push8s_def)

text \<open>
  C34: the stack that the hosted mode gives to a program.  For memory of at least 96 bytes that does not
  reach past the end of the address space, \<open>OS::init\<close> succeeds and r1 points to 64 bytes laid out the
  way a C library reads them: \<open>argc\<close> = 1, the pointer to the program's name and a null, the pointer to
  one environment string and a null, the auxiliary vector with \<open>AT_RANDOM\<close> (25) and the address of 16
  bytes, its end, then \<open>"F=1"\<close>, a null word, \<open>"foo"\<close>, each with its zero, and the 16 bytes.  Its alignment is that of the top of memory.
\<close>

theorem os_init_stack:
  assumes "96 \<le> unat ram_size" and "unat ram_base + unat ram_size \<le> 2 ^ 32"
  shows "let r1 = ram_base + ram_size - 80 in \<exists>s. os_init ram_base ram_size host c m = Some (c\<lparr>c_gprs := (c_gprs c)(1 := r1)\<rparr>, s) \<and>
    map (\<lambda>i. guest_byte s (r1 + of_nat i)) [0..<64] =
      concat (map be_bytes [1, r1 + 44, 0, r1 + 36, 0, 25, r1 + 48, 0, 0]) @
      [0x46, 0x3d, 0x31, 0] @ be_bytes 0 @ [0x66, 0x6f, 0x6f, 0] @
      concat (map be_bytes [0xbaadbeef, 0xcafeb00c, 0xfeedface, 0xdeadbeef])"
proof -
  define r1 where "r1 = ram_base + ram_size - 80"
  define os where "os = \<lparr>os_ram_base = ram_base, os_ram_top = ram_base + ram_size - 1,
    os_cur_stack_ptr = ram_base + ram_size - 16, os_real_ram_base = host\<rparr>"
  have below: "unat (ram_base + ram_size - of_nat k) = unat ram_base + unat ram_size - k" if "0 < k" "k \<le> 96" for k
  proof -
    have "unat (ram_size - of_nat k) = unat ram_size - k" using that assms(1) unat_minus_small [of k ram_size] by simp
    then have "unat (ram_base + (ram_size - of_nat k)) = unat ram_base + (unat ram_size - k)"
      using assms(1,2) that by (simp add: unat_word_ariths)
    then show ?thesis using that assms(1) by (simp add: add_diff_eq)
  qed
  have room: "os_room k (os, m)" if "k \<le> 80" for k
    using below [of 16] below [of 1] that assms(1) by (simp add: os_room_def os_def)
  have sp: "os_cur_stack_ptr os = ram_base + ram_size - 16" by (simp add: os_def)
  define stack where "stack = concat (map be_bytes [1, r1 + 44, 0, r1 + 36, 0, 25, r1 + 48, 0, 0]) @
      [0x46, 0x3d, 0x31, 0] @ be_bytes 0 @ [0x66, 0x6f, 0x6f, 0] @
      concat (map be_bytes [0xbaadbeef, 0xcafeb00c, 0xfeedface, 0xdeadbeef])"
  define s where "s = fold pushed (rev stack) (os, m)"
  have "os_init ram_base ram_size host c m = Some (c\<lparr>c_gprs := (c_gprs c)(1 := r1)\<rparr>, s)"
    by (simp add: os_init_def flip: os_def)
      (simp add: push32_eq push8s_eq room_pushes room_pushed room s_def stack_def r1_def sp algebra_simps)
  moreover have len: "length stack = 64" by (simp add: stack_def)
  have "stack_holds [] (os, m)"
    using below [of 16] assms by (simp add: stack_holds_def os_def)
  then have "stack_holds stack s"
    using stack_holds_pushes [of "[]" "(os, m)" "rev stack"] room len by (simp add: s_def)
  moreover have "os_cur_stack_ptr (fst s) = r1" by (simp add: s_def len os_def r1_def)
  ultimately have "map (\<lambda>i. guest_byte s (r1 + of_nat i)) [0..<64] = stack"
    by (simp add: list_eq_iff_nth_eq stack_holds_def len)
  with \<open>os_init ram_base ram_size host c m = _\<close> show ?thesis
    unfolding stack_def Let_def r1_def [symmetric] by blast
qed

lemma os_init_stack_witness:
  "\<forall>host c m. \<exists>s. os_init 0 0x2000000 host c m = Some (c\<lparr>c_gprs := (c_gprs c)(1 := 0x1ffffb0)\<rparr>, s) \<and>
     guest_byte s 0x1ffffb3 = 1 \<and> guest_byte s 0x1ffffdc = 0x66"
proof (intro allI)
  fix host c m
  obtain s where init: "os_init 0 0x2000000 host c m = Some (c\<lparr>c_gprs := (c_gprs c)(1 := 0x1ffffb0)\<rparr>, s)"
    and bytes: "map (\<lambda>i. guest_byte s (0x1ffffb0 + of_nat i)) [0..<64] =
      concat (map be_bytes [1, 0x1ffffdc, 0, 0x1ffffd4, 0, 25, 0x1ffffe0, 0, 0]) @
      [0x46, 0x3d, 0x31, 0] @ be_bytes 0 @ [0x66, 0x6f, 0x6f, 0] @
      concat (map be_bytes [0xbaadbeef, 0xcafeb00c, 0xfeedface, 0xdeadbeef])"
    using os_init_stack [where ram_size = "0x2000000" and ram_base = 0 and host = host and c = c and m = m] by (auto simp: Let_def)
  have "map (\<lambda>i. guest_byte s (0x1ffffb0 + of_nat i)) [0..<64] ! 3 = 1"
    "map (\<lambda>i. guest_byte s (0x1ffffb0 + of_nat i)) [0..<64] ! 44 = 0x66"
    unfolding bytes by (simp_all add: be_bytes_def)
  with init show "\<exists>s. os_init 0 0x2000000 host c m = Some (c\<lparr>c_gprs := (c_gprs c)(1 := 0x1ffffb0)\<rparr>, s) \<and>
     guest_byte s 0x1ffffb3 = 1 \<and> guest_byte s 0x1ffffdc = 0x66" by auto
qed

subsection \<open>System calls\<close>

text \<open>\<open>write\<close> of a buffer that lies below the last byte of memory sends exactly the buffer.\<close>

lemma guest_addr_add: "unat a + n < 2 ^ 32 \<Longrightarrow> guest_addr os (a + of_nat n) = guest_addr os a + of_nat n"
proof (induction n)
  case (Suc n)
  then have "unat (a + of_nat n) = unat a + n" by (simp add: unat_word_ariths unsigned_of_nat take_bit_nat_eq_self)
  with Suc guest_addr_Suc [where a = "a + of_nat n" and os = os] show ?case by (simp add: algebra_simps)
qed simp

lemma sc_write_inside:
  assumes "fd = 1 \<or> fd = 2" and "os_ram_base os \<le> a" and "unat a + unat n \<le> unat (os_ram_top os)"
  shows "sc_write os fd a n m = Some (n, map (\<lambda>i. guest_byte (os, m) (a + of_nat i)) [0..<unat n])"
proof -
  have lt: "unat (os_ram_top os) < 4294967296" using unsigned_less [of "os_ram_top os"] by simp
  have "unat (a + n) = unat a + unat n" using assms(3) lt by (simp add: unat_word_ariths)
  then have "in_mem os (a + n)" "in_mem os a" using assms(2,3) by (auto simp: in_mem_def word_le_nat_alt)
  moreover have "guest_addr os (a + of_nat i) = guest_addr os a + of_nat i" if "i < unat n" for i
    using guest_addr_add [where a = a and n = i and os = os] assms(3) lt that by simp
  ultimately show ?thesis
    using assms(1) by (auto simp: sc_write_def to_host_eq host_bytes_def guest_byte_def hload8_def)
qed

text \<open>The test of the end of the buffer is one byte short, and it wraps: the last byte of memory cannot
  be written out, while a length of almost 4 GiB passes.  Either way the call reports success.\<close>

lemma sc_write_last_byte:
  "sc_write \<lparr>os_ram_base = 0, os_ram_top = 0xfff, os_cur_stack_ptr = 0, os_real_ram_base = h\<rparr> 1 0xfff 1 m =
     Some (1, [])"
  by (simp add: sc_write_def in_mem_def)

lemma sc_write_wraps:
  "\<exists>out. sc_write \<lparr>os_ram_base = 0, os_ram_top = 0xfff, os_cur_stack_ptr = 0, os_real_ram_base = h\<rparr> 1 0x10 0xfffffff8 m =
     Some (0xfffffff8, out) \<and> length out = 0xfffffff8"
  by (simp add: sc_write_def in_mem_def to_host_def host_bytes_def)

text \<open>A call that returns changes r3 and clears the summary-overflow bit of CR0, nothing else.\<close>

lemma doSyscall_frame:
  "doSyscall os m LEV c = Some (c', out) \<Longrightarrow>
     \<exists>r. c' = c\<lparr>c_cr := c_cr c AND NOT 0x10000000, c_gprs := (c_gprs c)(3 := r)\<rparr>"
  by (auto simp: doSyscall_def elim!: bind_SomeE)

end
