(* ===== verification/Dev_SimplePipe.thy ===== *)
theory Dev_SimplePipe
  imports MR_Prelude
begin

section \<open>A device that prints: \<open>DevSimplePipe\<close>\<close>

text \<open>
  Class \<open>DevSimplePipe\<close> of \<open>DevSimplePipe.h\<close>: reads give 0 and a write of any width prints the low byte of
  the data with \<open>printf("%c")\<close>.  No platform attaches it, so it is not one of the devices of
  theory System\_IO.  \<open>pp_stdout\<close> is what has been printed.
\<close>

record spipe =
  pp_base_address :: u32
  pp_address_span :: u32
  pp_stdout :: "u8 list"

definition spipe_new :: spipe where
  "spipe_new = \<lparr>pp_base_address = 0, pp_address_span = 0, pp_stdout = []\<rparr>"

definition spipe_setProps :: "u32 \<Rightarrow> u32 \<Rightarrow> spipe \<Rightarrow> spipe" where
  "spipe_setProps addr sz d = d\<lparr>pp_base_address := addr, pp_address_span := sz\<rparr>"

definition spipe_read32 :: "u32 \<Rightarrow> spipe \<Rightarrow> u32" where "spipe_read32 addr d = 0"
definition spipe_read16 :: "u32 \<Rightarrow> spipe \<Rightarrow> u16" where "spipe_read16 addr d = 0"
definition spipe_read8 :: "u32 \<Rightarrow> spipe \<Rightarrow> u8" where "spipe_read8 addr d = 0"

definition spipe_write32 :: "u32 \<Rightarrow> u32 \<Rightarrow> spipe \<Rightarrow> spipe" where
  "spipe_write32 addr data d = d\<lparr>pp_stdout := pp_stdout d @ [ucast data]\<rparr>"

definition spipe_write16 :: "u32 \<Rightarrow> u16 \<Rightarrow> spipe \<Rightarrow> spipe" where
  "spipe_write16 addr data d = d\<lparr>pp_stdout := pp_stdout d @ [ucast data]\<rparr>"

definition spipe_write8 :: "u32 \<Rightarrow> u8 \<Rightarrow> spipe \<Rightarrow> spipe" where
  "spipe_write8 addr data d = d\<lparr>pp_stdout := pp_stdout d @ [data]\<rparr>"

text \<open>Bytes come out in the order of the writes, whatever the addresses and the widths.\<close>

lemma spipe_prints:
  "pp_stdout (fold (\<lambda>(a, b). spipe_write8 a b) ws d) = pp_stdout d @ map snd ws"
  "spipe_write32 a (ucast b) d = spipe_write8 a b d" "spipe_write16 a (ucast b) d = spipe_write8 a b d"
proof -
  show "pp_stdout (fold (\<lambda>(a, b). spipe_write8 a b) ws d) = pp_stdout d @ map snd ws"
    by (induction ws arbitrary: d) (auto simp: spipe_write8_def)
  have "(ucast (ucast b :: u32) :: u8) = b" "(ucast (ucast b :: u16) :: u8) = b"
    by (rule bit_word_eqI; simp add: bit_simps)+
  then show "spipe_write32 a (ucast b) d = spipe_write8 a b d" "spipe_write16 a (ucast b) d = spipe_write8 a b d"
    by (simp_all add: spipe_write8_def spipe_write16_def spipe_write32_def)
qed

end
