(* ===== verification/Spec2Isabelle.thy ===== *)
theory Spec2Isabelle
  imports MMU_Props Run_Props Multi_Props SD_Props Dev_Props IO_Props Run_JIT Sim_Quit Serial_Backends UTLB_Assoc Machine_Irq Management Hosted_OS Dev_SimplePipe
begin

text \<open>
  MR-ISS is an instruction set simulator of a 32-bit PowerPC system: a CPU interpreter, an MMU
  that translates with BATs, segments and a hashed page table, a system bus, and the devices of
  a small SoC.  These theories model it as it is built by default (\<open>PLATFORM\<close> 3,
  \<open>UPDATE_RC\<close> and \<open>MEM_OP_ALIGNMENT\<close> on, \<open>FLAT_MEM\<close>, \<open>HOSTED\<close> and the JIT off) on a
  little-endian 64-bit host, and beside it the alternatives that other builds compile: the JIT, the
  hosted mode, the associative micro-TLB and platforms 1 and 2.

  Conventions.  A C++ integer is a word of its width.  A class is a record and a method a
  function on it.  A failed \<open>ASSERT\<close> and a \<open>FATAL\<close> stop the simulator: the result is
  \<open>None\<close>.  A method that reports a fault returns a sum, the fault on the left.  Host memory
  (the memory that RAM devices map, and that the uTLB points into) is a function from 64-bit
  addresses to bytes, so the aliasing between a device and a cached host pointer is in the
  model.  An interrupt callback returns the interrupt numbers it raises, and the bus passes
  them to the controller.

  Parts, bottom up, and the theories that hold them (files under src/):

  \<^item> MR_Prelude (utility.h, types.h): \<open>ASSERT\<close>, bit lemmas, the collections \<open>sim_defs\<close> and
    \<open>mask_simps\<close>.  Inst_Utility (inst_utility.h): compare, rotate, mask generation and carry
    helpers.  Arch_Defns (arch_defns.h): register bits and SPR numbers.
  \<^item> CPU_State (PPCCPUState.h, .cc): the registers, XER fields, time base and decrementer.
    CPU_Exceptions: \<open>takeException\<close> and the \<open>raise\<close> methods, on the CPU and the MMU.
  \<^item> Host_Mem and Dev_RAM (DevRAM.h); Dev_XpsIntc (DevXpsIntc.h, .cc); Dev_SimpleUart
    (DevSimpleUart.h, .cc); Dev_Uart (DevUart.h, .cc); Dev_GPIO (DevGPIO.h, .cc).  Irq_Edge is
    the interface of the two UARTs: the locale \<open>edge_source\<close> says that the interrupt callback
    runs exactly on a change of the condition; both are interpretations of it.
  \<^item> Bus (Bus.h): the table of 32 windows with its one-entry cache.  Dev_State: the records of the
    devices that access guest memory, and what they use of the host.  System_IO: the devices
    behind the virtual methods of Device.h as the datatype \<open>device\<close>, the state they share, and what
    a device can ask of the bus (\<open>get_direct_map\<close>, interrupts).  System_Bus: the accesses the bus
    dispatches, to the devices with DMA too, and the periodic work of the platform.  Bus_Frame: no
    access changes the address map or the wiring of a device, and every access keeps the CPU's interrupt
    flag in step with the interrupt controller and the UARTs' remembered levels true.
  \<^item> MMU_State, MMU_Regs, MMU_Translate, MMU_Access (PPCMMU.h, PPCMMU.cc, PPCMMU_utlb_dm.h):
    the register banks, the direct-mapped uTLB, the page table walk with its R and C update,
    \<open>translateAddr\<close>, and the load and store methods.  The locale \<open>masked_reg\<close> states what
    a bank of masked registers promises; the five banks are interpretations of it.
    MMU_Coherence has the uTLB invariant, MMU_Machine the step relation \<open>mmu_step\<close> of the
    public operations, MMU_Props and Access_Props their properties.
  \<^item> Sys_State (PPCInterpreter.h, .cc): CPU, MMU, bus and interpreter state in one record, and
    operand and memory access.  Interp_Basic (PPCInterpreter_Arithmetic, _Branch, _CondReg,
    _Logical and _Trap), Interp_Memory (PPCInterpreter_Memory.cc) and Interp_Special
    (PPCInterpreter_Special.cc) hold every hand-written \<open>op_\<close> method under its own name.
    Interp_Exec gathers them in a datatype of instructions, and the locale
    \<open>sys_invariant\<close> reduces an invariant of all instructions to a handful of elementary
    updates.  Interp_Inv and Sys_Inv prove its obligations for the system invariant
    \<open>sys_ok\<close>, for the address map and for the instruction count.
  \<^item> Run_Loop (main.cc, PPCInterpreter::execute): interrupt delivery, fetch and execute with the
    retry after an instruction fault, the poll of the display, the loop of \<open>main\<close>.  Interp_Props, Run_Props and
    Multi_Props hold the properties of instructions and runs.
  \<^item> Dev_DMA: what the devices that access guest memory share (\<open>getAddrDMA\<close>); the device and
    the bus are separate arguments, and the device is put back on the bus when its operation is over.  Dev_SDCard and
    Dev_SD (DevSDCard.h, .cc, DevSD.h, .cc): the card's command state machine, the CRCs, the host
    controller and its DMA.  Dev_SBD (DevSBD.h, .cc), Dev_SPI (DevSPI.h, .cc, SPIDevGPIO.h, .cc),
    Dev_LCDC (DevLCDC.h, .cc).  SD_Props and Dev_Props hold their properties.
  \<^item> Platform (platform.h, .cc): the memory map of platform 3 and the boot image.  Platform_MR12: the
    other two platforms and the interrupt lines.  IO_Props has the properties of
    time base, interrupt controller, UART and boot image.
  \<^item> Machine (main.cc, platform.cc): the whole simulator, from the command line to the state file.  It
    makes the devices, connects and attaches them, loads the image, sets the first CPU context and runs the main
    loop and \<open>sim_quit\<close>.  \<open>machine_run\<close> are the states of a run with input at the console in between.
    Machine_Irq follows a byte from the console through UART, interrupt controller, CPU and back to the
    handler's reads, for any decoder with \<open>decoder_keeps\<close>; its witness runs a start-up instruction.
  \<^item> Inst_Fields (PPCInstructionFields.h): the field extractors that the generated decoder uses.
  \<^item> Blockstore (blockstore.h, .cc): the JIT's code buffer and block hash table, and their
    refinement to a map from physical address and MSR to blocks.  Blockgen (blockgen.cc): the
    code generator, which writes the bytes of call sequences into the buffer.  Host_X86 is the
    reference for what the bytes mean: a decoder and a step function of the few host instructions
    in use, after the processor's manual.  Blockgen_Props relates the two: running the bytes of a
    block makes the calls of the block.  Run_JIT (runloop.cc): the loop that selects, generates and
    calls blocks, and the invariant \<open>jit_ok\<close> that all code in the store is intact.
  \<^item> UTLB_Assoc (PPCMMU_utlb_assoc.h): the associative micro-TLB.
  \<^item> Hosted_OS (OS.h, .cc): stack and system calls of the hosted mode.
  \<^item> Serial_Backends (SerialPTY.h, .cc, SerialTCP.h, .cc): the console's back ends with their listener
    threads.  The step relation \<open>con_step\<close> interleaves far end, thread, callback and guest.
  \<^item> Sim_State (sim_state.h, .cc) and Sim_Quit (main.cc, platform.cc): the state file and the way out of
    the simulator, with the reader of the file as specification.
  \<^item> C_Strings, Config (Config.h, .cc, log.h, .cc) and Management (management.cc): the string functions
    of the C library in use, the command line and the log mask, and the management console.  Console_Text
    (PPCCPUState.cc, stats.h, .cc) has the texts of its replies as \<open>snprintf\<close> writes them into the buffer.
  \<^item> Dev_SimplePipe (DevSimplePipe.h): a device that prints; no platform attaches it.

  What the properties show.  The MMU's invariant is that every valid uTLB entry is justified by
  the present registers and the address map, along every sequence of operations; the walk agrees
  with a specification over the table's contents; a translation returns, is stable under
  repetition, and BATs and no-execute segments are obeyed.  Stores are read back, through
  translation and past the bus.  Exceptions save what \<open>rfi\<close> restores, interrupts are
  delivered in order of priority, and \<open>sys_ok\<close> holds along every run for every decoder
  that uses the modelled instructions and the elementary updates.  The devices do their
  transfers, stay in bounds where the source does, and raise their interrupt when they should.
  Where the source errs the property says what it does (the tail of string loads and stores,
  the wrap-around of the block device's bound, the high BAT registers, the misaligned store
  that writes before it faults).  For the whole simulator: it boots into a sound state and fetches the image, stays
  sound along every run, and with a limit ends and leaves its state in the file.  Around the machine: generated code calls what the decoder says with the
  operands in their places, stays in its buffer and is never overwritten while the store knows it; the
  state file gives the machine back; the console's threads lose no byte and never wait; the command
  line, the management console and the initial stack of the hosted mode are what their readers expect.

  Loops and fuel.  \<open>translateAddr\<close> (\<open>goto do_lookup\<close>), \<open>execute\<close> (\<open>goto again\<close>), the
  run loops, \<open>createBlock\<close> (\<open>goto retry\<close>) and the hash-chain walk are \<open>partial_function\<close>s, so a run that does not return
  is \<open>None\<close>; that translation, execution and block generation do return is proved.  \<open>main_fuel\<close> bounds the
  rounds of the main loop; with an instruction limit, \<open>limit + 1 - count\<close> rounds are
  enough, because each round counts at least one instruction.

  Parameters.  The decoder is generated at build time from tools/PPC.csv and is the argument
  \<open>decode\<close> of the run loop and \<open>gens\<close> of the code generator.  The image files of the SD card and the
  block devices (by their paths, so that two devices can share one), the pins of the SPI port, the SDL surface, the
  list of counters, where \<open>mmap\<close> puts the memories, the input of a serial port, the results of
  \<open>getopt\<close>, \<open>poll\<close>, \<open>accept\<close> and \<open>read\<close>, and the room on the medium of the state file are arguments too.
  The loop of the JIT takes what a call of host code does as an argument, because a called method is C++
  code of the host; what the code itself does is proved against Host_X86.

  Not modelled.  The instruction classes generated with the decoder; \<open>plantBlockLoopCheck\<close>, which is
  never called; the increments of the statistics counters in the other parts, log output, usage
  and dump functions, which only print; the state file that is written when the window is closed or after a
  \<open>FATAL\<close> (the model stops there with \<open>None\<close>); the creation of sockets, terminals and threads beyond
  its success or failure; the build with \<open>FLAT_MEM\<close>, which replaces guest memory by one
  block of the host's; the byte order macros of portable_endian.h for hosts that are not in use.
\<close>

end
